(* ===== verification/Py_Prelude.thy ===== *)
theory Py_Prelude
  imports Complex_Main "HOL-Library.AList" "HOL-Library.List_Lexorder" "HOL-Library.Char_ord"
begin

text \<open>
  What every component of the development shares: the raised exceptions as values of a sum
  type, Python's \<open>float\<close> with its non-finite values, text, insertion-ordered dictionaries,
  JSON values with Python's truthiness, instants of UTC time, and the generic facts on
  transition systems that the invariant proofs of the components rest on.

  Conventions. A Python \<open>str\<close> is a list of \<open>char\<close>, that is text over the code points
  0 to 255; \<open>lower\<close>, \<open>strip\<close> and the encoded length below are Python's on that range.
  A finite \<open>float\<close> or \<open>Decimal\<close> is an exact rational: rounding and overflow of finite
  arithmetic are not modelled, the special values and the comparisons with them are.
\<close>

section \<open>Collections of facts\<close>

named_theorems py_defs \<open>unfolding rules for the small library functions\<close>
named_theorems inv_intros \<open>one lemma per operation: the operation keeps its invariant\<close>

section \<open>Raised exceptions\<close>

datatype exc =
    GuardViolation string
  | BudgetViolation string
  | GuardError string
  | ValueError string
  | TypeError string
  | OverflowError string
  | KeyError string
  | AttributeError string
  | RuntimeError string
  | SystemExit string
  | SafetyStop string
  | ZeroDivisionError string
  | HTTPStatusError string
  | OtherError string string
    \<comment> \<open>any other class, by name, with its message\<close>

type_synonym 'a result = "exc + 'a"

text \<open>\<open>type(exc).__name__\<close>, \<open>str(exc)\<close>, and the exceptions that \<open>except Exception\<close> does not catch.\<close>

fun exc_name :: "exc \<Rightarrow> string" where
  "exc_name (GuardViolation _) = ''GuardViolation''"
| "exc_name (BudgetViolation _) = ''BudgetViolation''"
| "exc_name (GuardError _) = ''GuardError''"
| "exc_name (ValueError _) = ''ValueError''"
| "exc_name (TypeError _) = ''TypeError''"
| "exc_name (OverflowError _) = ''OverflowError''"
| "exc_name (KeyError _) = ''KeyError''"
| "exc_name (AttributeError _) = ''AttributeError''"
| "exc_name (RuntimeError _) = ''RuntimeError''"
| "exc_name (SystemExit _) = ''SystemExit''"
| "exc_name (SafetyStop _) = ''SafetyStop''"
| "exc_name (ZeroDivisionError _) = ''ZeroDivisionError''"
| "exc_name (HTTPStatusError _) = ''HTTPStatusError''"
| "exc_name (OtherError c _) = c"

fun exc_text :: "exc \<Rightarrow> string" where
  \<comment> \<open>\<open>str(exc)\<close>\<close>
  "exc_text (GuardViolation m) = m"
| "exc_text (BudgetViolation m) = m"
| "exc_text (GuardError m) = m"
| "exc_text (ValueError m) = m"
| "exc_text (TypeError m) = m"
| "exc_text (OverflowError m) = m"
| "exc_text (KeyError m) = [CHR 0x27] @ m @ [CHR 0x27]"
| "exc_text (AttributeError m) = m"
| "exc_text (RuntimeError m) = m"
| "exc_text (SystemExit m) = m"
| "exc_text (SafetyStop m) = m"
| "exc_text (ZeroDivisionError m) = m"
| "exc_text (HTTPStatusError m) = m"
| "exc_text (OtherError c m) = m"

definition is_exit :: "exc \<Rightarrow> bool" where
  \<comment> \<open>not caught by \<open>except Exception\<close>\<close>
  "is_exit e = (case e of SystemExit _ \<Rightarrow> True | OtherError c _ \<Rightarrow> c = ''CancelledError'' | _ \<Rightarrow> False)"

definition bindR :: "'a result \<Rightarrow> ('a \<Rightarrow> 'b result) \<Rightarrow> 'b result" where
  "bindR r f = (case r of Inl e \<Rightarrow> Inl e | Inr a \<Rightarrow> f a)"

lemma bindR_simps [simp]:
  "bindR (Inl e) f = Inl e"
  "bindR (Inr a) f = f a"
  by (simp_all add: bindR_def)

lemma bindR_eq_Inr [simp]: "bindR r f = Inr b \<longleftrightarrow> (\<exists>a. r = Inr a \<and> f a = Inr b)"
  by (cases r) simp_all

lemma bindR_eq_Inl: "bindR r f = Inl e \<longleftrightarrow> r = Inl e \<or> (\<exists>a. r = Inr a \<and> f a = Inl e)"
  by (cases r) simp_all

definition guard_that :: "bool \<Rightarrow> exc \<Rightarrow> unit result" where
  "guard_that ok e = (if ok then Inr () else Inl e)"

lemma guard_that_eq_Inr [simp]: "guard_that ok e = Inr u \<longleftrightarrow> ok"
  by (simp add: guard_that_def)

lemma guard_that_eq_Inl [simp]: "guard_that ok e = Inl e' \<longleftrightarrow> \<not> ok \<and> e' = e"
  by (auto simp: guard_that_def)

lemma guard_that_simps [simp]:
  "guard_that True e = Inr ()"
  "guard_that False e = Inl e"
  by (simp_all add: guard_that_def)

text \<open>The messages of a run of the program that is stopped by the first raised exception.\<close>

fun mapR :: "('a \<Rightarrow> 'b result) \<Rightarrow> 'a list \<Rightarrow> 'b list result" where
  "mapR f [] = Inr []"
| "mapR f (x # xs) = bindR (f x) (\<lambda>y. bindR (mapR f xs) (\<lambda>ys. Inr (y # ys)))"

lemma mapR_Inr: "mapR f xs = Inr ys \<Longrightarrow> list_all2 (\<lambda>x y. f x = Inr y) xs ys"
  by (induction xs arbitrary: ys) auto

section \<open>Floating-point numbers\<close>

text \<open>
  The finite values are exact rationals. The special values behave as IEEE 754 prescribes:
  every comparison with \<open>NaN\<close> is false, and \<open>NaN\<close> absorbs under arithmetic.
\<close>

datatype pyfloat = Fin rat | PInf | NInf | NaN

fun pf_add :: "pyfloat \<Rightarrow> pyfloat \<Rightarrow> pyfloat" where
  "pf_add (Fin a) (Fin b) = Fin (a + b)"
| "pf_add NaN _ = NaN"
| "pf_add _ NaN = NaN"
| "pf_add PInf NInf = NaN"
| "pf_add NInf PInf = NaN"
| "pf_add PInf _ = PInf"
| "pf_add _ PInf = PInf"
| "pf_add NInf _ = NInf"
| "pf_add _ NInf = NInf"

lemma pf_add_NaN [simp]: "pf_add x NaN = NaN"
  by (cases x) simp_all

instantiation pyfloat :: comm_monoid_add
begin

definition zero_pyfloat :: pyfloat where
  "zero_pyfloat = Fin 0"

definition plus_pyfloat :: "pyfloat \<Rightarrow> pyfloat \<Rightarrow> pyfloat" where
  "plus_pyfloat = pf_add"

instance
proof
  fix a b c :: pyfloat
  show "a + b + c = a + (b + c)"
    by (cases a; cases b; cases c) (simp_all add: plus_pyfloat_def)
  show "a + b = b + a"
    by (cases a; cases b) (simp_all add: plus_pyfloat_def)
  show "0 + a = a"
    by (cases a) (simp_all add: plus_pyfloat_def zero_pyfloat_def)
qed

end

lemma Fin_plus [simp]: "Fin a + Fin b = Fin (a + b)"
  by (simp add: plus_pyfloat_def)

lemma zero_Fin: "(0 :: pyfloat) = Fin 0"
  by (simp add: zero_pyfloat_def)

lemma plus_eq_Fin: "x + y = Fin c \<longleftrightarrow> (\<exists>a b. x = Fin a \<and> y = Fin b \<and> c = a + b)"
  by (cases x; cases y) (auto simp: plus_pyfloat_def)

lemma plus_special [simp]:
  "NaN + x = NaN" "x + NaN = NaN" "PInf + Fin a = PInf" "Fin a + PInf = PInf"
  by (simp_all add: plus_pyfloat_def)

fun pf_lt :: "pyfloat \<Rightarrow> pyfloat \<Rightarrow> bool" where
  "pf_lt (Fin a) (Fin b) = (a < b)"
| "pf_lt NaN _ = False"
| "pf_lt _ NaN = False"
| "pf_lt _ NInf = False"
| "pf_lt NInf _ = True"
| "pf_lt PInf _ = False"
| "pf_lt _ PInf = True"

fun pf_le :: "pyfloat \<Rightarrow> pyfloat \<Rightarrow> bool" where
  "pf_le NaN _ = False"
| "pf_le _ NaN = False"
| "pf_le (Fin a) (Fin b) = (a \<le> b)"
| "pf_le NInf _ = True"
| "pf_le _ PInf = True"
| "pf_le PInf _ = False"
| "pf_le _ NInf = False"

definition pf_max :: "pyfloat \<Rightarrow> pyfloat \<Rightarrow> pyfloat" where
  \<comment> \<open>Python's \<open>max(a, b)\<close>: \<open>b\<close> only where it is greater than \<open>a\<close>\<close>
  "pf_max a b = (if pf_lt a b then b else a)"

fun pf_neg :: "pyfloat \<Rightarrow> pyfloat" where
  "pf_neg (Fin a) = Fin (- a)"
| "pf_neg PInf = NInf"
| "pf_neg NInf = PInf"
| "pf_neg NaN = NaN"

definition pf_sub :: "pyfloat \<Rightarrow> pyfloat \<Rightarrow> pyfloat" where
  "pf_sub a b = a + pf_neg b"

text \<open>\<open>n * x\<close> for an \<open>int\<close> and a \<open>float\<close>, and division by a positive constant.\<close>

fun pf_scale :: "int \<Rightarrow> pyfloat \<Rightarrow> pyfloat" where
  "pf_scale n (Fin a) = Fin (of_int n * a)"
| "pf_scale n PInf = (if n = 0 then NaN else if 0 < n then PInf else NInf)"
| "pf_scale n NInf = (if n = 0 then NaN else if 0 < n then NInf else PInf)"
| "pf_scale n NaN = NaN"

fun pf_div_pos :: "pyfloat \<Rightarrow> rat \<Rightarrow> pyfloat" where
  "pf_div_pos (Fin a) d = Fin (a / d)"
| "pf_div_pos x d = x"

definition is_fin :: "pyfloat \<Rightarrow> bool" where
  "is_fin x = (case x of Fin _ \<Rightarrow> True | _ \<Rightarrow> False)"

definition fin_val :: "pyfloat \<Rightarrow> rat" where
  "fin_val x = (case x of Fin a \<Rightarrow> a | _ \<Rightarrow> 0)"

lemma is_fin_simps [simp]:
  "is_fin (Fin a)" "\<not> is_fin PInf" "\<not> is_fin NInf" "\<not> is_fin NaN" "is_fin 0"
  by (simp_all add: is_fin_def zero_Fin)

lemma fin_val_simps [simp]: "fin_val (Fin a) = a" "fin_val 0 = 0"
  by (simp_all add: fin_val_def zero_Fin)

lemma is_finE: "is_fin x \<Longrightarrow> (\<And>a. x = Fin a \<Longrightarrow> P) \<Longrightarrow> P"
  by (cases x) simp_all

lemma is_fin_plus [simp]: "is_fin (x + y) \<longleftrightarrow> is_fin x \<and> is_fin y"
  by (cases x; cases y) (simp_all add: plus_pyfloat_def)

lemma fin_val_plus: "is_fin x \<Longrightarrow> is_fin y \<Longrightarrow> fin_val (x + y) = fin_val x + fin_val y"
  by (cases x; cases y) simp_all

lemma is_fin_sum_list: "is_fin (sum_list xs) \<longleftrightarrow> (\<forall>x \<in> set xs. is_fin x)"
  by (induction xs) simp_all

lemma sum_list_Fin: "sum_list (map (\<lambda>x. Fin (f x)) xs) = Fin (sum_list (map f xs))"
  by (induction xs) (simp_all add: zero_Fin)

lemma pf_le_Fin_iff: "pf_le x (Fin b) \<longleftrightarrow> x = NInf \<or> (\<exists>a. x = Fin a \<and> a \<le> b)"
  by (cases x) auto

lemma not_pf_lt_fin: "is_fin x \<Longrightarrow> is_fin y \<Longrightarrow> \<not> pf_lt y x \<longleftrightarrow> fin_val x \<le> fin_val y"
  by (cases x; cases y) auto

lemma pf_lt_NaN [simp]: "\<not> pf_lt x NaN"
  by (cases x) simp_all

lemma pf_max_Fin: "pf_max (Fin a) (Fin b) = Fin (max a b)"
  by (auto simp: pf_max_def max_def)

section \<open>Text\<close>

definition code :: "char \<Rightarrow> nat" where
  "code c = of_char c"

definition chr :: "nat \<Rightarrow> char" where
  "chr n = char_of n"

definition is_space :: "char \<Rightarrow> bool" where
  "is_space c = (let n = code c in
     (9 \<le> n \<and> n \<le> 13) \<or> (28 \<le> n \<and> n \<le> 32) \<or> n = 133 \<or> n = 160)"

definition is_digit :: "char \<Rightarrow> bool" where
  "is_digit c = (48 \<le> code c \<and> code c \<le> 57)"

definition is_upper :: "char \<Rightarrow> bool" where
  "is_upper c = (65 \<le> code c \<and> code c \<le> 90)"

definition is_lower :: "char \<Rightarrow> bool" where
  "is_lower c = (97 \<le> code c \<and> code c \<le> 122)"

definition lower_char :: "char \<Rightarrow> char" where
  "lower_char c = (let n = code c in
     if (65 \<le> n \<and> n \<le> 90) \<or> (192 \<le> n \<and> n \<le> 222 \<and> n \<noteq> 215) then chr (n + 32) else c)"

definition lower :: "string \<Rightarrow> string" where
  "lower s = map lower_char s"

definition lstrip :: "string \<Rightarrow> string" where
  "lstrip s = dropWhile is_space s"

definition rstrip_on :: "(char \<Rightarrow> bool) \<Rightarrow> string \<Rightarrow> string" where
  "rstrip_on p s = rev (dropWhile p (rev s))"

definition strip_on :: "(char \<Rightarrow> bool) \<Rightarrow> string \<Rightarrow> string" where
  "strip_on p s = rstrip_on p (dropWhile p s)"

definition strip :: "string \<Rightarrow> string" where
  "strip s = strip_on is_space s"

fun startswith :: "string \<Rightarrow> string \<Rightarrow> bool" where
  "startswith s [] = True"
| "startswith [] (p # ps) = False"
| "startswith (c # s) (p # ps) = (c = p \<and> startswith s ps)"

definition endswith :: "string \<Rightarrow> string \<Rightarrow> bool" where
  "endswith s p = startswith (rev s) (rev p)"

fun contains :: "string \<Rightarrow> string \<Rightarrow> bool" where
  "contains [] p = (p = [])"
| "contains (c # s) p = (startswith (c # s) p \<or> contains s p)"

text \<open>\<open>s.split(c, 1)\<close> where \<open>c\<close> occurs in \<open>s\<close>: what precedes it and what follows.\<close>

fun split1 :: "char \<Rightarrow> string \<Rightarrow> (string \<times> string) option" where
  "split1 c [] = None"
| "split1 c (x # s) = (if x = c then Some ([], s)
     else map_option (\<lambda>(a, b). (x # a, b)) (split1 c s))"

text \<open>\<open>s.split(c)\<close>.\<close>

fun split_on :: "'a \<Rightarrow> 'a list \<Rightarrow> 'a list list" where
  "split_on c [] = [[]]"
| "split_on c (x # s) = (if x = c then [] # split_on c s
     else case split_on c s of [] \<Rightarrow> [[x]] | w # ws \<Rightarrow> (x # w) # ws)"

text \<open>\<open>s.replace(p, q)\<close> for a non-empty pattern: left to right, without overlaps.\<close>

function replace :: "string \<Rightarrow> string \<Rightarrow> string \<Rightarrow> string" where
  "replace p q [] = []"
| "replace p q (c # s) = (if p \<noteq> [] \<and> startswith (c # s) p
     then q @ replace p q (drop (length p) (c # s)) else c # replace p q s)"
  by pat_completeness auto
termination
  by (relation "measure (\<lambda>(p, q, s). length s)") auto

definition join :: "string \<Rightarrow> string list \<Rightarrow> string" where
  "join sep ws = (case ws of [] \<Rightarrow> [] | w # ws' \<Rightarrow> w @ concat (map (\<lambda>x. sep @ x) ws'))"

lemma startswith_iff: "startswith s p \<longleftrightarrow> (\<exists>r. s = p @ r)"
  by (induction s p rule: startswith.induct) auto

lemma startswith_append [simp]: "startswith (p @ r) p"
  by (simp add: startswith_iff)

lemma startswith_refl [simp]: "startswith p p"
  by (simp add: startswith_iff)

lemma contains_iff: "contains s p \<longleftrightarrow> (\<exists>a b. s = a @ p @ b)"
proof (induction s)
  case (Cons c s)
  note IH = Cons.IH
  show ?case
  proof
    assume "contains (c # s) p"
    then consider (now) r where "c # s = [] @ p @ r" | (later) a b where "c # s = (c # a) @ p @ b"
      using Cons.IH by (auto simp: startswith_iff)
    then show "\<exists>a b. c # s = a @ p @ b"
      by cases blast+
  next
    assume "\<exists>a b. c # s = a @ p @ b"
    then obtain a b where ab: "c # s = a @ p @ b" by blast
    show "contains (c # s) p"
    proof (cases a)
      case Nil
      with ab have "startswith (c # s) p" by (simp only: startswith_iff) auto
      then show ?thesis by simp
    next
      case (Cons x a')
      with ab have "s = a' @ p @ b" by simp
      with IH have "contains s p" by blast
      then show ?thesis by simp
    qed
  qed
qed auto

lemma split1_Some: "split1 c s = Some (a, b) \<longleftrightarrow> s = a @ c # b \<and> c \<notin> set a"
proof (induction s arbitrary: a)
  case (Cons x s)
  show ?case
    by (cases a) (simp_all add: Cons.IH split_paired_Ex, blast+)
qed simp

lemma split1_None: "split1 c s = None \<longleftrightarrow> c \<notin> set s"
  by (induction s) auto

lemma split_on_not_Nil [simp]: "split_on c s \<noteq> []"
  by (induction s) (auto split: list.split)

lemma split_on_absent: "c \<notin> set s \<Longrightarrow> split_on c s = [s]"
  by (induction s) auto

lemma split_on_sep: "c \<notin> set a \<Longrightarrow> split_on c (a @ c # b) = a # split_on c b"
  by (induction a) auto

lemma split_on_append:
  "split_on c (a @ b) = butlast (split_on c a) @ (case split_on c b of w # ws \<Rightarrow> (last (split_on c a) @ w) # ws)"
proof (induction a)
  case Nil
  then show ?case by (cases "split_on c b") simp_all
next
  case (Cons x a)
  then show ?case
    by (cases "split_on c b"; cases "split_on c a") auto
qed

lemma last_split_on: "c \<notin> set (last (split_on c s))"
  by (induction s) (auto split: list.splits)

section \<open>Decimal numerals\<close>

definition digit_char :: "nat \<Rightarrow> char" where
  "digit_char d = chr (48 + d)"

definition digit_val :: "char \<Rightarrow> nat" where
  "digit_val c = code c - 48"

fun nat_str :: "nat \<Rightarrow> string" where
  "nat_str n = (if n < 10 then [digit_char n] else nat_str (n div 10) @ [digit_char (n mod 10)])"

declare nat_str.simps [simp del]

definition int_str :: "int \<Rightarrow> string" where
  "int_str i = (if i < 0 then ''-'' @ nat_str (nat (- i)) else nat_str (nat i))"

definition digits_val :: "string \<Rightarrow> nat" where
  "digits_val s = foldl (\<lambda>n c. 10 * n + digit_val c) 0 s"

definition py_bool_str :: "bool \<Rightarrow> string" where
  "py_bool_str b = (if b then ''True'' else ''False'')"

lemma code_digit_char: "d < 10 \<Longrightarrow> code (digit_char d) = 48 + d"
  by (simp add: code_def digit_char_def chr_def)

lemma digit_val_digit_char [simp]: "d < 10 \<Longrightarrow> digit_val (digit_char d) = d"
  by (simp add: digit_val_def code_digit_char)

lemma is_digit_digit_char [simp]: "d < 10 \<Longrightarrow> is_digit (digit_char d)"
  by (simp add: is_digit_def code_digit_char)

lemma digits_val_snoc [simp]: "digits_val (s @ [c]) = 10 * digits_val s + digit_val c"
  by (simp add: digits_val_def)

lemma digits_val_nat_str: "digits_val (nat_str n) = n"
proof (induction n rule: nat_str.induct)
  case (1 n)
  then show ?case
    by (cases "n < 10") (auto simp: nat_str.simps [of n] digits_val_def)
qed

lemma nat_str_digits: "\<forall>c \<in> set (nat_str n). is_digit c"
proof (induction n rule: nat_str.induct)
  case (1 n)
  then show ?case
    by (cases "n < 10") (auto simp: nat_str.simps [of n])
qed

lemma nat_str_not_Nil [simp]: "nat_str n \<noteq> []"
  by (simp add: nat_str.simps [of n])

lemma nat_str_inject: "nat_str m = nat_str n \<longleftrightarrow> m = n"
  by (metis digits_val_nat_str)

end
