(* ===== verification/Py_Data.thy ===== *)
theory Py_Data
  imports Py_Prelude "HOL-Library.Multiset"
begin

text \<open>
  The data layer: Python dictionaries as association lists in insertion order with the laws
  their clients use (the locale \<open>metered_store\<close>), numbers read from text by \<open>int()\<close>
  and \<open>float()\<close>, JSON values with truthiness and \<open>json.dumps\<close>, UTC time in
  microseconds, and reachability in a transition system (the locale \<open>invariant_system\<close>).
\<close>

section \<open>Dictionaries\<close>

text \<open>
  \<open>d[k] = v\<close> is \<^const>\<open>AList.update\<close> (in place for a present key, else appended),
  \<open>d.pop(k, None)\<close> is \<^const>\<open>AList.delete\<close> and \<open>d.get(k)\<close> is \<^const>\<open>map_of\<close>.
\<close>

type_synonym 'v dict = "(string \<times> 'v) list"

definition dict_ok :: "('k \<times> 'v) list \<Rightarrow> bool" where
  "dict_ok d = distinct (map fst d)"

definition dict_sum :: "('v \<Rightarrow> 'm::comm_monoid_add) \<Rightarrow> ('k \<times> 'v) list \<Rightarrow> 'm" where
  "dict_sum f d = sum_list (map (\<lambda>kv. f (snd kv)) d)"

text \<open>
  The contract of a keyed store whose entries carry a weight: what a lookup returns after an
  update or a removal, and how the total weight moves.
\<close>

locale metered_store =
  fixes lookup :: "'s \<Rightarrow> 'k \<Rightarrow> 'v option"
    and upd :: "'k \<Rightarrow> 'v \<Rightarrow> 's \<Rightarrow> 's"
    and del :: "'k \<Rightarrow> 's \<Rightarrow> 's"
    and total :: "('v \<Rightarrow> 'm::comm_monoid_add) \<Rightarrow> 's \<Rightarrow> 'm"
    and ok :: "'s \<Rightarrow> bool"
  assumes lookup_upd: "lookup (upd k v s) k' = (if k' = k then Some v else lookup s k')"
    and lookup_del: "lookup (del k s) k' = (if k' = k then None else lookup s k')"
    and ok_upd: "ok s \<Longrightarrow> ok (upd k v s)"
    and ok_del: "ok s \<Longrightarrow> ok (del k s)"
    and total_fresh: "lookup s k = None \<Longrightarrow> total f (upd k v s) = total f s + f v"
    and total_del: "ok s \<Longrightarrow> lookup s k = Some v \<Longrightarrow> total f s = total f (del k s) + f v"
begin

lemma upd_del_lookup: "lookup (del k (upd k v s)) k' = (if k' = k then None else lookup s k')"
  by (simp add: lookup_upd lookup_del)

lemma total_upd_del: "lookup s k = None \<Longrightarrow> ok s \<Longrightarrow> total f (del k (upd k v s)) + f v = total f s + f v"
  using total_del [of "upd k v s" k v f] by (simp add: ok_upd lookup_upd total_fresh)

lemma total_replace:
  assumes "ok s" and "lookup s k = Some v"
  shows "total f (upd k w (del k s)) + f v = total f s + f w"
proof -
  have "total f (upd k w (del k s)) = total f (del k s) + f w"
    by (rule total_fresh) (simp add: lookup_del)
  then show ?thesis
    using total_del [OF assms, of f] by (simp add: ac_simps)
qed

end

lemma dict_sum_Nil [simp]: "dict_sum f [] = 0"
  by (simp add: dict_sum_def)

lemma dict_sum_Cons [simp]: "dict_sum f (kv # d) = f (snd kv) + dict_sum f d"
  by (simp add: dict_sum_def)

lemma dict_ok_update [simp]: "dict_ok d \<Longrightarrow> dict_ok (AList.update k v d)"
  by (simp add: dict_ok_def distinct_update)

lemma dict_ok_delete [simp]: "dict_ok d \<Longrightarrow> dict_ok (AList.delete k d)"
  by (simp add: dict_ok_def distinct_delete)

lemma dict_ok_Nil [simp]: "dict_ok []"
  by (simp add: dict_ok_def)

lemma update_fresh: "map_of d k = None \<Longrightarrow> AList.update k v d = d @ [(k, v)]"
  by (induction d) (auto split: if_splits)

lemma set_update_subset: "set (AList.update k v d) \<subseteq> insert (k, v) (set d)"
  by (induction d) auto

lemma dict_sum_fresh: "map_of d k = None \<Longrightarrow> dict_sum f (AList.update k v d) = dict_sum f d + f v"
  by (simp add: update_fresh dict_sum_def)

lemma delete_absent: "map_of d k = None \<Longrightarrow> AList.delete k d = d"
  by (induction d) (auto simp: AList.delete_eq split: if_splits)

lemma dict_sum_delete:
  assumes "dict_ok d" and "map_of d k = Some v"
  shows "dict_sum f d = dict_sum f (AList.delete k d) + f v"
  using assms
proof (induction d)
  case (Cons kv d)
  show ?case
  proof (cases "fst kv = k")
    case True
    with Cons.prems have "map_of d k = None" "snd kv = v"
      by (auto simp: dict_ok_def map_of_eq_None_iff split: if_splits)
    with True show ?thesis
      using delete_absent [of d k] by (cases kv) (simp add: add.commute AList.delete_eq)
  next
    case False
    with Cons.prems have "dict_ok d" "map_of d k = Some v"
      by (auto simp: dict_ok_def split: if_splits)
    with Cons.IH False show ?thesis by (simp add: add.assoc AList.delete_eq case_prod_beta)
  qed
qed simp

interpretation alist: metered_store map_of AList.update AList.delete dict_sum dict_ok
  by unfold_locales
    (simp_all add: update_conv' delete_conv' dict_sum_fresh dict_sum_delete)

lemma dict_sum_sort_key: "dict_sum f (sort_key h d) = dict_sum f d"
proof -
  have "mset (map (\<lambda>kv. f (snd kv)) (sort_key h d)) = mset (map (\<lambda>kv. f (snd kv)) d)"
    by simp
  then show ?thesis
    unfolding dict_sum_def by (metis sum_mset_sum_list)
qed

lemma dict_sum_zero: "(\<And>v. f v = 0) \<Longrightarrow> dict_sum f d = 0"
  by (induction d) simp_all

lemma dict_sum_plus: "dict_sum (\<lambda>v. f v + g v) d = dict_sum f d + dict_sum g d"
  by (induction d) (simp_all add: ac_simps)

section \<open>Transition systems\<close>

inductive reach :: "('s \<Rightarrow> bool) \<Rightarrow> ('s \<Rightarrow> 's \<Rightarrow> bool) \<Rightarrow> 's \<Rightarrow> bool"
  for init step where
  reach_init: "init s \<Longrightarrow> reach init step s"
| reach_step: "reach init step s \<Longrightarrow> step s t \<Longrightarrow> reach init step t"

text \<open>The contract of an inductive invariant, and what it gives for every reachable state.\<close>

locale invariant_system =
  fixes init :: "'s \<Rightarrow> bool" and step :: "'s \<Rightarrow> 's \<Rightarrow> bool" and invar :: "'s \<Rightarrow> bool"
  assumes invar_init: "init s \<Longrightarrow> invar s"
    and invar_step: "invar s \<Longrightarrow> step s t \<Longrightarrow> invar t"
begin

lemma reach_invar: "reach init step s \<Longrightarrow> invar s"
  by (induction rule: reach.induct) (auto intro: invar_init invar_step)

lemma steps_invar: "step\<^sup>*\<^sup>* s t \<Longrightarrow> invar s \<Longrightarrow> invar t"
  by (induction rule: rtranclp_induct) (auto intro: invar_step)

end

section \<open>Numbers in text\<close>

function more_digits :: "string \<Rightarrow> string \<times> string" where
  "more_digits [] = ([], [])"
| "more_digits (c # s) =
     (if is_digit c then (case more_digits s of (d, r) \<Rightarrow> (c # d, r))
      else if c = CHR ''_'' \<and> s \<noteq> [] \<and> is_digit (hd s)
      then (case more_digits (tl s) of (d, r) \<Rightarrow> (hd s # d, r))
      else ([], c # s))"
  by pat_completeness auto
termination
  by (relation "measure length") auto

definition digitpart :: "string \<Rightarrow> (string \<times> string) option" where
  "digitpart s = (if s \<noteq> [] \<and> is_digit (hd s) then Some (more_digits s) else None)"

definition signed :: "string \<Rightarrow> int \<times> string" where
  "signed s = (case s of
      c # r \<Rightarrow> if c = CHR ''-'' then (- 1, r) else if c = CHR ''+'' then (1, r) else (1, s)
    | [] \<Rightarrow> (1, s))"

definition py_int :: "string \<Rightarrow> int option" where
  \<comment> \<open>\<open>int(text)\<close>, \<open>None\<close> for the \<open>ValueError\<close>\<close>
  "py_int s = (case signed (strip s) of (sg, u) \<Rightarrow>
     (case digitpart u of Some (d, []) \<Rightarrow> Some (sg * int (digits_val d)) | _ \<Rightarrow> None))"

definition rat_pow10 :: "int \<Rightarrow> rat" where
  "rat_pow10 e = (if 0 \<le> e then 10 ^ nat e else 1 / 10 ^ nat (- e))"

definition float_exponent :: "string \<Rightarrow> int option" where
  "float_exponent s = (case s of
      [] \<Rightarrow> Some 0
    | e # r \<Rightarrow> if e = CHR ''e'' \<or> e = CHR ''E''
        then (case signed r of (sg, u) \<Rightarrow>
          (case digitpart u of Some (d, []) \<Rightarrow> Some (sg * int (digits_val d)) | _ \<Rightarrow> None))
        else None)"

definition py_float :: "string \<Rightarrow> pyfloat option" where
  \<comment> \<open>\<open>float(text)\<close>, \<open>None\<close> for the \<open>ValueError\<close>\<close>
  "py_float s = (case signed (strip s) of (sg, u) \<Rightarrow>
     (let low = lower u in
      if low = ''inf'' \<or> low = ''infinity'' then Some (if sg < 0 then NInf else PInf)
      else if low = ''nan'' then Some NaN
      else
       (let (ip, r1) = (case digitpart u of Some (d, r) \<Rightarrow> (d, r) | None \<Rightarrow> ([], u));
            (fp, r2) = (if r1 \<noteq> [] \<and> hd r1 = CHR ''.''
                        then (case digitpart (tl r1) of Some (d, r) \<Rightarrow> (d, r) | None \<Rightarrow> ([], tl r1))
                        else ([], r1))
        in if ip = [] \<and> fp = [] then None
           else map_option (\<lambda>e. Fin (of_int sg * of_nat (digits_val (ip @ fp))
                                      * rat_pow10 (e - int (length fp))))
                  (float_exponent r2))))"

lemmas float_text_simps = py_float_def signed_def strip_def strip_on_def rstrip_on_def is_space_def
  code_def lower_def lower_char_def chr_def digitpart_def is_digit_def rat_pow10_def
  float_exponent_def digits_val_def digit_val_def

section \<open>JSON values\<close>

datatype json =
    JNull
  | JBool bool
  | JInt int
  | JFloat pyfloat
  | JStr string
  | JList "json list"
  | JObj "(string \<times> json) list"

fun truthy :: "json \<Rightarrow> bool" where
  "truthy JNull = False"
| "truthy (JBool b) = b"
| "truthy (JInt i) = (i \<noteq> 0)"
| "truthy (JFloat f) = (f \<noteq> Fin 0)"
| "truthy (JStr s) = (s \<noteq> [])"
| "truthy (JList xs) = (xs \<noteq> [])"
| "truthy (JObj kvs) = (kvs \<noteq> [])"

definition is_obj :: "json \<Rightarrow> bool" where
  "is_obj v = (case v of JObj _ \<Rightarrow> True | _ \<Rightarrow> False)"

definition is_jstr :: "json \<Rightarrow> bool" where
  "is_jstr v = (case v of JStr _ \<Rightarrow> True | _ \<Rightarrow> False)"

definition members :: "json \<Rightarrow> json dict" where
  "members v = (case v of JObj kvs \<Rightarrow> kvs | _ \<Rightarrow> [])"

definition get_or :: "json dict \<Rightarrow> string \<Rightarrow> json \<Rightarrow> json" where
  \<comment> \<open>\<open>d.get(k, default)\<close>\<close>
  "get_or d k dflt = (case map_of d k of Some v \<Rightarrow> v | None \<Rightarrow> dflt)"

abbreviation jget :: "json dict \<Rightarrow> string \<Rightarrow> json" where
  \<comment> \<open>\<open>d.get(k)\<close>\<close>
  "jget d k \<equiv> get_or d k JNull"

definition or_else :: "json \<Rightarrow> json \<Rightarrow> json" where
  \<comment> \<open>Python's \<open>a or b\<close>\<close>
  "or_else a b = (if truthy a then a else b)"

definition eq_False :: "json \<Rightarrow> bool" where
  \<comment> \<open>\<open>v == False\<close>: the number zero is equal to \<open>False\<close>\<close>
  "eq_False v = (v = JBool False \<or> v = JInt 0 \<or> v = JFloat (Fin 0))"

definition trunc_rat :: "rat \<Rightarrow> int" where
  "trunc_rat r = (if r < 0 then - \<lfloor>- r\<rfloor> else \<lfloor>r\<rfloor>)"

fun int_of_json :: "json \<Rightarrow> int result" where
  \<comment> \<open>\<open>int(value)\<close>\<close>
  "int_of_json (JInt i) = Inr i"
| "int_of_json (JBool b) = Inr (if b then 1 else 0)"
| "int_of_json (JFloat (Fin r)) = Inr (trunc_rat r)"
| "int_of_json (JFloat NaN) = Inl (ValueError ''cannot convert float NaN to integer'')"
| "int_of_json (JFloat _) = Inl (OverflowError ''cannot convert float infinity to integer'')"
| "int_of_json (JStr s) = (case py_int s of Some i \<Rightarrow> Inr i
     | None \<Rightarrow> Inl (ValueError ''invalid literal for int() with base 10''))"
| "int_of_json _ = Inl (TypeError ''int() argument must be a string or a number'')"

fun float_of_json :: "json \<Rightarrow> pyfloat result" where
  \<comment> \<open>\<open>float(value)\<close>\<close>
  "float_of_json (JInt i) = Inr (Fin (of_int i))"
| "float_of_json (JBool b) = Inr (Fin (if b then 1 else 0))"
| "float_of_json (JFloat f) = Inr f"
| "float_of_json (JStr s) = (case py_float s of Some f \<Rightarrow> Inr f
     | None \<Rightarrow> Inl (ValueError ''could not convert string to float''))"
| "float_of_json _ = Inl (TypeError ''float() argument must be a string or a real number'')"

definition as_obj :: "json \<Rightarrow> json dict result" where
  \<comment> \<open>the object whose \<open>get\<close> is called\<close>
  "as_obj v = (case v of JObj d \<Rightarrow> Inr d | _ \<Rightarrow> Inl (AttributeError ''get''))"

definition iter_json :: "json \<Rightarrow> json list result" where
  "iter_json v = (case v of JList xs \<Rightarrow> Inr xs | JObj d \<Rightarrow> Inr (map (\<lambda>kv. JStr (fst kv)) d) | JStr s \<Rightarrow> Inr (map (\<lambda>c. JStr [c]) s)
     | _ \<Rightarrow> Inl (TypeError ''object is not iterable''))"

definition need_key :: "json dict \<Rightarrow> string \<Rightarrow> json result" where
  \<comment> \<open>\<open>d[k]\<close>\<close>
  "need_key d k = (case map_of d k of Some v \<Rightarrow> Inr v | None \<Rightarrow> Inl (KeyError k))"

definition merge_obj :: "json dict \<Rightarrow> json dict \<Rightarrow> json dict" where
  \<comment> \<open>\<open>{**a, **b}\<close>\<close>
  "merge_obj a b = foldl (\<lambda>d (k, v). AList.update k v d) a b"

definition json_num :: "json \<Rightarrow> pyfloat option" where
  "json_num v = (case v of JInt i \<Rightarrow> Some (Fin (of_int i)) | JBool b \<Rightarrow> Some (Fin (if b then 1 else 0)) | JFloat f \<Rightarrow> Some f | _ \<Rightarrow> None)"

fun py_eq :: "json \<Rightarrow> json \<Rightarrow> bool"
  and py_eq_items :: "json list \<Rightarrow> json list \<Rightarrow> bool"
  and py_eq_members :: "(string \<times> json) list \<Rightarrow> json dict \<Rightarrow> bool" where
  \<comment> \<open>\<open>==\<close>: numbers and booleans by value, dictionaries without order\<close>
  "py_eq JNull w = (w = JNull)"
| "py_eq (JStr s) w = (w = JStr s)"
| "py_eq (JBool b) w = (json_num w = Some (Fin (if b then 1 else 0)))"
| "py_eq (JInt i) w = (json_num w = Some (Fin (of_int i)))"
| "py_eq (JFloat f) w = (f \<noteq> NaN \<and> json_num w = Some f)"
| "py_eq (JList xs) w = (case w of JList ys \<Rightarrow> py_eq_items xs ys | _ \<Rightarrow> False)"
| "py_eq (JObj a) w = (case w of JObj b \<Rightarrow> length a = length b \<and> py_eq_members a b | _ \<Rightarrow> False)"
| "py_eq_items [] ys = (ys = [])"
| "py_eq_items (x # xs) ys = (case ys of y # ys' \<Rightarrow> py_eq x y \<and> py_eq_items xs ys' | [] \<Rightarrow> False)"
| "py_eq_members [] b = True"
| "py_eq_members ((k, v) # a) b = ((case map_of b k of Some u \<Rightarrow> py_eq v u | None \<Rightarrow> False) \<and> py_eq_members a b)"

subsection \<open>Serialisation\<close>

definition hex_digit :: "nat \<Rightarrow> char" where
  "hex_digit n = (if n < 10 then chr (48 + n) else chr (87 + n))"

definition escape_char :: "char \<Rightarrow> string" where
  "escape_char c = (let n = code c in
     if n = 34 then [chr 92, chr 34]
     else if n = 92 then [chr 92, chr 92]
     else if n = 10 then chr 92 # ''n''
     else if n = 13 then chr 92 # ''r''
     else if n = 9 then chr 92 # ''t''
     else if n = 12 then chr 92 # ''f''
     else if n = 8 then chr 92 # ''b''
     else if n < 32 then chr 92 # ''u00'' @ [hex_digit (n div 16), hex_digit (n mod 16)]
     else [c])"

definition dumps_str :: "string \<Rightarrow> string" where
  \<comment> \<open>a string literal as \<open>json.dumps(s, ensure_ascii=False)\<close> writes it\<close>
  "dumps_str s = [chr 34] @ concat (map escape_char s) @ [chr 34]"

text \<open>\<open>json.dumps(v, ensure_ascii=False)\<close>; \<open>frepr\<close> is the shortest decimal form that
  \<open>float.__repr__\<close> gives a finite number.\<close>

fun dumps :: "(rat \<Rightarrow> string) \<Rightarrow> json \<Rightarrow> string"
  and dumps_items :: "(rat \<Rightarrow> string) \<Rightarrow> json list \<Rightarrow> string list"
  and dumps_members :: "(rat \<Rightarrow> string) \<Rightarrow> (string \<times> json) list \<Rightarrow> string list" where
  "dumps frepr JNull = ''null''"
| "dumps frepr (JBool b) = (if b then ''true'' else ''false'')"
| "dumps frepr (JInt i) = int_str i"
| "dumps frepr (JFloat f) = (case f of Fin r \<Rightarrow> frepr r | PInf \<Rightarrow> ''Infinity''
     | NInf \<Rightarrow> ''-Infinity'' | NaN \<Rightarrow> ''NaN'')"
| "dumps frepr (JStr s) = dumps_str s"
| "dumps frepr (JList xs) = ''['' @ join '', '' (dumps_items frepr xs) @ '']''"
| "dumps frepr (JObj kvs) = ''{'' @ join '', '' (dumps_members frepr kvs) @ ''}''"
| "dumps_items frepr [] = []"
| "dumps_items frepr (x # xs) = dumps frepr x # dumps_items frepr xs"
| "dumps_members frepr [] = []"
| "dumps_members frepr ((k, v) # kvs) = (dumps_str k @ '': '' @ dumps frepr v) # dumps_members frepr kvs"

definition utf8_len :: "string \<Rightarrow> nat" where
  \<comment> \<open>\<open>len(s.encode("utf-8"))\<close> for code points below 256\<close>
  "utf8_len s = sum_list (map (\<lambda>c. if code c < 128 then 1 else 2) s)"

lemma length_le_utf8_len: "length s \<le> utf8_len s"
  by (induction s) (auto simp: utf8_len_def)

section \<open>Time\<close>

text \<open>An instant is a count of microseconds since 1970-01-01T00:00:00Z; so is a duration.\<close>

type_synonym instant = int

abbreviation usec :: "int \<Rightarrow> int" where
  "usec seconds \<equiv> seconds * 1000000"

definition day_us :: int where
  "day_us = usec 86400"

text \<open>The proleptic Gregorian date of a day number, as \<open>(year, month, day)\<close>.\<close>

definition civil :: "int \<Rightarrow> int \<times> int \<times> int" where
  "civil days =
     (let z = days + 719468; era = z div 146097; doe = z mod 146097;
          yoe = (doe - doe div 1460 + doe div 36524 - doe div 146096) div 365;
          doy = doe - (365 * yoe + yoe div 4 - yoe div 100);
          mp = (5 * doy + 2) div 153;
          d = doy - (153 * mp + 2) div 5 + 1;
          m = (if mp < 10 then mp + 3 else mp - 9)
      in (yoe + era * 400 + (if m \<le> 2 then 1 else 0), m, d))"

definition weekday :: "int \<Rightarrow> int" where
  \<comment> \<open>Monday is 0; day 0 is a Thursday\<close>
  "weekday days = (days + 3) mod 7"

definition pad_left :: "nat \<Rightarrow> string \<Rightarrow> string" where
  "pad_left n s = replicate (n - length s) (CHR ''0'') @ s"

lemma civil_epoch: "civil 0 = (1970, 1, 1)"
  by code_simp

lemma civil_leap_day: "civil 19782 = (2024, 2, 29)"
  by code_simp

lemma day_of_month_pos: "1 \<le> (doy :: int) - (153 * ((5 * doy + 2) div 153) + 2) div 5 + 1"
proof -
  have "153 * ((5 * doy + 2) div 153) \<le> 5 * doy + 2"
    by (simp add: mult.commute)
  then show ?thesis by linarith
qed

lemma civil_day_pos: "civil days = (y, m, d) \<Longrightarrow> 1 \<le> d"
  unfolding civil_def Let_def by (metis day_of_month_pos prod.inject)

end
