(* ===== verification/Budget_Settings.thy ===== *)
theory Budget_Settings
  imports Py_Data
begin

text \<open>
  Configuration of the production budget proxy (deploy/hindsight-budget-proxy/budget_proxy.py):
  the numeric environment readers, \<open>Settings.from_env\<close>, the guard fingerprint that is
  persisted with the ledger, and the two payload checks \<open>prepare_chat_payload\<close> and
  \<open>prepare_embedding_payload\<close>. The environment is a map from names to text.
\<close>

type_synonym env = "string \<rightharpoonup> string"

definition getenv :: "env \<Rightarrow> string \<Rightarrow> string \<Rightarrow> string" where
  "getenv env name dflt = (case env name of Some v \<Rightarrow> v | None \<Rightarrow> dflt)"

record model_names =
  HINDSIGHT_MODEL :: string
  QWEN_MODEL :: string

definition module_models :: "env \<Rightarrow> model_names" where
  "module_models env = \<lparr>
     HINDSIGHT_MODEL = strip (getenv env ''HINDSIGHT_MODEL'' ''openai/gpt-oss-120b''),
     QWEN_MODEL = strip (getenv env ''QWEN_MODEL'' ''qwen/qwen3-embedding-8b'')\<rparr>"

definition MAX_BODY_BYTES :: int where
  "MAX_BODY_BYTES = 4000000"

definition MAX_COMPLETION_TOKENS :: int where
  "MAX_COMPLETION_TOKENS = 8192"

definition positive_float :: "env \<Rightarrow> string \<Rightarrow> string \<Rightarrow> pyfloat result" where
  "positive_float env name dflt =
     (case py_float (getenv env name dflt) of
        None \<Rightarrow> Inl (SystemExit (name @ '' must be numeric''))
      | Some v \<Rightarrow> if pf_le v 0 then Inl (SystemExit (name @ '' must be positive'')) else Inr v)"

definition nonnegative_float :: "env \<Rightarrow> string \<Rightarrow> string \<Rightarrow> pyfloat result" where
  "nonnegative_float env name dflt =
     (case py_float (getenv env name dflt) of
        None \<Rightarrow> Inl (SystemExit (name @ '' must be numeric''))
      | Some v \<Rightarrow> if pf_lt v 0 then Inl (SystemExit (name @ '' must not be negative'')) else Inr v)"

definition positive_int :: "env \<Rightarrow> string \<Rightarrow> string \<Rightarrow> int result" where
  "positive_int env name dflt =
     (case py_int (getenv env name dflt) of
        None \<Rightarrow> Inl (SystemExit (name @ '' must be an integer''))
      | Some v \<Rightarrow> if v \<le> 0 then Inl (SystemExit (name @ '' must be positive'')) else Inr v)"

record settings =
  provider_base_url :: string
  provider_api_key :: string
  proxy_api_key :: string
  provider_egress_enabled :: bool
  provider_total_limit_usd :: pyfloat
  provider_safety_margin_usd :: pyfloat
  hindsight_phase :: string
  hindsight_backfill_limit_usd :: pyfloat
  hindsight_monthly_limit_usd :: pyfloat
  qwen_monthly_limit_usd :: pyfloat
  rpm_limit :: int
  tpm_limit :: int
  prices :: "(pyfloat \<times> pyfloat) dict"
  initial_provider_spend_usd :: pyfloat

definition effective_provider_limit :: "settings \<Rightarrow> pyfloat" where
  "effective_provider_limit s = pf_sub (provider_total_limit_usd s) (provider_safety_margin_usd s)"

definition compare_digest :: "string \<Rightarrow> string \<Rightarrow> bool result" where
  \<comment> \<open>\<open>hmac.compare_digest\<close> refuses text with a character outside ASCII\<close>
  "compare_digest a b =
     (if (\<forall>c \<in> set (a @ b). code c < 128) then Inr (a = b)
      else Inl (TypeError ''comparing strings with non-ASCII characters is not supported''))"

definition from_env :: "env \<Rightarrow> model_names \<Rightarrow> settings result" where
  "from_env env mn =
     (let provider_key = strip (getenv env ''PROVIDER_API_KEY'' []);
          proxy_key = strip (getenv env ''PROXY_API_KEY'' []) in
      bindR (guard_that (provider_key \<noteq> []) (SystemExit ''PROVIDER_API_KEY is required'')) (\<lambda>_.
      bindR (guard_that (proxy_key \<noteq> []) (SystemExit ''PROXY_API_KEY is required'')) (\<lambda>_.
      bindR (compare_digest provider_key proxy_key) (\<lambda>same.
      bindR (guard_that (\<not> same) (SystemExit ''PROXY_API_KEY must differ from PROVIDER_API_KEY'')) (\<lambda>_.
      let phase = lower (strip (getenv env ''HINDSIGHT_BUDGET_PHASE'' ''backfill'')) in
      bindR (guard_that (phase \<in> {''backfill'', ''monthly''})
               (SystemExit ''HINDSIGHT_BUDGET_PHASE must be backfill or monthly'')) (\<lambda>_.
      bindR (positive_float env ''PROVIDER_TOTAL_LIMIT_USD'' ''50'') (\<lambda>total.
      bindR (nonnegative_float env ''PROVIDER_SAFETY_MARGIN_USD'' ''0.50'') (\<lambda>margin.
      bindR (guard_that (\<not> pf_le total margin)
               (SystemExit ''PROVIDER_SAFETY_MARGIN_USD must be below the total limit'')) (\<lambda>_.
      bindR (positive_float env ''HINDSIGHT_BACKFILL_LIMIT_USD'' ''30'') (\<lambda>backfill.
      bindR (positive_float env ''HINDSIGHT_MONTHLY_LIMIT_USD'' ''10'') (\<lambda>monthly.
      bindR (positive_float env ''QWEN_MONTHLY_LIMIT_USD'' ''5'') (\<lambda>qwen.
      bindR (positive_int env ''PROXY_RPM_LIMIT'' ''30'') (\<lambda>rpm.
      bindR (positive_int env ''PROXY_TPM_LIMIT'' ''1000000'') (\<lambda>tpm.
      bindR (positive_float env ''HINDSIGHT_INPUT_USD_PER_M''
               (getenv env ''GPT_OSS_120B_INPUT_USD_PER_M'' ''0.15'')) (\<lambda>h_in.
      bindR (positive_float env ''HINDSIGHT_OUTPUT_USD_PER_M''
               (getenv env ''GPT_OSS_120B_OUTPUT_USD_PER_M'' ''0.60'')) (\<lambda>h_out.
      bindR (positive_float env ''QWEN_INPUT_USD_PER_M'' ''0.01'') (\<lambda>q_in.
      bindR (nonnegative_float env ''QWEN_OUTPUT_USD_PER_M'' ''0'') (\<lambda>q_out.
      bindR (nonnegative_float env ''INITIAL_PROVIDER_SPEND_USD'' ''0'') (\<lambda>initial.
      let s = \<lparr>
        provider_base_url =
          rstrip_on (\<lambda>c. c = CHR ''/'') (getenv env ''PROVIDER_BASE_URL'' ''https://api.redpill.ai/v1''),
        provider_api_key = provider_key,
        proxy_api_key = proxy_key,
        provider_egress_enabled =
          lower (strip (getenv env ''PROVIDER_EGRESS_ENABLED'' ''false'')) \<in> {''1'', ''true'', ''yes'', ''on''},
        provider_total_limit_usd = total,
        provider_safety_margin_usd = margin,
        hindsight_phase = phase,
        hindsight_backfill_limit_usd = backfill,
        hindsight_monthly_limit_usd = monthly,
        qwen_monthly_limit_usd = qwen,
        rpm_limit = rpm,
        tpm_limit = tpm,
        prices = AList.update (QWEN_MODEL mn) (q_in, q_out) [(HINDSIGHT_MODEL mn, (h_in, h_out))],
        initial_provider_spend_usd = initial\<rparr> in
      bindR (guard_that (\<not> pf_lt (effective_provider_limit s) backfill)
               (SystemExit ''backfill limit exceeds the effective provider limit'')) (\<lambda>_.
      Inr s))))))))))))))))))))"

text \<open>The part of the configuration that is persisted with the ledger.\<close>

record fingerprint =
  fp_provider_total :: pyfloat
  fp_safety_margin :: pyfloat
  fp_backfill :: pyfloat
  fp_monthly :: pyfloat
  fp_qwen :: pyfloat
  fp_prices :: "(pyfloat \<times> pyfloat) dict"

definition guard_fingerprint :: "settings \<Rightarrow> fingerprint" where
  "guard_fingerprint s = \<lparr>
     fp_provider_total = provider_total_limit_usd s,
     fp_safety_margin = provider_safety_margin_usd s,
     fp_backfill = hindsight_backfill_limit_usd s,
     fp_monthly = hindsight_monthly_limit_usd s,
     fp_qwen = qwen_monthly_limit_usd s,
     fp_prices = sort_key fst (prices s)\<rparr>"

definition utc_month :: "instant \<Rightarrow> string" where
  "utc_month moment = (case civil (moment div day_us) of (y, m, d) \<Rightarrow>
     pad_left 4 (int_str y) @ ''-'' @ pad_left 2 (int_str m))"

definition token_cost :: "pyfloat \<times> pyfloat \<Rightarrow> int \<Rightarrow> int \<Rightarrow> pyfloat" where
  "token_cost pr input_tokens output_tokens =
     pf_div_pos (pf_scale input_tokens (fst pr) + pf_scale output_tokens (snd pr)) 1000000"

section \<open>Payload checks\<close>

text \<open>Dictionary of the prepared payload, prompt bytes, completion-token ceiling.\<close>

type_synonym prepared = "json dict \<times> int \<times> int"

definition convert_int :: "json \<Rightarrow> string \<Rightarrow> int result" where
  \<comment> \<open>\<open>try: int(v) except (TypeError, ValueError): raise GuardViolation(msg)\<close>\<close>
  "convert_int v msg = (case int_of_json v of
      Inl (TypeError _) \<Rightarrow> Inl (GuardViolation msg)
    | Inl (ValueError _) \<Rightarrow> Inl (GuardViolation msg)
    | r \<Rightarrow> r)"

definition strict_schema :: "json \<Rightarrow> bool" where
  \<comment> \<open>\<open>response_format["json_schema"]["strict"] is True\<close>, each level only if it is a dict\<close>
  "strict_schema fmt = (is_obj fmt \<and>
     (let schema = jget (members fmt) ''json_schema'' in
      is_obj schema \<and> jget (members schema) ''strict'' = JBool True))"

definition prepare_chat_payload :: "model_names \<Rightarrow> (rat \<Rightarrow> string) \<Rightarrow> json \<Rightarrow> prepared result" where
  "prepare_chat_payload mn frepr value =
     bindR (guard_that (is_obj value) (GuardViolation ''request body must be a JSON object'')) (\<lambda>_.
     let payload = members value in
     bindR (guard_that (jget payload ''model'' = JStr (HINDSIGHT_MODEL mn))
              (GuardViolation ''chat model is outside the production allowlist'')) (\<lambda>_.
     bindR (guard_that (\<not> truthy (jget payload ''stream''))
              (GuardViolation ''streaming is disabled so usage can be metered'')) (\<lambda>_.
     bindR (convert_int
              (get_or payload ''max_completion_tokens'' (get_or payload ''max_tokens'' (JInt 8192)))
              ''completion-token ceiling must be an integer'') (\<lambda>max_tokens.
     bindR (guard_that (0 < max_tokens \<and> max_tokens \<le> MAX_COMPLETION_TOKENS)
              (GuardViolation ''completion-token ceiling must be between 1 and 8192'')) (\<lambda>_.
     bindR (guard_that (get_or payload ''reasoning_effort'' (JStr ''low'') = JStr ''low'')
              (GuardViolation ''reasoning_effort must be low'')) (\<lambda>_.
     bindR (guard_that (jget payload ''include_reasoning'' = JNull
                          \<or> eq_False (jget payload ''include_reasoning''))
              (GuardViolation ''include_reasoning must be false'')) (\<lambda>_.
     bindR (guard_that (\<not> strict_schema (jget payload ''response_format''))
              (GuardViolation ''strict structured output is disabled'')) (\<lambda>_.
     let p1 = AList.update ''reasoning_effort'' (JStr ''low'') payload;
         p2 = AList.update ''include_reasoning'' (JBool False) p1;
         p3 = AList.update ''max_completion_tokens'' (JInt max_tokens) p2;
         p4 = AList.delete ''max_tokens'' p3;
         prompt_bytes = int (utf8_len (dumps frepr (or_else (jget p4 ''messages'') (JList []))))
     in Inr (p4, max 1 prompt_bytes, max_tokens)))))))))"

definition embedding_texts :: "json \<Rightarrow> json list result" where
  "embedding_texts inputs = (case inputs of
      JStr s \<Rightarrow> Inr [JStr s]
    | JList xs \<Rightarrow> if xs \<noteq> [] \<and> list_all is_jstr xs then Inr xs
        else Inl (GuardViolation ''embedding input must be a non-empty string or string list'')
    | _ \<Rightarrow> Inl (GuardViolation ''embedding input must be a non-empty string or string list''))"

definition prepare_embedding_payload :: "model_names \<Rightarrow> (rat \<Rightarrow> string) \<Rightarrow> json \<Rightarrow> prepared result" where
  "prepare_embedding_payload mn frepr value =
     bindR (guard_that (is_obj value) (GuardViolation ''request body must be a JSON object'')) (\<lambda>_.
     let payload = members value in
     bindR (guard_that (jget payload ''model'' = JStr (QWEN_MODEL mn))
              (GuardViolation ''embedding model is outside the production allowlist'')) (\<lambda>_.
     bindR (embedding_texts (jget payload ''input'')) (\<lambda>materialized.
     bindR (guard_that (length materialized \<le> 64)
              (GuardViolation ''embedding batch exceeds 64 texts'')) (\<lambda>_.
     bindR (if jget payload ''dimensions'' = JNull then Inr payload
            else bindR (convert_int (jget payload ''dimensions'')
                          ''embedding dimensions must be an integer'') (\<lambda>dimensions.
                 bindR (guard_that (1 \<le> dimensions \<and> dimensions \<le> 4096)
                          (GuardViolation ''embedding dimensions are outside 1..4096'')) (\<lambda>_.
                 Inr (AList.update ''dimensions'' (JInt dimensions) payload)))) (\<lambda>payload'.
     Inr (payload', max 1 (int (utf8_len (dumps frepr (JList materialized)))), 0))))))"

section \<open>Facts\<close>

lemma token_cost_fin:
  "is_fin (fst pr) \<Longrightarrow> is_fin (snd pr) \<Longrightarrow>
   token_cost pr i j = Fin ((of_int i * fin_val (fst pr) + of_int j * fin_val (snd pr)) / 1000000)"
  by (cases pr) (auto elim!: is_finE simp: token_cost_def)

lemma token_cost_mono:
  assumes "is_fin (fst pr)" "is_fin (snd pr)" "0 \<le> fin_val (fst pr)" "0 \<le> fin_val (snd pr)"
    and "i \<le> i'" "j \<le> j'"
  shows "fin_val (token_cost pr i j) \<le> fin_val (token_cost pr i' j')"
  using assms by (simp add: token_cost_fin divide_right_mono add_mono mult_right_mono)

lemma convert_int_Inr [simp]: "convert_int v msg = Inr i \<longleftrightarrow> int_of_json v = Inr i"
  by (auto simp: convert_int_def split: sum.splits exc.splits)

lemma convert_int_Inl:
  "convert_int v msg = Inl e \<Longrightarrow> e = GuardViolation msg \<or> (\<exists>m. e = OverflowError m)"
  by (cases v rule: int_of_json.cases) (auto simp: convert_int_def split: option.splits)

end
