(* ===== verification/Budget_Proxy.thy ===== *)
theory Budget_Proxy
  imports Budget_Settings
begin

text \<open>
  The budget proxy of deploy/hindsight-budget-proxy/budget_proxy.py: the persisted ledger and
  circuit state (\<open>BudgetState\<close>), every operation on them, and the two HTTP handlers. An
  operation that the source runs under its lock is one function on \<open>bstate\<close>; it also
  returns the sequence of files it rewrites, in order, so that a crash between two writes can
  be stated. \<open>now\<close> and the fresh request id are arguments, as are the request and the
  upstream's answer.
\<close>

section \<open>State\<close>

record call =
  c_at :: instant
  c_started_at :: "instant option"
  c_request_id :: string
  c_endpoint :: string
  c_model :: string
  c_scope :: string
  c_period :: string
  c_input_tokens :: int
  c_output_tokens :: int
  c_cost_usd :: pyfloat
  c_provider_reported :: "pyfloat option"
  c_estimated_from_reservation :: bool
  c_ambiguous_reconciled :: bool

record ledger =
  l_guard :: fingerprint
  l_initial_provider_spend_usd :: pyfloat
  l_provider_spent_usd :: pyfloat
  l_calls :: "call list"

record reservation =
  r_input_tokens :: int
  r_output_tokens :: int
  r_total_tokens :: int
  r_cost_usd :: pyfloat

record flight =
  f_model :: string
  f_endpoint :: string
  f_scope :: string
  f_period :: string
  f_started_at :: "instant option"
  f_reservation :: reservation

record reset_note =
  n_at :: instant
  n_previous_reason :: string
  n_credential_validated :: bool
  n_reset_token_sha256 :: string

record reconcile_note =
  m_at :: instant
  m_requests :: nat
  m_charged :: pyfloat

record circuit =
  v_circuit_open :: bool
  v_reason :: "string option"
  v_in_flight :: "flight dict"
  v_consumed_reset_tokens :: "string list"
  v_last_reset :: "reset_note option"
  v_last_reconciliation :: "reconcile_note option"

record bstate =
  b_ledger :: ledger
  b_value :: circuit

datatype file_write = WLedger ledger | WState circuit

record disk =
  d_ledger :: "ledger option"
  d_state :: "circuit option"

fun atomic_json :: "disk \<Rightarrow> file_write \<Rightarrow> disk" where
  \<comment> \<open>the file is replaced as a whole or not at all\<close>
  "atomic_json d (WLedger l) = d\<lparr>d_ledger := Some l\<rparr>"
| "atomic_json d (WState v) = d\<lparr>d_state := Some v\<rparr>"

definition write_files :: "file_write list \<Rightarrow> disk \<Rightarrow> disk" where
  "write_files ws d = foldl atomic_json d ws"

section \<open>Start-up\<close>

definition fp_eq :: "pyfloat \<Rightarrow> pyfloat \<Rightarrow> bool" where
  \<comment> \<open>\<open>==\<close> on floats: \<open>NaN\<close> differs from itself\<close>
  "fp_eq a b = (a = b \<and> a \<noteq> NaN)"

definition prices_eq :: "(pyfloat \<times> pyfloat) dict \<Rightarrow> (pyfloat \<times> pyfloat) dict \<Rightarrow> bool" where
  "prices_eq p q = list_all2 (\<lambda>(m, a, b) (m', a', b'). m = m' \<and> fp_eq a a' \<and> fp_eq b b') p q"

definition guard_eq :: "fingerprint \<Rightarrow> fingerprint \<Rightarrow> bool" where
  "guard_eq g h = (fp_eq (fp_provider_total g) (fp_provider_total h)
     \<and> fp_eq (fp_safety_margin g) (fp_safety_margin h)
     \<and> fp_eq (fp_backfill g) (fp_backfill h)
     \<and> fp_eq (fp_monthly g) (fp_monthly h)
     \<and> fp_eq (fp_qwen g) (fp_qwen h)
     \<and> prices_eq (fp_prices g) (fp_prices h))"

definition fresh_ledger :: "settings \<Rightarrow> ledger" where
  "fresh_ledger s = \<lparr>
     l_guard = guard_fingerprint s,
     l_initial_provider_spend_usd = initial_provider_spend_usd s,
     l_provider_spent_usd = initial_provider_spend_usd s,
     l_calls = []\<rparr>"

definition fresh_circuit :: circuit where
  "fresh_circuit = \<lparr>v_circuit_open = False, v_reason = None, v_in_flight = [],
     v_consumed_reset_tokens = [], v_last_reset = None, v_last_reconciliation = None\<rparr>"

definition initial_spend_differs :: "ledger \<Rightarrow> settings \<Rightarrow> bool" where
  \<comment> \<open>\<open>abs(persisted - configured) > 1e-12\<close>\<close>
  "initial_spend_differs l s =
     (let d = pf_sub (l_initial_provider_spend_usd l) (initial_provider_spend_usd s) in
      pf_lt (Fin (1 / 10 ^ 12)) d \<or> pf_lt d (Fin (- 1 / 10 ^ 12)))"

text \<open>The ledger, or the reason not to start; a fresh ledger is written before it is checked.\<close>

definition load_ledger :: "settings \<Rightarrow> disk \<Rightarrow> ledger result \<times> file_write list" where
  "load_ledger s d =
     (let (l, ws, guard_ok) = (case d_ledger d of
            Some l \<Rightarrow> (l, [], guard_eq (l_guard l) (guard_fingerprint s))
          | None \<Rightarrow> (fresh_ledger s, [WLedger (fresh_ledger s)], True)) in
      (bindR (guard_that guard_ok
                (SystemExit ''persisted ledger guard does not match configured limits/prices'')) (\<lambda>_.
       bindR (guard_that (\<not> initial_spend_differs l s)
                (SystemExit ''persisted initial provider spend does not match configuration'')) (\<lambda>_.
       bindR (guard_that (\<not> pf_lt (effective_provider_limit s) (l_provider_spent_usd l))
                (SystemExit ''persisted provider spend already exceeds the effective limit'')) (\<lambda>_.
       Inr l))), ws))"

definition restart_reason :: string where
  "restart_reason = ''ambiguous in-flight requests found after proxy restart''"

definition load_circuit :: "disk \<Rightarrow> circuit \<times> file_write list" where
  "load_circuit d =
     (let (v, ws) = (case d_state d of
            Some v \<Rightarrow> (v, []) | None \<Rightarrow> (fresh_circuit, [WState fresh_circuit])) in
      if v_in_flight v \<noteq> []
      then (let v' = v\<lparr>v_circuit_open := True, v_reason := Some restart_reason\<rparr> in (v', ws @ [WState v']))
      else (v, ws))"

definition budget_state_init :: "settings \<Rightarrow> disk \<Rightarrow> bstate result \<times> file_write list" where
  "budget_state_init s d =
     (case load_ledger s d of
        (Inl e, ws) \<Rightarrow> (Inl e, ws)
      | (Inr l, ws) \<Rightarrow> (case load_circuit d of (v, ws') \<Rightarrow>
          (Inr \<lparr>b_ledger = l, b_value = v\<rparr>, ws @ ws')))"

section \<open>Budgets\<close>

definition scope_for :: "settings \<Rightarrow> string \<Rightarrow> instant \<Rightarrow> string \<times> string \<times> pyfloat" where
  "scope_for s endpoint now =
     (if endpoint = ''embeddings'' then (''qwen_monthly'', utc_month now, qwen_monthly_limit_usd s)
      else if hindsight_phase s = ''backfill''
      then (''hindsight_backfill'', ''all'', hindsight_backfill_limit_usd s)
      else (''hindsight_monthly'', utc_month now, hindsight_monthly_limit_usd s))"

definition scope_spend :: "ledger \<Rightarrow> string \<Rightarrow> string \<Rightarrow> pyfloat" where
  "scope_spend l scope period =
     sum_list (map c_cost_usd (filter (\<lambda>c. c_scope c = scope \<and> c_period c = period) (l_calls l)))"

definition pending_cost :: "circuit \<Rightarrow> string option \<Rightarrow> string option \<Rightarrow> pyfloat" where
  "pending_cost v scope period =
     sum_list (map (\<lambda>f. r_cost_usd (f_reservation f))
       (filter (\<lambda>f. (scope = None \<or> Some (f_scope f) = scope) \<and> (period = None \<or> Some (f_period f) = period))
         (map snd (v_in_flight v))))"

definition in_last_minute :: "instant \<Rightarrow> instant \<Rightarrow> bool" where
  "in_last_minute now t = (0 \<le> now - t \<and> now - t < usec 60)"

definition call_stamp :: "call \<Rightarrow> instant" where
  "call_stamp c = (case c_started_at c of Some t \<Rightarrow> t | None \<Rightarrow> c_at c)"

definition recent_usage :: "bstate \<Rightarrow> instant \<Rightarrow> (instant \<times> int) list" where
  "recent_usage b now =
     filter (\<lambda>(t, _). in_last_minute now t)
       (map (\<lambda>c. (call_stamp c, c_input_tokens c + c_output_tokens c)) (l_calls (b_ledger b)))
     @ filter (\<lambda>(t, _). in_last_minute now t)
       (List.map_filter (\<lambda>f. map_option (\<lambda>t. (t, r_total_tokens (f_reservation f))) (f_started_at f))
         (map snd (v_in_flight (b_value b))))"

definition rate_delay :: "settings \<Rightarrow> bstate \<Rightarrow> int \<Rightarrow> instant \<Rightarrow> int result" where
  "rate_delay s b reservation_tokens now =
     (let recent = recent_usage b now in
      if tpm_limit s < reservation_tokens
      then Inl (GuardViolation ''single request exceeds the configured TPM limit'')
      else if \<not> rpm_limit s \<le> int (length recent)
              \<and> \<not> tpm_limit s < sum_list (map snd recent) + reservation_tokens
      then Inr 0
      else if recent = [] then Inr (usec 1)
      else Inr (max 50000 (usec 60 - (now - Min (set (map fst recent))))))"

datatype attempt =
    Granted string flight bstate "file_write list"
  | Wait int

definition circuit_reason :: "circuit \<Rightarrow> string" where
  "circuit_reason v = (case v_reason v of Some r \<Rightarrow> if r = [] then ''circuit open'' else r
     | None \<Rightarrow> ''circuit open'')"

text \<open>The body of the loop of \<open>reserve\<close>, run under the lock.\<close>

definition reserve_attempt ::
  "settings \<Rightarrow> bstate \<Rightarrow> string \<Rightarrow> string \<Rightarrow> int \<Rightarrow> int \<Rightarrow> pyfloat \<Rightarrow> string \<times> string \<times> pyfloat
     \<Rightarrow> instant \<Rightarrow> string \<Rightarrow> attempt result" where
  "reserve_attempt s b endpoint model input_tokens output_tokens cost sc now request_id =
     (case sc of (scope, period, scope_limit) \<Rightarrow>
      let l = b_ledger b; v = b_value b in
      bindR (guard_that (\<not> v_circuit_open v) (BudgetViolation (circuit_reason v))) (\<lambda>_.
      bindR (guard_that
               (\<not> pf_lt (effective_provider_limit s)
                     (l_provider_spent_usd l + pending_cost v None None + cost))
               (BudgetViolation ''provider-total local safety ceiling would be exceeded'')) (\<lambda>_.
      bindR (guard_that
               (\<not> pf_lt scope_limit
                     (scope_spend l scope period + pending_cost v (Some scope) (Some period) + cost))
               (BudgetViolation (scope @ '' local budget would be exceeded''))) (\<lambda>_.
      bindR (rate_delay s b (input_tokens + output_tokens) now) (\<lambda>delay.
      if delay \<le> 0
      then (let item = \<lparr>f_model = model, f_endpoint = endpoint, f_scope = scope, f_period = period,
                  f_started_at = Some now,
                  f_reservation = \<lparr>r_input_tokens = input_tokens, r_output_tokens = output_tokens,
                    r_total_tokens = input_tokens + output_tokens, r_cost_usd = cost\<rparr>\<rparr>;
                v' = v\<lparr>v_in_flight := AList.update request_id item (v_in_flight v)\<rparr>
            in Inr (Granted request_id item (b\<lparr>b_value := v'\<rparr>) [WState v']))
      else Inr (Wait delay))))))"

definition reserve_cost :: "settings \<Rightarrow> string \<Rightarrow> int \<Rightarrow> int \<Rightarrow> pyfloat result" where
  "reserve_cost s model input_tokens output_tokens =
     (case map_of (prices s) model of
        None \<Rightarrow> Inl (KeyError model)
      | Some pr \<Rightarrow> Inr (token_cost pr input_tokens output_tokens))"

definition sleep_time :: "int \<Rightarrow> int" where
  "sleep_time delay = min (delay + 50000) (usec 1)"

text \<open>
  The loop itself, with no other thread running: each round that has to wait sleeps, then
  tries again at the later time. The first argument bounds the rounds; \<open>None\<close> means that the
  bound was too small. Under contention the rounds of several requests interleave, see
  the step relation of theory \<open>Budget_System\<close>.
\<close>

fun reserve_loop ::
  "nat \<Rightarrow> settings \<Rightarrow> bstate \<Rightarrow> string \<Rightarrow> string \<Rightarrow> int \<Rightarrow> int \<Rightarrow> pyfloat \<Rightarrow> string \<times> string \<times> pyfloat
     \<Rightarrow> instant \<Rightarrow> string \<Rightarrow> attempt result option" where
  "reserve_loop 0 s b endpoint model i out cost sc now rid = None"
| "reserve_loop (Suc n) s b endpoint model i out cost sc now rid =
     (case reserve_attempt s b endpoint model i out cost sc now rid of
        Inr (Wait delay) \<Rightarrow> reserve_loop n s b endpoint model i out cost sc (now + sleep_time delay) rid
      | r \<Rightarrow> Some r)"

definition reserve ::
  "nat \<Rightarrow> settings \<Rightarrow> bstate \<Rightarrow> string \<Rightarrow> string \<Rightarrow> int \<Rightarrow> int \<Rightarrow> instant \<Rightarrow> string
     \<Rightarrow> attempt result option" where
  "reserve fuel s b endpoint model input_tokens output_tokens now rid =
     (case reserve_cost s model input_tokens output_tokens of
        Inl e \<Rightarrow> Some (Inl e)
      | Inr cost \<Rightarrow> reserve_loop fuel s b endpoint model input_tokens output_tokens cost
                     (scope_for s endpoint now) now rid)"

definition open_circuit :: "string \<Rightarrow> bool \<Rightarrow> string option \<Rightarrow> bstate \<Rightarrow> bstate \<times> file_write list" where
  "open_circuit reason keep_request request_id b =
     (let v = b_value b;
          v1 = (case request_id of
                  Some rid \<Rightarrow> if \<not> keep_request \<and> rid \<noteq> []
                    then v\<lparr>v_in_flight := AList.delete rid (v_in_flight v)\<rparr> else v
                | None \<Rightarrow> v);
          v2 = v1\<lparr>v_circuit_open := True, v_reason := Some reason\<rparr>
      in (b\<lparr>b_value := v2\<rparr>, [WState v2]))"

definition discard :: "string \<Rightarrow> bstate \<Rightarrow> bstate \<times> file_write list" where
  "discard request_id b =
     (let v = b_value b; v' = v\<lparr>v_in_flight := AList.delete request_id (v_in_flight v)\<rparr>
      in (b\<lparr>b_value := v'\<rparr>, [WState v']))"

definition reported_cost :: "json dict \<Rightarrow> pyfloat" where
  \<comment> \<open>\<open>float(usage.get("cost"))\<close>, zero where that raises \<open>TypeError\<close> or \<open>ValueError\<close>\<close>
  "reported_cost usage = (case float_of_json (jget usage ''cost'') of Inr c \<Rightarrow> c | Inl _ \<Rightarrow> 0)"

definition settled_tokens :: "reservation \<Rightarrow> json dict \<Rightarrow> (int \<times> int \<times> bool) result" where
  \<comment> \<open>input tokens, output tokens and whether either was taken from the reservation\<close>
  "settled_tokens r usage =
     (let reported_input = get_or usage ''prompt_tokens'' (jget usage ''input_tokens'');
          reported_output = get_or usage ''completion_tokens'' (jget usage ''output_tokens'');
          reported_total = jget usage ''total_tokens'' in
      bindR (if reported_input = JNull then Inr (r_input_tokens r) else int_of_json reported_input) (\<lambda>i.
      bindR (if reported_output = JNull then Inr (r_output_tokens r) else int_of_json reported_output) (\<lambda>out.
      bindR (if reported_total = JNull then Inr out
             else bindR (int_of_json reported_total) (\<lambda>t. Inr (max out (max 0 (t - i))))) (\<lambda>out'.
      Inr (i, out', reported_input = JNull \<or> reported_output = JNull)))))"

definition record_call ::
  "settings \<Rightarrow> bstate \<Rightarrow> string \<Rightarrow> json \<Rightarrow> instant \<Rightarrow> (call \<times> bstate \<times> file_write list) result" where
  "record_call s b request_id usage_value now =
     (case map_of (v_in_flight (b_value b)) request_id of
        None \<Rightarrow> Inl (GuardViolation ''in-flight reservation disappeared before recording'')
      | Some item \<Rightarrow>
         bindR (guard_that (is_obj usage_value) (AttributeError ''get'')) (\<lambda>_.
         let usage = members usage_value in
         bindR (settled_tokens (f_reservation item) usage) (\<lambda>(input_tokens, output_tokens, estimated).
         bindR (reserve_cost s (f_model item) input_tokens output_tokens) (\<lambda>calculated.
         let provider_reported = reported_cost usage;
             cost = pf_max calculated provider_reported;
             call = \<lparr>c_at = now, c_started_at = f_started_at item, c_request_id = request_id,
               c_endpoint = f_endpoint item, c_model = f_model item, c_scope = f_scope item,
               c_period = f_period item, c_input_tokens = input_tokens, c_output_tokens = output_tokens,
               c_cost_usd = cost,
               c_provider_reported = (if provider_reported = 0 then None else Some provider_reported),
               c_estimated_from_reservation = estimated, c_ambiguous_reconciled = False\<rparr>;
             l = b_ledger b; v = b_value b;
             l' = l\<lparr>l_calls := l_calls l @ [call], l_provider_spent_usd := l_provider_spent_usd l + cost\<rparr>;
             v' = v\<lparr>v_in_flight := AList.delete request_id (v_in_flight v)\<rparr>
         in Inr (call, \<lparr>b_ledger = l', b_value = v'\<rparr>, [WLedger l', WState v'])))))"

record health_report =
  h_status :: string
  h_circuit_open :: bool
  h_circuit_reason :: "string option"
  h_in_flight :: nat
  h_provider_spent_usd :: pyfloat
  h_provider_effective_limit_usd :: pyfloat
  h_hindsight_phase :: string
  h_provider_egress_enabled :: bool
  h_hindsight_backfill_spent_usd :: pyfloat
  h_hindsight_monthly_spent_usd :: pyfloat
  h_qwen_monthly_spent_usd :: pyfloat
  h_month_utc :: string
  h_hindsight_model :: string

definition health :: "settings \<Rightarrow> model_names \<Rightarrow> bstate \<Rightarrow> instant \<Rightarrow> health_report" where
  "health s mn b now =
     (let month = utc_month now; v = b_value b; l = b_ledger b in
      \<lparr>h_status = (if v_circuit_open v then ''circuit_open''
                   else if \<not> provider_egress_enabled s then ''maintenance'' else ''healthy''),
       h_circuit_open = v_circuit_open v,
       h_circuit_reason = v_reason v,
       h_in_flight = length (v_in_flight v),
       h_provider_spent_usd = l_provider_spent_usd l,
       h_provider_effective_limit_usd = effective_provider_limit s,
       h_hindsight_phase = hindsight_phase s,
       h_provider_egress_enabled = provider_egress_enabled s,
       h_hindsight_backfill_spent_usd = scope_spend l ''hindsight_backfill'' ''all'',
       h_hindsight_monthly_spent_usd = scope_spend l ''hindsight_monthly'' month,
       h_qwen_monthly_spent_usd = scope_spend l ''qwen_monthly'' month,
       h_month_utc = month,
       h_hindsight_model = HINDSIGHT_MODEL mn\<rparr>)"

section \<open>HTTP handlers\<close>

text \<open>
  A request as the handler reads it. \<open>q_body\<close> is what \<open>json.loads\<close> makes of the body,
  \<open>None\<close> where it raises. A handler answers with a status and a message, lets an exception
  escape (the connection is dropped without an answer), or goes on.
\<close>

record http_request =
  q_path :: string
  q_authorization :: string
  q_content_length :: "string option"
  q_body :: "json option"

datatype 'a outcome = Respond int string | Unhandled exc | Continue 'a

definition route_path :: "http_request \<Rightarrow> string" where
  "route_path q = rstrip_on (\<lambda>c. c = CHR ''/'') (q_path q)"

definition authorized :: "settings \<Rightarrow> http_request \<Rightarrow> bool result" where
  "authorized s q = compare_digest (''Bearer '' @ proxy_api_key s) (q_authorization q)"

text \<open>\<open>do_GET\<close>: the status and the message or report name; \<open>upstream\<close> is the status of the
  provider's process-health endpoint, \<open>None\<close> where the call raises.\<close>

definition do_GET :: "settings \<Rightarrow> http_request \<Rightarrow> int option \<Rightarrow> unit outcome" where
  "do_GET s q upstream =
     (if route_path q = ''/health'' then Respond 200 ''health''
      else if route_path q = ''/upstream-health'' then
        (case authorized s q of
           Inl e \<Rightarrow> Unhandled e
         | Inr False \<Rightarrow> Respond 401 ''invalid proxy key''
         | Inr True \<Rightarrow>
             if \<not> provider_egress_enabled s then Respond 503 ''maintenance''
             else (case upstream of
                 Some status \<Rightarrow> if status < 400 then Respond 200 ''healthy'' else Respond 502 ''unhealthy''
               | None \<Rightarrow> Respond 502 ''unreachable''))
      else if route_path q = ''/v1/models'' then
        (case authorized s q of
           Inl e \<Rightarrow> Unhandled e
         | Inr False \<Rightarrow> Respond 401 ''invalid proxy key''
         | Inr True \<Rightarrow> Respond 200 ''models'')
      else Respond 404 ''not found'')"

record admitted =
  a_endpoint :: string
  a_model :: string
  a_input_tokens :: int
  a_output_tokens :: int
  a_payload :: "json dict"

definition read_body :: "http_request \<Rightarrow> json result" where
  "read_body q =
     bindR (case py_int (case q_content_length q of Some t \<Rightarrow> t | None \<Rightarrow> ''0'') of
              Some n \<Rightarrow> Inr n | None \<Rightarrow> Inl (ValueError ''invalid literal for int() with base 10'')) (\<lambda>len.
     bindR (guard_that (0 < len \<and> len \<le> MAX_BODY_BYTES)
              (GuardViolation ''request body length is outside the proxy limit'')) (\<lambda>_.
     (case q_body q of Some v \<Rightarrow> Inr v | None \<Rightarrow> Inl (ValueError ''invalid JSON''))))"

definition on_guard_error :: "exc \<Rightarrow> 'a outcome" where
  \<comment> \<open>\<open>except (GuardViolation, ValueError, json.JSONDecodeError)\<close>\<close>
  "on_guard_error e = (case e of
      GuardViolation m \<Rightarrow> Respond 400 m
    | ValueError m \<Rightarrow> Respond 400 m
    | _ \<Rightarrow> Unhandled e)"

text \<open>\<open>do_POST\<close> up to the reservation: routing, authorisation, the body and its checks.\<close>

definition post_admit :: "model_names \<Rightarrow> (rat \<Rightarrow> string) \<Rightarrow> settings \<Rightarrow> http_request \<Rightarrow> admitted outcome" where
  "post_admit mn frepr s q =
     (let path = route_path q in
      if path \<noteq> ''/v1/chat/completions'' \<and> path \<noteq> ''/v1/embeddings'' then Respond 404 ''not found''
      else case authorized s q of
        Inl e \<Rightarrow> Unhandled e
      | Inr False \<Rightarrow> Respond 401 ''invalid proxy key''
      | Inr True \<Rightarrow>
         if \<not> provider_egress_enabled s then Respond 503 ''provider egress disabled''
         else
          (let chat = (path = ''/v1/chat/completions'') in
           case bindR (read_body q)
                  (if chat then prepare_chat_payload mn frepr else prepare_embedding_payload mn frepr) of
             Inl e \<Rightarrow> on_guard_error e
           | Inr (payload, input_tokens, output_tokens) \<Rightarrow>
              Continue \<lparr>
                a_endpoint = (if chat then ''chat'' else ''embeddings''),
                a_model = (if chat then HINDSIGHT_MODEL mn else QWEN_MODEL mn),
                a_input_tokens = input_tokens, a_output_tokens = output_tokens,
                a_payload = payload\<rparr>))"

text \<open>One round of the reservation inside \<open>do_POST\<close>, with its exception handlers.\<close>

datatype admission =
    Forward string flight
  | Retry int
  | Refused int string
  | Crashed exc

definition post_reserve ::
  "settings \<Rightarrow> bstate \<Rightarrow> admitted \<Rightarrow> string \<times> string \<times> pyfloat \<Rightarrow> instant \<Rightarrow> string
     \<Rightarrow> admission \<times> bstate \<times> file_write list" where
  "post_reserve s b a sc now rid =
     (case bindR (reserve_cost s (a_model a) (a_input_tokens a) (a_output_tokens a)) (\<lambda>cost.
             reserve_attempt s b (a_endpoint a) (a_model a) (a_input_tokens a) (a_output_tokens a) cost sc now rid) of
        Inr (Granted r item b' ws) \<Rightarrow> (Forward r item, b', ws)
      | Inr (Wait delay) \<Rightarrow> (Retry (sleep_time delay), b, [])
      | Inl (BudgetViolation m) \<Rightarrow> (case open_circuit m False None b of (b', ws) \<Rightarrow> (Refused 402 m, b', ws))
      | Inl (GuardViolation m) \<Rightarrow> (Refused 400 m, b, [])
      | Inl (ValueError m) \<Rightarrow> (Refused 400 m, b, [])
      | Inl e \<Rightarrow> (Crashed e, b, []))"

text \<open>What the provider's answer to the forwarded call is: an HTTP status and the body that
  \<open>response.json()\<close> gives (\<open>None\<close> where it raises), or the exception of \<open>httpx.post\<close>.\<close>

datatype upstream = Answer int "json option" | Failed string

definition usage_of :: "json option \<Rightarrow> json result" where
  \<comment> \<open>\<open>response.json()\<close>, then \<open>body.get("usage") or {}\<close>\<close>
  "usage_of body = (case body of
      None \<Rightarrow> Inl (ValueError ''invalid JSON'')
    | Some (JObj kvs) \<Rightarrow> Inr (or_else (jget kvs ''usage'') (JObj []))
    | Some _ \<Rightarrow> Inl (AttributeError ''get''))"

definition ambiguous :: "string \<Rightarrow> string \<Rightarrow> bstate \<Rightarrow> int \<times> bstate \<times> file_write list" where
  "ambiguous name rid b =
     (case open_circuit (''ambiguous upstream failure: '' @ name) True (Some rid) b of
        (b', ws) \<Rightarrow> (502, b', ws))"

text \<open>\<open>do_POST\<close> from the provider's answer on: the status that is sent back.\<close>

definition post_finish ::
  "settings \<Rightarrow> bstate \<Rightarrow> string \<Rightarrow> upstream \<Rightarrow> instant \<Rightarrow> int \<times> bstate \<times> file_write list" where
  "post_finish s b rid up now =
     (case up of
        Failed name \<Rightarrow> ambiguous name rid b
      | Answer status body \<Rightarrow>
          if status = 401 \<or> status = 402
          then (case open_circuit (''provider returned '' @ int_str status) False (Some rid) b of
                  (b', ws) \<Rightarrow> (status, b', ws))
          else if status < 400
          then (case bindR (usage_of body) (\<lambda>u. record_call s b rid u now) of
                  Inr (call, b', ws) \<Rightarrow> (status, b', ws)
                | Inl e \<Rightarrow> ambiguous (exc_name e) rid b)
          else (case discard rid b of (b', ws) \<Rightarrow> (status, b', ws)))"

end
