(* ===== verification/Budget_Operator.thy ===== *)
theory Budget_Operator
  imports Budget_Proxy
begin

text \<open>
  The operator's tools on the persisted files of the budget proxy:
  deploy/hindsight-budget-proxy/reset_provider_auth.py clears a circuit that a provider
  authentication failure opened, and reconcile_ambiguous.py charges every ambiguous reservation
  at its maximum. \<open>sha256\<close> is the digest of \<open>hashlib\<close>, an argument of the tool.
\<close>

section \<open>reset\_provider\_auth.py\<close>

definition RESETTABLE_REASONS :: "string set" where
  "RESETTABLE_REASONS = {''provider returned 401'', ''provider returned 402''}"

record reset_result =
  z_previous_reason :: string
  z_at :: instant

definition reset_provider_auth_circuit ::
  "(string \<Rightarrow> string) \<Rightarrow> circuit option \<Rightarrow> bool \<Rightarrow> string \<Rightarrow> instant
     \<Rightarrow> (reset_result \<times> file_write list) result" where
  "reset_provider_auth_circuit sha256 state_file acknowledgement reset_token now =
     bindR (guard_that acknowledgement
              (ValueError ''validated-provider-credential acknowledgement is required'')) (\<lambda>_.
     bindR (guard_that (reset_token \<noteq> [])
              (ValueError ''a non-empty one-shot reset token is required'')) (\<lambda>_.
     bindR (case state_file of Some v \<Rightarrow> Inr v | None \<Rightarrow> Inl (RuntimeError ''FileNotFoundError'')) (\<lambda>state.
     bindR (guard_that (v_circuit_open state) (ValueError ''proxy circuit is not open'')) (\<lambda>_.
     bindR (guard_that (v_in_flight state = [])
              (ValueError ''proxy has ambiguous in-flight reservations'')) (\<lambda>_.
     let reason = (case v_reason state of Some r \<Rightarrow> r | None \<Rightarrow> []) in
     bindR (guard_that (reason \<in> RESETTABLE_REASONS)
              (ValueError (''circuit reason is not a provider-auth failure: '' @ reason))) (\<lambda>_.
     let token_sha256 = sha256 reset_token in
     bindR (guard_that (token_sha256 \<notin> set (v_consumed_reset_tokens state))
              (ValueError ''one-shot reset token has already been consumed'')) (\<lambda>_.
     let state' = state\<lparr>v_circuit_open := False, v_reason := None,
           v_last_reset := Some \<lparr>n_at = now, n_previous_reason = reason,
             n_credential_validated = True, n_reset_token_sha256 = token_sha256\<rparr>,
           v_consumed_reset_tokens := v_consumed_reset_tokens state @ [token_sha256]\<rparr>
     in Inr (\<lparr>z_previous_reason = reason, z_at = now\<rparr>, [WState state']))))))))"

datatype tool_exit = Skipped string | Done | Raised exc

definition reset_main ::
  "(string \<Rightarrow> string) \<Rightarrow> disk \<Rightarrow> bool \<Rightarrow> bool \<Rightarrow> string \<Rightarrow> instant \<Rightarrow> tool_exit \<times> file_write list" where
  "reset_main sha256 d if_needed acknowledged token now =
     (if if_needed \<and> d_state d = None then (Skipped ''state file absent'', [])
      else if if_needed \<and> \<not> v_circuit_open (the (d_state d)) then (Skipped ''circuit already closed'', [])
      else case reset_provider_auth_circuit sha256 (d_state d) acknowledged token now of
        Inl e \<Rightarrow> (Raised e, [])
      | Inr (_, ws) \<Rightarrow> (Done, ws))"

section \<open>reconcile\_ambiguous.py\<close>

definition reconciled_call :: "instant \<Rightarrow> string \<times> flight \<Rightarrow> call" where
  "reconciled_call now kf = (case kf of (request_id, item) \<Rightarrow>
     \<lparr>c_at = now, c_started_at = f_started_at item, c_request_id = request_id,
      c_endpoint = f_endpoint item, c_model = f_model item, c_scope = f_scope item,
      c_period = f_period item,
      c_input_tokens = r_input_tokens (f_reservation item),
      c_output_tokens = r_output_tokens (f_reservation item),
      c_cost_usd = r_cost_usd (f_reservation item),
      c_provider_reported = None, c_estimated_from_reservation = True,
      c_ambiguous_reconciled = True\<rparr>)"

record reconcile_result =
  y_requests :: nat
  y_charged :: pyfloat
  y_provider_spent :: pyfloat

definition reconcile ::
  "disk \<Rightarrow> bool \<Rightarrow> instant \<Rightarrow> (reconcile_result \<times> file_write list) result" where
  "reconcile d acknowledgement now =
     bindR (guard_that acknowledgement (ValueError ''maximum-spend acknowledgement is required'')) (\<lambda>_.
     bindR (case d_ledger d of Some l \<Rightarrow> Inr l | None \<Rightarrow> Inl (RuntimeError ''FileNotFoundError'')) (\<lambda>l.
     bindR (case d_state d of Some v \<Rightarrow> Inr v | None \<Rightarrow> Inl (RuntimeError ''FileNotFoundError'')) (\<lambda>v.
     bindR (guard_that (v_in_flight v \<noteq> []) (ValueError ''proxy has no ambiguous reservations'')) (\<lambda>_.
     let items = sort_key fst (v_in_flight v);
         calls = map (reconciled_call now) items;
         charged = sum_list (map c_cost_usd calls);
         l' = l\<lparr>l_calls := l_calls l @ calls,
                l_provider_spent_usd := l_provider_spent_usd l + charged\<rparr>;
         v' = v\<lparr>v_in_flight := [], v_circuit_open := False, v_reason := None,
                v_last_reconciliation := Some \<lparr>m_at = now, m_requests = length items, m_charged = charged\<rparr>\<rparr>
     in Inr (\<lparr>y_requests = length items, y_charged = charged, y_provider_spent = l_provider_spent_usd l'\<rparr>,
             [WLedger l', WState v'])))))"

definition reconcile_main :: "disk \<Rightarrow> bool \<Rightarrow> bool \<Rightarrow> instant \<Rightarrow> tool_exit \<times> file_write list" where
  "reconcile_main d if_needed acknowledged now =
     (if if_needed \<and> d_state d = None then (Skipped ''state file absent'', [])
      else if if_needed \<and> v_in_flight (the (d_state d)) = [] then (Skipped ''no ambiguous reservation'', [])
      else case reconcile d acknowledged now of
        Inl e \<Rightarrow> (Raised e, [])
      | Inr (_, ws) \<Rightarrow> (Done, ws))"

end
