(* ===== verification/Budget_System.thy ===== *)
theory Budget_System
  imports Budget_Operator
begin

text \<open>
  The budget proxy as a system: request threads that interleave, a process that may stop or
  crash between any two file writes, the operator's tools on the files of a stopped process, and
  a provider that bills what it was sent. The files, the memory of the process and what the
  provider has billed are one state; \<open>sys_step\<close> has one rule per kind of event and
  \<open>sys_inv\<close> is the invariant of its reachable states. The theorems on the spending limits are
  in the root theory.
\<close>

section \<open>Spending per budget\<close>

text \<open>A budget: all traffic (\<open>None\<close>), or one scope in one period.\<close>

type_synonym budget = "(string \<times> string) option"

definition in_budget :: "budget \<Rightarrow> string \<Rightarrow> string \<Rightarrow> bool" where
  "in_budget bud scope period = (case bud of None \<Rightarrow> True | Some sp \<Rightarrow> (scope, period) = sp)"

definition spend_of :: "budget \<Rightarrow> ledger \<Rightarrow> pyfloat" where
  "spend_of bud l = sum_list (map (\<lambda>c. if in_budget bud (c_scope c) (c_period c) then c_cost_usd c else 0) (l_calls l))"

definition flight_cost :: "budget \<Rightarrow> flight \<Rightarrow> pyfloat" where
  "flight_cost bud f = (if in_budget bud (f_scope f) (f_period f) then r_cost_usd (f_reservation f) else 0)"

definition pend_of :: "budget \<Rightarrow> circuit option \<Rightarrow> pyfloat" where
  "pend_of bud vo = (case vo of None \<Rightarrow> 0 | Some v \<Rightarrow> dict_sum (flight_cost bud) (v_in_flight v))"

text \<open>What the provider may still charge for a call, or has charged, with its scope and period.\<close>

type_synonym charge = "string \<times> string \<times> rat"

definition charge_in :: "budget \<Rightarrow> charge \<Rightarrow> rat" where
  "charge_in bud ch = (case ch of (scope, period, x) \<Rightarrow> if in_budget bud scope period then x else 0)"

record bills =
  g_open :: "(string \<times> charge) list"
  g_billed :: "charge list"

definition exposure :: "budget \<Rightarrow> bills \<Rightarrow> rat" where
  "exposure bud g = sum_list (map (charge_in bud) (g_billed g)) + dict_sum (charge_in bud) (g_open g)"

definition limit_of :: "budget \<Rightarrow> ledger \<Rightarrow> rat" where
  "limit_of bud l = (case bud of
      None \<Rightarrow> fin_val (fp_provider_total (l_guard l)) - fin_val (fp_safety_margin (l_guard l))
                - fin_val (l_initial_provider_spend_usd l)
    | Some (scope, _) \<Rightarrow>
        if scope = ''qwen_monthly'' then fin_val (fp_qwen (l_guard l))
        else if scope = ''hindsight_backfill'' then fin_val (fp_backfill (l_guard l))
        else fin_val (fp_monthly (l_guard l)))"

definition scope_names :: "string set" where
  "scope_names = {''qwen_monthly'', ''hindsight_backfill'', ''hindsight_monthly''}"

section \<open>The system\<close>

definition settings_ok :: "settings \<Rightarrow> bool" where
  \<comment> \<open>the limits and prices are finite numbers, the prices and the initial spend not negative\<close>
  "settings_ok s = (is_fin (provider_total_limit_usd s) \<and> is_fin (provider_safety_margin_usd s)
     \<and> is_fin (hindsight_backfill_limit_usd s) \<and> is_fin (hindsight_monthly_limit_usd s)
     \<and> is_fin (qwen_monthly_limit_usd s)
     \<and> is_fin (initial_provider_spend_usd s) \<and> 0 \<le> fin_val (initial_provider_spend_usd s)
     \<and> list_all (\<lambda>(m, a, b). is_fin a \<and> is_fin b \<and> 0 \<le> fin_val a \<and> 0 \<le> fin_val b) (prices s))"

record sys =
  s_disk :: disk
  s_proc :: "(settings \<times> bstate) option"
  s_threads :: "string list"
  s_bills :: bills

definition sys_init :: "sys \<Rightarrow> bool" where
  "sys_init x = (x = \<lparr>s_disk = \<lparr>d_ledger = None, d_state = None\<rparr>, s_proc = None, s_threads = [],
     s_bills = \<lparr>g_open = [], g_billed = []\<rparr>\<rparr>)"

definition opened :: "string \<Rightarrow> flight \<Rightarrow> bills \<Rightarrow> bills" where
  "opened rid f g = g\<lparr>g_open :=
     (rid, f_scope f, f_period f, fin_val (r_cost_usd (f_reservation f))) # g_open g\<rparr>"

definition charged :: "string \<Rightarrow> charge \<Rightarrow> bills \<Rightarrow> bills" where
  "charged rid ch g = g\<lparr>g_open := AList.delete rid (g_open g), g_billed := ch # g_billed g\<rparr>"

text \<open>
  One locked operation of a request thread of the running process: the new memory, the files it
  rewrites, the threads that still wait for the provider afterwards, and the billing state if the
  operation completes and if the process dies while it writes. A call is sent to the provider
  after its reservation is written. The provider bills a call that it answers with an error
  nothing, one that it answers with a usage report at most what the report accounts for and at
  most the reserved maximum, and one whose answer is lost anything up to the reserved maximum.
\<close>

inductive thread_op ::
  "settings \<Rightarrow> bstate \<Rightarrow> string list \<Rightarrow> bills \<Rightarrow> bstate \<Rightarrow> file_write list \<Rightarrow> string list
     \<Rightarrow> bills \<Rightarrow> bills \<Rightarrow> bool" where
  forward:
    "\<lbrakk>post_admit mn frepr s q = Continue a;
      post_reserve s b a (scope_for s (a_endpoint a) started) now rid = (Forward rid item, b', ws);
      rid \<noteq> []; map_of (v_in_flight (b_value b)) rid = None; map_of (g_open g) rid = None\<rbrakk>
     \<Longrightarrow> thread_op s b ths g b' ws (rid # ths) (opened rid item g) g"
| no_forward:
    "\<lbrakk>post_admit mn frepr s q = Continue a;
      post_reserve s b a (scope_for s (a_endpoint a) started) now rid = (adm, b', ws);
      \<forall>r item. adm \<noteq> Forward r item\<rbrakk>
     \<Longrightarrow> thread_op s b ths g b' ws ths g g"
| recorded:
    "\<lbrakk>rid \<in> set ths; map_of (g_open g) rid = Some (scope, period, bound);
      0 \<le> x; x \<le> bound; status < 400;
      usage_of body = Inr u; record_call s b rid u now = Inr (call, b1, ws1);
      pf_le (Fin x) (c_cost_usd call);
      post_finish s b rid (Answer status body) now = (st, b', ws)\<rbrakk>
     \<Longrightarrow> thread_op s b ths g b' ws (removeAll rid ths)
           (charged rid (scope, period, x) g) (charged rid (scope, period, x) g)"
| rejected:
    "\<lbrakk>rid \<in> set ths; map_of (g_open g) rid = Some (scope, period, bound); 400 \<le> status;
      post_finish s b rid (Answer status body) now = (st, b', ws)\<rbrakk>
     \<Longrightarrow> thread_op s b ths g b' ws (removeAll rid ths)
           (charged rid (scope, period, 0) g) (charged rid (scope, period, 0) g)"
| ambiguous_end:
    "\<lbrakk>rid \<in> set ths;
      (\<exists>name. up = Failed name) \<or> (\<exists>status body e. up = Answer status body \<and> status < 400
         \<and> bindR (usage_of body) (\<lambda>u. record_call s b rid u now) = Inl e);
      post_finish s b rid up now = (st, b', ws)\<rbrakk>
     \<Longrightarrow> thread_op s b ths g b' ws (removeAll rid ths) g g"

inductive sys_step :: "(string \<Rightarrow> string) \<Rightarrow> sys \<Rightarrow> sys \<Rightarrow> bool" for sha256 where
  boot:
    "\<lbrakk>s_proc x = None; settings_ok s; budget_state_init s (s_disk x) = (Inr b, ws)\<rbrakk>
     \<Longrightarrow> sys_step sha256 x (x\<lparr>s_proc := Some (s, b), s_disk := write_files ws (s_disk x)\<rparr>)"
| boot_stopped:
    "\<lbrakk>s_proc x = None; settings_ok s; budget_state_init s (s_disk x) = (r, ws)\<rbrakk>
     \<Longrightarrow> sys_step sha256 x (x\<lparr>s_disk := write_files (take n ws) (s_disk x)\<rparr>)"
| operation:
    "\<lbrakk>s_proc x = Some (s, b); thread_op s b (s_threads x) (s_bills x) b' ws ths' g' gc\<rbrakk>
     \<Longrightarrow> sys_step sha256 x (x\<lparr>s_proc := Some (s, b'), s_disk := write_files ws (s_disk x),
           s_threads := ths', s_bills := g'\<rparr>)"
| operation_crash:
    "\<lbrakk>s_proc x = Some (s, b); thread_op s b (s_threads x) (s_bills x) b' ws ths' g' gc\<rbrakk>
     \<Longrightarrow> sys_step sha256 x (x\<lparr>s_proc := None, s_disk := write_files (take n ws) (s_disk x),
           s_threads := [], s_bills := gc\<rparr>)"
| stop:
    "sys_step sha256 x (x\<lparr>s_proc := None, s_threads := []\<rparr>)"
| reconcile_run:
    "\<lbrakk>s_proc x = None; reconcile_main (s_disk x) if_needed ack now = (ex, ws)\<rbrakk>
     \<Longrightarrow> sys_step sha256 x (x\<lparr>s_disk := write_files (take n ws) (s_disk x)\<rparr>)"
| reset_run:
    "\<lbrakk>s_proc x = None; reset_main sha256 (s_disk x) if_needed ack token now = (ex, ws)\<rbrakk>
     \<Longrightarrow> sys_step sha256 x (x\<lparr>s_disk := write_files (take n ws) (s_disk x)\<rparr>)"
| late_bill:
    "\<lbrakk>rid \<notin> set (s_threads x); map_of (g_open (s_bills x)) rid = Some (scope, period, bound);
      0 \<le> amount; amount \<le> bound\<rbrakk>
     \<Longrightarrow> sys_step sha256 x (x\<lparr>s_bills := charged rid (scope, period, amount) (s_bills x)\<rparr>)"

section \<open>The invariant\<close>

definition pf_nn :: "pyfloat \<Rightarrow> bool" where
  "pf_nn y = pf_le 0 y"

definition ledger_ok :: "ledger \<Rightarrow> bool" where
  "ledger_ok l = (is_fin (l_initial_provider_spend_usd l) \<and> 0 \<le> fin_val (l_initial_provider_spend_usd l)
     \<and> l_provider_spent_usd l = l_initial_provider_spend_usd l + spend_of None l
     \<and> (\<forall>c \<in> set (l_calls l). pf_nn (c_cost_usd c)))"

definition circuit_ok :: "circuit \<Rightarrow> bool" where
  "circuit_ok v = (dict_ok (v_in_flight v)
     \<and> (\<forall>f \<in> snd ` set (v_in_flight v). is_fin (r_cost_usd (f_reservation f))
          \<and> 0 \<le> fin_val (r_cost_usd (f_reservation f))))"

definition bills_ok :: "bills \<Rightarrow> bool" where
  "bills_ok g = (dict_ok (g_open g) \<and> (\<forall>(rid, _, _, x) \<in> set (g_open g). 0 \<le> x)
     \<and> (\<forall>(_, _, x) \<in> set (g_billed g). 0 \<le> x))"

definition covered :: "ledger \<Rightarrow> circuit option \<Rightarrow> bills \<Rightarrow> bool" where
  \<comment> \<open>the books are never below what the provider has charged or may still charge\<close>
  "covered l vo g = (\<forall>bud. pf_le (Fin (exposure bud g)) (spend_of bud l + pend_of bud vo))"

definition within_limits :: "ledger \<Rightarrow> bills \<Rightarrow> bool" where
  "within_limits l g = (exposure None g \<le> max 0 (limit_of None l)
     \<and> (\<forall>scope \<in> scope_names. \<forall>period. exposure (Some (scope, period)) g \<le> max 0 (limit_of (Some (scope, period)) l)))"

definition books_ok :: "ledger \<Rightarrow> circuit option \<Rightarrow> bills \<Rightarrow> bool" where
  "books_ok l vo g = (ledger_ok l \<and> (\<forall>v. vo = Some v \<longrightarrow> circuit_ok v) \<and> bills_ok g
     \<and> covered l vo g \<and> within_limits l g)"

definition no_bills :: "bills \<Rightarrow> bool" where
  "no_bills g = (g_open g = [] \<and> g_billed g = [])"

definition files_ok :: "disk \<Rightarrow> bills \<Rightarrow> bool" where
  "files_ok d g = (case d_ledger d of
      None \<Rightarrow> d_state d = None \<and> no_bills g
    | Some l \<Rightarrow> books_ok l (d_state d) g)"

definition thread_ok :: "circuit \<Rightarrow> bills \<Rightarrow> string \<Rightarrow> bool" where
  \<comment> \<open>a waiting thread has its reservation, and the provider's charge is bounded by it\<close>
  "thread_ok v g rid = (rid \<noteq> [] \<and> (\<exists>f. map_of (v_in_flight v) rid = Some f
     \<and> map_of (g_open g) rid = Some (f_scope f, f_period f, fin_val (r_cost_usd (f_reservation f)))))"

definition proc_ok :: "settings \<Rightarrow> bstate \<Rightarrow> sys \<Rightarrow> bool" where
  "proc_ok s b x = (settings_ok s \<and> l_guard (b_ledger b) = guard_fingerprint s
     \<and> s_disk x = \<lparr>d_ledger = Some (b_ledger b), d_state = Some (b_value b)\<rparr>
     \<and> (\<forall>rid \<in> set (s_threads x). thread_ok (b_value b) (s_bills x) rid))"

definition sys_inv :: "sys \<Rightarrow> bool" where
  "sys_inv x = (files_ok (s_disk x) (s_bills x)
     \<and> (case s_proc x of None \<Rightarrow> s_threads x = [] | Some (s, b) \<Rightarrow> proc_ok s b x))"

section \<open>Arithmetic of the books\<close>

lemma pf_nn_cases: "pf_nn y \<longleftrightarrow> y = PInf \<or> (\<exists>a. 0 \<le> a \<and> y = Fin a)"
  by (cases y) (auto simp: pf_nn_def zero_Fin)

lemma pf_nn_0 [simp]: "pf_nn 0"
  by (simp add: pf_nn_def zero_Fin)

lemma pf_le_0 [simp]: "pf_le (Fin 0) 0"
  by (simp add: zero_Fin)

lemma pf_nn_plus [intro]: "pf_nn y \<Longrightarrow> pf_nn z \<Longrightarrow> pf_nn (y + z)"
  by (auto simp: pf_nn_cases plus_pyfloat_def)

lemma pf_nn_sum_list: "\<forall>y \<in> set ys. pf_nn y \<Longrightarrow> pf_nn (sum_list ys)"
  by (induction ys) auto

lemma pf_le_Fin_cases: "pf_le (Fin a) y \<longleftrightarrow> y = PInf \<or> (\<exists>b. a \<le> b \<and> y = Fin b)"
  by (cases y) auto

lemma pf_le_add_nn: "pf_le (Fin a) y \<Longrightarrow> pf_nn z \<Longrightarrow> pf_le (Fin a) (y + z)"
  by (auto simp: pf_le_Fin_cases pf_nn_cases plus_pyfloat_def)

lemma pf_le_add: "pf_le (Fin a) y \<Longrightarrow> pf_le (Fin b) z \<Longrightarrow> pf_le (Fin (a + b)) (y + z)"
  by (auto simp: pf_le_Fin_cases plus_pyfloat_def)

lemma pf_le_mono: "pf_le (Fin a) y \<Longrightarrow> b \<le> a \<Longrightarrow> pf_le (Fin b) y"
  by (auto simp: pf_le_Fin_cases)

lemma pf_le_cancel: "pf_le (Fin a) (y + Fin r) \<Longrightarrow> pf_le (Fin (a - r)) y"
  by (cases y) (auto simp: plus_pyfloat_def)

lemma not_over_limit:
  "\<not> pf_lt (Fin m) (y + Fin r) \<Longrightarrow> pf_le (Fin a) y \<Longrightarrow> a + r \<le> m"
  by (auto simp: pf_le_Fin_cases plus_pyfloat_def)

lemma scope_spend_eq: "scope_spend l scope period = spend_of (Some (scope, period)) l"
  by (simp add: scope_spend_def spend_of_def in_budget_def sum_list_map_filter' cong: if_cong)

lemma pending_cost_eq:
  "pending_cost v None None = pend_of None (Some v)"
  "pending_cost v (Some scope) (Some period) = pend_of (Some (scope, period)) (Some v)"
  by (simp_all add: pending_cost_def pend_of_def dict_sum_def flight_cost_def in_budget_def
      sum_list_map_filter' comp_def cong: if_cong)

lemma flight_cost_nn:
  "is_fin (r_cost_usd (f_reservation f)) \<Longrightarrow> 0 \<le> fin_val (r_cost_usd (f_reservation f)) \<Longrightarrow> pf_nn (flight_cost bud f)"
  by (cases "r_cost_usd (f_reservation f)") (auto simp: flight_cost_def pf_nn_def zero_Fin)

lemma spend_of_nn: "ledger_ok l \<Longrightarrow> pf_nn (spend_of bud l)"
  by (auto simp: ledger_ok_def spend_of_def intro!: pf_nn_sum_list)

lemma pend_of_nn: "(\<And>v. vo = Some v \<Longrightarrow> circuit_ok v) \<Longrightarrow> pf_nn (pend_of bud vo)"
  by (cases vo)
    (auto simp: pend_of_def dict_sum_def circuit_ok_def intro!: pf_nn_sum_list flight_cost_nn)

lemma circuit_ok_flight:
  "circuit_ok v \<Longrightarrow> map_of (v_in_flight v) rid = Some f \<Longrightarrow>
   is_fin (r_cost_usd (f_reservation f)) \<and> 0 \<le> fin_val (r_cost_usd (f_reservation f))"
  by (force simp: circuit_ok_def dest: map_of_SomeD)

section \<open>Every operation keeps the books\<close>

lemma exposure_opened:
  "exposure bud (opened rid f g) =
   exposure bud g + charge_in bud (f_scope f, f_period f, fin_val (r_cost_usd (f_reservation f)))"
  by (simp add: exposure_def opened_def)

lemma exposure_charged:
  assumes "bills_ok g" and "map_of (g_open g) rid = Some (scope, period, bound)"
  shows "exposure bud (charged rid (scope, period, x) g) =
    exposure bud g - charge_in bud (scope, period, bound) + charge_in bud (scope, period, x)"
  using alist.total_del [of "g_open g" rid "(scope, period, bound)" "charge_in bud"] assms
  by (simp add: exposure_def charged_def bills_ok_def)

lemma charge_in_mono: "x \<le> y \<Longrightarrow> charge_in bud (scope, period, x) \<le> charge_in bud (scope, period, y)"
  by (simp add: charge_in_def)

lemma charge_in_cost:
  "is_fin (r_cost_usd (f_reservation f)) \<Longrightarrow>
   flight_cost bud f = Fin (charge_in bud (f_scope f, f_period f, fin_val (r_cost_usd (f_reservation f))))"
  by (auto simp: flight_cost_def charge_in_def zero_Fin elim!: is_finE)

lemma bills_ok_opened:
  assumes "bills_ok g" "map_of (g_open g) rid = None" "0 \<le> fin_val (r_cost_usd (f_reservation f))"
  shows "bills_ok (opened rid f g)"
  using assms by (auto simp: bills_ok_def opened_def dict_ok_def map_of_eq_None_iff)

lemma bills_ok_charged:
  assumes "bills_ok g" "0 \<le> x"
  shows "bills_ok (charged rid (scope, period, x) g)"
proof -
  have "set (AList.delete rid (g_open g)) \<subseteq> set (g_open g)"
    by (auto simp: AList.delete_eq)
  with assms show ?thesis
    by (auto simp: bills_ok_def charged_def)
qed

lemma exposure_charged_le:
  assumes "bills_ok g" "map_of (g_open g) rid = Some (scope, period, bound)" "x \<le> bound"
  shows "exposure bud (charged rid (scope, period, x) g) \<le> exposure bud g"
  using exposure_charged [OF assms(1,2), of bud x] charge_in_mono [OF assms(3), of bud scope period]
  by simp

lemma books_charged:
  assumes "books_ok l vo g" "map_of (g_open g) rid = Some (scope, period, bound)" "0 \<le> x" "x \<le> bound"
  shows "books_ok l vo (charged rid (scope, period, x) g)"
proof -
  let ?g = "charged rid (scope, period, x) g"
  have g: "bills_ok g" and le: "\<And>bud. exposure bud ?g \<le> exposure bud g"
    using assms exposure_charged_le by (auto simp: books_ok_def)
  show ?thesis
    using assms(1,3) le bills_ok_charged [OF g]
    unfolding books_ok_def covered_def within_limits_def
    by (meson order_trans pf_le_mono)
qed

text \<open>The pieces of an operation on the books: a new reservation, a released one, a new call.\<close>

abbreviation add_flight :: "string \<Rightarrow> flight \<Rightarrow> circuit \<Rightarrow> circuit" where
  "add_flight rid f v \<equiv> v\<lparr>v_in_flight := AList.update rid f (v_in_flight v)\<rparr>"

abbreviation drop_flight :: "string \<Rightarrow> circuit \<Rightarrow> circuit" where
  "drop_flight rid v \<equiv> v\<lparr>v_in_flight := AList.delete rid (v_in_flight v)\<rparr>"

abbreviation add_calls :: "call list \<Rightarrow> ledger \<Rightarrow> ledger" where
  "add_calls cs l \<equiv> l\<lparr>l_calls := l_calls l @ cs,
     l_provider_spent_usd := l_provider_spent_usd l + sum_list (map c_cost_usd cs)\<rparr>"

lemma pend_of_add_flight:
  "map_of (v_in_flight v) rid = None \<Longrightarrow>
   pend_of bud (Some (add_flight rid f v)) = pend_of bud (Some v) + flight_cost bud f"
  by (simp add: pend_of_def alist.total_fresh)

lemma pend_of_drop_flight:
  "circuit_ok v \<Longrightarrow> map_of (v_in_flight v) rid = Some f \<Longrightarrow>
   pend_of bud (Some v) = pend_of bud (Some (drop_flight rid v)) + flight_cost bud f"
  using alist.total_del [of "v_in_flight v" rid f "flight_cost bud"]
  by (simp add: pend_of_def circuit_ok_def)

lemma circuit_ok_add_flight:
  "circuit_ok v \<Longrightarrow> is_fin (r_cost_usd (f_reservation f)) \<Longrightarrow> 0 \<le> fin_val (r_cost_usd (f_reservation f)) \<Longrightarrow>
   circuit_ok (add_flight rid f v)"
  using set_update_subset [of rid f "v_in_flight v"] by (fastforce simp: circuit_ok_def)

lemma circuit_ok_drop_flight: "circuit_ok v \<Longrightarrow> circuit_ok (drop_flight rid v)"
  by (auto simp: circuit_ok_def AList.delete_eq dict_ok_def distinct_map_filter)

lemma spend_of_add_calls:
  "spend_of bud (add_calls cs l) = spend_of bud l
     + sum_list (map (\<lambda>c. if in_budget bud (c_scope c) (c_period c) then c_cost_usd c else 0) cs)"
  by (simp add: spend_of_def)

lemma ledger_ok_add_calls:
  "ledger_ok l \<Longrightarrow> \<forall>c \<in> set cs. pf_nn (c_cost_usd c) \<Longrightarrow> ledger_ok (add_calls cs l)"
  by (auto simp: ledger_ok_def spend_of_def in_budget_def add.assoc)

lemma limit_of_calls [simp]: "limit_of bud (l\<lparr>l_calls := cs, l_provider_spent_usd := z\<rparr>) = limit_of bud l"
  by (simp add: limit_of_def split: option.splits)

lemma within_limits_calls [simp]:
  "within_limits (l\<lparr>l_calls := cs, l_provider_spent_usd := z\<rparr>) g = within_limits l g"
  by (simp add: within_limits_def)

lemma covered_add_flight:
  assumes "covered l (Some v) g" "map_of (v_in_flight v) rid = None"
    and "is_fin (r_cost_usd (f_reservation f))" "0 \<le> fin_val (r_cost_usd (f_reservation f))"
  shows "covered l (Some (add_flight rid f v)) (opened rid f g)"
    and "covered l (Some (add_flight rid f v)) g"
proof -
  have cov: "pf_le (Fin (exposure bud g)) (spend_of bud l + pend_of bud (Some v))" for bud
    using assms(1) by (simp add: covered_def)
  have flight: "pf_le (Fin (charge_in bud (f_scope f, f_period f, fin_val (r_cost_usd (f_reservation f)))))
      (flight_cost bud f)" for bud
    using charge_in_cost [OF assms(3)] by simp
  show "covered l (Some (add_flight rid f v)) (opened rid f g)"
    using pf_le_add [OF cov flight]
    by (simp add: covered_def exposure_opened pend_of_add_flight [OF assms(2)] add.assoc)
  show "covered l (Some (add_flight rid f v)) g"
    using pf_le_add_nn [OF cov flight_cost_nn [OF assms(3,4)]]
    by (simp add: covered_def pend_of_add_flight [OF assms(2)] add.assoc)
qed

lemma books_forward:
  assumes books: "books_ok l (Some v) g"
    and fresh: "map_of (v_in_flight v) rid = None" "map_of (g_open g) rid = None"
    and cost: "r_cost_usd (f_reservation f) = Fin r" "0 \<le> r"
    and total: "exposure None g + r \<le> limit_of None l"
    and scope: "exposure (Some (f_scope f, f_period f)) g + r \<le> limit_of (Some (f_scope f, f_period f)) l"
  shows "books_ok l (Some (add_flight rid f v)) (opened rid f g)"
    and "books_ok l (Some (add_flight rid f v)) g"
proof -
  have fin: "is_fin (r_cost_usd (f_reservation f))" "0 \<le> fin_val (r_cost_usd (f_reservation f))"
    using cost by simp_all
  have v: "circuit_ok (add_flight rid f v)"
    using books fin by (simp add: books_ok_def circuit_ok_add_flight)
  have cov: "covered l (Some v) g"
    using books by (simp add: books_ok_def)
  have lim: "within_limits l (opened rid f g)"
    using books total scope cost
    by (auto simp: books_ok_def within_limits_def exposure_opened charge_in_def in_budget_def)
  show "books_ok l (Some (add_flight rid f v)) (opened rid f g)"
    using books v lim covered_add_flight(1) [OF cov fresh(1) fin] bills_ok_opened [OF _ fresh(2) fin(2)]
    by (simp add: books_ok_def)
  show "books_ok l (Some (add_flight rid f v)) g"
    using books v covered_add_flight(2) [OF cov fresh(1) fin] by (simp add: books_ok_def)
qed

lemma books_new_call:
  assumes "books_ok l vo g" "\<forall>c \<in> set cs. pf_nn (c_cost_usd c)"
  shows "books_ok (add_calls cs l) vo g"
proof -
  have "pf_nn (sum_list (map (\<lambda>c. if in_budget bud (c_scope c) (c_period c) then c_cost_usd c else 0) cs))" for bud
    using assms(2) by (auto intro!: pf_nn_sum_list)
  then have "covered (add_calls cs l) vo g"
    using assms(1) pf_le_add_nn by (fastforce simp: books_ok_def covered_def spend_of_add_calls ac_simps)
  then show ?thesis
    using assms ledger_ok_add_calls [of l cs] by (simp add: books_ok_def)
qed

lemma books_release:
  assumes books: "books_ok l (Some v) g" and f: "map_of (v_in_flight v) rid = Some f"
    and g: "map_of (g_open g) rid = Some (f_scope f, f_period f, fin_val (r_cost_usd (f_reservation f)))"
    and x: "0 \<le> x" "x \<le> fin_val (r_cost_usd (f_reservation f))"
    and cs: "\<forall>c \<in> set cs. pf_nn (c_cost_usd c) \<and> c_scope c = f_scope f \<and> c_period c = f_period f"
    and paid: "pf_le (Fin x) (sum_list (map c_cost_usd cs))"
  shows "books_ok (add_calls cs l) (Some (drop_flight rid v)) (charged rid (f_scope f, f_period f, x) g)"
proof -
  let ?r = "fin_val (r_cost_usd (f_reservation f))" and ?g = "charged rid (f_scope f, f_period f, x) g"
  let ?paid = "\<lambda>bud. sum_list (map (\<lambda>c. if in_budget bud (c_scope c) (c_period c) then c_cost_usd c else 0) cs)"
  have v: "circuit_ok v" and bg: "bills_ok g"
    and cov: "\<And>bud. pf_le (Fin (exposure bud g)) (spend_of bud l + pend_of bud (Some v))"
    using books by (auto simp: books_ok_def covered_def)
  have fc: "flight_cost bud f = Fin (charge_in bud (f_scope f, f_period f, ?r))" for bud
    using circuit_ok_flight [OF v f] charge_in_cost by blast
  have paid': "pf_le (Fin (charge_in bud (f_scope f, f_period f, x))) (?paid bud)" for bud
  proof (cases "in_budget bud (f_scope f) (f_period f)")
    case True
    with cs have "?paid bud = sum_list (map c_cost_usd cs)"
      by (intro arg_cong [where f = sum_list]) auto
    with True paid show ?thesis by (simp add: charge_in_def)
  next
    case False
    with cs have "?paid bud = sum_list (map (\<lambda>_. 0) cs)"
      by (intro arg_cong [where f = sum_list]) auto
    with False show ?thesis by (simp add: charge_in_def zero_Fin [symmetric]) (simp add: zero_Fin)
  qed
  have "pf_le (Fin (exposure bud ?g)) (spend_of bud (add_calls cs l) + pend_of bud (Some (drop_flight rid v)))" for bud
  proof -
    have "pf_le (Fin (exposure bud g)) ((spend_of bud l + pend_of bud (Some (drop_flight rid v))) + flight_cost bud f)"
      using cov [of bud] by (simp only: pend_of_drop_flight [OF v f, of bud] add.assoc)
    then have "pf_le (Fin (exposure bud g - charge_in bud (f_scope f, f_period f, ?r)))
        (spend_of bud l + pend_of bud (Some (drop_flight rid v)))"
      unfolding fc by (rule pf_le_cancel)
    from pf_le_add [OF this paid'] show ?thesis
      by (simp add: exposure_charged [OF bg g] spend_of_add_calls ac_simps)
  qed
  moreover have "books_ok (add_calls cs l) (Some v) ?g"
    using books_new_call [OF books_charged [OF books g x]] cs by blast
  ultimately show ?thesis
    using circuit_ok_drop_flight [OF v] by (simp add: books_ok_def covered_def)
qed

lemma books_reconcile:
  assumes books: "books_ok l (Some v) g" and v': "v_in_flight v' = []"
  shows "books_ok (add_calls (map (reconciled_call now) (sort_key fst (v_in_flight v))) l) (Some v') g"
proof -
  let ?cs = "map (reconciled_call now) (sort_key fst (v_in_flight v))"
  have call: "(\<lambda>c. if in_budget bud (c_scope c) (c_period c) then c_cost_usd c else 0) \<circ> reconciled_call now
      = (\<lambda>kv. flight_cost bud (snd kv))" for bud
    by (auto simp: reconciled_call_def flight_cost_def fun_eq_iff)
  have "spend_of bud (add_calls ?cs l) = spend_of bud l + pend_of bud (Some v)" for bud
    using dict_sum_sort_key [of "flight_cost bud" fst "v_in_flight v"]
    by (simp add: spend_of_def call pend_of_def dict_sum_def)
  moreover have "pend_of bud (Some v') = 0" for bud
    by (simp add: pend_of_def v')
  moreover have "ledger_ok (add_calls ?cs l)"
    using books flight_cost_nn [where bud = None] ledger_ok_add_calls [of l ?cs]
    by (fastforce simp: books_ok_def circuit_ok_def reconciled_call_def flight_cost_def in_budget_def)
  ultimately show ?thesis
    using books by (simp add: books_ok_def covered_def circuit_ok_def v')
qed

lemma books_ok_circuit_cong:
  "v_in_flight v' = v_in_flight v \<Longrightarrow> books_ok l (Some v') g = books_ok l (Some v) g"
  by (simp add: books_ok_def covered_def pend_of_def circuit_ok_def)

section \<open>What the operations of a request thread do\<close>

lemma prepare_tokens:
  "prepare_chat_payload mn frepr v = Inr (p, i, out) \<Longrightarrow> 1 \<le> i \<and> 1 \<le> out \<and> out \<le> 8192"
  "prepare_embedding_payload mn frepr v = Inr (p, i, out) \<Longrightarrow> 1 \<le> i \<and> out = 0"
  by (auto simp: prepare_chat_payload_def prepare_embedding_payload_def Let_def MAX_COMPLETION_TOKENS_def)

lemma post_admit_tokens:
  "post_admit mn frepr s q = Continue a \<Longrightarrow> 1 \<le> a_input_tokens a \<and> 0 \<le> a_output_tokens a"
  by (auto simp: post_admit_def Let_def on_guard_error_def dest!: prepare_tokens
      split: if_splits sum.splits bool.splits exc.splits)

lemma reserve_cost_nn:
  assumes "settings_ok s" "reserve_cost s m i j = Inr c" "0 \<le> i" "0 \<le> j"
  shows "\<exists>r. c = Fin r \<and> 0 \<le> r"
proof -
  obtain pr where pr: "map_of (prices s) m = Some pr" and c: "c = token_cost pr i j"
    using assms(2) by (auto simp: reserve_cost_def split: option.splits)
  have "is_fin (fst pr) \<and> is_fin (snd pr) \<and> 0 \<le> fin_val (fst pr) \<and> 0 \<le> fin_val (snd pr)"
    using assms(1) map_of_SomeD [OF pr] by (cases pr) (auto simp: settings_ok_def list_all_iff)
  then have "c = Fin ((of_int i * fin_val (fst pr) + of_int j * fin_val (snd pr)) / 1000000)"
    and "0 \<le> (of_int i * fin_val (fst pr) + of_int j * fin_val (snd pr)) / 1000000"
    using assms(3,4) by (simp_all add: c token_cost_fin)
  then show ?thesis by blast
qed

lemma reserve_attempt_GrantedD:
  assumes "reserve_attempt s b endpoint model i out cost (scope, period, cap) now rid = Inr (Granted r item b' ws)"
  shows "r = rid" and "f_scope item = scope" and "f_period item = period"
    and "r_cost_usd (f_reservation item) = cost"
    and "b' = b\<lparr>b_value := add_flight rid item (b_value b)\<rparr>"
    and "ws = [WState (add_flight rid item (b_value b))]"
    and "\<not> v_circuit_open (b_value b)"
    and "\<not> pf_lt (effective_provider_limit s)
           (l_provider_spent_usd (b_ledger b) + pend_of None (Some (b_value b)) + cost)"
    and "\<not> pf_lt cap (spend_of (Some (scope, period)) (b_ledger b)
                         + pend_of (Some (scope, period)) (Some (b_value b)) + cost)"
  using assms
  by (auto simp: reserve_attempt_def Let_def scope_spend_eq pending_cost_eq split: if_splits)

lemma open_circuit_None:
  "open_circuit reason keep None b =
     (let v = (b_value b)\<lparr>v_circuit_open := True, v_reason := Some reason\<rparr> in (b\<lparr>b_value := v\<rparr>, [WState v]))"
  by (simp add: open_circuit_def Let_def)

lemma post_reserve_ForwardD:
  "post_reserve s b a sc now rid = (Forward r item, b', ws) \<Longrightarrow>
   \<exists>cost. reserve_cost s (a_model a) (a_input_tokens a) (a_output_tokens a) = Inr cost
     \<and> reserve_attempt s b (a_endpoint a) (a_model a) (a_input_tokens a) (a_output_tokens a) cost sc now rid
        = Inr (Granted r item b' ws)"
  by (auto simp: post_reserve_def open_circuit_None Let_def split: sum.splits attempt.splits exc.splits prod.splits)

lemma post_reserve_other:
  "post_reserve s b a sc now rid = (adm, b', ws) \<Longrightarrow> (\<And>r item. adm \<noteq> Forward r item) \<Longrightarrow>
   (b' = b \<and> ws = []) \<or>
   (\<exists>v. v_in_flight v = v_in_flight (b_value b) \<and> b' = b\<lparr>b_value := v\<rparr> \<and> ws = [WState v])"
  by (auto simp: post_reserve_def open_circuit_None Let_def split: sum.splits attempt.splits exc.splits prod.splits)

lemma record_callD:
  assumes "record_call s b rid u now = Inr (call, b', ws)"
  shows "\<exists>f. map_of (v_in_flight (b_value b)) rid = Some f \<and> c_scope call = f_scope f \<and> c_period call = f_period f"
    and "b' = \<lparr>b_ledger = add_calls [call] (b_ledger b), b_value = drop_flight rid (b_value b)\<rparr>"
    and "ws = [WLedger (b_ledger b'), WState (b_value b')]"
  using assms by (auto simp: record_call_def Let_def split: option.splits)

lemma scope_for_limit:
  "scope_for s endpoint now = (scope, period, cap) \<Longrightarrow> l_guard l = guard_fingerprint s \<Longrightarrow>
   scope \<in> scope_names \<and> limit_of (Some (scope, period)) l = fin_val cap \<and> (settings_ok s \<longrightarrow> is_fin cap)"
  by (auto simp: scope_for_def scope_names_def limit_of_def guard_fingerprint_def settings_ok_def split: if_splits)

lemma provider_limit:
  "settings_ok s \<Longrightarrow> l_guard l = guard_fingerprint s \<Longrightarrow>
   effective_provider_limit s = Fin (limit_of None l + fin_val (l_initial_provider_spend_usd l))"
  by (auto simp: settings_ok_def effective_provider_limit_def pf_sub_def limit_of_def guard_fingerprint_def
      elim!: is_finE)

abbreviation both_files :: "bstate \<Rightarrow> disk" where
  "both_files b \<equiv> \<lparr>d_ledger = Some (b_ledger b), d_state = Some (b_value b)\<rparr>"

text \<open>What is shown of every operation of a thread; \<open>g'\<close> and \<open>gc\<close> as in \<open>thread_op\<close>.\<close>

definition op_ok :: "bstate \<Rightarrow> bstate \<Rightarrow> file_write list \<Rightarrow> string list \<Rightarrow> bills \<Rightarrow> bills \<Rightarrow> bool" where
  "op_ok b b' ws ths' g' gc = (write_files ws (both_files b) = both_files b'
     \<and> l_guard (b_ledger b') = l_guard (b_ledger b)
     \<and> books_ok (b_ledger b') (Some (b_value b')) g'
     \<and> (\<forall>rid \<in> set ths'. thread_ok (b_value b') g' rid)
     \<and> (\<forall>n. files_ok (write_files (take n ws) (both_files b)) gc))"

lemma write_files_simps [simp]:
  "write_files [] d = d" "write_files (w # ws) d = write_files ws (atomic_json d w)"
  by (simp_all add: write_files_def)

lemma files_ok_both [simp]: "files_ok (both_files b) g = books_ok (b_ledger b) (Some (b_value b)) g"
  by (simp add: files_ok_def)

lemma take_1: "P [] \<Longrightarrow> P [w] \<Longrightarrow> P (take n [w])"
  by (cases n) simp_all

lemma take_2: "P [] \<Longrightarrow> P [w] \<Longrightarrow> P [w, w'] \<Longrightarrow> P (take n [w, w'])"
  by (cases n; cases "n - 1") auto

lemma op_ok_state_write:
  assumes "books_ok (b_ledger b) (Some v) g'" "books_ok (b_ledger b) (Some v) gc"
    "books_ok (b_ledger b) (Some (b_value b)) gc" "\<forall>rid \<in> set ths'. thread_ok v g' rid"
  shows "op_ok b (b\<lparr>b_value := v\<rparr>) [WState v] ths' g' gc"
proof -
  have "files_ok (write_files (take n [WState v]) (both_files b)) gc" for n
    using assms(2,3) by (rule_tac take_1 [where P = "\<lambda>ws. files_ok (write_files ws (both_files b)) gc"])
      (simp_all add: files_ok_def)
  with assms show ?thesis by (simp add: op_ok_def)
qed

lemma thread_ok_opened:
  assumes "thread_ok v g r" "map_of (v_in_flight v) rid = None"
  shows "thread_ok (add_flight rid f v) (opened rid f g) r"
  using assms by (auto simp: thread_ok_def opened_def update_conv')

lemma thread_ok_charged:
  assumes "thread_ok v g r" "r \<noteq> rid"
  shows "thread_ok v (charged rid ch g) r" "thread_ok (drop_flight rid v) (charged rid ch g) r"
  using assms by (auto simp: thread_ok_def charged_def delete_conv')

lemma thread_ok_cong: "v_in_flight v' = v_in_flight v \<Longrightarrow> thread_ok v' g r = thread_ok v g r"
  by (simp add: thread_ok_def)

lemma forward_ok:
  assumes s: "settings_ok s" "l_guard (b_ledger b) = guard_fingerprint s"
    and books: "books_ok (b_ledger b) (Some (b_value b)) g"
    and ths: "\<forall>r \<in> set ths. thread_ok (b_value b) g r"
    and a: "post_admit mn frepr s q = Continue a"
    and res: "post_reserve s b a (scope_for s (a_endpoint a) started) now rid = (Forward rid item, b', ws)"
    and fresh: "rid \<noteq> []" "map_of (v_in_flight (b_value b)) rid = None" "map_of (g_open g) rid = None"
  shows "op_ok b b' ws (rid # ths) (opened rid item g) g"
proof -
  obtain scope period cap where sc: "scope_for s (a_endpoint a) started = (scope, period, cap)"
    by (metis prod_cases3)
  obtain cost where cost: "reserve_cost s (a_model a) (a_input_tokens a) (a_output_tokens a) = Inr cost"
    and granted: "reserve_attempt s b (a_endpoint a) (a_model a) (a_input_tokens a) (a_output_tokens a) cost
       (scope, period, cap) now rid = Inr (Granted rid item b' ws)"
    using post_reserve_ForwardD [OF res] sc by auto
  note g = reserve_attempt_GrantedD [OF granted]
  obtain r where r: "cost = Fin r" "0 \<le> r"
    using reserve_cost_nn [OF s(1) cost] post_admit_tokens [OF a] by fastforce
  have cov: "pf_le (Fin (exposure bud g)) (spend_of bud (b_ledger b) + pend_of bud (Some (b_value b)))" for bud
    using books by (simp add: books_ok_def covered_def)
  let ?i = "l_initial_provider_spend_usd (b_ledger b)"
  have led: "l_provider_spent_usd (b_ledger b) = ?i + spend_of None (b_ledger b)" and i: "is_fin ?i"
    using books by (auto simp: books_ok_def ledger_ok_def)
  have "pf_le (Fin (exposure None g + fin_val ?i))
      (l_provider_spent_usd (b_ledger b) + pend_of None (Some (b_value b)))"
    using pf_le_add [OF cov [of None], of "fin_val ?i" ?i] i by (auto simp: led ac_simps elim!: is_finE)
  from not_over_limit [OF _ this, of _ r] g(8) provider_limit [OF s]
  have total: "exposure None g + r \<le> limit_of None (b_ledger b)"
    by (fastforce simp: r)
  obtain m where m: "cap = Fin m" "limit_of (Some (scope, period)) (b_ledger b) = m"
    using scope_for_limit [OF sc s(2)] s(1) by (auto elim!: is_finE)
  have within: "exposure (Some (f_scope item, f_period item)) g + r
      \<le> limit_of (Some (f_scope item, f_period item)) (b_ledger b)"
    using not_over_limit [OF _ cov, of m "Some (scope, period)" r] g(9) by (simp add: g(2,3) m r)
  have fl: "r_cost_usd (f_reservation item) = Fin r"
    by (simp add: g(4) r)
  note ok = books_forward [OF books fresh(2,3) fl r(2) total within]
  have "thread_ok (add_flight rid item (b_value b)) (opened rid item g) rid"
    using fresh by (simp add: thread_ok_def opened_def update_conv' fl)
  then have "\<forall>r \<in> set (rid # ths). thread_ok (add_flight rid item (b_value b)) (opened rid item g) r"
    using ths thread_ok_opened fresh(2) by auto
  then show ?thesis
    unfolding g(5,6) using ok books by (intro op_ok_state_write)
qed

lemma no_forward_ok:
  assumes books: "books_ok (b_ledger b) (Some (b_value b)) g"
    and ths: "\<forall>r \<in> set ths. thread_ok (b_value b) g r"
    and res: "post_reserve s b a sc now rid = (adm, b', ws)" "\<forall>r item. adm \<noteq> Forward r item"
  shows "op_ok b b' ws ths g g"
proof -
  have "(b' = b \<and> ws = []) \<or>
   (\<exists>v. v_in_flight v = v_in_flight (b_value b) \<and> b' = b\<lparr>b_value := v\<rparr> \<and> ws = [WState v])"
    using post_reserve_other [OF res(1)] res(2) by blast
  then show ?thesis
  proof (elim disjE exE conjE)
  fix v assume v: "v_in_flight v = v_in_flight (b_value b)" "b' = b\<lparr>b_value := v\<rparr>" "ws = [WState v]"
  show ?thesis
    unfolding v(2,3)
    using books ths books_ok_circuit_cong [OF v(1)] thread_ok_cong [OF v(1)]
    by (intro op_ok_state_write) auto
  qed (use books ths in \<open>auto simp: op_ok_def\<close>)
qed

lemma thread_flight:
  assumes "thread_ok v g rid" "map_of (g_open g) rid = Some (scope, period, bound)"
  obtains f where "map_of (v_in_flight v) rid = Some f" "scope = f_scope f" "period = f_period f"
    "bound = fin_val (r_cost_usd (f_reservation f))"
  using assms by (auto simp: thread_ok_def)

lemma recorded_ok:
  assumes books: "books_ok (b_ledger b) (Some (b_value b)) g"
    and ths: "\<forall>r \<in> set ths. thread_ok (b_value b) g r" "rid \<in> set ths"
    and bill: "map_of (g_open g) rid = Some (scope, period, bound)" "0 \<le> x" "x \<le> bound"
    and rec: "usage_of body = Inr u" "record_call s b rid u now = Inr (call, b1, ws1)"
    and paid: "pf_le (Fin x) (c_cost_usd call)"
    and fin: "status < 400" "post_finish s b rid (Answer status body) now = (st, b', ws)"
  shows "op_ok b b' ws (removeAll rid ths) (charged rid (scope, period, x) g) (charged rid (scope, period, x) g)"
proof -
  have b': "b' = b1" "ws = ws1"
    using fin rec by (simp_all add: post_finish_def)
  obtain f where f: "map_of (v_in_flight (b_value b)) rid = Some f" "scope = f_scope f" "period = f_period f"
    "bound = fin_val (r_cost_usd (f_reservation f))"
    using thread_flight [OF _ bill(1)] ths by blast
  note r = record_callD [OF rec(2)]
  let ?g = "charged rid (f_scope f, f_period f, x) g" and ?l = "add_calls [call] (b_ledger b)"
  have call: "\<forall>c \<in> set [call]. pf_nn (c_cost_usd c) \<and> c_scope c = f_scope f \<and> c_period c = f_period f"
    using r(1) f(1) paid bill(2) by (auto simp: pf_nn_cases pf_le_Fin_cases)
  have g: "map_of (g_open g) rid = Some (f_scope f, f_period f, fin_val (r_cost_usd (f_reservation f)))"
    and x: "x \<le> fin_val (r_cost_usd (f_reservation f))"
    using bill f by auto
  have done_ok: "books_ok ?l (Some (drop_flight rid (b_value b))) ?g"
    using books_release [OF books f(1) g bill(2) x call] paid by simp
  have half: "books_ok (b_ledger b) (Some (b_value b)) ?g"
    by (rule books_charged [OF books g bill(2) x])
  then have mid: "books_ok ?l (Some (b_value b)) ?g"
    using books_new_call [of "b_ledger b" "Some (b_value b)" ?g "[call]"] call by auto
  have "\<forall>r \<in> set (removeAll rid ths). thread_ok (drop_flight rid (b_value b)) ?g r"
    using ths(1) thread_ok_charged(2) by auto
  moreover have "files_ok (write_files (take n ws) (both_files b)) ?g" for n
    unfolding b'(2) r(3)
    by (rule take_2 [where P = "\<lambda>ws. files_ok (write_files ws (both_files b)) ?g"])
      (use half mid done_ok r(2) in \<open>simp_all add: files_ok_def\<close>)
  ultimately show ?thesis
    using done_ok r(2,3) b' f(2,3) by (simp add: op_ok_def)
qed

lemma open_circuit_keep:
  "\<exists>v. v_in_flight v = v_in_flight (b_value b) \<and> open_circuit reason True r b = (b\<lparr>b_value := v\<rparr>, [WState v])"
  by (intro exI [where x = "(b_value b)\<lparr>v_circuit_open := True, v_reason := Some reason\<rparr>"])
    (simp add: open_circuit_def Let_def split: option.split)

lemma open_circuit_drop:
  "rid \<noteq> [] \<Longrightarrow> \<exists>v. v_in_flight v = v_in_flight (drop_flight rid (b_value b))
     \<and> open_circuit reason False (Some rid) b = (b\<lparr>b_value := v\<rparr>, [WState v])"
  by (intro exI [where x = "(drop_flight rid (b_value b))\<lparr>v_circuit_open := True, v_reason := Some reason\<rparr>"])
    (simp add: open_circuit_def Let_def)

lemma discard_drop: "discard rid b = (b\<lparr>b_value := drop_flight rid (b_value b)\<rparr>, [WState (drop_flight rid (b_value b))])"
  by (simp add: discard_def Let_def)

lemma post_finish_rejected:
  assumes "400 \<le> status" "rid \<noteq> []"
  shows "\<exists>v. v_in_flight v = v_in_flight (drop_flight rid (b_value b))
    \<and> post_finish s b rid (Answer status body) now = (status, b\<lparr>b_value := v\<rparr>, [WState v])"
proof (cases "status = 401 \<or> status = 402")
  case True
  with open_circuit_drop [OF assms(2), of b "''provider returned '' @ int_str status"] show ?thesis
    by (force simp: post_finish_def)
next
  case False
  with assms(1) show ?thesis
    by (intro exI [where x = "drop_flight rid (b_value b)"]) (simp add: post_finish_def discard_drop)
qed

lemma post_finish_ambiguous:
  assumes "(\<exists>name. up = Failed name) \<or> (\<exists>status body e. up = Answer status body \<and> status < 400
         \<and> bindR (usage_of body) (\<lambda>u. record_call s b rid u now) = Inl e)"
  shows "\<exists>v. v_in_flight v = v_in_flight (b_value b)
    \<and> post_finish s b rid up now = (502, b\<lparr>b_value := v\<rparr>, [WState v])"
proof -
  obtain name where "post_finish s b rid up now = ambiguous name rid b"
    using assms by (auto simp: post_finish_def)
  with open_circuit_keep [of b "''ambiguous upstream failure: '' @ name" "Some rid"] show ?thesis
    by (force simp: ambiguous_def)
qed

lemma rejected_ok:
  assumes books: "books_ok (b_ledger b) (Some (b_value b)) g"
    and ths: "\<forall>r \<in> set ths. thread_ok (b_value b) g r" "rid \<in> set ths"
    and bill: "map_of (g_open g) rid = Some (scope, period, bound)"
    and fin: "400 \<le> status" "post_finish s b rid (Answer status body) now = (st, b', ws)"
  shows "op_ok b b' ws (removeAll rid ths) (charged rid (scope, period, 0) g) (charged rid (scope, period, 0) g)"
proof -
  obtain f where f: "map_of (v_in_flight (b_value b)) rid = Some f" "scope = f_scope f" "period = f_period f"
    "bound = fin_val (r_cost_usd (f_reservation f))"
    using thread_flight [OF _ bill] ths by blast
  have rid: "rid \<noteq> []"
    using ths by (auto simp: thread_ok_def)
  obtain v where v: "v_in_flight v = v_in_flight (drop_flight rid (b_value b))" "b' = b\<lparr>b_value := v\<rparr>" "ws = [WState v]"
    using post_finish_rejected [OF fin(1) rid, of b s body now] fin(2) by auto
  let ?g = "charged rid (f_scope f, f_period f, 0) g"
  have g: "map_of (g_open g) rid = Some (f_scope f, f_period f, fin_val (r_cost_usd (f_reservation f)))"
    and r: "0 \<le> fin_val (r_cost_usd (f_reservation f))"
    using bill f circuit_ok_flight [OF _ f(1)] books by (auto simp: books_ok_def)
  have "books_ok (b_ledger b) (Some (drop_flight rid (b_value b))) ?g"
    using books_release [OF books f(1) g order_refl r, of "[]"] by simp
  moreover have "books_ok (b_ledger b) (Some (b_value b)) ?g"
    by (rule books_charged [OF books g order_refl r])
  ultimately show ?thesis
    unfolding v(2,3) f(2,3)
    using ths(1) books_ok_circuit_cong [OF v(1)] thread_ok_charged(2) thread_ok_cong [OF v(1)]
    by (intro op_ok_state_write) auto
qed

lemma ambiguous_ok:
  assumes books: "books_ok (b_ledger b) (Some (b_value b)) g"
    and ths: "\<forall>r \<in> set ths. thread_ok (b_value b) g r"
    and up: "(\<exists>name. up = Failed name) \<or> (\<exists>status body e. up = Answer status body \<and> status < 400
         \<and> bindR (usage_of body) (\<lambda>u. record_call s b rid u now) = Inl e)"
    and fin: "post_finish s b rid up now = (st, b', ws)"
  shows "op_ok b b' ws (removeAll rid ths) g g"
proof -
  obtain v where v: "v_in_flight v = v_in_flight (b_value b)" "b' = b\<lparr>b_value := v\<rparr>" "ws = [WState v]"
    using post_finish_ambiguous [OF up] fin by auto
  show ?thesis
    unfolding v(2,3)
    using books ths books_ok_circuit_cong [OF v(1)] thread_ok_cong [OF v(1)]
    by (intro op_ok_state_write) auto
qed

lemma thread_op_ok:
  assumes "thread_op s b ths g b' ws ths' g' gc"
    and "settings_ok s" "l_guard (b_ledger b) = guard_fingerprint s"
    and "books_ok (b_ledger b) (Some (b_value b)) g" "\<forall>r \<in> set ths. thread_ok (b_value b) g r"
  shows "op_ok b b' ws ths' g' gc"
  using assms
proof (induction rule: thread_op.induct)
  case forward
  then show ?case by (intro forward_ok)
next
  case no_forward
  then show ?case by (intro no_forward_ok)
next
  case recorded
  then show ?case by (intro recorded_ok)
next
  case rejected
  then show ?case by (intro rejected_ok)
next
  case ambiguous_end
  then show ?case by (intro ambiguous_ok)
qed

section \<open>The invariant of the system\<close>

lemma fp_eq_iff [simp]: "is_fin b \<Longrightarrow> fp_eq a b \<longleftrightarrow> a = b"
  by (auto simp: fp_eq_def)

lemma prices_eq_iff:
  assumes "list_all (\<lambda>(m, a, b). is_fin a \<and> is_fin b) q"
  shows "prices_eq p q \<longleftrightarrow> p = q"
proof -
  have "prices_eq p q \<longleftrightarrow> list_all2 (=) p q"
    unfolding prices_eq_def
  proof (rule list.rel_cong [OF refl refl])
    fix y z assume "y \<in> set p" "z \<in> set q"
    with assms show "(case y of (m, a, b) \<Rightarrow> \<lambda>(m', a', b'). m = m' \<and> fp_eq a a' \<and> fp_eq b b') z = (y = z)"
      by (cases y; cases z) (auto simp: list_all_iff)
  qed
  then show ?thesis by (simp add: list.rel_eq)
qed

lemma guard_eq_iff:
  assumes "settings_ok s"
  shows "guard_eq g (guard_fingerprint s) \<longleftrightarrow> g = guard_fingerprint s"
proof -
  have "list_all (\<lambda>(m, a, b). is_fin a \<and> is_fin b) (sort_key fst (prices s))"
    using assms by (auto simp: settings_ok_def list_all_iff)
  from prices_eq_iff [OF this] assms show ?thesis
    by (cases g) (auto simp: guard_eq_def guard_fingerprint_def settings_ok_def)
qed

lemma books_fresh:
  "settings_ok s \<Longrightarrow> no_bills g \<Longrightarrow> vo = None \<or> vo = Some fresh_circuit \<Longrightarrow> books_ok (fresh_ledger s) vo g"
  by (auto simp: books_ok_def ledger_ok_def settings_ok_def fresh_ledger_def spend_of_def circuit_ok_def
      fresh_circuit_def no_bills_def bills_ok_def covered_def exposure_def pend_of_def within_limits_def)

lemma load_ledger_ok:
  assumes "load_ledger s d = (r, ws)" "settings_ok s" "files_ok d g"
  shows "ws = [] \<and> d_ledger d \<noteq> None \<or> ws = [WLedger (fresh_ledger s)] \<and> d_ledger d = None"
    and "r = Inr l \<Longrightarrow> l_guard l = guard_fingerprint s \<and> d_ledger (write_files ws d) = Some l"
  using assms
  by (auto simp: load_ledger_def Let_def guard_eq_iff fresh_ledger_def split: option.splits)

lemma load_circuit_ok:
  assumes "load_circuit d = (v, ws)"
  obtains (kept) "d_state d = Some v" "ws = []"
  | (fresh) "d_state d = None" "v = fresh_circuit" "ws = [WState v]"
  | (opened) v0 where "d_state d = Some v0" "v_in_flight v = v_in_flight v0" "ws = [WState v]"
  using assms
  by (auto simp: load_circuit_def Let_def fresh_circuit_def split: option.splits if_splits)

lemma write_files_append: "write_files (ws @ ws') d = write_files ws' (write_files ws d)"
  by (simp add: write_files_def)

lemma books_fresh_circuit: "books_ok l (Some fresh_circuit) g = books_ok l None g"
  by (simp add: books_ok_def covered_def pend_of_def fresh_circuit_def circuit_ok_def)

lemma ledger_phase:
  assumes ll: "load_ledger s d = (r, wl)" and s: "settings_ok s" and d: "files_ok d g"
  shows "files_ok (write_files (take n wl) d) g"
    and "d_state (write_files wl d) = d_state d \<and> d_ledger (write_files wl d) \<noteq> None"
proof -
  have wl: "wl = [] \<and> d_ledger d \<noteq> None \<or> wl = [WLedger (fresh_ledger s)] \<and> d_ledger d = None"
    by (rule load_ledger_ok(1) [OF ll s d])
  then show "files_ok (write_files (take n wl) d) g"
    using d books_fresh [OF s, of g None] by (cases n) (auto simp: files_ok_def)
  show "d_state (write_files wl d) = d_state d \<and> d_ledger (write_files wl d) \<noteq> None"
    using wl by auto
qed

lemma circuit_phase:
  assumes lc: "load_circuit d = (v, wv)" and d: "files_ok d' g" "d_ledger d' = Some l" "d_state d' = d_state d"
  shows "files_ok (write_files (take n wv) d') g"
    and "write_files wv d' = \<lparr>d_ledger = Some l, d_state = Some v\<rparr>"
proof -
  have books: "books_ok l (d_state d) g"
    using d by (simp add: files_ok_def)
  have new: "wv = [] \<and> d_state d = Some v \<or> wv = [WState v] \<and> books_ok l (Some v) g"
    using lc
  proof (cases rule: load_circuit_ok)
    case fresh
    with books show ?thesis by (simp add: books_fresh_circuit)
  next
    case (opened v0)
    with books show ?thesis using books_ok_circuit_cong [OF opened(2), of l g] by simp
  qed simp
  then show "files_ok (write_files (take n wv) d') g"
    using d by (cases n) (auto simp: files_ok_def)
  show "write_files wv d' = \<lparr>d_ledger = Some l, d_state = Some v\<rparr>"
    using new d by (cases d') auto
qed

lemma boot_files_ok:
  assumes init: "budget_state_init s d = (r, ws)" and s: "settings_ok s" and d: "files_ok d g"
  shows "files_ok (write_files (take n ws) d) g"
    and "r = Inr b \<Longrightarrow> write_files ws d = both_files b \<and> l_guard (b_ledger b) = guard_fingerprint s"
proof -
  obtain rl wl where ll: "load_ledger s d = (rl, wl)" by fastforce
  obtain v wv where lc: "load_circuit d = (v, wv)" by fastforce
  note lp = ledger_phase [OF ll s d]
  obtain l where l: "d_ledger (write_files wl d) = Some l"
    using lp(2) by blast
  have all: "files_ok (write_files wl d) g"
    using lp(1) [of "length wl"] by simp
  note cp = circuit_phase [OF lc all l conjunct1 [OF lp(2)]]
  have ws: "ws = wl \<or> ws = wl @ wv"
    using init ll lc by (auto simp: budget_state_init_def split: sum.splits)
  then show "files_ok (write_files (take n ws) d) g"
    using lp(1) [of n] cp(1) [of "n - length wl"]
    by (cases "n \<le> length wl") (auto simp: write_files_append)
  assume "r = Inr b"
  then have "rl = Inr (b_ledger b)" "b_value b = v" "ws = wl @ wv"
    using init ll lc by (auto simp: budget_state_init_def split: sum.splits)
  with load_ledger_ok(2) [OF ll s d] l cp(2)
  show "write_files ws d = both_files b \<and> l_guard (b_ledger b) = guard_fingerprint s"
    by (auto simp: write_files_append)
qed

lemma reconcile_files_ok:
  assumes "reconcile_main d if_needed ack now = (ex, ws)" "files_ok d g"
  shows "files_ok (write_files (take n ws) d) g"
proof (cases "ws = []")
  case False
  then obtain y where rec: "reconcile d ack now = Inr (y, ws)"
    using assms(1) by (auto simp: reconcile_main_def split: if_splits sum.splits)
  then obtain l v where lv: "d_ledger d = Some l" "d_state d = Some v"
    by (auto simp: reconcile_def split: option.splits)
  with rec have "\<exists>v'. v_in_flight v' = [] \<and>
      ws = [WLedger (add_calls (map (reconciled_call now) (sort_key fst (v_in_flight v))) l), WState v']"
    by (auto simp: reconcile_def Let_def)
  then obtain v' where v': "v_in_flight v' = []"
    and ws: "ws = [WLedger (add_calls (map (reconciled_call now) (sort_key fst (v_in_flight v))) l), WState v']"
    by blast
  have books: "books_ok l (Some v) g"
    using assms(2) lv by (simp add: files_ok_def)
  have nn: "\<forall>c \<in> set (map (reconciled_call now) (sort_key fst (v_in_flight v))). pf_nn (c_cost_usd c)"
    using books flight_cost_nn [where bud = None]
    by (fastforce simp: books_ok_def circuit_ok_def reconciled_call_def flight_cost_def in_budget_def)
  show ?thesis
    unfolding ws
    by (rule take_2 [where P = "\<lambda>ws. files_ok (write_files ws d) g"])
      (use assms(2) lv books_new_call [OF books nn] books_reconcile [OF books v'] in \<open>simp_all add: files_ok_def\<close>)
qed (use assms in simp)

lemma reset_files_ok:
  assumes "reset_main sha256 d if_needed ack token now = (ex, ws)" "files_ok d g"
  shows "files_ok (write_files (take n ws) d) g"
proof (cases "ws = []")
  case False
  then obtain z where rec: "reset_provider_auth_circuit sha256 (d_state d) ack token now = Inr (z, ws)"
    using assms(1) by (auto simp: reset_main_def split: if_splits sum.splits)
  then have "\<exists>v v'. d_state d = Some v \<and> v_in_flight v' = v_in_flight v \<and> ws = [WState v']"
    by (auto simp: reset_provider_auth_circuit_def Let_def split: option.splits)
  then obtain v v' where v: "d_state d = Some v" "v_in_flight v' = v_in_flight v" and ws: "ws = [WState v']"
    by blast
  show ?thesis
    unfolding ws
    by (rule take_1 [where P = "\<lambda>ws. files_ok (write_files ws d) g"])
      (use assms(2) v books_ok_circuit_cong [OF v(2)] in \<open>auto simp: files_ok_def split: option.splits\<close>)
qed (use assms in simp)

lemma proc_ok_books:
  "files_ok (s_disk x) g \<Longrightarrow> s_disk x = both_files b \<Longrightarrow> books_ok (b_ledger b) (Some (b_value b)) g"
  by simp

lemma sys_inv_init: "sys_init x \<Longrightarrow> sys_inv x"
  by (simp add: sys_init_def sys_inv_def files_ok_def no_bills_def)

lemma files_ok_late_bill:
  assumes "files_ok d g" "map_of (g_open g) rid = Some (scope, period, bound)" "0 \<le> x" "x \<le> bound"
  shows "files_ok d (charged rid (scope, period, x) g)"
  using assms books_charged by (auto simp: files_ok_def no_bills_def split: option.splits)

lemma sys_inv_step:
  assumes "sys_inv x" "sys_step sha256 x y"
  shows "sys_inv y"
  using assms(2,1)
proof (induction rule: sys_step.induct)
  case (boot x s b ws)
  have "files_ok (s_disk x) (s_bills x)" "s_threads x = []"
    using boot by (auto simp: sys_inv_def)
  with boot_files_ok [OF boot(3,2)] show ?case
    using boot(2) boot_files_ok(1) [OF boot(3,2), of "s_bills x" "length ws"]
    by (fastforce simp: sys_inv_def proc_ok_def)
next
  case (boot_stopped x s r ws n)
  then show ?case
    using boot_files_ok(1) [OF boot_stopped(3,2)] by (auto simp: sys_inv_def)
next
  case (operation x s b b' ws ths' g' gc)
  then have p: "proc_ok s b x" "files_ok (s_disk x) (s_bills x)"
    by (auto simp: sys_inv_def)
  then have "op_ok b b' ws ths' g' gc"
    using thread_op_ok [OF operation(2)] by (simp add: proc_ok_def)
  with p show ?case by (auto simp: sys_inv_def proc_ok_def op_ok_def)
next
  case (operation_crash x s b b' ws ths' g' gc n)
  then have p: "proc_ok s b x" "files_ok (s_disk x) (s_bills x)"
    by (auto simp: sys_inv_def)
  then have "op_ok b b' ws ths' g' gc"
    using thread_op_ok [OF operation_crash(2)] by (simp add: proc_ok_def)
  with p show ?case by (auto simp: sys_inv_def proc_ok_def op_ok_def)
next
  case (stop x)
  then show ?case by (auto simp: sys_inv_def)
next
  case (reconcile_run x if_needed ack now ex ws n)
  then show ?case using reconcile_files_ok by (auto simp: sys_inv_def)
next
  case (reset_run x if_needed ack token now ex ws n)
  then show ?case using reset_files_ok by (auto simp: sys_inv_def)
next
  case (late_bill rid x scope period bound amount)
  then have "\<forall>r \<in> set (s_threads x). r \<noteq> rid" by auto
  with late_bill show ?case
    using files_ok_late_bill thread_ok_charged(1)
    by (auto simp: sys_inv_def proc_ok_def split: option.splits)
qed

interpretation budget: invariant_system sys_init "sys_step sha256" sys_inv for sha256
  by unfold_locales (auto intro: sys_inv_init sys_inv_step)

end
