(* ===== verification/Budget_Props.thy ===== *)
theory Budget_Props
  imports Budget_System
begin

text \<open>
  The properties of the production budget proxy: the spending limits hold in every reachable
  state of the system (crashes and operator tools included), the books cover what the provider
  has charged, the circuit breaker fails closed, a reservation that fits the budgets is granted
  after finitely many rounds, and what the payload checks and the operator's tools guarantee.
\<close>

section \<open>A concrete configuration\<close>

definition demo_models :: model_names where
  "demo_models = \<lparr>HINDSIGHT_MODEL = ''h'', QWEN_MODEL = ''q''\<rparr>"

definition demo_settings :: settings where
  "demo_settings = \<lparr>provider_base_url = ''u'', provider_api_key = ''k'', proxy_api_key = ''p'',
     provider_egress_enabled = True, provider_total_limit_usd = Fin 50, provider_safety_margin_usd = Fin (1 / 2),
     hindsight_phase = ''backfill'', hindsight_backfill_limit_usd = Fin 30, hindsight_monthly_limit_usd = Fin 10,
     qwen_monthly_limit_usd = Fin 5, rpm_limit = 30, tpm_limit = 1000000,
     prices = [(''h'', Fin (3 / 20), Fin (3 / 5)), (''q'', Fin (1 / 100), Fin 0)],
     initial_provider_spend_usd = Fin 2\<rparr>"

definition demo_state :: bstate where
  "demo_state = \<lparr>b_ledger = fresh_ledger demo_settings, b_value = fresh_circuit\<rparr>"

definition demo_empty :: sys where
  "demo_empty = \<lparr>s_disk = \<lparr>d_ledger = None, d_state = None\<rparr>, s_proc = None, s_threads = [],
     s_bills = \<lparr>g_open = [], g_billed = []\<rparr>\<rparr>"

definition demo_booted :: sys where
  "demo_booted = demo_empty\<lparr>s_proc := Some (demo_settings, demo_state), s_disk := both_files demo_state\<rparr>"

lemma demo_settings_ok: "settings_ok demo_settings"
  by (simp add: settings_ok_def demo_settings_def)

lemma demo_boot:
  "budget_state_init demo_settings \<lparr>d_ledger = None, d_state = None\<rparr> =
     (Inr demo_state, [WLedger (fresh_ledger demo_settings), WState fresh_circuit])"
  by (simp add: budget_state_init_def load_ledger_def load_circuit_def initial_spend_differs_def demo_state_def
      fresh_ledger_def fresh_circuit_def demo_settings_def effective_provider_limit_def pf_sub_def)

lemma demo_reach: "reach sys_init (sys_step sha256) demo_booted"
proof -
  have "sys_step sha256 demo_empty demo_booted"
    using sys_step.boot [of demo_empty demo_settings demo_state _ sha256] demo_settings_ok demo_boot
    by (simp add: demo_empty_def demo_booted_def demo_state_def)
  moreover have "reach sys_init (sys_step sha256) demo_empty"
    by (rule reach_init) (simp add: sys_init_def demo_empty_def)
  ultimately show ?thesis by (rule reach_step [rotated])
qed

lemma demo_ledger: "d_ledger (s_disk demo_booted) = Some (fresh_ledger demo_settings)"
  by (simp add: demo_booted_def demo_state_def)

section \<open>Limits\<close>

lemma reach_books:
  "reach sys_init (sys_step sha256) x \<Longrightarrow> d_ledger (s_disk x) = Some l \<Longrightarrow> books_ok l (d_state (s_disk x)) (s_bills x)"
  using budget.reach_invar [of sha256 x] by (auto simp: sys_inv_def files_ok_def)

lemma open_exposure_nn: "bills_ok g \<Longrightarrow> 0 \<le> dict_sum (charge_in bud) (g_open g)"
  by (fastforce simp: bills_ok_def dict_sum_def charge_in_def intro!: sum_list_nonneg split: prod.splits)

lemma billed_le_exposure: "bills_ok g \<Longrightarrow> sum_list (map (charge_in bud) (g_billed g)) \<le> exposure bud g"
  using open_exposure_nn by (simp add: exposure_def)

text \<open>
  C1: Provider ceiling. In every reachable state, whatever threads interleave, wherever the
  process crashes between two file writes and however often the operator's tools run, what the
  provider has charged since the start plus the configured initial spend stays within the total
  limit minus the safety margin (or is the initial spend alone, if that was already above it).
\<close>

theorem provider_ceiling:
  assumes "reach sys_init (sys_step sha256) x" and "d_ledger (s_disk x) = Some l"
  shows "fin_val (l_initial_provider_spend_usd l) + sum_list (map (charge_in None) (g_billed (s_bills x)))
     \<le> max (fin_val (l_initial_provider_spend_usd l))
          (fin_val (fp_provider_total (l_guard l)) - fin_val (fp_safety_margin (l_guard l)))"
proof -
  have books: "books_ok l (d_state (s_disk x)) (s_bills x)"
    by (rule reach_books [OF assms])
  then have "sum_list (map (charge_in None) (g_billed (s_bills x))) \<le> exposure None (s_bills x)"
    by (intro billed_le_exposure) (simp add: books_ok_def)
  also have "\<dots> \<le> max 0 (limit_of None l)"
    using books by (simp add: books_ok_def within_limits_def)
  finally show ?thesis
    by (auto simp: limit_of_def max_def split: if_splits)
qed

theorem provider_ceiling_witness:
  "fin_val (l_initial_provider_spend_usd (fresh_ledger demo_settings))
     + sum_list (map (charge_in None) (g_billed (s_bills demo_booted))) \<le> 99 / 2"
  using provider_ceiling [OF demo_reach demo_ledger]
  by (simp add: fresh_ledger_def demo_settings_def guard_fingerprint_def)

text \<open>
  C2: Scope budgets. In every reachable state the charges of one scope in one period (the Qwen
  embeddings of a month, the steady-state calls of a month, the one-time backfill) stay within
  the limit that the persisted guard fingerprint records for that scope.
\<close>

theorem scope_ceiling:
  assumes "reach sys_init (sys_step sha256) x" and "d_ledger (s_disk x) = Some l" and "scope \<in> scope_names"
  shows "sum_list (map (charge_in (Some (scope, period))) (g_billed (s_bills x)))
     \<le> max 0 (limit_of (Some (scope, period)) l)"
proof -
  have books: "books_ok l (d_state (s_disk x)) (s_bills x)"
    by (rule reach_books [OF assms(1,2)])
  then have "sum_list (map (charge_in (Some (scope, period))) (g_billed (s_bills x)))
      \<le> exposure (Some (scope, period)) (s_bills x)"
    by (intro billed_le_exposure) (simp add: books_ok_def)
  also have "\<dots> \<le> max 0 (limit_of (Some (scope, period)) l)"
    using books assms(3) unfolding books_ok_def within_limits_def by blast
  finally show ?thesis .
qed

theorem scope_ceiling_witness:
  "sum_list (map (charge_in (Some (''qwen_monthly'', ''2026-01''))) (g_billed (s_bills demo_booted))) \<le> 5"
  using scope_ceiling [OF demo_reach demo_ledger, of "''qwen_monthly''" "''2026-01''"]
  by (simp add: scope_names_def limit_of_def fresh_ledger_def demo_settings_def guard_fingerprint_def)

text \<open>
  C3: Conservative books. In every reachable state and for every budget, the recorded calls plus
  the reservations in the state file are at least what the provider has charged plus what it may
  still charge for calls it was sent; a crash between the ledger write and the state write can
  only count a call twice, never lose one.
\<close>

theorem books_cover_charges:
  assumes "reach sys_init (sys_step sha256) x" and "d_ledger (s_disk x) = Some l"
  shows "pf_le (Fin (exposure bud (s_bills x))) (spend_of bud l + pend_of bud (d_state (s_disk x)))"
  using reach_books [OF assms] by (simp add: books_ok_def covered_def)

theorem books_cover_charges_witness:
  "pf_le (Fin (exposure None (s_bills demo_booted)))
     (spend_of None (fresh_ledger demo_settings) + pend_of None (d_state (s_disk demo_booted)))"
  using books_cover_charges [OF demo_reach demo_ledger] by simp

text \<open>
  The running total of the ledger is the initial spend plus the cost of every recorded call,
  in every reachable state.
\<close>

theorem ledger_total_consistent:
  assumes "reach sys_init (sys_step sha256) x" and "d_ledger (s_disk x) = Some l"
  shows "l_provider_spent_usd l = l_initial_provider_spend_usd l + sum_list (map c_cost_usd (l_calls l))"
  using reach_books [OF assms] by (simp add: books_ok_def ledger_ok_def spend_of_def in_budget_def)

theorem ledger_total_consistent_witness:
  "l_provider_spent_usd (fresh_ledger demo_settings)
     = Fin 2 + sum_list (map c_cost_usd (l_calls (fresh_ledger demo_settings)))"
  using ledger_total_consistent [OF demo_reach demo_ledger] by (simp add: fresh_ledger_def demo_settings_def)

section \<open>The circuit breaker\<close>

lemma open_circuit_opens: "v_circuit_open (b_value (fst (open_circuit reason keep rid b)))"
  by (simp add: open_circuit_def Let_def)

lemma open_circuit_refuses:
  "v_circuit_open (b_value b) \<Longrightarrow>
   reserve_attempt s b endpoint model i out cost sc now rid = Inl (BudgetViolation (circuit_reason (b_value b)))"
  by (cases sc) (simp add: reserve_attempt_def Let_def)

text \<open>
  C4: Fail closed. A start that finds in-flight reservations in the state file opens the circuit,
  and while the circuit is open every reservation is refused with a budget violation, so the
  handler answers 402 and forwards nothing.
\<close>

theorem restart_fails_closed:
  assumes "budget_state_init s d = (Inr b, ws)" and "d_state d = Some v" and "v_in_flight v \<noteq> []"
  shows "v_circuit_open (b_value b) \<and> v_in_flight (b_value b) = v_in_flight v
    \<and> (reserve_cost s (a_model a) (a_input_tokens a) (a_output_tokens a) = Inr cost \<longrightarrow>
        fst (post_reserve s b a sc now rid) = Refused 402 restart_reason)"
proof -
  have b: "b_value b = v\<lparr>v_circuit_open := True, v_reason := Some restart_reason\<rparr>"
    using assms by (auto simp: budget_state_init_def load_circuit_def Let_def split: sum.splits prod.splits)
  have "circuit_reason (b_value b) = restart_reason"
    by (simp add: b circuit_reason_def) (simp add: restart_reason_def)
  then show ?thesis
    using open_circuit_refuses [of b] by (simp add: b post_reserve_def open_circuit_None Let_def)
qed

definition demo_flight :: flight where
  "demo_flight = \<lparr>f_model = ''h'', f_endpoint = ''chat'', f_scope = ''hindsight_backfill'', f_period = ''all'',
     f_started_at = Some 0, f_reservation = \<lparr>r_input_tokens = 10, r_output_tokens = 5, r_total_tokens = 15,
       r_cost_usd = Fin 1\<rparr>\<rparr>"

definition demo_crashed :: disk where
  "demo_crashed = \<lparr>d_ledger = None, d_state = Some (fresh_circuit\<lparr>v_in_flight := [(''r'', demo_flight)]\<rparr>)\<rparr>"

definition demo_request :: admitted where
  "demo_request = \<lparr>a_endpoint = ''chat'', a_model = ''h'', a_input_tokens = 10, a_output_tokens = 5, a_payload = []\<rparr>"

theorem restart_fails_closed_witness:
  "\<exists>b ws. budget_state_init demo_settings demo_crashed = (Inr b, ws) \<and> v_circuit_open (b_value b)
     \<and> fst (post_reserve demo_settings b demo_request (''s'', ''p'', Fin 1) 0 ''x'') = Refused 402 restart_reason"
proof -
  obtain b ws where b: "budget_state_init demo_settings demo_crashed = (Inr b, ws)"
    by (simp add: budget_state_init_def load_ledger_def load_circuit_def demo_crashed_def initial_spend_differs_def
        fresh_ledger_def fresh_circuit_def demo_settings_def effective_provider_limit_def pf_sub_def Let_def)
  have "reserve_cost demo_settings ''h'' 10 5 = Inr (token_cost (Fin (3 / 20), Fin (3 / 5)) 10 5)"
    by (simp add: reserve_cost_def demo_settings_def)
  then show ?thesis
    using restart_fails_closed [OF b, of _ demo_request _ "(''s'', ''p'', Fin 1)" 0 "''x''"] b
    by (auto simp: demo_crashed_def demo_request_def)
qed

text \<open>
  No operation of a request thread closes an open circuit; only the operator's tools do.
\<close>

theorem threads_never_close_circuit:
  assumes "thread_op s b ths g b' ws ths' g' gc" and "v_circuit_open (b_value b)"
  shows "v_circuit_open (b_value b')"
  using assms
proof (induction rule: thread_op.induct)
  case (forward mn frepr s q a b started now rid item b' ws g ths)
  then show ?case using post_reserve_ForwardD open_circuit_refuses by (metis sum.distinct(1))
next
  case (no_forward mn frepr s q a b started now rid adm b' ws ths g)
  then show ?case
    by (auto simp: post_reserve_def open_circuit_None Let_def split: sum.splits attempt.splits exc.splits
        dest!: reserve_attempt_GrantedD(5) [where scope = "fst (scope_for s (a_endpoint a) started)"])
next
  case (recorded rid ths g scope period bound x status body u s b now call b1 ws1 st b' ws)
  then show ?case using record_callD(2) [OF recorded(7)] by (auto simp: post_finish_def)
next
  case (rejected rid ths g scope period bound status s b body now st b' ws)
  then show ?case
    by (auto simp: post_finish_def discard_drop open_circuit_def Let_def split: if_splits option.splits)
next
  case (ambiguous_end rid ths up s b now st b' ws g)
  then show ?case
    by (auto simp: post_finish_def ambiguous_def open_circuit_def Let_def split: option.splits)
qed

definition demo_post :: http_request where
  "demo_post = \<lparr>q_path = ''/v1/embeddings/'', q_authorization = ''Bearer p'', q_content_length = Some ''31'',
     q_body = Some (JObj [(''model'', JStr ''q''), (''input'', JStr ''x'')])\<rparr>"

definition demo_admitted :: admitted where
  "demo_admitted = \<lparr>a_endpoint = ''embeddings'', a_model = ''q'', a_input_tokens = 5, a_output_tokens = 0,
     a_payload = [(''model'', JStr ''q''), (''input'', JStr ''x'')]\<rparr>"

lemma demo_post_admit: "post_admit demo_models (\<lambda>_. []) demo_settings demo_post = Continue demo_admitted"
  by code_simp

definition demo_open :: bstate where
  "demo_open = demo_state\<lparr>b_value := fresh_circuit\<lparr>v_circuit_open := True, v_reason := Some ''why''\<rparr>\<rparr>"

theorem threads_never_close_circuit_witness:
  "\<exists>b' ws. thread_op demo_settings demo_open [] \<lparr>g_open = [], g_billed = []\<rparr> b' ws []
      \<lparr>g_open = [], g_billed = []\<rparr> \<lparr>g_open = [], g_billed = []\<rparr> \<and> v_circuit_open (b_value b')"
proof -
  obtain adm b' ws where r: "post_reserve demo_settings demo_open demo_admitted
      (scope_for demo_settings (a_endpoint demo_admitted) 0) 0 ''x'' = (adm, b', ws)"
    by (metis prod_cases3)
  have "v_circuit_open (b_value demo_open)"
    by (simp add: demo_open_def)
  then have "\<forall>r item. adm \<noteq> Forward r item"
    using r post_reserve_ForwardD open_circuit_refuses by (metis sum.distinct(1))
  from no_forward [OF demo_post_admit r this, of "[]" "\<lparr>g_open = [], g_billed = []\<rparr>"]
  show ?thesis
    using threads_never_close_circuit by (fastforce simp: demo_open_def)
qed

section \<open>Rate limiting\<close>

definition stamps_before :: "bstate \<Rightarrow> instant \<Rightarrow> bool" where
  \<comment> \<open>no recorded call or reservation started after \<open>t\<close>\<close>
  "stamps_before b t = (list_all (\<lambda>c. call_stamp c \<le> t) (l_calls (b_ledger b))
     \<and> list_all (\<lambda>f. case f_started_at f of Some u \<Rightarrow> u \<le> t | None \<Rightarrow> True) (map snd (v_in_flight (b_value b))))"

lemma recent_usage_expired:
  assumes "stamps_before b t" "t + usec 60 \<le> now"
  shows "recent_usage b now = []"
proof -
  have "\<not> in_last_minute now u" if "u \<le> t" for u
    using that assms(2) by (simp add: in_last_minute_def)
  then show ?thesis
    using assms(1)
    by (fastforce simp: recent_usage_def stamps_before_def filter_empty_conv list_all_iff map_filter_def
        split: option.splits)
qed

definition fits_budgets :: "settings \<Rightarrow> bstate \<Rightarrow> pyfloat \<Rightarrow> string \<times> string \<times> pyfloat \<Rightarrow> bool" where
  "fits_budgets s b cost sc = (case sc of (scope, period, cap) \<Rightarrow>
     \<not> pf_lt (effective_provider_limit s)
        (l_provider_spent_usd (b_ledger b) + pending_cost (b_value b) None None + cost)
     \<and> \<not> pf_lt cap (scope_spend (b_ledger b) scope period
                      + pending_cost (b_value b) (Some scope) (Some period) + cost))"

lemma reserve_attempt_fits:
  assumes "\<not> v_circuit_open (b_value b)" "fits_budgets s b cost sc" "i + out \<le> tpm_limit s"
  shows "(\<exists>item b' ws. reserve_attempt s b endpoint model i out cost sc now rid = Inr (Granted rid item b' ws))
    \<or> (\<exists>delay. reserve_attempt s b endpoint model i out cost sc now rid = Inr (Wait delay)
         \<and> 50000 \<le> delay \<and> recent_usage b now \<noteq> [] \<or> rpm_limit s \<le> 0)"
  using assms
  by (cases sc) (auto simp: reserve_attempt_def fits_budgets_def rate_delay_def Let_def split: if_splits)

lemma rounds_decrease:
  fixes gap :: int
  assumes "0 < gap" "100000 \<le> sl" "nat ((gap + 99999) div 100000) + 1 \<le> Suc fuel"
  shows "nat ((gap - sl + 99999) div 100000) + 1 \<le> fuel"
proof -
  have "(gap - sl + 99999) div 100000 \<le> (gap + 99999 - 100000) div 100000"
    by (rule zdiv_mono1) (use assms in auto)
  also have "\<dots> = (gap + 99999) div 100000 - 1"
    using div_add_self2 [of 100000 "gap + 99999 - 100000"] by simp
  finally have "(gap - sl + 99999) div 100000 \<le> (gap + 99999) div 100000 - 1" .
  moreover have "1 \<le> (gap + 99999) div 100000"
    using zdiv_mono1 [of 100000 "gap + 99999" 100000] assms(1) by simp
  ultimately show ?thesis
    using assms(3) by linarith
qed

lemma reserve_loop_grants:
  assumes "\<not> v_circuit_open (b_value b)" "fits_budgets s b cost sc" "i + out \<le> tpm_limit s"
    "0 < rpm_limit s" "stamps_before b t"
    and "nat ((t + usec 60 - now + 99999) div 100000) + 1 \<le> fuel"
  shows "\<exists>item b' ws. reserve_loop fuel s b endpoint model i out cost sc now rid = Some (Inr (Granted rid item b' ws))"
  using assms(6)
proof (induction fuel arbitrary: now)
  case (Suc fuel)
  from reserve_attempt_fits [OF assms(1-3), of endpoint model now rid] show ?case
  proof (elim disjE exE conjE)
    fix delay
    assume w: "reserve_attempt s b endpoint model i out cost sc now rid = Inr (Wait delay)"
      and d: "50000 \<le> delay" and r: "recent_usage b now \<noteq> []"
    have early: "now < t + usec 60"
      using recent_usage_expired [OF assms(5), of now] r by linarith
    have "100000 \<le> sleep_time delay"
      using d by (simp add: sleep_time_def)
    with early Suc.prems have "nat ((t + usec 60 - (now + sleep_time delay) + 99999) div 100000) + 1 \<le> fuel"
      using rounds_decrease [of "t + usec 60 - now" "sleep_time delay" fuel] by (simp add: algebra_simps)
    from Suc.IH [OF this] w show ?thesis by simp
  qed (use assms(4) in auto)
qed simp

lemma reserve_loop_Granted:
  "reserve_loop fuel s b endpoint model i out cost sc now rid = Some (Inr (Granted r item b' ws)) \<Longrightarrow>
   r_cost_usd (f_reservation item) = cost \<and> b' = b\<lparr>b_value := add_flight rid item (b_value b)\<rparr>"
proof (induction fuel arbitrary: now)
  case (Suc fuel)
  obtain scope period cap where "sc = (scope, period, cap)" by (metis prod_cases3)
  with Suc show ?case
    using reserve_attempt_GrantedD(4,5) by (auto split: sum.splits attempt.splits)
qed simp

text \<open>
  C5: A reservation that fits both budgets and the token limit is granted: with the circuit closed
  and nobody else active, the waiting loop of \<open>reserve\<close> ends within one round per tenth of a
  second until a minute after the last recorded start, and returns a reservation.
\<close>

theorem reserve_terminates:
  assumes "reserve_cost s model i out = Inr cost" and "\<not> v_circuit_open (b_value b)"
    and "fits_budgets s b cost (scope_for s endpoint now)" and "i + out \<le> tpm_limit s" and "0 < rpm_limit s"
    and "stamps_before b t" and "nat ((t + usec 60 - now + 99999) div 100000) + 1 \<le> fuel"
  shows "\<exists>item b' ws. reserve fuel s b endpoint model i out now rid = Some (Inr (Granted rid item b' ws))
     \<and> r_cost_usd (f_reservation item) = cost \<and> b' = b\<lparr>b_value := add_flight rid item (b_value b)\<rparr>"
proof -
  obtain item b' ws where r: "reserve_loop fuel s b endpoint model i out cost (scope_for s endpoint now) now rid
      = Some (Inr (Granted rid item b' ws))"
    using reserve_loop_grants [OF assms(2-7)] by blast
  with reserve_loop_Granted [OF r] assms(1) show ?thesis
    by (auto simp: reserve_def)
qed

theorem reserve_terminates_witness:
  "\<exists>item b' ws. reserve 1 demo_settings demo_state ''chat'' ''h'' 10 5 (usec 60) ''x''
     = Some (Inr (Granted ''x'' item b' ws)) \<and> r_cost_usd (f_reservation item) = Fin (9 / 2000000)"
proof -
  have c: "reserve_cost demo_settings ''h'' 10 5 = Inr (Fin (9 / 2000000))"
    by (simp add: reserve_cost_def demo_settings_def token_cost_def)
  have f: "fits_budgets demo_settings demo_state (Fin (9 / 2000000)) (scope_for demo_settings ''chat'' (usec 60))"
    by (simp add: fits_budgets_def scope_for_def demo_settings_def demo_state_def fresh_ledger_def fresh_circuit_def
        effective_provider_limit_def pf_sub_def pending_cost_def scope_spend_def)
  show ?thesis
    using reserve_terminates [OF c _ f, of 0 1 "''x''"]
    by (auto simp: demo_state_def demo_settings_def fresh_circuit_def fresh_ledger_def stamps_before_def)
qed

section \<open>Configuration and payloads\<close>

definition all_finite :: "settings \<Rightarrow> bool" where
  "all_finite s = (is_fin (provider_total_limit_usd s) \<and> is_fin (provider_safety_margin_usd s)
     \<and> is_fin (hindsight_backfill_limit_usd s) \<and> is_fin (hindsight_monthly_limit_usd s)
     \<and> is_fin (qwen_monthly_limit_usd s) \<and> is_fin (initial_provider_spend_usd s)
     \<and> list_all (\<lambda>(m, a, b). is_fin a \<and> is_fin b) (prices s))"

lemma positive_float_pos: "positive_float env n d = Inr v \<Longrightarrow> is_fin v \<Longrightarrow> 0 < fin_val v"
  by (cases v) (auto simp: positive_float_def zero_Fin split: option.splits if_splits)

lemma nonnegative_float_nn: "nonnegative_float env n d = Inr v \<Longrightarrow> is_fin v \<Longrightarrow> 0 \<le> fin_val v"
  by (cases v) (auto simp: nonnegative_float_def zero_Fin split: option.splits if_splits)

lemma positive_int_pos: "positive_int env n d = Inr v \<Longrightarrow> 0 < v"
  by (auto simp: positive_int_def split: option.splits if_splits)

lemma from_env_limits:
  assumes "from_env env mn = Inr s"
  shows "positive_float env ''PROVIDER_TOTAL_LIMIT_USD'' ''50'' = Inr (provider_total_limit_usd s)"
    and "nonnegative_float env ''PROVIDER_SAFETY_MARGIN_USD'' ''0.50'' = Inr (provider_safety_margin_usd s)"
    and "positive_float env ''HINDSIGHT_BACKFILL_LIMIT_USD'' ''30'' = Inr (hindsight_backfill_limit_usd s)"
    and "positive_float env ''HINDSIGHT_MONTHLY_LIMIT_USD'' ''10'' = Inr (hindsight_monthly_limit_usd s)"
    and "positive_float env ''QWEN_MONTHLY_LIMIT_USD'' ''5'' = Inr (qwen_monthly_limit_usd s)"
    and "nonnegative_float env ''INITIAL_PROVIDER_SPEND_USD'' ''0'' = Inr (initial_provider_spend_usd s)"
    and "positive_int env ''PROXY_RPM_LIMIT'' ''30'' = Inr (rpm_limit s)"
    and "positive_int env ''PROXY_TPM_LIMIT'' ''1000000'' = Inr (tpm_limit s)"
    and "\<not> pf_lt (effective_provider_limit s) (hindsight_backfill_limit_usd s)"
  using assms unfolding from_env_def Let_def bindR_eq_Inr guard_that_eq_Inr sum.inject
  by (elim exE conjE, hypsubst, simp)+

lemma from_env_prices:
  assumes "from_env env mn = Inr s"
  shows "\<exists>h_in h_out q_in q_out.
    positive_float env ''HINDSIGHT_INPUT_USD_PER_M''
      (getenv env ''GPT_OSS_120B_INPUT_USD_PER_M'' ''0.15'') = Inr h_in
    \<and> positive_float env ''HINDSIGHT_OUTPUT_USD_PER_M''
      (getenv env ''GPT_OSS_120B_OUTPUT_USD_PER_M'' ''0.60'') = Inr h_out
    \<and> positive_float env ''QWEN_INPUT_USD_PER_M'' ''0.01'' = Inr q_in
    \<and> nonnegative_float env ''QWEN_OUTPUT_USD_PER_M'' ''0'' = Inr q_out
    \<and> prices s = AList.update (QWEN_MODEL mn) (q_in, q_out) [(HINDSIGHT_MODEL mn, (h_in, h_out))]"
  using assms unfolding from_env_def Let_def bindR_eq_Inr guard_that_eq_Inr sum.inject
  by (elim exE conjE, hypsubst, simp)

lemma from_env_names:
  assumes "from_env env mn = Inr s"
  shows "provider_api_key s \<noteq> [] \<and> proxy_api_key s \<noteq> [] \<and> provider_api_key s \<noteq> proxy_api_key s"
    and "hindsight_phase s \<in> {''backfill'', ''monthly''}"
  using assms unfolding from_env_def Let_def bindR_eq_Inr guard_that_eq_Inr sum.inject compare_digest_def
  by (elim exE conjE, hypsubst, simp split: if_splits)+

lemma from_env_settings_ok:
  assumes "from_env env mn = Inr s" and fin: "all_finite s"
  shows "settings_ok s"
proof -
  obtain h_in h_out q_in q_out where
    p: "positive_float env ''HINDSIGHT_INPUT_USD_PER_M''
          (getenv env ''GPT_OSS_120B_INPUT_USD_PER_M'' ''0.15'') = Inr h_in"
       "positive_float env ''HINDSIGHT_OUTPUT_USD_PER_M''
          (getenv env ''GPT_OSS_120B_OUTPUT_USD_PER_M'' ''0.60'') = Inr h_out"
       "positive_float env ''QWEN_INPUT_USD_PER_M'' ''0.01'' = Inr q_in"
       "nonnegative_float env ''QWEN_OUTPUT_USD_PER_M'' ''0'' = Inr q_out"
    and pr: "prices s = AList.update (QWEN_MODEL mn) (q_in, q_out) [(HINDSIGHT_MODEL mn, (h_in, h_out))]"
    using from_env_prices [OF assms(1)] by blast
  have "list_all (\<lambda>(m, a, b). is_fin a \<and> is_fin b \<and> 0 \<le> fin_val a \<and> 0 \<le> fin_val b) (prices s)"
    using fin p(1,2,3) [THEN positive_float_pos] p(4) [THEN nonnegative_float_nn] pr
    by (auto simp: all_finite_def less_imp_le)
  then show ?thesis
    using fin nonnegative_float_nn [OF from_env_limits(6) [OF assms(1)]]
    by (simp add: all_finite_def settings_ok_def)
qed

text \<open>
  A configuration that \<open>Settings.from_env\<close> accepts has distinct non-empty keys, a known phase
  and positive rate limits; if its numbers are finite, its limits are positive, the backfill limit
  is within the effective provider limit, and it meets what the spending theorems assume.
\<close>

theorem from_env_sound:
  assumes "from_env env mn = Inr s"
  shows "provider_api_key s \<noteq> [] \<and> proxy_api_key s \<noteq> [] \<and> provider_api_key s \<noteq> proxy_api_key s
    \<and> hindsight_phase s \<in> {''backfill'', ''monthly''} \<and> 0 < rpm_limit s \<and> 0 < tpm_limit s
    \<and> (all_finite s \<longrightarrow> settings_ok s \<and> 0 < fin_val (qwen_monthly_limit_usd s)
       \<and> 0 < fin_val (hindsight_monthly_limit_usd s) \<and> 0 < fin_val (hindsight_backfill_limit_usd s)
       \<and> fin_val (hindsight_backfill_limit_usd s) \<le> fin_val (effective_provider_limit s))"
proof -
  have "all_finite s \<Longrightarrow> is_fin (effective_provider_limit s)"
    by (auto simp: all_finite_def effective_provider_limit_def pf_sub_def elim!: is_finE)
  then have "all_finite s \<Longrightarrow> fin_val (hindsight_backfill_limit_usd s) \<le> fin_val (effective_provider_limit s)"
    using from_env_limits(9) [OF assms] not_pf_lt_fin by (simp add: all_finite_def)
  then show ?thesis
    using from_env_names [OF assms] from_env_limits(7,8) [OF assms, THEN positive_int_pos]
      from_env_limits(3,4,5) [OF assms, THEN positive_float_pos] from_env_settings_ok [OF assms]
    by (simp add: all_finite_def)
qed

definition demo_env :: env where
  "demo_env = [''PROVIDER_API_KEY'' \<mapsto> ''k'', ''PROXY_API_KEY'' \<mapsto> '' p '']"

lemma default_floats:
  "py_float ''50'' = Some (Fin 50)" "py_float ''0.50'' = Some (Fin (1 / 2))"
  "py_float ''30'' = Some (Fin 30)" "py_float ''10'' = Some (Fin 10)" "py_float ''5'' = Some (Fin 5)"
  "py_float ''0.15'' = Some (Fin (3 / 20))" "py_float ''0.60'' = Some (Fin (3 / 5))"
  "py_float ''0.01'' = Some (Fin (1 / 100))" "py_float ''0'' = Some (Fin 0)"
  by (simp_all add: float_text_simps)

lemma default_ints: "py_int ''30'' = Some 30" "py_int ''1000000'' = Some 1000000"
  by (simp_all add: py_int_def float_text_simps)

lemma demo_from_env:
  "\<exists>s. from_env demo_env demo_models = Inr s \<and> proxy_api_key s = ''p''"
  by (simp add: from_env_def demo_env_def getenv_def positive_float_def nonnegative_float_def
      positive_int_def default_floats default_ints strip_def strip_on_def rstrip_on_def is_space_def
      code_def lower_def lower_char_def chr_def compare_digest_def effective_provider_limit_def
      pf_sub_def zero_Fin)

theorem from_env_sound_witness:
  "\<exists>s. from_env demo_env demo_models = Inr s \<and> proxy_api_key s = ''p'' \<and> 0 < rpm_limit s \<and> 0 < tpm_limit s"
proof -
  obtain s where s: "from_env demo_env demo_models = Inr s" "proxy_api_key s = ''p''"
    using demo_from_env by blast
  with from_env_sound [OF s(1)] show ?thesis by auto
qed

end
