(* ===== verification/Budget_Checks.thy ===== *)
theory Budget_Checks
  imports Budget_Props
begin

text \<open>
  The request side of the budget proxy and the operator's tools: what the payload checks force on
  a request before it is forwarded, which requests reach the reservation at all, how every error
  of the handler is answered, what a settled call costs, and what the two recovery tools change.
\<close>

section \<open>Dictionaries\<close>

lemma update_same: "map_of d k = Some v \<Longrightarrow> AList.update k v d = d"
  by (induction d) auto

lemma map_of_delete_self [simp]: "map_of (AList.delete k d) k = None"
  by (simp add: AList.delete_conv)

lemma map_of_delete_other [simp]: "k' \<noteq> k \<Longrightarrow> map_of (AList.delete k d) k' = map_of d k'"
  by (simp add: AList.delete_conv)

lemma map_of_update_self [simp]: "map_of (AList.update k v d) k = Some v"
  by (simp add: AList.update_conv)

lemma map_of_update_other [simp]: "k' \<noteq> k \<Longrightarrow> map_of (AList.update k v d) k' = map_of d k'"
  by (simp add: AList.update_conv)

lemma get_or_cong: "map_of d k = map_of d' k \<Longrightarrow> get_or d k v = get_or d' k v"
  by (simp add: get_or_def)

section \<open>Chat payloads\<close>

definition forced_chat :: "json dict \<Rightarrow> int \<Rightarrow> json dict" where
  "forced_chat payload cap =
     AList.delete ''max_tokens''
       (AList.update ''max_completion_tokens'' (JInt cap)
         (AList.update ''include_reasoning'' (JBool False)
           (AList.update ''reasoning_effort'' (JStr ''low'') payload)))"

definition forced_keys :: "string set" where
  "forced_keys = {''reasoning_effort'', ''include_reasoning'', ''max_completion_tokens'', ''max_tokens''}"

lemma forced_chat_lookup:
  "map_of (forced_chat p n) ''reasoning_effort'' = Some (JStr ''low'')"
  "map_of (forced_chat p n) ''include_reasoning'' = Some (JBool False)"
  "map_of (forced_chat p n) ''max_completion_tokens'' = Some (JInt n)"
  "map_of (forced_chat p n) ''max_tokens'' = None"
  by (simp_all add: forced_chat_def)

lemma forced_chat_other: "k \<notin> forced_keys \<Longrightarrow> map_of (forced_chat p n) k = map_of p k"
  by (simp add: forced_chat_def forced_keys_def)

lemma forced_chat_idem: "forced_chat (forced_chat p n) n = forced_chat p n"
proof -
  let ?q = "forced_chat p n"
  have "AList.update ''reasoning_effort'' (JStr ''low'') ?q = ?q"
    and "AList.update ''include_reasoning'' (JBool False) ?q = ?q"
    and "AList.update ''max_completion_tokens'' (JInt n) ?q = ?q"
    using forced_chat_lookup by (blast intro: update_same)+
  moreover have "AList.delete ''max_tokens'' ?q = ?q"
    by (rule delete_absent [OF forced_chat_lookup(4)])
  ultimately show ?thesis
    unfolding forced_chat_def [of ?q] by simp
qed

definition chat_ok :: "model_names \<Rightarrow> json dict \<Rightarrow> int \<Rightarrow> bool" where
  \<comment> \<open>the conditions under which \<open>prepare_chat_payload\<close> accepts\<close>
  "chat_ok mn payload cap = (jget payload ''model'' = JStr (HINDSIGHT_MODEL mn)
     \<and> \<not> truthy (jget payload ''stream'')
     \<and> int_of_json (get_or payload ''max_completion_tokens'' (get_or payload ''max_tokens'' (JInt 8192))) = Inr cap
     \<and> 0 < cap \<and> cap \<le> 8192
     \<and> get_or payload ''reasoning_effort'' (JStr ''low'') = JStr ''low''
     \<and> (jget payload ''include_reasoning'' = JNull \<or> eq_False (jget payload ''include_reasoning''))
     \<and> \<not> strict_schema (jget payload ''response_format''))"

definition prompt_bound :: "(rat \<Rightarrow> string) \<Rightarrow> json dict \<Rightarrow> int" where
  "prompt_bound frepr p = max 1 (int (utf8_len (dumps frepr (or_else (jget p ''messages'') (JList [])))))"

lemma prepare_chat_iff:
  "prepare_chat_payload mn frepr value = Inr r \<longleftrightarrow>
     (\<exists>cap. is_obj value \<and> chat_ok mn (members value) cap
       \<and> r = (forced_chat (members value) cap, prompt_bound frepr (forced_chat (members value) cap), cap))"
  unfolding prepare_chat_payload_def Let_def bindR_eq_Inr guard_that_eq_Inr convert_int_Inr chat_ok_def
    forced_chat_def [symmetric] prompt_bound_def [symmetric] MAX_COMPLETION_TOKENS_def sum.inject
  by blast

lemma chat_ok_forced:
  assumes "chat_ok mn p n"
  shows "chat_ok mn (forced_chat p n) n"
proof -
  have "jget (forced_chat p n) k = jget p k" if "k \<in> {''model'', ''stream'', ''response_format''}" for k
    using that by (auto intro!: get_or_cong forced_chat_other simp: forced_keys_def)
  then show ?thesis
    using assms forced_chat_lookup by (simp add: chat_ok_def get_or_def [of _ "''reasoning_effort''"]
        get_or_def [of _ "''max_completion_tokens''"] get_or_def [of _ "''include_reasoning''"] eq_False_def)
qed

text \<open>
  C6: A chat request that is forwarded names the allowed model, is not streamed, carries
  \<open>reasoning_effort\<close> low and \<open>include_reasoning\<close> false, has one completion-token
  ceiling between 1 and 8192, which is the number of output tokens reserved, no other field is
  changed, and at least one input token is reserved.
\<close>

theorem chat_payload_sound:
  assumes "prepare_chat_payload mn frepr value = Inr (p, input_tokens, output_tokens)"
  shows "map_of p ''model'' = Some (JStr (HINDSIGHT_MODEL mn)) \<and> \<not> truthy (jget p ''stream'')
    \<and> map_of p ''reasoning_effort'' = Some (JStr ''low'') \<and> map_of p ''include_reasoning'' = Some (JBool False)
    \<and> map_of p ''max_completion_tokens'' = Some (JInt output_tokens) \<and> map_of p ''max_tokens'' = None
    \<and> 1 \<le> output_tokens \<and> output_tokens \<le> 8192 \<and> 1 \<le> input_tokens
    \<and> (\<forall>k. k \<notin> forced_keys \<longrightarrow> map_of p k = map_of (members value) k)"
proof -
  obtain ok: "chat_ok mn (members value) output_tokens"
    and p: "p = forced_chat (members value) output_tokens"
    and i: "input_tokens = prompt_bound frepr p"
    using assms unfolding prepare_chat_iff by auto
  have "map_of p ''model'' = Some (JStr (HINDSIGHT_MODEL mn))" "\<not> truthy (jget p ''stream'')"
    using chat_ok_forced [OF ok] p by (auto simp: chat_ok_def get_or_def split: option.splits)
  with ok i show ?thesis
    unfolding p using forced_chat_lookup forced_chat_other by (simp add: chat_ok_def prompt_bound_def)
qed

definition demo_chat :: json where
  "demo_chat = JObj [(''model'', JStr ''h''), (''max_tokens'', JInt 7), (''messages'', JList [JStr ''hi''])]"

lemma demo_chat_prepared:
  "prepare_chat_payload demo_models (\<lambda>_. []) demo_chat = Inr
     ([(''model'', JStr ''h''), (''messages'', JList [JStr ''hi'']), (''reasoning_effort'', JStr ''low''),
       (''include_reasoning'', JBool False), (''max_completion_tokens'', JInt 7)], 6, 7)"
  by code_simp

theorem chat_payload_sound_witness:
  "(1 :: int) \<le> 7 \<and> map_of [(''model'', JStr ''h''), (''messages'', JList [JStr ''hi'']),
     (''reasoning_effort'', JStr ''low''), (''include_reasoning'', JBool False),
     (''max_completion_tokens'', JInt 7)] ''max_tokens'' = None"
  using chat_payload_sound [OF demo_chat_prepared] by blast

text \<open>
  Normalisation of a chat payload is idempotent: a payload that was prepared once is accepted
  again, unchanged and with the same reserved tokens.
\<close>

theorem prepare_chat_idempotent:
  assumes "prepare_chat_payload mn frepr value = Inr (p, input_tokens, output_tokens)"
  shows "prepare_chat_payload mn frepr (JObj p) = Inr (p, input_tokens, output_tokens)"
proof -
  obtain ok: "chat_ok mn (members value) output_tokens"
    and p: "p = forced_chat (members value) output_tokens"
    and i: "input_tokens = prompt_bound frepr p"
    using assms unfolding prepare_chat_iff by auto
  have "is_obj (JObj p)" "members (JObj p) = p" "forced_chat p output_tokens = p"
    using p by (simp_all add: is_obj_def members_def forced_chat_idem)
  moreover have "chat_ok mn p output_tokens"
    unfolding p by (rule chat_ok_forced [OF ok])
  ultimately show ?thesis
    using i unfolding prepare_chat_iff by (metis (no_types))
qed

theorem prepare_chat_idempotent_witness:
  "\<exists>p. prepare_chat_payload demo_models (\<lambda>_. []) demo_chat = Inr (p, 6, 7)
     \<and> prepare_chat_payload demo_models (\<lambda>_. []) (JObj p) = Inr (p, 6, 7)"
  using prepare_chat_idempotent [OF demo_chat_prepared] demo_chat_prepared by blast

section \<open>Embedding payloads\<close>

definition dimensions_ok :: "json \<Rightarrow> json \<Rightarrow> bool" where
  \<comment> \<open>the field before and after the check\<close>
  "dimensions_ok before after = (if before = JNull then after = JNull
     else (\<exists>n. int_of_json before = Inr n \<and> 1 \<le> n \<and> n \<le> 4096 \<and> after = JInt n))"

lemma embedding_texts_Inr:
  "embedding_texts inputs = Inr xs \<Longrightarrow> list_all is_jstr xs \<and> xs \<noteq> [] \<and> (inputs = JList xs \<or> [inputs] = xs)"
  by (auto simp: embedding_texts_def is_jstr_def split: json.splits if_splits)

text \<open>
  An embedding request that is forwarded names the allowed model and carries between 1 and 64
  texts and nothing else as input; its dimensions, where given, are an integer between 1 and 4096;
  every other field is unchanged, no output tokens and at least one input token are reserved.
\<close>

theorem embedding_payload_sound:
  assumes "prepare_embedding_payload mn frepr value = Inr (p, input_tokens, output_tokens)"
  shows "map_of p ''model'' = Some (JStr (QWEN_MODEL mn))
    \<and> (\<exists>xs. (jget p ''input'' = JList xs \<or> [jget p ''input''] = xs) \<and> list_all is_jstr xs
         \<and> xs \<noteq> [] \<and> length xs \<le> 64)
    \<and> dimensions_ok (jget (members value) ''dimensions'') (jget p ''dimensions'')
    \<and> (\<forall>k. k \<noteq> ''dimensions'' \<longrightarrow> map_of p k = map_of (members value) k)
    \<and> output_tokens = 0 \<and> 1 \<le> input_tokens"
proof -
  let ?m = "members value"
  from assms obtain xs where
    m: "jget ?m ''model'' = JStr (QWEN_MODEL mn)"
    and xs: "embedding_texts (jget ?m ''input'') = Inr xs" "length xs \<le> 64"
    and p: "(if jget ?m ''dimensions'' = JNull then Inr ?m
             else bindR (convert_int (jget ?m ''dimensions'') ''embedding dimensions must be an integer'') (\<lambda>n.
                  bindR (guard_that (1 \<le> n \<and> n \<le> 4096) (GuardViolation ''embedding dimensions are outside 1..4096''))
                    (\<lambda>_. Inr (AList.update ''dimensions'' (JInt n) ?m)))) = Inr p"
    and tok: "output_tokens = 0" "1 \<le> input_tokens"
    unfolding prepare_embedding_payload_def Let_def bindR_eq_Inr guard_that_eq_Inr sum.inject prod.inject by auto
  have other: "map_of p k = map_of ?m k" if "k \<noteq> ''dimensions''" for k
    using p that by (auto split: if_splits)
  then have "jget p ''model'' = jget ?m ''model''" "jget p ''input'' = jget ?m ''input''"
    by (simp_all add: get_or_def)
  moreover have "dimensions_ok (jget ?m ''dimensions'') (jget p ''dimensions'')"
    using p by (auto simp: dimensions_ok_def get_or_def split: if_splits)
  moreover have "map_of p ''model'' = Some (JStr (QWEN_MODEL mn))"
    using m other by (auto simp: get_or_def split: option.splits)
  ultimately show ?thesis
    using embedding_texts_Inr [OF xs(1)] xs(2) other tok by auto
qed

definition demo_embed :: json where
  "demo_embed = JObj [(''model'', JStr ''q''), (''input'', JList [JStr ''a'', JStr ''b'']), (''dimensions'', JStr ''64'')]"

lemma demo_embed_prepared:
  "prepare_embedding_payload demo_models (\<lambda>_. []) demo_embed = Inr
     ([(''model'', JStr ''q''), (''input'', JList [JStr ''a'', JStr ''b'']), (''dimensions'', JInt 64)], 10, 0)"
  by code_simp

theorem embedding_payload_sound_witness:
  "dimensions_ok (jget (members demo_embed) ''dimensions'')
     (jget [(''model'', JStr ''q''), (''input'', JList [JStr ''a'', JStr ''b'']), (''dimensions'', JInt 64)] ''dimensions'')"
  using embedding_payload_sound [OF demo_embed_prepared] by blast

section \<open>Admission\<close>

definition is_ascii :: "string \<Rightarrow> bool" where
  "is_ascii t = list_all (\<lambda>c. code c < 128) t"

lemma compare_digest_cases:
  "compare_digest a b = (if is_ascii a \<and> is_ascii b then Inr (a = b)
     else Inl (TypeError ''comparing strings with non-ASCII characters is not supported''))"
  by (auto simp: compare_digest_def is_ascii_def list_all_iff)

lemma authorized_True: "authorized s q = Inr True \<Longrightarrow> q_authorization q = ''Bearer '' @ proxy_api_key s"
  by (auto simp: authorized_def compare_digest_cases split: if_splits)

lemma authorized_Inl:
  "authorized s q = Inl e \<Longrightarrow> \<not> (is_ascii (proxy_api_key s) \<and> is_ascii (q_authorization q)) \<and> (\<exists>m. e = TypeError m)"
  by (auto simp: authorized_def compare_digest_cases is_ascii_def code_def split: if_splits)

text \<open>
  Only a request with the proxy's own bearer key, on one of the two forwarded paths, while
  egress is enabled, reaches the reservation; it then names one of the two priced models and
  reserves at least one token.
\<close>

theorem admitted_only_authorized:
  assumes "post_admit mn frepr s q = Continue a"
  shows "q_authorization q = ''Bearer '' @ proxy_api_key s \<and> provider_egress_enabled s
    \<and> (route_path q = ''/v1/chat/completions'' \<and> a_endpoint a = ''chat'' \<and> a_model a = HINDSIGHT_MODEL mn
       \<or> route_path q = ''/v1/embeddings'' \<and> a_endpoint a = ''embeddings'' \<and> a_model a = QWEN_MODEL mn)
    \<and> 1 \<le> a_input_tokens a \<and> 0 \<le> a_output_tokens a"
proof -
  let ?chat = "route_path q = ''/v1/chat/completions''"
  have path: "?chat \<or> route_path q = ''/v1/embeddings''"
    using assms unfolding post_admit_def Let_def by (metis outcome.distinct(3))
  with assms have auth: "authorized s q = Inr True" and egress: "provider_egress_enabled s"
    unfolding post_admit_def Let_def by (auto split: sum.splits bool.splits if_splits)
  with assms path have "a_endpoint a = (if ?chat then ''chat'' else ''embeddings'')"
    "a_model a = (if ?chat then HINDSIGHT_MODEL mn else QWEN_MODEL mn)"
    unfolding post_admit_def Let_def on_guard_error_def
    by (auto split: sum.splits exc.splits prod.splits if_splits)
  then show ?thesis
    using path auth egress authorized_True post_admit_tokens [OF assms] by auto
qed

theorem admitted_only_authorized_witness:
  "q_authorization demo_post = ''Bearer '' @ proxy_api_key demo_settings \<and> 1 \<le> a_input_tokens demo_admitted"
  using admitted_only_authorized [OF demo_post_admit] by blast

section \<open>Errors of the handler\<close>

definition handler_error :: "exc \<Rightarrow> bool" where
  \<comment> \<open>what the checks of a payload can raise\<close>
  "handler_error e = (case e of GuardViolation _ \<Rightarrow> True | ValueError _ \<Rightarrow> True | OverflowError _ \<Rightarrow> True | _ \<Rightarrow> False)"

lemma handler_error_simps [simp]:
  "handler_error (GuardViolation m)" "handler_error (ValueError m)" "handler_error (OverflowError m)"
  by (simp_all add: handler_error_def)

lemma read_body_error: "read_body q = Inl e \<Longrightarrow> handler_error e"
  by (auto simp: read_body_def bindR_eq_Inl split: option.splits)

lemma convert_int_error: "convert_int v msg = Inl e \<Longrightarrow> handler_error e"
  using convert_int_Inl [of v msg e] by auto

lemma prepare_chat_error: "prepare_chat_payload mn frepr v = Inl e \<Longrightarrow> handler_error e"
  unfolding prepare_chat_payload_def Let_def bindR_eq_Inl guard_that_eq_Inl
  using convert_int_error by auto

lemma prepare_embedding_error: "prepare_embedding_payload mn frepr v = Inl e \<Longrightarrow> handler_error e"
  unfolding prepare_embedding_payload_def Let_def bindR_eq_Inl guard_that_eq_Inl embedding_texts_def
  using convert_int_error by (auto simp: bindR_eq_Inl split: if_splits json.splits)

definition answer_ok :: "settings \<Rightarrow> http_request \<Rightarrow> 'a outcome \<Rightarrow> bool" where
  "answer_ok s q out = (case out of
      Respond status _ \<Rightarrow> status \<in> {400, 401, 404, 503}
    | Unhandled (TypeError _) \<Rightarrow> \<not> (is_ascii (proxy_api_key s) \<and> is_ascii (q_authorization q))
    | Unhandled (OverflowError _) \<Rightarrow> authorized s q = Inr True
    | Unhandled _ \<Rightarrow> False
    | Continue _ \<Rightarrow> True)"

lemma guard_error_answer: "handler_error e \<Longrightarrow> authorized s q = Inr True \<Longrightarrow> answer_ok s q (on_guard_error e)"
  by (cases e) (simp_all add: answer_ok_def on_guard_error_def handler_error_def)

lemma checked_error:
  "bindR (read_body q) (if chat then prepare_chat_payload mn frepr else prepare_embedding_payload mn frepr) = Inl e
   \<Longrightarrow> handler_error e"
  using read_body_error prepare_chat_error prepare_embedding_error
  by (auto simp: bindR_eq_Inl split: if_splits)


text \<open>
  The uncaught case is real: an authorised chat request whose \<open>max_tokens\<close> is the JSON
  number \<open>Infinity\<close> makes \<open>int()\<close> raise \<open>OverflowError\<close>, which neither the payload check nor
  \<open>do_POST\<close> catches.
\<close>

theorem infinite_ceiling_unhandled:
  assumes "provider_egress_enabled s" and "is_ascii (proxy_api_key s)"
  shows "post_admit mn frepr s
      \<lparr>q_path = ''/v1/chat/completions'', q_authorization = ''Bearer '' @ proxy_api_key s,
       q_content_length = Some ''60'',
       q_body = Some (JObj [(''model'', JStr (HINDSIGHT_MODEL mn)), (''max_tokens'', JFloat PInf)])\<rparr>
    = Unhandled (OverflowError ''cannot convert float infinity to integer'')"
proof -
  have "py_int ''60'' = Some 60"
    by (simp add: py_int_def float_text_simps)
  moreover have "is_ascii (''Bearer '' @ proxy_api_key s)"
    using assms(2) by (simp add: is_ascii_def code_def)
  moreover have "rstrip_on (\<lambda>c. c = CHR ''/'') ''/v1/chat/completions'' = ''/v1/chat/completions''"
    by (simp add: rstrip_on_def)
  ultimately show ?thesis
    using assms(1)
    by (simp add: post_admit_def route_path_def authorized_def compare_digest_cases read_body_def
        MAX_BODY_BYTES_def prepare_chat_payload_def is_obj_def members_def get_or_def convert_int_def
        on_guard_error_def)
qed

theorem infinite_ceiling_unhandled_witness:
  "\<exists>q. post_admit demo_models (\<lambda>_. []) demo_settings q
     = Unhandled (OverflowError ''cannot convert float infinity to integer'')"
  using infinite_ceiling_unhandled [of demo_settings demo_models "\<lambda>_. []"]
  by (auto simp: demo_settings_def is_ascii_def code_def)

section \<open>Settlement\<close>

text \<open>
  C8: A settled call is charged the greater of the price of its tokens and the provider's own
  figure; that cost is added to the running total, the call is appended to the ledger, exactly its
  own reservation is released, and the ledger is written before the state file.
\<close>

theorem settled_call_cost:
  assumes "record_call s b rid u now = Inr (call, b', ws)"
  shows "\<exists>f pr. map_of (v_in_flight (b_value b)) rid = Some f \<and> map_of (prices s) (f_model f) = Some pr
     \<and> c_scope call = f_scope f \<and> c_period call = f_period f
     \<and> c_cost_usd call = pf_max (token_cost pr (c_input_tokens call) (c_output_tokens call)) (reported_cost (members u))
     \<and> l_provider_spent_usd (b_ledger b') = l_provider_spent_usd (b_ledger b) + c_cost_usd call
     \<and> l_calls (b_ledger b') = l_calls (b_ledger b) @ [call]
     \<and> (\<forall>r. map_of (v_in_flight (b_value b')) r = (if r = rid then None else map_of (v_in_flight (b_value b)) r))
     \<and> ws = [WLedger (b_ledger b'), WState (b_value b')]"
  using assms
  by (auto simp: record_call_def Let_def reserve_cost_def split: option.splits prod.splits)

definition demo_busy :: bstate where
  "demo_busy = demo_state\<lparr>b_value := fresh_circuit\<lparr>v_in_flight := [(''r'', demo_flight)]\<rparr>\<rparr>"

lemma demo_recorded:
  "\<exists>call b' ws. record_call demo_settings demo_busy ''r'' (JObj [(''prompt_tokens'', JInt 4), (''cost'', JInt 1)]) 9
      = Inr (call, b', ws)"
  by (simp add: record_call_def demo_busy_def demo_state_def fresh_circuit_def is_obj_def members_def settled_tokens_def
      get_or_def reserve_cost_def demo_flight_def demo_settings_def Let_def)

theorem settled_call_cost_witness:
  "\<exists>call b' ws. record_call demo_settings demo_busy ''r'' (JObj [(''prompt_tokens'', JInt 4), (''cost'', JInt 1)]) 9
      = Inr (call, b', ws) \<and> l_calls (b_ledger b') = [call]"
proof -
  obtain call b' ws where r: "record_call demo_settings demo_busy ''r''
      (JObj [(''prompt_tokens'', JInt 4), (''cost'', JInt 1)]) 9 = Inr (call, b', ws)"
    using demo_recorded by blast
  have "l_calls (b_ledger demo_busy) = []"
    by (simp add: demo_busy_def demo_state_def fresh_ledger_def)
  with settled_call_cost [OF r] r show ?thesis by auto
qed

text \<open>
  C9: However the provider answers, the ledger changes only by a successfully settled call. When
  the outcome is unknown (no answer, or an answer that cannot be settled) the client gets 502, the
  circuit opens and the reservation stays charged; a 401 or 402 opens the circuit and releases the
  reservation; any other error status only releases it.
\<close>

theorem post_finish_outcomes:
  assumes "post_finish s b rid up now = (status, b', ws)" and "rid \<noteq> []"
  shows "(case up of
      Failed _ \<Rightarrow> status = 502 \<and> b_ledger b' = b_ledger b \<and> v_circuit_open (b_value b')
        \<and> v_in_flight (b_value b') = v_in_flight (b_value b)
    | Answer st body \<Rightarrow>
        if st = 401 \<or> st = 402
        then status = st \<and> b_ledger b' = b_ledger b \<and> v_circuit_open (b_value b')
          \<and> v_in_flight (b_value b') = AList.delete rid (v_in_flight (b_value b))
        else if st < 400
        then (case bindR (usage_of body) (\<lambda>u. record_call s b rid u now) of
            Inr (call, b'', _) \<Rightarrow> status = st \<and> b' = b''
          | Inl _ \<Rightarrow> status = 502 \<and> b_ledger b' = b_ledger b \<and> v_circuit_open (b_value b')
              \<and> v_in_flight (b_value b') = v_in_flight (b_value b))
        else status = st \<and> b_ledger b' = b_ledger b
          \<and> v_circuit_open (b_value b') = v_circuit_open (b_value b)
          \<and> v_in_flight (b_value b') = AList.delete rid (v_in_flight (b_value b)))"
  using assms
  by (auto simp: post_finish_def ambiguous_def open_circuit_def discard_def Let_def
      split: upstream.splits sum.splits prod.splits if_splits)

theorem post_finish_outcomes_witness:
  "case post_finish demo_settings demo_busy ''r'' (Failed ''ReadTimeout'') 9 of
     (status, b', ws) \<Rightarrow> status = 502 \<and> v_in_flight (b_value b') = [(''r'', demo_flight)]"
proof -
  obtain status b' ws where r: "post_finish demo_settings demo_busy ''r'' (Failed ''ReadTimeout'') 9 = (status, b', ws)"
    by (metis prod_cases3)
  have "v_in_flight (b_value demo_busy) = [(''r'', demo_flight)]"
    by (simp add: demo_busy_def)
  with post_finish_outcomes [OF r] r show ?thesis by simp
qed

section \<open>Operator tools\<close>

text \<open>
  C10: Reconciliation charges each ambiguous reservation exactly once at its reserved cost: the
  running total grows by the sum of the reservations, one call per reservation is appended, no
  reservation is left, the circuit closes, and a second run on the files it leaves is refused.
\<close>

theorem reconcile_exact:
  assumes "reconcile d ack now = Inr (r, ws)" and "d_ledger d = Some l" and "d_state d = Some v"
  shows "\<exists>l' v' calls. ws = [WLedger l', WState v'] \<and> write_files ws d = \<lparr>d_ledger = Some l', d_state = Some v'\<rparr>
     \<and> l_provider_spent_usd l' = l_provider_spent_usd l + dict_sum (\<lambda>f. r_cost_usd (f_reservation f)) (v_in_flight v)
     \<and> l_calls l' = l_calls l @ calls
     \<and> mset (map c_request_id calls) = mset (map fst (v_in_flight v))
     \<and> v_in_flight v' = [] \<and> \<not> v_circuit_open v' \<and> y_requests r = length (v_in_flight v)
     \<and> reconcile (write_files ws d) ack now' = Inl (ValueError ''proxy has no ambiguous reservations'')"
proof -
  let ?items = "sort_key fst (v_in_flight v)"
  let ?calls = "map (reconciled_call now) ?items"
  have ack: "ack" and full: "v_in_flight v \<noteq> []"
    using assms by (auto simp: reconcile_def)
  have "sum_list (map c_cost_usd ?calls) = dict_sum (\<lambda>f. r_cost_usd (f_reservation f)) ?items"
    by (simp add: dict_sum_def reconciled_call_def comp_def split_beta)
  then have cost: "sum_list (map c_cost_usd ?calls) = dict_sum (\<lambda>f. r_cost_usd (f_reservation f)) (v_in_flight v)"
    by (simp only: dict_sum_sort_key)
  have "map c_request_id ?calls = map fst ?items"
    by (simp add: reconciled_call_def split_beta)
  then have ids: "mset (map c_request_id ?calls) = mset (map fst (v_in_flight v))"
    by (metis mset_map mset_sort)
  show ?thesis
    using assms ack full ids cost [symmetric]
    by (auto simp: reconcile_def Let_def write_files_def multiset.map_comp)
qed

definition demo_stuck :: disk where
  "demo_stuck = \<lparr>d_ledger = Some (fresh_ledger demo_settings),
     d_state = Some (fresh_circuit\<lparr>v_circuit_open := True, v_in_flight := [(''r'', demo_flight)]\<rparr>)\<rparr>"

theorem reconcile_exact_witness:
  "\<exists>r l' v'. reconcile demo_stuck True 5 = Inr (r, [WLedger l', WState v']) \<and> v_in_flight v' = []
     \<and> l_provider_spent_usd l' = Fin 3"
proof -
  obtain r ws where r: "reconcile demo_stuck True 5 = Inr (r, ws)"
    by (simp add: reconcile_def demo_stuck_def Let_def)
  let ?v = "fresh_circuit\<lparr>v_circuit_open := True, v_in_flight := [(''r'', demo_flight)]\<rparr>"
  have files: "d_ledger demo_stuck = Some (fresh_ledger demo_settings)" "d_state demo_stuck = Some ?v"
    by (simp_all add: demo_stuck_def)
  have "l_provider_spent_usd (fresh_ledger demo_settings)
      + dict_sum (\<lambda>f. r_cost_usd (f_reservation f)) (v_in_flight ?v) = Fin 3"
    by (simp add: fresh_ledger_def demo_settings_def demo_flight_def)
  with reconcile_exact [OF r files] r show ?thesis by metis
qed

text \<open>
  C11: A circuit reset is one-shot and narrow: it succeeds only with the acknowledgement, only on an
  open circuit that a provider 401 or 402 opened and that holds no reservation; it writes the state
  file alone, and the digest of its token is kept, so the same token is refused on every later
  state that still carries the consumed digests.
\<close>

theorem reset_one_shot:
  assumes "reset_provider_auth_circuit sha256 (Some v) ack token now = Inr (r, ws)"
  shows "\<exists>v'. ws = [WState v'] \<and> \<not> v_circuit_open v' \<and> ack \<and> v_circuit_open v \<and> v_in_flight v = []
     \<and> (v_reason v = Some ''provider returned 401'' \<or> v_reason v = Some ''provider returned 402'')
     \<and> (\<forall>v'' ack' now'. set (v_consumed_reset_tokens v') \<subseteq> set (v_consumed_reset_tokens v'') \<longrightarrow>
          (\<exists>m. reset_provider_auth_circuit sha256 (Some v'') ack' token now' = Inl (ValueError m)))"
proof -
  let ?v = "v\<lparr>v_circuit_open := False, v_reason := None,
     v_last_reset := Some \<lparr>n_at = now, n_previous_reason = (case v_reason v of Some r \<Rightarrow> r | None \<Rightarrow> []),
       n_credential_validated = True, n_reset_token_sha256 = sha256 token\<rparr>,
     v_consumed_reset_tokens := v_consumed_reset_tokens v @ [sha256 token]\<rparr>"
  have ws: "ws = [WState ?v]" and pre: "ack" "v_circuit_open v" "v_in_flight v = []"
    and why: "(case v_reason v of Some r \<Rightarrow> r | None \<Rightarrow> []) \<in> RESETTABLE_REASONS"
    using assms unfolding reset_provider_auth_circuit_def Let_def by auto
  have "\<exists>m. reset_provider_auth_circuit sha256 (Some v'') ack' token now' = Inl (ValueError m)"
    if "sha256 token \<in> set (v_consumed_reset_tokens v'')" for v'' ack' now'
    using that unfolding reset_provider_auth_circuit_def Let_def bindR_def guard_that_def by simp
  moreover have "v_reason v = Some ''provider returned 401'' \<or> v_reason v = Some ''provider returned 402''"
    using why by (auto simp: RESETTABLE_REASONS_def split: option.splits)
  ultimately show ?thesis
    using ws pre by (intro exI [where x = ?v]) simp
qed

theorem reset_one_shot_witness:
  "\<exists>r v'. reset_provider_auth_circuit (\<lambda>t. t)
      (Some (fresh_circuit\<lparr>v_circuit_open := True, v_reason := Some ''provider returned 402''\<rparr>)) True ''t'' 7
        = Inr (r, [WState v']) \<and> \<not> v_circuit_open v'"
proof -
  obtain r ws where r: "reset_provider_auth_circuit (\<lambda>t. t)
      (Some (fresh_circuit\<lparr>v_circuit_open := True, v_reason := Some ''provider returned 402''\<rparr>)) True ''t'' 7
        = Inr (r, ws)"
    by (simp add: reset_provider_auth_circuit_def fresh_circuit_def RESETTABLE_REASONS_def Let_def)
  from reset_one_shot [OF r] r show ?thesis by auto
qed

section \<open>A limit that is not a number\<close>

text \<open>
  The numeric readers accept \<open>nan\<close>: its comparison with zero is false, so the check for a
  positive limit does not refuse it, and no amount of spending is ever above such a limit.
\<close>

theorem nan_limit_never_blocks:
  "positive_float (env(name \<mapsto> ''nan'')) name dflt = Inr NaN \<and> \<not> pf_lt NaN spend"
proof -
  have "py_float ''nan'' = Some NaN"
    by (simp add: float_text_simps)
  then show ?thesis
    by (cases spend) (simp_all add: positive_float_def getenv_def zero_Fin)
qed

end
