(* ===== verification/Fugu_Credit.thy ===== *)
theory Fugu_Credit
  imports Budget_Settings
begin

text \<open>
  The telemetry helpers of the Fugu credit ledger (deploy/fugu-router/fugu_credit.py, the part
  before the database): conversion of arbitrary values to JSON with redaction of secrets, numeric
  readers, the naming of accounts and upstream models, direct prices, and the reading of token
  usage from a provider's response. A \<open>Decimal\<close> is an exact number or one of the special
  values, as a float is; \<open>pystr\<close> stands for \<open>str()\<close> of values other than text, integers,
  truth values and \<open>None\<close>.
\<close>

section \<open>Values\<close>

text \<open>
  The values a LiteLLM callback passes. An object carries what its \<open>model_dump()\<close> and its
  \<open>dict()\<close> return (\<open>None\<close> where the attribute is missing or the call raises) and its
  \<open>str()\<close>. Lists, tuples and sets are sequences; dictionary keys are given by their \<open>str()\<close>.
\<close>

datatype pyval =
    VNone
  | VBool bool
  | VInt int
  | VFloat pyfloat
  | VStr string
  | VDec pyfloat
  | VTime instant
  | VSeq "pyval list"
  | VDict "(string \<times> pyval) list"
  | VObj "pyval option" "pyval option" string

fun vtruthy :: "pyval \<Rightarrow> bool" where
  "vtruthy VNone = False"
| "vtruthy (VBool b) = b"
| "vtruthy (VInt i) = (i \<noteq> 0)"
| "vtruthy (VFloat f) = (f \<noteq> Fin 0)"
| "vtruthy (VStr s) = (s \<noteq> [])"
| "vtruthy (VDec d) = (d \<noteq> Fin 0)"
| "vtruthy (VSeq xs) = (xs \<noteq> [])"
| "vtruthy (VDict kvs) = (kvs \<noteq> [])"
| "vtruthy _ = True"

definition vget :: "pyval dict \<Rightarrow> string \<Rightarrow> pyval" where
  "vget d k = (case map_of d k of Some v \<Rightarrow> v | None \<Rightarrow> VNone)"

fun of_json :: "json \<Rightarrow> pyval" where
  "of_json JNull = VNone"
| "of_json (JBool b) = VBool b"
| "of_json (JInt i) = VInt i"
| "of_json (JFloat f) = VFloat f"
| "of_json (JStr s) = VStr s"
| "of_json (JList xs) = VSeq (map of_json xs)"
| "of_json (JObj kvs) = VDict (map (\<lambda>(k, v). (k, of_json v)) kvs)"

definition clock :: "int \<Rightarrow> int \<times> int \<times> int \<times> int" where
  \<comment> \<open>hour, minute, second and microsecond of a time of day\<close>
  "clock us = (us div usec 3600, us div usec 60 mod 60, us div usec 1 mod 60, us mod usec 1)"

definition isoformat :: "instant \<Rightarrow> string" where
  \<comment> \<open>\<open>value.astimezone(UTC).isoformat()\<close>\<close>
  "isoformat t = (case civil (t div day_us) of (y, m, d) \<Rightarrow>
     case clock (t mod day_us) of (hh, mm, ss, us) \<Rightarrow>
       pad_left 4 (int_str y) @ ''-'' @ pad_left 2 (int_str m) @ ''-'' @ pad_left 2 (int_str d) @ ''T''
       @ pad_left 2 (int_str hh) @ '':'' @ pad_left 2 (int_str mm) @ '':'' @ pad_left 2 (int_str ss)
       @ (if us = 0 then [] else ''.'' @ pad_left 6 (int_str us)) @ ''+00:00'')"

section \<open>Conversion to JSON\<close>

definition REDACT_KEYS :: "string list" where
  "REDACT_KEYS = [''authorization'', ''api_key'', ''user_api_key'', ''secret'', ''password'', ''cookie'', ''bearer'']"

definition secret_key :: "string \<Rightarrow> bool" where
  "secret_key k = list_ex (\<lambda>marker. contains (lower k) marker) REDACT_KEYS"

definition put_all :: "(string \<times> json) list \<Rightarrow> json dict" where
  \<comment> \<open>the dictionary that assigning the entries one after the other builds\<close>
  "put_all kvs = foldl (\<lambda>out (k, v). AList.update k v out) [] kvs"

fun jsonable :: "bool \<Rightarrow> pyval \<Rightarrow> json" where
  "jsonable redact VNone = JNull"
| "jsonable redact (VBool b) = JBool b"
| "jsonable redact (VInt i) = JInt i"
| "jsonable redact (VFloat f) = JFloat f"
| "jsonable redact (VStr s) = JStr s"
| "jsonable redact (VDec d) = JFloat d"
| "jsonable redact (VTime t) = JStr (isoformat t)"
| "jsonable redact (VSeq xs) = JList (map (jsonable redact) xs)"
| "jsonable redact (VDict kvs) = JObj (put_all (map (\<lambda>(k, v).
     (k, if redact \<and> secret_key k then JStr ''[redacted]'' else jsonable redact v)) kvs))"
| "jsonable redact (VObj model_dump dict_m text) =
     (case model_dump of Some v \<Rightarrow> jsonable redact v
      | None \<Rightarrow> (case dict_m of Some v \<Rightarrow> jsonable redact v | None \<Rightarrow> JStr text))"

definition as_dict :: "pyval \<Rightarrow> json dict" where
  "as_dict v = members (jsonable True v)"

section \<open>Numbers\<close>

fun number :: "pyval list \<Rightarrow> int option result" where
  "number [] = Inr None"
| "number (v # vs) = (case v of
      VInt i \<Rightarrow> Inr (Some i)
    | VFloat (Fin r) \<Rightarrow> Inr (Some (trunc_rat r))
    | VDec (Fin r) \<Rightarrow> Inr (Some (trunc_rat r))
    | VStr s \<Rightarrow> (case py_float s of
          Some (Fin r) \<Rightarrow> Inr (Some (trunc_rat r))
        | Some PInf \<Rightarrow> Inl (OverflowError ''cannot convert float infinity to integer'')
        | Some NInf \<Rightarrow> Inl (OverflowError ''cannot convert float infinity to integer'')
        | _ \<Rightarrow> number vs)
    | _ \<Rightarrow> number vs)"

definition nan_text :: "string \<Rightarrow> bool" where
  \<comment> \<open>a quiet or signalling \<open>NaN\<close> with its optional payload\<close>
  "nan_text u = (let low = lower u; body = (if startswith low ''s'' then tl low else low) in
     startswith body ''nan'' \<and> list_all is_digit (drop 3 body))"

definition py_decimal :: "string \<Rightarrow> pyfloat option" where
  \<comment> \<open>\<open>Decimal(text)\<close>: surrounding space is stripped and underscores are dropped\<close>
  "py_decimal s = (let u = replace ''_'' [] (strip s) in
     if nan_text (snd (signed u)) then Some NaN
     else if strip u = u then py_float u else None)"

fun decimal :: "pyval \<Rightarrow> pyfloat option" where
  "decimal (VInt i) = Some (Fin (of_int i))"
| "decimal (VFloat f) = Some f"
| "decimal (VDec d) = Some d"
| "decimal (VStr s) = py_decimal s"
| "decimal (VObj _ _ s) = py_decimal s"
| "decimal _ = None"

definition parse_time :: "(string \<Rightarrow> instant option) \<Rightarrow> pyval \<Rightarrow> instant option" where
  \<comment> \<open>\<open>fromisoformat\<close> is \<open>datetime.fromisoformat(...).astimezone(UTC)\<close>, \<open>None\<close> for the \<open>ValueError\<close>\<close>
  "parse_time fromisoformat v = (case v of
      VTime t \<Rightarrow> Some t
    | VStr s \<Rightarrow> if s = [] then None else fromisoformat (replace ''Z'' ''+00:00'' s)
    | _ \<Rightarrow> None)"

section \<open>Names of models and accounts\<close>

definition MODEL_PUBLIC_NAMES :: "string list" where
  "MODEL_PUBLIC_NAMES = [''fugu-ultra'', ''fugu'']"

definition DIRECT_MODEL_ALIASES :: "string dict" where
  "DIRECT_MODEL_ALIASES = [
     (''glm-5.2'', ''glm-5.2''), (''z-ai/glm-5.2'', ''glm-5.2''), (''openai/z-ai/glm-5.2'', ''glm-5.2''),
     (''qwen/qwen3-embedding-8b'', ''qwen/qwen3-embedding-8b''),
     (''openai/qwen/qwen3-embedding-8b'', ''qwen/qwen3-embedding-8b''),
     (''openai/gpt-oss-120b'', ''openai/gpt-oss-120b''),
     (''openai/openai/gpt-oss-120b'', ''openai/gpt-oss-120b''),
     (''grok-4.5'', ''grok-4.5''), (''xai/grok-4.5'', ''grok-4.5''),
     (''grok-4.3'', ''grok-4.3''), (''xai/grok-4.3'', ''grok-4.3''),
     (''grok-imagine-image-quality'', ''grok-imagine-image-quality''),
     (''xai/grok-imagine-image-quality'', ''grok-imagine-image-quality''),
     (''grok-imagine-image'', ''grok-imagine-image''), (''xai/grok-imagine-image'', ''grok-imagine-image'')]"

record direct_price =
  p_input :: rat
  p_output :: rat
  p_cache_read :: rat

definition DIRECT_MODEL_PRICES :: "direct_price dict" where
  "DIRECT_MODEL_PRICES = [
     (''glm-5.2'', \<lparr>p_input = 14 / 10 ^ 7, p_output = 44 / 10 ^ 7, p_cache_read = 7 / 10 ^ 7\<rparr>),
     (''qwen/qwen3-embedding-8b'', \<lparr>p_input = 1 / 10 ^ 8, p_output = 0, p_cache_read = 0\<rparr>),
     (''openai/gpt-oss-120b'', \<lparr>p_input = 15 / 10 ^ 8, p_output = 6 / 10 ^ 7, p_cache_read = 15 / 10 ^ 8\<rparr>),
     (''grok-4.5'', \<lparr>p_input = 2 / 10 ^ 6, p_output = 6 / 10 ^ 6, p_cache_read = 5 / 10 ^ 7\<rparr>),
     (''grok-4.3'', \<lparr>p_input = 125 / 10 ^ 8, p_output = 25 / 10 ^ 7, p_cache_read = 2 / 10 ^ 7\<rparr>)]"

definition before_dollar :: "string \<Rightarrow> string" where
  \<comment> \<open>the text up to where \<open>$\<close> matches: before a final newline, else the end\<close>
  "before_dollar s = (if s \<noteq> [] \<and> last s = CHR 0x0A then butlast s else s)"

definition starts_part :: "string \<Rightarrow> bool" where
  \<comment> \<open>\<open>(?:^|-)\<close> matches at the end of this prefix\<close>
  "starts_part s = (s = [] \<or> last s = CHR ''-'')"

definition ends_part :: "string \<Rightarrow> string \<Rightarrow> bool" where
  \<comment> \<open>the text is \<open>p\<close> or ends with \<open>-\<close> and \<open>p\<close>\<close>
  "ends_part s p = (endswith s p \<and> starts_part (take (length s - length p) s))"

definition account_from_model :: "string \<Rightarrow> string option" where
  \<comment> \<open>\<open>(?:^|-)sub-?(\d+)$\<close>: the digits before the end are the whole trailing run, since \<open>b\<close> and
    \<open>-\<close> are no digits; then \<open>(?:^|-)payg$\<close>\<close>
  "account_from_model model =
     (let s = before_dollar model;
          digits = rev (takeWhile is_digit (rev s));
          front = take (length s - length digits) s in
      if model = [] then None
      else if digits \<noteq> [] \<and> (ends_part front ''sub'' \<or> ends_part front ''sub-'') then Some (''sub'' @ digits)
      else if ends_part s ''payg'' then Some ''payg'' else None)"

definition direct_alias :: "string \<Rightarrow> string option" where
  \<comment> \<open>the two lookups that \<open>requested_model_from_upstream\<close> and \<open>_direct_model_name\<close> share\<close>
  "direct_alias model = (case map_of DIRECT_MODEL_ALIASES model of
      Some a \<Rightarrow> Some a
    | None \<Rightarrow> if startswith model ''openai/''
        then map_of DIRECT_MODEL_ALIASES (drop (length ''openai/'') model) else None)"

definition requested_model_from_upstream :: "string \<Rightarrow> string option" where
  "requested_model_from_upstream model =
     (if model = [] then None
      else case direct_alias model of
        Some a \<Rightarrow> Some a
      | None \<Rightarrow> if startswith model ''fugu-ultra'' then Some ''fugu-ultra''
          else if startswith model ''fugu'' then Some ''fugu'' else Some model)"

fun direct_model_name :: "string list \<Rightarrow> string option" where
  "direct_model_name [] = None"
| "direct_model_name (model # models) =
     (if model = [] then direct_model_name models
      else case direct_alias model of Some a \<Rightarrow> Some a | None \<Rightarrow> direct_model_name models)"

definition upstream_model :: "string \<Rightarrow> string \<Rightarrow> string" where
  "upstream_model requested_model account_id = requested_model @ ''-'' @ replace ''sub'' ''sub-'' account_id"

section \<open>Token usage\<close>

record usage =
  u_raw_usage :: "json dict"
  u_raw_token_metadata :: json
  u_input_tokens :: "int option"
  u_output_tokens :: "int option"
  u_cached_input_tokens :: "int option"
  u_orchestration_input_tokens :: "int option"
  u_orchestration_output_tokens :: "int option"
  u_orchestration_input_cached_tokens :: "int option"
  u_orchestration_tokens_total :: "int option"
  u_visible_tokens :: "int option"
  u_usage_units :: rat
  u_estimated_cost_usd :: pyfloat
  u_prompt_tokens :: "int option"
  u_completion_tokens :: "int option"
  u_total_tokens :: "int option"

definition or_zero :: "int option \<Rightarrow> int" where
  "or_zero v = (case v of Some i \<Rightarrow> i | None \<Rightarrow> 0)"

definition first_or :: "json dict \<Rightarrow> string list \<Rightarrow> json" where
  \<comment> \<open>\<open>d.get(k1) or d.get(k2) or d.get(k3)\<close>\<close>
  "first_or d ks = (case filter (\<lambda>k. truthy (jget d k)) ks of
      k # _ \<Rightarrow> jget d k | [] \<Rightarrow> jget d (last ks))"

definition usage_units :: "int option \<Rightarrow> int option \<Rightarrow> int option \<Rightarrow> int option \<Rightarrow> int option \<Rightarrow> int option \<Rightarrow> rat" where
  "usage_units input cached output orch_input orch_cached orch_output =
     of_int (max (or_zero input - or_zero cached) 0)
     + of_int (or_zero cached) * (1 / 10)
     + of_int (or_zero output) * 6
     + of_int (max (or_zero orch_input - or_zero orch_cached) 0)
     + of_int (or_zero orch_cached) * (1 / 10)
     + of_int (or_zero orch_output) * 6"

definition extract_usage :: "pyval \<Rightarrow> usage option result" where
  \<comment> \<open>\<open>None\<close> for the empty dictionary\<close>
  "extract_usage response_obj =
     (let response = as_dict response_obj;
          usage = as_dict (of_json (jget response ''usage'')) in
      if usage = [] then Inr None
      else
       (let get = (\<lambda>d k. of_json (jget d k));
            prompt_details = as_dict (of_json (first_or usage
              [''prompt_tokens_details'', ''input_tokens_details'', ''input_token_details'']));
            completion_details = as_dict (of_json (first_or usage
              [''completion_tokens_details'', ''output_tokens_details'', ''output_token_details'']));
            ticks = decimal (get usage ''cost_in_usd_ticks'') in
        bindR (number [get usage ''input_tokens'', get usage ''prompt_tokens'']) (\<lambda>input_tokens.
        bindR (number [get usage ''output_tokens'', get usage ''completion_tokens'']) (\<lambda>output_tokens.
        bindR (number [get usage ''total_tokens'']) (\<lambda>total_tokens.
        bindR (number [get usage ''cached_input_tokens'', get usage ''cache_read_input_tokens'',
                 get prompt_details ''cached_tokens'', get prompt_details ''cache_read_input_tokens'',
                 get prompt_details ''input_cached_tokens'']) (\<lambda>cached_input_tokens.
        bindR (number [get usage ''orchestration_input_tokens'',
                 get prompt_details ''orchestration_input_tokens'']) (\<lambda>orch_input.
        bindR (number [get usage ''orchestration_output_tokens'',
                 get completion_details ''orchestration_output_tokens'']) (\<lambda>orch_output.
        bindR (number [get usage ''orchestration_input_cached_tokens'',
                 get prompt_details ''orchestration_input_cached_tokens'',
                 get prompt_details ''orchestration_cached_input_tokens'']) (\<lambda>orch_cached.
        bindR (number [get usage ''prompt_tokens'', get usage ''input_tokens'']) (\<lambda>prompt_tokens.
        bindR (number [get usage ''completion_tokens'', get usage ''output_tokens'']) (\<lambda>completion_tokens.
        let orchestration_total = or_zero orch_input + or_zero orch_output;
            units = usage_units input_tokens cached_input_tokens output_tokens orch_input orch_cached orch_output
        in Inr (Some \<lparr>
             u_raw_usage = usage,
             u_raw_token_metadata = JObj [(''usage'', JObj usage), (''prompt_tokens_details'', JObj prompt_details),
               (''completion_tokens_details'', JObj completion_details)],
             u_input_tokens = input_tokens,
             u_output_tokens = output_tokens,
             u_cached_input_tokens = cached_input_tokens,
             u_orchestration_input_tokens = orch_input,
             u_orchestration_output_tokens = orch_output,
             u_orchestration_input_cached_tokens = orch_cached,
             u_orchestration_tokens_total = (if orchestration_total = 0 then None else Some orchestration_total),
             u_visible_tokens = (case total_tokens of
                 Some t \<Rightarrow> if orchestration_total = 0 then None else Some (max (t - orchestration_total) 0)
               | None \<Rightarrow> None),
             u_usage_units = units,
             u_estimated_cost_usd = (case ticks of
                 Some t \<Rightarrow> pf_div_pos t 10000000000 | None \<Rightarrow> Fin (units * (5 / 10 ^ 6))),
             u_prompt_tokens = prompt_tokens,
             u_completion_tokens = completion_tokens,
             u_total_tokens = total_tokens\<rparr>))))))))))))"

definition or_num :: "int option \<Rightarrow> int option \<Rightarrow> int" where
  \<comment> \<open>\<open>a or b or 0\<close> on counts\<close>
  "or_num a b = (if or_zero a \<noteq> 0 then or_zero a else or_zero b)"

definition direct_estimated_cost :: "string option \<Rightarrow> usage option \<Rightarrow> rat option" where
  "direct_estimated_cost model u = (case model of
      None \<Rightarrow> None
    | Some m \<Rightarrow> (case map_of DIRECT_MODEL_PRICES m of
        None \<Rightarrow> None
      | Some p \<Rightarrow> (case u of
          None \<Rightarrow> Some 0
        | Some v \<Rightarrow>
           (let input_tokens = or_num (u_input_tokens v) (u_prompt_tokens v);
                output_tokens = or_num (u_output_tokens v) (u_completion_tokens v);
                cached = or_zero (u_cached_input_tokens v) in
            Some (of_int (max (input_tokens - cached) 0) * p_input p
                  + of_int cached * p_cache_read p
                  + of_int output_tokens * p_output p)))))"

end
