(* ===== verification/Fugu_Usage.thy ===== *)
theory Fugu_Usage
  imports Fugu_Credit
begin

text \<open>
  Properties of the telemetry helpers of fugu_credit.py: no secret survives the conversion to
  JSON, the conversion is idempotent, the model names that seeding writes are read back as the
  account and public model they were made from, and the bounds of the usage figures.
\<close>

section \<open>Redaction\<close>

fun clean_json :: "json \<Rightarrow> bool" where
  \<comment> \<open>keys are unique and no key that names a secret carries a value, at any depth\<close>
  "clean_json (JObj kvs) = (distinct (map fst kvs)
     \<and> list_all (\<lambda>(k, v). if secret_key k then v = JStr ''[redacted]'' else clean_json v) kvs)"
| "clean_json (JList xs) = list_all clean_json xs"
| "clean_json _ = True"

lemma put_all_step: "foldl (\<lambda>out (k, v). AList.update k v out) d kvs = foldl (\<lambda>out kv. AList.update (fst kv) (snd kv) out) d kvs"
  by (rule foldl_cong) auto

lemma foldl_update_subset: "set (foldl (\<lambda>out kv. AList.update (fst kv) (snd kv) out) d kvs) \<subseteq> set d \<union> set kvs"
proof (induction kvs arbitrary: d)
  case (Cons kv kvs)
  show ?case
    using Cons [of "AList.update (fst kv) (snd kv) d"] set_update_subset [of "fst kv" "snd kv" d] by auto
qed simp

lemma foldl_update_ok: "dict_ok d \<Longrightarrow> dict_ok (foldl (\<lambda>out kv. AList.update (fst kv) (snd kv) out) d kvs)"
  by (induction kvs arbitrary: d) auto

lemma set_put_all: "set (put_all kvs) \<subseteq> set kvs"
  unfolding put_all_def put_all_step using foldl_update_subset [of "[]" kvs] by simp

lemma put_all_ok: "distinct (map fst (put_all kvs))"
  unfolding put_all_def put_all_step using foldl_update_ok [of "[]" kvs] by (simp add: dict_ok_def)

lemma foldl_update_id:
  "distinct (map fst (d @ kvs)) \<Longrightarrow> foldl (\<lambda>out kv. AList.update (fst kv) (snd kv) out) d kvs = d @ kvs"
proof (induction kvs arbitrary: d)
  case (Cons kv kvs)
  then have "map_of d (fst kv) = None"
    by (auto simp: map_of_eq_None_iff)
  then have "AList.update (fst kv) (snd kv) d = d @ [kv]"
    by (simp add: update_fresh)
  with Cons.IH [of "d @ [kv]"] Cons.prems show ?case by simp
qed simp

lemma put_all_id: "distinct (map fst kvs) \<Longrightarrow> put_all kvs = kvs"
  unfolding put_all_def put_all_step using foldl_update_id [of "[]" kvs] by simp

lemma clean_jsonable: "clean_json (jsonable True v)"
proof (induction v rule: jsonable.induct [of "\<lambda>_ v. clean_json (jsonable True v)"])
  case (9 redact kvs)
  let ?kvs = "map (\<lambda>(k, v). (k, if secret_key k then JStr ''[redacted]'' else jsonable True v)) kvs"
  have "list_all (\<lambda>(k, v). if secret_key k then v = JStr ''[redacted]'' else clean_json v) ?kvs"
    using 9 by (auto simp: list_all_iff split: prod.splits if_splits)
  then have "list_all (\<lambda>(k, v). if secret_key k then v = JStr ''[redacted]'' else clean_json v) (put_all ?kvs)"
    using set_put_all [of ?kvs] unfolding list_all_iff by blast
  with put_all_ok [of ?kvs] show ?case by simp
qed (auto simp: list_all_iff split: option.splits)

lemma jsonable_clean: "clean_json j \<Longrightarrow> jsonable True (of_json j) = j"
proof (induction j rule: of_json.induct)
  case (6 xs)
  then show ?case by (auto simp: list_all_iff intro: map_idI)
next
  case (7 kvs)
  let ?kvs = "map (\<lambda>(k, v). (k, if secret_key k then JStr ''[redacted]'' else jsonable True v))
      (map (\<lambda>(k, v). (k, of_json v)) kvs)"
  have "?kvs = kvs"
    using 7 by (fastforce simp: list_all_iff intro!: map_idI split: prod.splits if_splits)
  then show ?case
    using 7(2) put_all_id [of kvs] by simp
qed auto

lemma as_dict_clean: "clean_json (JObj d) \<Longrightarrow> as_dict (of_json (JObj d)) = d"
  using jsonable_clean [of "JObj d"] by (simp add: as_dict_def members_def del: jsonable.simps of_json.simps clean_json.simps)

text \<open>
  C16: Redaction is complete and stable. Whatever value the telemetry callback is given, in the
  JSON it stores no key that contains one of the secret markers, at any depth and through any
  \<open>model_dump\<close> or \<open>dict\<close> of an object, carries anything but the text [redacted]; and
  converting the result again changes nothing.
\<close>

theorem redaction_complete:
  "clean_json (jsonable True v) \<and> jsonable True (of_json (jsonable True v)) = jsonable True v"
  using clean_jsonable jsonable_clean by blast

section \<open>Names\<close>

lemma replace_no_start: "\<forall>a b. s = a @ b \<longrightarrow> \<not> startswith b p \<or> b = [] \<Longrightarrow> replace p q s = s"
proof (induction s)
  case (Cons c s)
  have "\<not> startswith (c # s) p"
    using Cons.prems [rule_format, of "[]" "c # s"] by simp
  moreover have "\<forall>a b. s = a @ b \<longrightarrow> \<not> startswith b p \<or> b = []"
    using Cons.prems by (metis append_Cons)
  ultimately show ?case using Cons.IH by simp
qed simp

lemma replace_digits:
  assumes "\<forall>c \<in> set d. is_digit c"
  shows "replace ''sub'' q d = d"
proof (rule replace_no_start, intro allI impI)
  fix a b :: string
  assume "d = a @ b"
  then have "b \<noteq> [] \<Longrightarrow> is_digit (hd b)"
    using assms by (cases b) auto
  then show "\<not> startswith b ''sub'' \<or> b = []"
    by (cases b) (auto simp: is_digit_def code_def)
qed

lemma upstream_model_sub: "upstream_model m (''sub'' @ nat_str n) = m @ ''-sub-'' @ nat_str n"
  using replace_digits [OF nat_str_digits] by (simp add: upstream_model_def)

lemma takeWhile_digits:
  assumes "\<forall>c \<in> set d. is_digit c" and "s \<noteq> []" and "\<not> is_digit (last s)"
  shows "rev (takeWhile is_digit (rev (s @ d))) = d"
proof -
  obtain s' c where s: "s = s' @ [c]" "\<not> is_digit c"
    using assms(2,3) by (metis append_butlast_last_id)
  have "takeWhile is_digit (rev d @ c # rev s') = rev d"
    using assms(1) s(2) by (subst takeWhile_append2) auto
  then show ?thesis using s by simp
qed

lemma endswith_append [simp]: "endswith (s @ p) p"
  by (simp add: endswith_def)

lemma account_from_upstream:
  "account_from_model (m @ ''-sub-'' @ nat_str n) = Some (''sub'' @ nat_str n)"
proof -
  let ?s = "m @ ''-sub-'' @ nat_str n" and ?front = "m @ ''-sub-''"
  have d: "\<forall>c \<in> set (nat_str n). is_digit c"
    by (rule nat_str_digits)
  have "last ?s = last (nat_str n)"
    by simp
  then have "is_digit (last ?s)"
    using d by simp
  then have "last ?s \<noteq> CHR 0x0A"
    by (auto simp: is_digit_def code_def)
  then have s: "before_dollar ?s = ?s"
    by (simp add: before_dollar_def)
  have "?s = ?front @ nat_str n" "\<not> is_digit (last ?front)"
    by (simp_all add: is_digit_def code_def)
  then have run: "rev (takeWhile is_digit (rev ?s)) = nat_str n"
    using takeWhile_digits [OF d, of ?front] by simp
  have "?front = (m @ ''-'') @ ''sub-''" "length ?front - 4 = length (m @ ''-'')"
    by simp_all
  then have "take (length ?front - 4) ?front = m @ ''-''" "endswith ?front ''sub-''"
    using endswith_append [of "m @ ''-''" "''sub-''"] by simp_all
  then have "ends_part ?front ''sub-''"
    by (simp add: ends_part_def starts_part_def)
  moreover have front: "take (length ?s - length (nat_str n)) ?s = ?front"
    by simp
  ultimately show ?thesis
    unfolding account_from_model_def Let_def s run front by simp
qed

lemma alias_length: "map_of DIRECT_MODEL_ALIASES k = Some a \<Longrightarrow> hd k \<noteq> CHR ''f''"
  by (auto simp: DIRECT_MODEL_ALIASES_def split: if_splits)

lemma direct_alias_fugu: "direct_alias (CHR ''f'' # s) = None"
proof -
  have "map_of DIRECT_MODEL_ALIASES (CHR ''f'' # s) = None"
    using alias_length [of "CHR ''f'' # s"] by (metis list.sel(1) not_None_eq)
  then show ?thesis by (simp add: direct_alias_def)
qed

text \<open>
  Names round trip. The upstream name that seeding and routing give a subscription and a
  public model is read back by the ledger as that subscription and that public model.
\<close>

theorem upstream_name_roundtrip:
  assumes "m \<in> set MODEL_PUBLIC_NAMES"
  shows "account_from_model (upstream_model m (''sub'' @ nat_str n)) = Some (''sub'' @ nat_str n)
    \<and> requested_model_from_upstream (upstream_model m (''sub'' @ nat_str n)) = Some m"
proof -
  have "requested_model_from_upstream (m @ ''-sub-'' @ nat_str n) = Some m"
    using assms by (auto simp: MODEL_PUBLIC_NAMES_def requested_model_from_upstream_def direct_alias_fugu)
  then show ?thesis
    by (simp only: upstream_model_sub account_from_upstream)
qed

theorem upstream_name_roundtrip_witness:
  "account_from_model (upstream_model ''fugu'' (''sub'' @ nat_str 2)) = Some (''sub'' @ nat_str 2)"
  using upstream_name_roundtrip [of "''fugu''" 2] by (simp add: MODEL_PUBLIC_NAMES_def)

section \<open>Usage\<close>

lemma usage_units_nn:
  assumes "\<forall>v \<in> {input, cached, output, oi, oc, oo}. 0 \<le> or_zero v"
  shows "0 \<le> usage_units input cached output oi oc oo"
  using assms unfolding usage_units_def by (intro add_nonneg_nonneg mult_nonneg_nonneg) auto

lemma usage_units_rate_card:
  assumes "or_zero cached \<le> or_zero input" "or_zero oc \<le> or_zero oi"
  shows "usage_units input cached output oi oc oo
    = of_int (or_zero input + or_zero oi) - of_int (or_zero cached + or_zero oc) * (9 / 10)
      + of_int (or_zero output + or_zero oo) * 6"
  using assms by (simp add: usage_units_def max_def field_simps)

lemma as_dict_is_clean: "clean_json (JObj (as_dict v))"
  using clean_jsonable [of v] by (cases "jsonable True v") (simp_all add: as_dict_def members_def)

lemma extract_usage_fields:
  assumes "extract_usage r = Inr (Some u)"
  shows "u_usage_units u = usage_units (u_input_tokens u) (u_cached_input_tokens u) (u_output_tokens u)
      (u_orchestration_input_tokens u) (u_orchestration_input_cached_tokens u) (u_orchestration_output_tokens u)"
    and "u_visible_tokens u = (case u_total_tokens u of
       Some t \<Rightarrow> let n = or_zero (u_orchestration_input_tokens u) + or_zero (u_orchestration_output_tokens u) in
         if n = 0 then None else Some (max (t - n) 0)
     | None \<Rightarrow> None)"
    and "u_raw_usage u = as_dict (of_json (jget (as_dict r) ''usage''))"
proof -
  have ne: "as_dict (of_json (jget (as_dict r) ''usage'')) \<noteq> []"
    using assms unfolding extract_usage_def Let_def by (metis option.distinct(1) sum.inject(2))
  note u = assms [unfolded extract_usage_def Let_def if_not_P [OF ne] bindR_eq_Inr sum.inject option.inject]
  show "u_usage_units u = usage_units (u_input_tokens u) (u_cached_input_tokens u) (u_output_tokens u)
      (u_orchestration_input_tokens u) (u_orchestration_input_cached_tokens u) (u_orchestration_output_tokens u)"
    using u by (elim exE conjE, hypsubst) (simp del: number.simps add: Let_def split: option.split)
  show "u_visible_tokens u = (case u_total_tokens u of
       Some t \<Rightarrow> let n = or_zero (u_orchestration_input_tokens u) + or_zero (u_orchestration_output_tokens u) in
         if n = 0 then None else Some (max (t - n) 0)
     | None \<Rightarrow> None)"
    using u by (elim exE conjE, hypsubst) (simp del: number.simps add: Let_def split: option.split)
  show "u_raw_usage u = as_dict (of_json (jget (as_dict r) ''usage''))"
    using u by (elim exE conjE, hypsubst) (simp del: number.simps add: Let_def split: option.split)
qed

definition counters :: "usage \<Rightarrow> int list" where
  "counters u = map or_zero [u_input_tokens u, u_cached_input_tokens u, u_output_tokens u,
     u_orchestration_input_tokens u, u_orchestration_input_cached_tokens u, u_orchestration_output_tokens u]"

text \<open>
  Usage figures. When the reported counters are not negative, the units that drive the load
  balancing are not negative, visible tokens are never more than the reported total, and where the
  cached counts are within their inputs the units are the rate card: one per input token less nine
  tenths per cached one, six per output token. The stored usage never carries a secret.
\<close>

theorem usage_rate_card:
  assumes "extract_usage r = Inr (Some u)" and "\<forall>n \<in> set (counters u). 0 \<le> n"
  shows "0 \<le> u_usage_units u \<and> clean_json (JObj (u_raw_usage u))
    \<and> (\<forall>t v. u_total_tokens u = Some t \<longrightarrow> u_visible_tokens u = Some v \<longrightarrow> 0 \<le> v \<and> v \<le> max t 0)
    \<and> (or_zero (u_cached_input_tokens u) \<le> or_zero (u_input_tokens u)
       \<and> or_zero (u_orchestration_input_cached_tokens u) \<le> or_zero (u_orchestration_input_tokens u) \<longrightarrow>
       u_usage_units u
         = of_int (or_zero (u_input_tokens u) + or_zero (u_orchestration_input_tokens u))
           - of_int (or_zero (u_cached_input_tokens u) + or_zero (u_orchestration_input_cached_tokens u)) * (9 / 10)
           + of_int (or_zero (u_output_tokens u) + or_zero (u_orchestration_output_tokens u)) * 6)"
proof -
  have "0 \<le> u_usage_units u"
    unfolding extract_usage_fields(1) [OF assms(1)] using assms(2) by (intro usage_units_nn) (simp add: counters_def)
  moreover have "\<forall>t v. u_total_tokens u = Some t \<longrightarrow> u_visible_tokens u = Some v \<longrightarrow> 0 \<le> v \<and> v \<le> max t 0"
    using extract_usage_fields(2) [OF assms(1)] assms(2) by (auto simp: counters_def Let_def split: if_splits)
  ultimately show ?thesis
    using extract_usage_fields(1,3) [OF assms(1)] usage_units_rate_card as_dict_is_clean by simp
qed

definition demo_response :: pyval where
  "demo_response = VDict [(''usage'', VDict [(''prompt_tokens'', VInt 10), (''completion_tokens'', VStr ''4''),
     (''cost_in_usd_ticks'', VInt 200)])]"

lemma demo_response_usage:
  "\<exists>u. extract_usage demo_response = Inr (Some u) \<and> counters u = [10, 0, 4, 0, 0, 0]"
proof -
  have "py_float ''4'' = Some (Fin 4)"
    by (simp add: float_text_simps)
  moreover have "\<not> secret_key ''usage''" "\<not> secret_key ''prompt_tokens''" "\<not> secret_key ''completion_tokens''"
    "\<not> secret_key ''cost_in_usd_ticks''"
    by code_simp+
  ultimately show ?thesis
    by (simp add: extract_usage_def demo_response_def as_dict_def members_def put_all_def get_or_def first_or_def
        trunc_rat_def counters_def or_zero_def Let_def)
qed

theorem usage_rate_card_witness:
  "\<exists>u. extract_usage demo_response = Inr (Some u) \<and> u_usage_units u = 34"
proof -
  obtain u where u: "extract_usage demo_response = Inr (Some u)" "counters u = [10, 0, 4, 0, 0, 0]"
    using demo_response_usage by blast
  then show ?thesis
    using usage_rate_card [OF u(1)] by (auto simp: counters_def)
qed

text \<open>
  A token count given as the text of an infinity is not skipped like other text that is no
  number: \<open>int(float(value))\<close> raises \<open>OverflowError\<close>, which \<open>_number\<close> does not catch, so no
  usage is read from that response.
\<close>

theorem infinite_count_raises:
  assumes "map_of d ''input_tokens'' = Some (JStr ''inf'')" and "clean_json (JObj d)"
  shows "extract_usage (VDict [(''usage'', of_json (JObj d))])
    = Inl (OverflowError ''cannot convert float infinity to integer'')"
proof -
  have inf: "py_float ''inf'' = Some PInf"
    by (simp add: float_text_simps)
  have "\<not> secret_key ''usage''"
    by code_simp
  then have "as_dict (VDict [(''usage'', of_json (JObj d))]) = [(''usage'', JObj d)]"
    using jsonable_clean [OF assms(2)]
    by (simp add: as_dict_def members_def put_all_def del: of_json.simps(7))
  moreover have "d \<noteq> []" "jget d ''input_tokens'' = JStr ''inf''"
    using assms(1) by (auto simp: get_or_def)
  ultimately show ?thesis
    using as_dict_clean [OF assms(2)] inf
    by (simp add: extract_usage_def get_or_def [of "[(''usage'', JObj d)]"] del: of_json.simps(7))
qed

theorem infinite_count_raises_witness:
  "extract_usage (VDict [(''usage'', of_json (JObj [(''input_tokens'', JStr ''inf'')]))])
     = Inl (OverflowError ''cannot convert float infinity to integer'')"
  using infinite_count_raises [of "[(''input_tokens'', JStr ''inf'')]"] by (simp add: del: of_json.simps) code_simp

end
