(* ===== verification/Fugu_Ledger.thy ===== *)
theory Fugu_Ledger
  imports Fugu_Usage
begin

text \<open>
  The database side of deploy/fugu-router/fugu_credit.py: the tables of \<open>init_schema\<close> with
  their keys and constraints, the seeding of accounts, and the ledger write of the telemetry
  callback. A statement is one function on the tables; what the database refuses (a foreign key,
  a unique column, an integer out of range, a JSON text it cannot store) is an error; connections
  are in autocommit mode, so the statements before it stay. An \<open>INSERT ... ON CONFLICT DO UPDATE\<close> is the operation \<open>upsert\<close>,
  whose contract is the locale \<open>keyed_table\<close>.
\<close>

section \<open>Keyed tables\<close>

locale keyed_table =
  fixes lookup :: "'t \<Rightarrow> 'k \<Rightarrow> 'r option"
    and upsert :: "'k \<Rightarrow> 'r \<Rightarrow> ('r \<Rightarrow> 'r) \<Rightarrow> 't \<Rightarrow> 't"
  assumes lookup_upsert: "lookup (upsert k fresh merge t) k' =
      (if k' = k then Some (case lookup t k of None \<Rightarrow> fresh | Some old \<Rightarrow> merge old) else lookup t k')"
begin

lemma upsert_present: "lookup (upsert k fresh merge t) k \<noteq> None"
  by (simp add: lookup_upsert)

lemma upsert_absorb:
  assumes "merge' fresh = fresh'" "\<And>old. merge' (merge old) = merge'' old"
  shows "lookup (upsert k fresh2 merge' (upsert k fresh merge t)) k'
    = lookup (upsert k fresh' merge'' t) k'"
  using assms by (simp add: lookup_upsert split: option.splits)

lemma upsert_commute:
  assumes "k1 \<noteq> k2"
  shows "lookup (upsert k1 f1 m1 (upsert k2 f2 m2 t)) k = lookup (upsert k2 f2 m2 (upsert k1 f1 m1 t)) k"
  using assms by (simp add: lookup_upsert)

lemma upsert_keeps:
  assumes "\<And>old. f (merge old) = f old" "lookup t k = Some row"
  shows "map_option f (lookup (upsert k fresh merge t) k') = map_option f (lookup t k')"
  using assms by (simp add: lookup_upsert)

end

definition upsert :: "'k \<Rightarrow> 'r \<Rightarrow> ('r \<Rightarrow> 'r) \<Rightarrow> ('k \<times> 'r) list \<Rightarrow> ('k \<times> 'r) list" where
  "upsert k fresh merge t = AList.update k (case map_of t k of None \<Rightarrow> fresh | Some old \<Rightarrow> merge old) t"

interpretation tbl: keyed_table map_of upsert
  by unfold_locales (simp add: upsert_def AList.update_conv')

lemma dict_ok_upsert [simp]: "dict_ok t \<Longrightarrow> dict_ok (upsert k fresh merge t)"
  by (simp add: upsert_def)

definition coalesce :: "'a option \<Rightarrow> 'a option \<Rightarrow> 'a option" where
  "coalesce a b = (case a of Some x \<Rightarrow> Some x | None \<Rightarrow> b)"

lemma coalesce_simps [simp]: "coalesce (Some x) b = Some x" "coalesce None b = b" "coalesce a a = a" "coalesce a None = a"
  by (auto simp: coalesce_def split: option.splits)

section \<open>Tables\<close>

record account_row =
  ac_display_name :: string
  ac_account_kind :: string
  ac_billing_plan :: "string option"
  ac_enabled :: bool
  ac_priority :: int
  ac_updated_at :: instant

record window_row =
  w_reset_anchor_at :: instant
  w_reset_interval :: string
  w_allowance_usage_units :: "pyfloat option"
  w_source :: string
  w_updated_at :: instant

record deployment_row =
  dp_upstream_model :: string
  dp_enabled :: bool

record cooldown_row =
  cd_cooldown_until :: instant
  cd_reason :: string
  cd_last_error :: json
  cd_updated_at :: instant

record assignment_row =
  as_account_id :: string
  as_upstream_model :: string
  as_chosen_by_window :: string
  as_assigned_at :: instant
  as_last_used_at :: instant
  as_failover_count :: int
  as_state :: string
  as_reason :: string

record decision_row =
  dc_decided_at :: instant
  dc_session_key :: string
  dc_requested_model :: string
  dc_selected_account_id :: string
  dc_selected_upstream_model :: string
  dc_chosen_by_window :: string
  dc_reason :: string
  dc_candidates :: json

record token_cols =
  t_input_tokens :: "int option"
  t_output_tokens :: "int option"
  t_cached_input_tokens :: "int option"
  t_orchestration_input_tokens :: "int option"
  t_orchestration_output_tokens :: "int option"
  t_orchestration_input_cached_tokens :: "int option"
  t_orchestration_tokens_total :: "int option"
  t_visible_tokens :: "int option"
  t_prompt_tokens :: "int option"
  t_completion_tokens :: "int option"
  t_total_tokens :: "int option"
  t_usage_units :: "pyfloat option"
  t_estimated_cost_usd :: "pyfloat option"

record text_cols =
  x_call_type :: "string option"
  x_requested_model :: "string option"
  x_upstream_model :: "string option"
  x_model :: "string option"
  x_model_group :: "string option"
  x_model_id :: "string option"
  x_custom_llm_provider :: "string option"
  x_account_id :: "string option"
  x_session_id :: "string option"
  x_agent_id :: "string option"
  x_agent_role :: "string option"
  x_user_id :: "string option"

record credit_row =
  k_created_at :: instant
  k_start_time :: "instant option"
  k_end_time :: "instant option"
  k_status :: string
  k_http_status :: "int option"
  k_error_message :: "string option"
  k_text :: text_cols
  k_tokens :: token_cols
  k_litellm_spend :: "pyfloat option"
  k_raw_usage :: json
  k_raw_token_metadata :: json
  k_request_metadata :: json
  k_response_metadata :: json
  k_standard_logging_object :: json
  k_proxy_server_request :: json

record db =
  fugu_accounts :: "account_row dict"
  fugu_account_windows :: "((string \<times> string) \<times> window_row) list"
  fugu_model_deployments :: "((string \<times> string) \<times> deployment_row) list"
  fugu_account_cooldowns :: "((string \<times> string) \<times> cooldown_row) list"
  fugu_session_assignments :: "((string \<times> string) \<times> assignment_row) list"
  fugu_routing_decisions :: "decision_row list"
  fugu_credit_ledger :: "credit_row dict"

definition empty_db :: db where
  "empty_db = \<lparr>fugu_accounts = [], fugu_account_windows = [], fugu_model_deployments = [],
     fugu_account_cooldowns = [], fugu_session_assignments = [], fugu_routing_decisions = [],
     fugu_credit_ledger = []\<rparr>"

text \<open>What the database does not store: integers beyond their column, text with a NUL, JSON with
  a number that is not finite or a NUL.\<close>

definition fits_int :: "nat \<Rightarrow> int option \<Rightarrow> bool" where
  "fits_int w v = (case v of None \<Rightarrow> True | Some i \<Rightarrow> - (2 ^ (w - 1)) \<le> i \<and> i < 2 ^ (w - 1))"

definition no_nul :: "string \<Rightarrow> bool" where
  "no_nul s = (CHR 0x00 \<notin> set s)"

fun jsonb_ok :: "json \<Rightarrow> bool" where
  "jsonb_ok (JFloat f) = is_fin f"
| "jsonb_ok (JStr s) = no_nul s"
| "jsonb_ok (JList xs) = list_all jsonb_ok xs"
| "jsonb_ok (JObj kvs) = list_all (\<lambda>(k, v). no_nul k \<and> jsonb_ok v) kvs"
| "jsonb_ok _ = True"

section \<open>Seeding\<close>

definition WINDOWS :: "string dict" where
  "WINDOWS = [(''5h'', ''5 hours''), (''week'', ''7 days''), (''month'', ''1 month'')]"

definition day_start :: "instant \<Rightarrow> instant" where
  "day_start t = t div day_us * day_us"

definition default_anchor :: "string \<Rightarrow> instant \<Rightarrow> instant" where
  "default_anchor kind now =
     (if kind = ''5h'' then day_start now + now mod day_us div usec 3600 div 5 * 5 * usec 3600
      else if kind = ''week'' then day_start now - weekday (now div day_us) * day_us
      else (case civil (now div day_us) of (y, m, d) \<Rightarrow> day_start now - (d - 1) * day_us))"

definition window_env_name :: "string \<Rightarrow> string" where
  "window_env_name kind = (if kind = ''5h'' then ''5H'' else if kind = ''week'' then ''WEEKLY'' else ''MONTHLY'')"

definition env_value :: "env \<Rightarrow> string \<Rightarrow> pyval" where
  "env_value env name = (case env name of Some v \<Rightarrow> VStr v | None \<Rightarrow> VNone)"

definition upsert_account :: "string \<Rightarrow> string \<Rightarrow> string option \<Rightarrow> int \<Rightarrow> instant \<Rightarrow> db \<Rightarrow> db" where
  "upsert_account account_id display_name billing_plan priority now d = d\<lparr>fugu_accounts :=
     upsert account_id
       \<lparr>ac_display_name = display_name, ac_account_kind = ''subscription'', ac_billing_plan = billing_plan,
        ac_enabled = True, ac_priority = priority, ac_updated_at = now\<rparr>
       (\<lambda>old. old\<lparr>ac_display_name := display_name, ac_billing_plan := coalesce billing_plan (ac_billing_plan old),
          ac_enabled := True, ac_priority := priority, ac_updated_at := now\<rparr>)
       (fugu_accounts d)\<rparr>"

definition upsert_deployment :: "string \<Rightarrow> string \<Rightarrow> db \<Rightarrow> exc option \<times> db" where
  "upsert_deployment requested_model account_id d =
     (let name = upstream_model requested_model account_id; t = fugu_model_deployments d in
      if list_ex (\<lambda>(k, r). k \<noteq> (requested_model, account_id) \<and> dp_upstream_model r = name) t
      then (Some (RuntimeError ''UniqueViolation''), d)
      else (None, d\<lparr>fugu_model_deployments :=
        upsert (requested_model, account_id) \<lparr>dp_upstream_model = name, dp_enabled = True\<rparr>
          (\<lambda>old. old\<lparr>dp_upstream_model := name, dp_enabled := True\<rparr>) t\<rparr>))"

definition upsert_window ::
  "string \<Rightarrow> string \<Rightarrow> instant \<Rightarrow> string \<Rightarrow> pyfloat option \<Rightarrow> string \<Rightarrow> instant \<Rightarrow> db \<Rightarrow> db" where
  "upsert_window account_id kind anchor interval allowance source now d = d\<lparr>fugu_account_windows :=
     upsert (account_id, kind)
       \<lparr>w_reset_anchor_at = anchor, w_reset_interval = interval, w_allowance_usage_units = allowance,
        w_source = source, w_updated_at = now\<rparr>
       (\<lambda>old. old\<lparr>
          w_reset_anchor_at := (if source = ''env'' then anchor else w_reset_anchor_at old),
          w_allowance_usage_units := coalesce allowance (w_allowance_usage_units old),
          w_source := (if source = ''env'' then ''env'' else w_source old),
          w_updated_at := now\<rparr>)
       (fugu_account_windows d)\<rparr>"

definition seed_window ::
  "env \<Rightarrow> (string \<Rightarrow> instant option) \<Rightarrow> instant \<Rightarrow> string \<Rightarrow> string \<Rightarrow> string \<times> string \<Rightarrow> db \<Rightarrow> db" where
  "seed_window env fromisoformat now account_id prefix kind_interval d =
     (case kind_interval of (kind, interval) \<Rightarrow>
      let env_name = prefix @ window_env_name kind;
          env_anchor = parse_time fromisoformat (env_value env (env_name @ ''_RESET_ANCHOR''));
          anchor = (case env_anchor of Some a \<Rightarrow> a | None \<Rightarrow> default_anchor kind now);
          source = (if env_anchor \<noteq> None then ''env'' else ''default'');
          allowance = decimal (env_value env (env_name @ ''_ALLOWANCE_USAGE_UNITS''))
      in upsert_window account_id kind anchor interval allowance source now d)"

definition nonempty :: "string option \<Rightarrow> string option" where
  \<comment> \<open>\<open>v or None\<close>\<close>
  "nonempty v = (case v of Some s \<Rightarrow> if s = [] then None else Some s | None \<Rightarrow> None)"

definition account_active :: "env \<Rightarrow> nat \<Rightarrow> bool" where
  "account_active env index =
     (nonempty (env (''SAKANA_SUB_'' @ nat_str index @ ''_KEY'')) \<noteq> None
      \<or> lower (getenv env (''FUGU_SUB_'' @ nat_str index @ ''_ENABLED'') []) \<in> {''1'', ''true'', ''yes'', ''on''})"

definition then_do :: "exc option \<times> 's \<Rightarrow> ('s \<Rightarrow> exc option \<times> 's) \<Rightarrow> exc option \<times> 's" where
  \<comment> \<open>the next statement, unless this one raised; earlier statements stay committed\<close>
  "then_do r f = (case r of (None, s) \<Rightarrow> f s | (Some e, s) \<Rightarrow> (Some e, s))"

definition seed_account :: "env \<Rightarrow> (string \<Rightarrow> instant option) \<Rightarrow> instant \<Rightarrow> nat \<Rightarrow> db \<Rightarrow> exc option \<times> db" where
  "seed_account env fromisoformat now index d =
     (if \<not> account_active env index then (None, d)
      else
       (let account_id = ''sub'' @ nat_str index;
            prefix = ''FUGU_SUB_'' @ nat_str index @ ''_'';
            display_name = (case nonempty (env (prefix @ ''LABEL'')) of
                Some l \<Rightarrow> l | None \<Rightarrow> ''Subscription '' @ nat_str index);
            billing_plan = nonempty (env (prefix @ ''BILLING_PLAN''));
            d1 = upsert_account account_id display_name billing_plan (int index) now d in
        then_do (upsert_deployment ''fugu-ultra'' account_id d1) (\<lambda>d2.
        then_do (upsert_deployment ''fugu'' account_id d2) (\<lambda>d3.
        (None, fold (seed_window env fromisoformat now account_id prefix) WINDOWS d3)))))"

fun seed_loop :: "env \<Rightarrow> (string \<Rightarrow> instant option) \<Rightarrow> instant \<Rightarrow> nat list \<Rightarrow> db \<Rightarrow> exc option \<times> db" where
  "seed_loop env fromisoformat now [] d = (None, d)"
| "seed_loop env fromisoformat now (i # is) d =
     then_do (seed_account env fromisoformat now i d) (seed_loop env fromisoformat now is)"

definition seed_accounts ::
  "env \<Rightarrow> (string \<Rightarrow> instant option) \<Rightarrow> nat \<Rightarrow> instant \<Rightarrow> db \<Rightarrow> exc option \<times> db" where
  "seed_accounts env fromisoformat account_count now d = seed_loop env fromisoformat now [1..<account_count + 1] d"

record credit_state =
  schema_ready :: bool
  database :: "db option"

definition ensure_db ::
  "env \<Rightarrow> (string \<Rightarrow> instant option) \<Rightarrow> nat \<Rightarrow> instant \<Rightarrow> credit_state \<Rightarrow> exc option \<times> credit_state" where
  \<comment> \<open>\<open>init_schema\<close> creates the tables that are missing\<close>
  "ensure_db env fromisoformat account_count now st =
     (if schema_ready st then (None, st)
      else (case seed_accounts env fromisoformat account_count now
                   (case database st of Some d \<Rightarrow> d | None \<Rightarrow> empty_db) of
          (None, d) \<Rightarrow> (None, \<lparr>schema_ready = True, database = Some d\<rparr>)
        | (Some e, d) \<Rightarrow> (Some e, st\<lparr>database := Some d\<rparr>)))"

section \<open>Ledger writes\<close>

text \<open>Parameters that stand for code outside the repository: \<open>fromisoformat\<close> as in \<open>parse_time\<close>,
  \<open>pystr\<close> is \<open>str()\<close> of a number that is no integer, a container or a time, and \<open>pgtext\<close> is what the
  driver and the server make of a value that is neither text nor null in a text column.\<close>

record python_env =
  e_env :: env
  e_fromisoformat :: "string \<Rightarrow> instant option"
  e_pystr :: "pyval \<Rightarrow> string"
  e_pgtext :: "pyval \<Rightarrow> string result"
  e_account_count :: nat

definition vstr :: "python_env \<Rightarrow> pyval \<Rightarrow> string" where
  "vstr pe v = (case v of VStr s \<Rightarrow> s | VInt i \<Rightarrow> int_str i | VBool b \<Rightarrow> py_bool_str b | VNone \<Rightarrow> ''None''
     | VObj _ _ s \<Rightarrow> s | _ \<Rightarrow> e_pystr pe v)"

definition vor :: "pyval \<Rightarrow> pyval \<Rightarrow> pyval" where
  \<comment> \<open>\<open>a or b\<close>\<close>
  "vor a b = (if vtruthy a then a else b)"

definition opt_str :: "string option \<Rightarrow> pyval" where
  "opt_str v = (case v of Some s \<Rightarrow> VStr s | None \<Rightarrow> VNone)"

definition mapping_of :: "pyval \<Rightarrow> pyval dict result" where
  \<comment> \<open>\<open>v or {}\<close> where it is then used as a dictionary\<close>
  "mapping_of v = (if \<not> vtruthy v then Inr [] else case v of VDict kvs \<Rightarrow> Inr kvs | _ \<Rightarrow> Inl (AttributeError ''get''))"

abbreviation standard :: "pyval dict \<Rightarrow> json dict" where
  "standard kwargs \<equiv> as_dict (vget kwargs ''standard_logging_object'')"

abbreviation request_headers :: "pyval dict \<Rightarrow> json dict" where
  "request_headers kwargs \<equiv> as_dict (of_json (jget (as_dict (vget kwargs ''proxy_server_request'')) ''headers''))"

abbreviation std_get :: "json dict \<Rightarrow> string \<Rightarrow> pyval" where
  "std_get d k \<equiv> of_json (jget d k)"

definition header_metadata :: "json dict \<Rightarrow> pyval dict \<Rightarrow> pyval dict" where
  "header_metadata headers meta = foldl (\<lambda>m (header, key).
       let val = or_else (jget headers header) (jget headers (replace ''-'' ''_'' header)) in
       if truthy val then AList.update key (of_json val) m else m) meta
     [(''x-agent-id'', ''agent_id''), (''x-agent-role'', ''agent_role''), (''x-session-id'', ''session_id'')]"

definition annotate_metadata :: "python_env \<Rightarrow> pyval dict \<Rightarrow> pyval \<Rightarrow> pyval dict result" where
  \<comment> \<open>the metadata dictionary, which is also stored back into \<open>kwargs["litellm_params"]\<close>\<close>
  "annotate_metadata pe kwargs response_obj =
     bindR (mapping_of (vget kwargs ''litellm_params'')) (\<lambda>params.
     bindR (mapping_of (vget params ''metadata'')) (\<lambda>meta0.
     bindR (if response_obj = VNone then Inr None else extract_usage response_obj) (\<lambda>usage.
     let meta1 = (case usage of
           Some u \<Rightarrow> AList.update ''fugu_token_metadata''
             (of_json (jsonable True (of_json (u_raw_token_metadata u)))) meta0
         | None \<Rightarrow> meta0);
         std = standard kwargs;
         model = vor (vor (vget kwargs ''model'') (std_get std ''model'')) (std_get std ''model_group'');
         account_id = vor (vor (vget meta1 ''fugu_account_id'')
             (opt_str (account_from_model (vstr pe model))))
             (opt_str (account_from_model (vstr pe (vor (std_get std ''model_group'') (VStr [])))));
         meta2 = (if vtruthy account_id then AList.update ''fugu_account_id'' account_id meta1 else meta1);
         meta3 = (if map_of meta2 ''fugu_requested_model'' = None
             then AList.update ''fugu_requested_model''
               (opt_str (requested_model_from_upstream (vstr pe model))) meta2
             else meta2)
     in Inr (header_metadata (request_headers kwargs) meta3))))"

definition request_id :: "python_env \<Rightarrow> pyval dict \<Rightarrow> pyval \<Rightarrow> string \<Rightarrow> string" where
  \<comment> \<open>\<open>missing\<close> is the text made from the current time\<close>
  "request_id pe kwargs response_obj missing =
     (case filter vtruthy [std_get (standard kwargs) ''request_id'', vget kwargs ''litellm_call_id'',
         vget kwargs ''call_id'', std_get (as_dict response_obj) ''id''] of
        v # _ \<Rightarrow> vstr pe v | [] \<Rightarrow> missing)"

definition col_text :: "python_env \<Rightarrow> pyval \<Rightarrow> string option result" where
  "col_text pe v = (case v of VNone \<Rightarrow> Inr None | VStr s \<Rightarrow> Inr (Some s)
     | _ \<Rightarrow> (case e_pgtext pe v of Inr t \<Rightarrow> Inr (Some t) | Inl e \<Rightarrow> Inl e))"

definition token_values :: "usage option \<Rightarrow> rat option \<Rightarrow> token_cols" where
  \<comment> \<open>\<open>usage_values\<close>, with the direct price where there is one\<close>
  "token_values usage direct_cost =
     (let est = map_option u_estimated_cost_usd usage in
      \<lparr>t_input_tokens = Option.bind usage u_input_tokens,
       t_output_tokens = Option.bind usage u_output_tokens,
       t_cached_input_tokens = Option.bind usage u_cached_input_tokens,
       t_orchestration_input_tokens = Option.bind usage u_orchestration_input_tokens,
       t_orchestration_output_tokens = Option.bind usage u_orchestration_output_tokens,
       t_orchestration_input_cached_tokens = Option.bind usage u_orchestration_input_cached_tokens,
       t_orchestration_tokens_total = Option.bind usage u_orchestration_tokens_total,
       t_visible_tokens = Option.bind usage u_visible_tokens,
       t_prompt_tokens = Option.bind usage u_prompt_tokens,
       t_completion_tokens = Option.bind usage u_completion_tokens,
       t_total_tokens = Option.bind usage u_total_tokens,
       t_usage_units = map_option (\<lambda>u. Fin (u_usage_units u)) usage,
       t_estimated_cost_usd = (case direct_cost of Some c \<Rightarrow> Some (Fin c) | None \<Rightarrow> est)\<rparr>)"

definition merge_text :: "text_cols \<Rightarrow> text_cols \<Rightarrow> text_cols" where
  \<comment> \<open>\<open>COALESCE(EXCLUDED.c, fugu_credit_ledger.c)\<close> for each column\<close>
  "merge_text new old = \<lparr>
     x_call_type = coalesce (x_call_type new) (x_call_type old),
     x_requested_model = coalesce (x_requested_model new) (x_requested_model old),
     x_upstream_model = coalesce (x_upstream_model new) (x_upstream_model old),
     x_model = coalesce (x_model new) (x_model old),
     x_model_group = coalesce (x_model_group new) (x_model_group old),
     x_model_id = coalesce (x_model_id new) (x_model_id old),
     x_custom_llm_provider = coalesce (x_custom_llm_provider new) (x_custom_llm_provider old),
     x_account_id = coalesce (x_account_id new) (x_account_id old),
     x_session_id = coalesce (x_session_id new) (x_session_id old),
     x_agent_id = coalesce (x_agent_id new) (x_agent_id old),
     x_agent_role = coalesce (x_agent_role new) (x_agent_role old),
     x_user_id = coalesce (x_user_id new) (x_user_id old)\<rparr>"

definition merge_tokens :: "token_cols \<Rightarrow> token_cols \<Rightarrow> token_cols" where
  "merge_tokens new old = \<lparr>
     t_input_tokens = coalesce (t_input_tokens new) (t_input_tokens old),
     t_output_tokens = coalesce (t_output_tokens new) (t_output_tokens old),
     t_cached_input_tokens = coalesce (t_cached_input_tokens new) (t_cached_input_tokens old),
     t_orchestration_input_tokens = coalesce (t_orchestration_input_tokens new) (t_orchestration_input_tokens old),
     t_orchestration_output_tokens = coalesce (t_orchestration_output_tokens new) (t_orchestration_output_tokens old),
     t_orchestration_input_cached_tokens =
       coalesce (t_orchestration_input_cached_tokens new) (t_orchestration_input_cached_tokens old),
     t_orchestration_tokens_total = coalesce (t_orchestration_tokens_total new) (t_orchestration_tokens_total old),
     t_visible_tokens = coalesce (t_visible_tokens new) (t_visible_tokens old),
     t_prompt_tokens = coalesce (t_prompt_tokens new) (t_prompt_tokens old),
     t_completion_tokens = coalesce (t_completion_tokens new) (t_completion_tokens old),
     t_total_tokens = coalesce (t_total_tokens new) (t_total_tokens old),
     t_usage_units = coalesce (t_usage_units new) (t_usage_units old),
     t_estimated_cost_usd = coalesce (t_estimated_cost_usd new) (t_estimated_cost_usd old)\<rparr>"

definition merge_credit :: "credit_row \<Rightarrow> credit_row \<Rightarrow> credit_row" where
  "merge_credit new old = new\<lparr>
     k_created_at := k_created_at old,
     k_start_time := k_start_time old,
     k_text := merge_text (k_text new) (k_text old),
     k_tokens := merge_tokens (k_tokens new) (k_tokens old),
     k_litellm_spend := coalesce (k_litellm_spend new) (k_litellm_spend old)\<rparr>"

definition text_list :: "text_cols \<Rightarrow> string option list" where
  "text_list x = [x_call_type x, x_requested_model x, x_upstream_model x, x_model x, x_model_group x, x_model_id x,
     x_custom_llm_provider x, x_account_id x, x_session_id x, x_agent_id x, x_agent_role x, x_user_id x]"

definition bigints :: "token_cols \<Rightarrow> int option list" where
  "bigints t = [t_input_tokens t, t_output_tokens t, t_cached_input_tokens t, t_orchestration_input_tokens t,
     t_orchestration_output_tokens t, t_orchestration_input_cached_tokens t, t_orchestration_tokens_total t,
     t_visible_tokens t, t_prompt_tokens t, t_completion_tokens t, t_total_tokens t]"

definition row_accepted :: "db \<Rightarrow> string \<Rightarrow> credit_row \<Rightarrow> exc option" where
  "row_accepted d rid r =
     (if \<not> (no_nul rid \<and> list_all (\<lambda>v. case v of Some s \<Rightarrow> no_nul s | None \<Rightarrow> True)
               (k_error_message r # text_list (k_text r)))
      then Some (RuntimeError ''DataError'')
      else if \<not> list_all jsonb_ok [k_raw_usage r, k_raw_token_metadata r, k_request_metadata r,
               k_response_metadata r, k_standard_logging_object r, k_proxy_server_request r]
      then Some (RuntimeError ''InvalidTextRepresentation'')
      else if \<not> (list_all (fits_int 64) (bigints (k_tokens r)) \<and> fits_int 32 (k_http_status r))
      then Some (RuntimeError ''NumericValueOutOfRange'')
      else if (case x_account_id (k_text r) of Some a \<Rightarrow> map_of (fugu_accounts d) a = None | None \<Rightarrow> False)
      then Some (RuntimeError ''ForeignKeyViolation'')
      else None)"

definition upsert_credit :: "string \<Rightarrow> credit_row \<Rightarrow> db \<Rightarrow> exc option \<times> db" where
  "upsert_credit rid r d = (case row_accepted d rid r of
      Some e \<Rightarrow> (Some e, d)
    | None \<Rightarrow> (None, d\<lparr>fugu_credit_ledger := upsert rid r (merge_credit r) (fugu_credit_ledger d)\<rparr>))"

record call_event =
  ev_kwargs :: "pyval dict"
  ev_response :: pyval
  ev_start :: pyval
  ev_end :: pyval
  ev_status :: string
  ev_error :: pyval

definition clip :: "nat \<Rightarrow> string \<Rightarrow> string option" where
  \<comment> \<open>\<open>text[:n] or None\<close>\<close>
  "clip n s = nonempty (Some (take n s))"

definition text_values ::
  "python_env \<Rightarrow> pyval dict \<Rightarrow> pyval dict \<Rightarrow> string \<Rightarrow> string \<Rightarrow> string option \<Rightarrow> text_cols result" where
  "text_values pe kwargs meta upstream requested_model account_id =
     (let std = standard kwargs in
      bindR (col_text pe (vor (std_get std ''call_type'') (vget kwargs ''call_type''))) (\<lambda>call_type.
      bindR (col_text pe (vor (std_get std ''model'') (VStr upstream))) (\<lambda>model.
      bindR (col_text pe (std_get std ''model_group'')) (\<lambda>model_group.
      bindR (col_text pe (std_get std ''model_id'')) (\<lambda>model_id.
      bindR (col_text pe (std_get std ''custom_llm_provider'')) (\<lambda>provider.
      bindR (col_text pe (vor (vor (vget meta ''session_id'') (vget meta ''fugu_session_id''))
               (std_get (request_headers kwargs) ''x-session-id''))) (\<lambda>session_id.
      bindR (col_text pe (vget meta ''agent_id'')) (\<lambda>agent_id.
      bindR (col_text pe (vget meta ''agent_role'')) (\<lambda>agent_role.
      bindR (col_text pe (vor (std_get std ''user'') (vget kwargs ''user''))) (\<lambda>user_id.
      Inr \<lparr>x_call_type = call_type, x_requested_model = Some requested_model, x_upstream_model = Some upstream,
        x_model = model, x_model_group = model_group, x_model_id = model_id, x_custom_llm_provider = provider,
        x_account_id = account_id, x_session_id = session_id, x_agent_id = agent_id, x_agent_role = agent_role,
        x_user_id = user_id\<rparr>))))))))))"

definition name_text :: "json \<Rightarrow> string result" where
  \<comment> \<open>a candidate of \<open>_direct_model_name\<close>: falsy is skipped, other values that are not text raise\<close>
  "name_text v = (case v of JStr s \<Rightarrow> Inr s | JList (x # xs) \<Rightarrow> Inl (TypeError ''unhashable type'')
     | JObj (x # xs) \<Rightarrow> Inl (TypeError ''unhashable type'')
     | _ \<Rightarrow> if truthy v then Inl (AttributeError ''startswith'') else Inr [])"

definition ledger_direct_model :: "string \<Rightarrow> json dict \<Rightarrow> string \<Rightarrow> string option result" where
  \<comment> \<open>\<open>_direct_model_name(upstream, std.get("model_group"), std.get("model"), requested_model)\<close>: the
    arguments are looked at in turn, so a later one that would raise matters only if no earlier one is known\<close>
  "ledger_direct_model upstream std requested_model =
     (case direct_model_name [upstream] of Some m \<Rightarrow> Inr (Some m)
      | None \<Rightarrow> bindR (name_text (jget std ''model_group'')) (\<lambda>g.
          case direct_model_name [g] of Some m \<Rightarrow> Inr (Some m)
          | None \<Rightarrow> bindR (name_text (jget std ''model'')) (\<lambda>n.
              Inr (direct_model_name [n, requested_model]))))"

definition rejson :: "json \<Rightarrow> json" where
  "rejson j = jsonable True (of_json j)"

definition ledger_row ::
  "python_env \<Rightarrow> instant \<Rightarrow> string \<Rightarrow> call_event \<Rightarrow> (string \<times> credit_row) result" where
  "ledger_row pe now missing ev =
     (let kwargs = ev_kwargs ev; std = standard kwargs; response = as_dict (ev_response ev) in
      bindR (annotate_metadata pe kwargs (ev_response ev)) (\<lambda>meta.
      bindR (extract_usage (ev_response ev)) (\<lambda>usage.
      let upstream = (let v = vor (vor (vget kwargs ''model'') (std_get std ''model_group''))
                            (vget meta ''fugu_upstream_model'') in if vtruthy v then vstr pe v else []);
          requested_model = (let v = vor (vget meta ''fugu_requested_model'')
                               (opt_str (requested_model_from_upstream upstream)) in
                             if vtruthy v then vstr pe v else []);
          account_id = (let v = vor (vget meta ''fugu_account_id'') (opt_str (account_from_model upstream)) in
                        if vtruthy v then nonempty (Some (vstr pe v)) else None);
          error = vor (ev_error ev) (vget kwargs ''exception'') in
      bindR (ledger_direct_model upstream std requested_model) (\<lambda>direct_model.
      bindR (number [std_get std ''status_code'', vget kwargs ''status_code'']) (\<lambda>http_status.
      bindR (text_values pe kwargs meta upstream requested_model account_id) (\<lambda>texts.
      Inr (request_id pe kwargs (ev_response ev) missing,
           \<lparr>k_created_at = now,
            k_start_time = parse_time (e_fromisoformat pe) (ev_start ev),
            k_end_time = parse_time (e_fromisoformat pe) (ev_end ev),
            k_status = ev_status ev,
            k_http_status = http_status,
            k_error_message = clip 2000 (if vtruthy error then vstr pe error else []),
            k_text = texts,
            k_tokens = token_values usage (direct_estimated_cost direct_model usage),
            k_litellm_spend = decimal (vor (vor (std_get std ''response_cost'') (std_get std ''spend''))
              (vget kwargs ''response_cost'')),
            k_raw_usage = rejson (JObj (case usage of Some u \<Rightarrow> u_raw_usage u | None \<Rightarrow> [])),
            k_raw_token_metadata = rejson (case usage of Some u \<Rightarrow> u_raw_token_metadata u | None \<Rightarrow> JObj []),
            k_request_metadata = jsonable True (VDict meta),
            k_response_metadata = rejson (JObj (as_dict (of_json (jget response ''metadata'')))),
            k_standard_logging_object = rejson (JObj std),
            k_proxy_server_request = jsonable True (vget kwargs ''proxy_server_request'')\<rparr>)))))))"

definition write_ledger ::
  "python_env \<Rightarrow> instant \<Rightarrow> string \<Rightarrow> call_event \<Rightarrow> credit_state \<Rightarrow> exc option \<times> credit_state" where
  "write_ledger pe now missing ev st =
     then_do (ensure_db (e_env pe) (e_fromisoformat pe) (e_account_count pe) now st) (\<lambda>st1.
       case ledger_row pe now missing ev of
         Inl e \<Rightarrow> (Some e, st1)
       | Inr (rid, r) \<Rightarrow> (case database st1 of
             None \<Rightarrow> (Some (RuntimeError ''UndefinedTable''), st1)
           | Some d \<Rightarrow> (case upsert_credit rid r d of (e, d') \<Rightarrow> (e, st1\<lparr>database := Some d'\<rparr>))))"

text \<open>The callbacks of \<open>FuguCreditTelemetry\<close> swallow every error.\<close>

definition log_success_event ::
  "python_env \<Rightarrow> instant \<Rightarrow> string \<Rightarrow> pyval dict \<Rightarrow> pyval \<Rightarrow> pyval \<Rightarrow> pyval \<Rightarrow> credit_state \<Rightarrow> credit_state" where
  "log_success_event pe now missing kwargs response start_time end_time st =
     snd (write_ledger pe now missing \<lparr>ev_kwargs = kwargs, ev_response = response, ev_start = start_time,
            ev_end = end_time, ev_status = ''success'', ev_error = VNone\<rparr> st)"

definition log_failure_event ::
  "python_env \<Rightarrow> instant \<Rightarrow> string \<Rightarrow> pyval dict \<Rightarrow> pyval \<Rightarrow> pyval \<Rightarrow> pyval \<Rightarrow> credit_state \<Rightarrow> credit_state" where
  "log_failure_event pe now missing kwargs response start_time end_time st =
     snd (write_ledger pe now missing \<lparr>ev_kwargs = kwargs, ev_response = response, ev_start = start_time,
            ev_end = end_time, ev_status = ''failure'', ev_error = vget kwargs ''exception''\<rparr> st)"

end
