(* ===== verification/Fugu_Names.thy ===== *)
theory Fugu_Names
  imports Fugu_Credit
begin

text \<open>
  The stateless helpers of deploy/fugu-router/fugu_session_router.py: authorisation, usage
  windows, session keys, the classification of upstream errors, payload defaults, model names and
  filters, the reading of server-sent events, and the notices and headers of a content-policy
  fallback. Header dictionaries have lower-case names, as the server gives them.
\<close>

section \<open>Requests\<close>

definition hget :: "string dict \<Rightarrow> string \<Rightarrow> string option" where
  "hget headers name = map_of headers name"

definition bearer :: "string dict \<Rightarrow> string" where
  "bearer headers =
     (let auth = (case hget headers ''authorization'' of Some a \<Rightarrow> a | None \<Rightarrow> []) in
      if startswith (lower auth) ''bearer ''
      then (case split1 (CHR '' '') auth of Some (_, token) \<Rightarrow> strip token | None \<Rightarrow> []) else [])"

definition require_admin :: "string \<Rightarrow> string dict \<Rightarrow> bool" where
  \<comment> \<open>whether the request is refused with 401\<close>
  "require_admin master_key headers = (master_key \<noteq> [] \<and> bearer headers \<noteq> master_key)"

definition session_key :: "string dict \<Rightarrow> json dict \<Rightarrow> (json \<Rightarrow> string) \<Rightarrow> string \<Rightarrow> string" where
  \<comment> \<open>\<open>fresh\<close> is the text made from the current time, \<open>jstr\<close> is \<open>str()\<close>\<close>
  "session_key headers body jstr fresh =
     (let meta = members (jget body ''metadata'');
          header = (\<lambda>n. case hget headers n of Some v \<Rightarrow> JStr v | None \<Rightarrow> JNull) in
      case filter truthy [header ''x-session-id'', header ''x-conversation-id'', jget meta ''session_id'',
          jget meta ''fugu_session_id'', jget meta ''conversation_id'', jget body ''user''] of
        v # _ \<Rightarrow> jstr v
      | [] \<Rightarrow> fresh)"

definition headers_for_upstream :: "string dict \<Rightarrow> string dict" where
  "headers_for_upstream headers =
     filter (\<lambda>(k, v). lower k \<notin> {''host'', ''content-length'', ''accept-encoding''}) headers"

definition passthrough_headers :: "string dict \<Rightarrow> string dict \<Rightarrow> string dict" where
  \<comment> \<open>of \<open>_forward_once\<close>: what is passed on of the upstream's headers, then the extra headers that have a value\<close>
  "passthrough_headers upstream_headers extra =
     foldl (\<lambda>out (k, v). AList.update k v out)
       (filter (\<lambda>(k, v). lower k \<notin> {''content-length'', ''content-encoding'', ''transfer-encoding'', ''connection''})
         upstream_headers)
       (filter (\<lambda>(k, v). v \<noteq> []) extra)"

section \<open>Usage windows\<close>

text \<open>A reset interval as the database driver returns it: a \<open>timedelta\<close> or text.\<close>

datatype interval = Delta int | Text string

fun split_ws :: "string \<Rightarrow> string list" where
  \<comment> \<open>\<open>text.split()\<close>\<close>
  "split_ws [] = []"
| "split_ws (c # s) = (if is_space c then split_ws s
     else case split_ws s of
       [] \<Rightarrow> [[c]]
     | w # ws \<Rightarrow> if s \<noteq> [] \<and> \<not> is_space (hd s) then (c # w) # ws else [c] # w # ws)"

definition round_half_even :: "rat \<Rightarrow> int" where
  "round_half_even r = (let f = \<lfloor>r\<rfloor>; d = r - of_int f in
     if d < 1 / 2 then f else if d > 1 / 2 then f + 1 else if even f then f else f + 1)"

definition float_text :: "string \<Rightarrow> pyfloat result" where
  "float_text s = (case py_float s of Some f \<Rightarrow> Inr f | None \<Rightarrow> Inl (ValueError ''could not convert string to float''))"

definition int_text :: "string \<Rightarrow> int result" where
  "int_text s = (case py_int s of Some i \<Rightarrow> Inr i
     | None \<Rightarrow> Inl (ValueError ''invalid literal for int() with base 10''))"

definition seconds_us :: "pyfloat \<Rightarrow> int result" where
  \<comment> \<open>\<open>timedelta(seconds=f)\<close> in microseconds\<close>
  "seconds_us f = (case f of Fin r \<Rightarrow> Inr (round_half_even (r * 1000000))
     | NaN \<Rightarrow> Inl (ValueError ''cannot convert float NaN to integer'')
     | _ \<Rightarrow> Inl (OverflowError ''cannot convert float infinity to integer''))"

definition whole_number :: "string \<Rightarrow> int result" where
  \<comment> \<open>\<open>int(float(text.split()[0]))\<close>\<close>
  "whole_number text = bindR (float_text (hd (split_ws text))) (\<lambda>f. int_of_json (JFloat f))"

definition parse_interval :: "interval \<Rightarrow> int result" where
  "parse_interval value = (case value of
      Delta d \<Rightarrow> Inr d
    | Text text \<Rightarrow>
        if contains text ''month'' then Inr (31 * day_us)
        else if contains text ''day'' then bindR (whole_number text) (\<lambda>n. Inr (n * day_us))
        else if CHR '':'' \<in> set text then
          (case split_on (CHR '':'') text of
             [hours, minutes, seconds] \<Rightarrow>
               bindR (int_text hours) (\<lambda>h. bindR (int_text minutes) (\<lambda>m.
               bindR (float_text seconds) (\<lambda>sf. bindR (seconds_us sf) (\<lambda>s.
               Inr (h * usec 3600 + m * usec 60 + s)))))
           | _ \<Rightarrow> Inl (ValueError ''not enough values to unpack''))
        else if contains text ''hour'' then bindR (whole_number text) (\<lambda>n. Inr (n * usec 3600))
        else bindR (float_text text) seconds_us)"

definition window_start :: "instant \<Rightarrow> interval \<Rightarrow> instant \<Rightarrow> instant result" where
  "window_start anchor interval now =
     bindR (parse_interval interval) (\<lambda>delta.
     Inr (if delta \<le> 0 then anchor else anchor + max (now - anchor) 0 div delta * delta))"

definition dashboard_window_start :: "string \<Rightarrow> instant \<Rightarrow> instant" where
  "dashboard_window_start window now =
     (if window = ''5h'' then now - usec (5 * 3600)
      else if window = ''week'' then now - 7 * day_us
      else now - (if window = ''30d'' then 30 else 31) * day_us)"

section \<open>Errors of the upstream\<close>

definition limit_error :: "int \<Rightarrow> string \<Rightarrow> bool" where
  "limit_error status_code text =
     (let lowered = lower text in
      if status_code \<in> {402, 408, 409, 425, 429, 529} then True
      else if status_code \<in> {400, 403, 500, 502, 503, 504}
      then list_ex (contains lowered) [''quota'', ''rate'', ''limit'', ''credit'', ''billing'', ''exhaust'', ''capacity'']
      else False)"

definition content_policy_error :: "int \<Rightarrow> string \<Rightarrow> bool" where
  "content_policy_error status_code text =
     (let lowered = lower text in
      status_code = 451 \<or> contains lowered ''content policy'' \<and> contains lowered ''blocked'')"

definition chat_completion_path :: "string \<Rightarrow> bool" where
  "chat_completion_path path = (strip_on (\<lambda>c. c = CHR ''/'') path \<in> {''v1/chat/completions'', ''chat/completions''})"

definition decimal_header :: "string dict \<Rightarrow> string \<Rightarrow> json" where
  "decimal_header headers name = (case hget headers name of
      Some v \<Rightarrow> if py_decimal v = None then JNull else JStr v | None \<Rightarrow> JNull)"

section \<open>Model names\<close>

record public_model =
  pm_id :: string
  pm_label :: string
  pm_owned_by :: string
  pm_kind :: string

definition PUBLIC_MODELS :: "public_model list" where
  "PUBLIC_MODELS = map (\<lambda>(i, l, w, k). \<lparr>pm_id = i, pm_label = l, pm_owned_by = w, pm_kind = k\<rparr>) [
     (''fugu-ultra'', ''Fugu Ultra'', ''fugu-router'', ''fugu''),
     (''fugu'', ''Fugu'', ''fugu-router'', ''fugu''),
     (''glm-5.2'', ''GLM 5.2'', ''redpill'', ''chat''),
     (''qwen/qwen3-embedding-8b'', ''Qwen3 Embedding 8B'', ''redpill'', ''embedding''),
     (''openai/gpt-oss-120b'', ''GPT-OSS 120B'', ''redpill'', ''chat''),
     (''grok-4.5'', ''Grok 4.5'', ''xai'', ''chat''),
     (''grok-4.3'', ''Grok 4.3'', ''xai'', ''chat''),
     (''grok-imagine-image-quality'', ''Grok Imagine Image Quality'', ''xai'', ''image_generation''),
     (''grok-imagine-image'', ''Grok Imagine Image'', ''xai'', ''image_generation'')]"

definition DIRECT_PUBLIC_NAMES :: "string list" where
  "DIRECT_PUBLIC_NAMES = map pm_id (filter (\<lambda>m. pm_kind m \<noteq> ''fugu'') PUBLIC_MODELS)"

definition sub_name :: "string \<Rightarrow> string \<Rightarrow> bool" where
  \<comment> \<open>\<open>re.match(prefix + "\d+$", model)\<close>\<close>
  "sub_name prefix model = (startswith model prefix \<and>
     (let d = before_dollar (drop (length prefix) model) in d \<noteq> [] \<and> list_all is_digit d))"

definition public_aliases :: "string dict" where
  "public_aliases = [
     (''openai/z-ai/glm-5.2'', ''glm-5.2''), (''z-ai/glm-5.2'', ''glm-5.2''),
     (''openai/qwen/qwen3-embedding-8b'', ''qwen/qwen3-embedding-8b''),
     (''openai/openai/gpt-oss-120b'', ''openai/gpt-oss-120b''),
     (''xai/grok-4.5'', ''grok-4.5''), (''xai/grok-4.3'', ''grok-4.3''),
     (''xai/grok-imagine-image-quality'', ''grok-imagine-image-quality''),
     (''xai/grok-imagine-image'', ''grok-imagine-image'')]"

definition normalize_public_model :: "string \<Rightarrow> string" where
  "normalize_public_model model =
     (if model = [] then ''unknown''
      else if sub_name ''fugu-ultra-sub-'' model then ''fugu-ultra''
      else if sub_name ''fugu-sub-'' model then ''fugu''
      else case map_of public_aliases model of Some a \<Rightarrow> a | None \<Rightarrow> model)"

definition model_label :: "string \<Rightarrow> string" where
  "model_label model =
     (let m = normalize_public_model model in
      case filter (\<lambda>i. pm_id i = m) PUBLIC_MODELS of i # _ \<Rightarrow> pm_label i | [] \<Rightarrow> m)"

definition direct_upstream :: "string \<Rightarrow> string \<Rightarrow> string \<times> string" where
  "direct_upstream requested_model upstream =
     (let requested = normalize_public_model requested_model in
      (requested, normalize_public_model (if upstream = [] then requested else upstream)))"

definition direct_route_id :: "string \<Rightarrow> string \<Rightarrow> string" where
  "direct_route_id requested_model upstream_name =
     (case direct_upstream requested_model upstream_name of (requested, upstream) \<Rightarrow>
      if requested \<in> set MODEL_PUBLIC_NAMES \<and> upstream \<noteq> requested then ''fallback:'' @ upstream
      else ''direct:'' @ upstream)"

definition direct_route_name :: "string \<Rightarrow> string \<Rightarrow> string" where
  "direct_route_name requested_model upstream_name =
     (case direct_upstream requested_model upstream_name of (requested, upstream) \<Rightarrow>
      if requested \<in> set MODEL_PUBLIC_NAMES \<and> upstream \<noteq> requested
      then ''Fallback: '' @ model_label upstream @ '' for '' @ model_label requested
      else ''Direct: '' @ model_label upstream)"

definition alias_names :: "nat \<Rightarrow> string \<Rightarrow> string list" where
  "alias_names account_count normalized =
     (if normalized = ''fugu-ultra'' then map (\<lambda>i. ''fugu-ultra-sub-'' @ nat_str i) [1..<account_count + 1]
      else if normalized = ''fugu'' then map (\<lambda>i. ''fugu-sub-'' @ nat_str i) [1..<account_count + 1]
      else if normalized = ''glm-5.2'' then [''z-ai/glm-5.2'', ''openai/z-ai/glm-5.2'']
      else if normalized = ''qwen/qwen3-embedding-8b'' then [''openai/qwen/qwen3-embedding-8b'']
      else if normalized = ''openai/gpt-oss-120b'' then [''openai/openai/gpt-oss-120b'']
      else if normalized = ''grok-4.5'' then [''xai/grok-4.5'']
      else if normalized = ''grok-4.3'' then [''xai/grok-4.3'']
      else if normalized = ''grok-imagine-image-quality'' then [''xai/grok-imagine-image-quality'']
      else if normalized = ''grok-imagine-image'' then [''xai/grok-imagine-image'']
      else [])"

definition model_filter_values :: "nat \<Rightarrow> string \<Rightarrow> string list" where
  \<comment> \<open>the empty text stands for \<open>None\<close>\<close>
  "model_filter_values account_count model_filter =
     (if model_filter = [] then []
      else (let normalized = normalize_public_model model_filter in
        sort (remdups ([model_filter, normalized] @ alias_names account_count normalized))))"

end
