(* ===== verification/Py_Text.thy ===== *)
theory Py_Text
  imports Py_Data
begin

text \<open>
  Text functions of Python's standard library that several components use: \<open>str()\<close> of JSON values,
  \<open>splitlines\<close>, UTF-8 and Base64, \<open>shlex.quote\<close>, and the reading of a shell command that the quoting
  is meant for.
\<close>

section \<open>\<open>str()\<close> and lines\<close>

definition jstr :: "(json \<Rightarrow> string) \<Rightarrow> json \<Rightarrow> string" where
  \<comment> \<open>\<open>str(v)\<close>; \<open>pystr\<close> is the text of floats, lists and objects\<close>
  "jstr pystr v = (case v of JStr s \<Rightarrow> s | JInt i \<Rightarrow> int_str i | JBool b \<Rightarrow> py_bool_str b
     | JNull \<Rightarrow> ''None'' | _ \<Rightarrow> pystr v)"

definition newline :: char where
  "newline = CHR 0x0A"

definition is_break :: "char \<Rightarrow> bool" where
  \<comment> \<open>the line boundaries of \<open>str.splitlines\<close>\<close>
  "is_break c = (let n = code c in (10 \<le> n \<and> n \<le> 13) \<or> (28 \<le> n \<and> n \<le> 30) \<or> n = 133)"

function splitlines :: "string \<Rightarrow> string list" where
  "splitlines [] = []"
| "splitlines (c # s) =
     (if is_break c
      then [] # splitlines (if c = CHR 0x0D \<and> startswith s [newline] then tl s else s)
      else case splitlines s of [] \<Rightarrow> [[c]] | w # ws \<Rightarrow> (c # w) # ws)"
  by pat_completeness auto
termination
  by (relation "measure length") auto

definition text_lines :: "string list \<Rightarrow> string" where
  \<comment> \<open>the text with these lines, each with its newline\<close>
  "text_lines ls = concat (map (\<lambda>l. l @ [newline]) ls)"

lemma is_break_newline [simp]: "is_break newline"
  by (simp add: is_break_def newline_def code_def)

lemma newline_not_CR [simp]: "newline \<noteq> CHR 0x0D"
  by (simp add: newline_def)

lemma splitlines_line:
  "list_all (\<lambda>c. \<not> is_break c) l \<Longrightarrow> splitlines (l @ newline # s) = l # splitlines s"
  by (induction l) simp_all

lemma splitlines_text_lines:
  "\<forall>l \<in> set ls. list_all (\<lambda>c. \<not> is_break c) l \<Longrightarrow> splitlines (text_lines ls) = ls"
  by (induction ls) (simp_all add: text_lines_def splitlines_line)

lemma splitlines_no_break: "l \<in> set (splitlines s) \<Longrightarrow> list_all (\<lambda>c. \<not> is_break c) l"
  by (induction s arbitrary: l rule: splitlines.induct) (auto split: if_splits list.splits)

section \<open>Stripping\<close>

definition stripped :: "string \<Rightarrow> bool" where
  "stripped s = (s = [] \<or> \<not> is_space (hd s) \<and> \<not> is_space (last s))"

lemma stripped_strip [simp]: "stripped (strip s)"
proof (cases "strip s = []")
  case False
  let ?t = "dropWhile is_space s"
  from False have ne: "dropWhile is_space (rev ?t) \<noteq> []"
    by (simp add: strip_def strip_on_def rstrip_on_def)
  then have "\<not> is_space (hd (dropWhile is_space (rev ?t)))"
    by (rule hd_dropWhile)
  moreover have "?t \<noteq> []"
    using ne by (metis dropWhile.simps(1) rev.simps(1))
  then have "\<not> is_space (hd ?t)"
    by (rule hd_dropWhile)
  moreover have "hd (rev (dropWhile is_space (rev ?t))) = hd ?t"
  proof -
    have "?t = rev (dropWhile is_space (rev ?t)) @ rev (takeWhile is_space (rev ?t))"
      by (metis rev_append rev_rev_ident takeWhile_dropWhile_id)
    then show ?thesis
      using ne by (metis hd_append2 rev_is_Nil_conv)
  qed
  ultimately show ?thesis
    using ne by (simp add: stripped_def strip_def strip_on_def rstrip_on_def last_rev)
qed (simp add: stripped_def)

lemma strip_stripped: "stripped s \<Longrightarrow> strip s = s"
proof (cases s)
  case (Cons c t)
  assume "stripped s"
  then have "\<not> is_space c" "\<not> is_space (last s)"
    using Cons by (auto simp: stripped_def)
  then have "dropWhile is_space s = s" and "dropWhile is_space (rev s) = rev s"
    using Cons by (simp, simp add: dropWhile_eq_self_iff hd_rev del: rev.simps)
  then show ?thesis
    by (simp add: strip_def strip_on_def rstrip_on_def)
qed (simp add: strip_def strip_on_def rstrip_on_def)

lemma set_strip: "set (strip s) \<subseteq> set s"
  by (auto simp: strip_def strip_on_def rstrip_on_def dest!: set_dropWhileD)

section \<open>UTF-8 and Base64\<close>

definition utf8_char :: "char \<Rightarrow> nat list" where
  "utf8_char c = (let n = code c in if n < 128 then [n] else [192 + n div 64, 128 + n mod 64])"

definition utf8 :: "string \<Rightarrow> nat list" where
  "utf8 s = concat (map utf8_char s)"

fun utf8_decode :: "nat list \<Rightarrow> string" where
  "utf8_decode [] = []"
| "utf8_decode [n] = [chr n]"
| "utf8_decode (n # m # bs) = (if n < 128 then chr n # utf8_decode (m # bs)
     else chr ((n - 192) * 64 + (m - 128)) # utf8_decode bs)"

lemma code_less [simp]: "code c < 256"
  by (simp add: code_def)

lemma chr_code [simp]: "chr (code c) = c"
  by (simp add: chr_def code_def)

lemma code_inject: "code c = code d \<longleftrightarrow> c = d"
  by (simp add: code_def)

lemma utf8_decode_ascii: "n < 128 \<Longrightarrow> utf8_decode (n # bs) = chr n # utf8_decode bs"
  by (cases bs) simp_all

lemma utf8_roundtrip: "utf8_decode (utf8 s) = s"
proof (induction s)
  case (Cons c s)
  have "(192 + code c div 64 - 192) * 64 + (128 + code c mod 64 - 128) = code c"
    by simp
  then show ?case
    using Cons by (simp add: utf8_def utf8_char_def Let_def utf8_decode_ascii)
qed (simp add: utf8_def)

lemma utf8_bytes: "b \<in> set (utf8 s) \<Longrightarrow> b < 256"
proof -
  assume "b \<in> set (utf8 s)"
  then obtain c where "b \<in> set (utf8_char c)" by (auto simp: utf8_def)
  moreover have "code c div 64 < 4" using code_less [of c] by linarith
  moreover have "code c mod 64 < 64" by simp
  ultimately show ?thesis by (auto simp: utf8_char_def Let_def split: if_splits)
qed

definition b64_alphabet :: string where
  "b64_alphabet = ''ABCDEFGHIJKLMNOPQRSTUVWXYZabcdefghijklmnopqrstuvwxyz0123456789+/''"

definition b64_char :: "nat \<Rightarrow> char" where
  "b64_char n = b64_alphabet ! n"

fun b64encode :: "nat list \<Rightarrow> string" where
  "b64encode [] = []"
| "b64encode [a] = [b64_char (a div 4), b64_char (a mod 4 * 16), CHR ''='', CHR ''='']"
| "b64encode [a, b] = [b64_char (a div 4), b64_char (a mod 4 * 16 + b div 16), b64_char (b mod 16 * 4), CHR ''='']"
| "b64encode (a # b # c # bs) = [b64_char (a div 4), b64_char (a mod 4 * 16 + b div 16),
     b64_char (b mod 16 * 4 + c div 64), b64_char (c mod 64)] @ b64encode bs"

definition b64_val :: "char \<Rightarrow> nat" where
  "b64_val c = length (takeWhile (\<lambda>x. x \<noteq> c) b64_alphabet)"

fun b64decode :: "string \<Rightarrow> nat list" where
  "b64decode (p # q # r # s # cs) =
     (let a = b64_val p; b = b64_val q; c = b64_val r; d = b64_val s in
      if r = CHR ''='' then [a * 4 + b div 16]
      else if s = CHR ''='' then [a * 4 + b div 16, b mod 16 * 16 + c div 4]
      else [a * 4 + b div 16, b mod 16 * 16 + c div 4, c mod 4 * 64 + d] @ b64decode cs)"
| "b64decode _ = []"

lemma b64_alphabet_facts: "list_all (\<lambda>n. b64_val (b64_char n) = n \<and> b64_char n \<noteq> CHR ''='') [0..<64]"
  by code_simp

lemma b64_val_char [simp]: "n < 64 \<Longrightarrow> b64_val (b64_char n) = n"
  and b64_char_pad [simp]: "n < 64 \<Longrightarrow> b64_char n \<noteq> CHR ''=''"
  using b64_alphabet_facts by (auto simp: list_all_iff)

lemma b64_range:
  fixes a b c :: nat
  shows "a < 256 \<Longrightarrow> a div 4 < 64" and "b < 256 \<Longrightarrow> b div 16 < 16" and "c < 256 \<Longrightarrow> c div 64 < 4"
  by (simp_all add: less_mult_imp_div_less)

lemma b64_join:
  fixes x y z :: nat
  shows "y < 16 \<Longrightarrow> (x * 16 + y) div 16 = x" "y < 16 \<Longrightarrow> (x * 16 + y) mod 16 = y"
    "z < 4 \<Longrightarrow> (x * 4 + z) div 4 = x" "z < 4 \<Longrightarrow> (x * 4 + z) mod 4 = z"
    "x < 4 \<Longrightarrow> y < 16 \<Longrightarrow> x * 16 + y < 64" "x < 16 \<Longrightarrow> z < 4 \<Longrightarrow> x * 4 + z < 64"
    "x < 4 \<Longrightarrow> x * 16 < 64" "x < 16 \<Longrightarrow> x * 4 < 64"
  by simp_all

lemma b64_roundtrip: "\<forall>b \<in> set bs. b < 256 \<Longrightarrow> b64decode (b64encode bs) = bs"
proof (induction bs rule: b64encode.induct)
  case (2 a)
  then show ?case
    by (simp add: Let_def b64_range b64_join)
next
  case (3 a b)
  then have r: "a div 4 < 64" "b div 16 < 16"
    by (simp_all add: b64_range)
  then show ?case
    by (simp add: Let_def b64_join)
next
  case (4 a b c bs)
  then have r: "a div 4 < 64" "b div 16 < 16" "c div 64 < 4"
    by (simp_all add: b64_range)
  from 4 show ?case
    by (simp add: Let_def b64_join r)
qed simp

section \<open>Shell words\<close>

definition sh_plain :: "char \<Rightarrow> bool" where
  \<comment> \<open>the characters that \<open>shlex.quote\<close> leaves alone\<close>
  "sh_plain c = (is_lower c \<or> is_upper c \<or> is_digit c \<or> c \<in> set ''_@%+=:,./-'')"

definition shell_quote :: "string \<Rightarrow> string" where
  \<comment> \<open>\<open>shlex.quote\<close>\<close>
  "shell_quote s = (if s = [] then [CHR 0x27, CHR 0x27]
     else if list_all sh_plain s then s
     else CHR 0x27 # replace [CHR 0x27] [CHR 0x27, CHR 0x22, CHR 0x27, CHR 0x22, CHR 0x27] s @ [CHR 0x27])"

text \<open>
  How a shell reads a command line, as far as it needs no expansion: the commands as lists of words.
  Whatever the shell might expand or interpret (an unquoted special character, a dollar sign, a
  backquote or a backslash in double quotes) gives no reading.
\<close>

datatype sh_mode = Bare | Single | Double

definition add_word :: "string option \<Rightarrow> string list list \<Rightarrow> string list list" where
  "add_word cur cmds = (case cur of None \<Rightarrow> cmds
     | Some w \<Rightarrow> (case cmds of [] \<Rightarrow> [[w]] | c # cs \<Rightarrow> (w # c) # cs))"

abbreviation cur_text :: "string option \<Rightarrow> string" where
  "cur_text cur \<equiv> (case cur of None \<Rightarrow> [] | Some w \<Rightarrow> w)"

fun sh_read :: "sh_mode \<Rightarrow> string option \<Rightarrow> string \<Rightarrow> string list list option" where
  "sh_read Bare cur [] = Some (add_word cur [[]])"
| "sh_read Bare cur (c # s) =
     (if c = CHR '' '' then map_option (add_word cur) (sh_read Bare None s)
      else if c = CHR '';'' then map_option (\<lambda>cmds. add_word cur ([] # cmds)) (sh_read Bare None s)
      else if c = CHR 0x27 then sh_read Single (Some (cur_text cur)) s
      else if c = CHR 0x22 then sh_read Double (Some (cur_text cur)) s
      else if sh_plain c then sh_read Bare (Some (cur_text cur @ [c])) s
      else None)"
| "sh_read Single cur [] = None"
| "sh_read Single cur (c # s) =
     (if c = CHR 0x27 then sh_read Bare cur s else sh_read Single (Some (cur_text cur @ [c])) s)"
| "sh_read Double cur [] = None"
| "sh_read Double cur (c # s) =
     (if c = CHR 0x22 then sh_read Bare cur s
      else if c \<in> set [CHR ''$'', CHR 0x60, CHR 0x5C, CHR ''!''] then None
      else sh_read Double (Some (cur_text cur @ [c])) s)"

definition sh_commands :: "string \<Rightarrow> string list list option" where
  "sh_commands s = sh_read Bare None s"

lemma sh_plain_special [simp]:
  "\<not> sh_plain (CHR '' '')" "\<not> sh_plain (CHR '';'')" "\<not> sh_plain (CHR 0x27)" "\<not> sh_plain (CHR 0x22)"
  by (simp_all add: sh_plain_def is_lower_def is_upper_def is_digit_def code_def)

lemma sh_read_plain:
  "list_all sh_plain w \<Longrightarrow> w \<noteq> [] \<or> cur \<noteq> None \<Longrightarrow> sh_read Bare cur (w @ rest) = sh_read Bare (Some (cur_text cur @ w)) rest"
proof (induction w arbitrary: cur)
  case (Cons c w)
  then have "c \<noteq> CHR '' ''" "c \<noteq> CHR '';''" "c \<noteq> CHR 0x27" "c \<noteq> CHR 0x22" "sh_plain c"
    by auto
  then show ?case
    using Cons.IH [of "Some (cur_text cur @ [c])"] Cons.prems by simp
qed auto

lemma sh_read_single:
  "sh_read Single (Some w) (replace [CHR 0x27] [CHR 0x27, CHR 0x22, CHR 0x27, CHR 0x22, CHR 0x27] s @ CHR 0x27 # rest)
    = sh_read Bare (Some (w @ s)) rest"
proof (induction s arbitrary: w)
  case (Cons c s)
  then show ?case
    by (cases "c = CHR 0x27") (simp_all add: startswith_iff)
qed simp

lemma sh_read_quote: "sh_read Bare cur (shell_quote s @ rest) = sh_read Bare (Some (cur_text cur @ s)) rest"
  using sh_read_single [of "cur_text cur" s rest] sh_read_plain [of s cur rest]
  by (auto simp: shell_quote_def)

lemma sh_read_blank: "sh_read Bare cur (CHR '' '' # s) = map_option (add_word cur) (sh_read Bare None s)"
  by simp

lemma sh_read_semi: "sh_read Bare cur (CHR '';'' # s) = map_option (\<lambda>cmds. add_word cur ([] # cmds)) (sh_read Bare None s)"
  by simp

end
