(* ===== verification/Fugu_Fallback.thy ===== *)
theory Fugu_Fallback
  imports Fugu_Names Py_Text
begin

text \<open>
  Streams and content-policy fallbacks of deploy/fugu-router/fugu_session_router.py: the
  incremental reader of server-sent events, the summary of an upstream error, and how a response
  that comes from the fallback model is announced to the caller. \<open>pystr\<close> stands for \<open>str()\<close> of a
  float, a list or a dictionary, \<open>loads\<close> for decoding and parsing the JSON of one event.
\<close>

section \<open>Server-sent events\<close>

definition is_bspace :: "char \<Rightarrow> bool" where
  \<comment> \<open>what \<open>bytes.strip()\<close> strips\<close>
  "is_bspace c = (let n = code c in 9 \<le> n \<and> n \<le> 13 \<or> n = 32)"

definition put_some :: "string \<Rightarrow> json \<Rightarrow> json dict \<Rightarrow> json dict" where
  "put_some k v d = (if v = JNull then d else AList.update k v d)"

definition stream_event_metadata :: "json \<Rightarrow> json dict" where
  "stream_event_metadata obj = (case obj of
      JObj d \<Rightarrow>
       (let out = fold (\<lambda>k. put_some k (jget d k)) [''id'', ''object'', ''created'', ''model''] [];
            out1 = (case jget d ''usage'' of
                JObj (x # xs) \<Rightarrow> AList.update ''usage'' (JObj (x # xs)) out | _ \<Rightarrow> out) in
        case jget d ''choices'' of
          JList choices \<Rightarrow>
           (let out2 = AList.update ''choice_count'' (JInt (int (length choices))) out1;
                finish_reasons = filter (\<lambda>v. v \<noteq> JNull)
                  (map (\<lambda>c. jget (members c) ''finish_reason'') (filter is_obj choices)) in
            if finish_reasons = [] then out2 else AList.update ''finish_reasons'' (JList finish_reasons) out2)
        | _ \<Rightarrow> out1)
    | _ \<Rightarrow> [])"

definition sse_line :: "(string \<Rightarrow> json option) \<Rightarrow> string \<Rightarrow> json dict list \<Rightarrow> json dict list" where
  "sse_line loads raw events =
     (let line = strip_on is_bspace raw in
      if \<not> startswith line ''data:'' then events
      else
       (let payload = strip_on is_bspace (drop 5 line) in
        if payload = [] \<or> payload = ''[DONE]'' then events
        else (case loads payload of
            None \<Rightarrow> events
          | Some event \<Rightarrow> (let metadata = stream_event_metadata event in
              if metadata = [] then events else events @ [metadata]))))"

function drain :: "(string \<Rightarrow> json option) \<Rightarrow> string \<Rightarrow> json dict list \<Rightarrow> string \<times> json dict list" where
  "drain loads pending events = (case split1 newline pending of
      None \<Rightarrow> (pending, events)
    | Some (line, rest) \<Rightarrow> drain loads rest (sse_line loads line events))"
  by pat_completeness auto
termination
  by (relation "measure (\<lambda>(loads, pending, events). length pending)") (auto simp: split1_Some)

declare drain.simps [simp del]

definition consume_sse ::
  "(string \<Rightarrow> json option) \<Rightarrow> string \<times> json dict list \<Rightarrow> string \<Rightarrow> string \<times> json dict list" where
  "consume_sse loads st data = (case st of (pending, events) \<Rightarrow> drain loads (pending @ data) events)"

definition sse_events :: "(string \<Rightarrow> json option) \<Rightarrow> string list \<Rightarrow> json dict list" where
  \<comment> \<open>the events collected by \<open>gen\<close> over the chunks of the stream, the unfinished line included\<close>
  "sse_events loads chunks =
     (case foldl (consume_sse loads) ([], []) chunks of (pending, events) \<Rightarrow>
      if strip_on is_bspace pending \<noteq> [] then snd (consume_sse loads (pending, events) [newline]) else events)"

definition set_default :: "string \<Rightarrow> json \<Rightarrow> json dict \<Rightarrow> json dict" where
  "set_default k v d = (if map_of d k = None then AList.update k v d else d)"

definition stream_event :: "json dict \<times> json list \<Rightarrow> json dict \<Rightarrow> json dict \<times> json list" where
  "stream_event st event = (case st of (response, usage_events) \<Rightarrow>
     let r1 = fold (\<lambda>k r. if jget event k = JNull then r else set_default k (jget event k) r)
                [''id'', ''created'', ''model''] response in
     case jget event ''usage'' of
       JObj (x # xs) \<Rightarrow>
         (AList.update ''usage'' (JObj (x # xs)) r1,
          usage_events @ [JObj [(''id'', jget event ''id''), (''model'', jget event ''model''), (''usage'', JObj (x # xs))]])
     | _ \<Rightarrow> (r1, usage_events))"

definition stream_response_obj :: "json dict list \<Rightarrow> json dict" where
  "stream_response_obj events =
     (case foldl stream_event ([(''object'', JStr ''chat.completion.stream'')], []) events of
        (response, usage_events) \<Rightarrow>
          AList.update ''metadata'' (JObj [(''stream'', JBool True),
            (''stream_chunk_count'', JInt (int (length events))),
            (''stream_usage_seen'', JBool (usage_events \<noteq> [])),
            (''stream_usage_events'', JList usage_events)]) response)"

section \<open>Payload defaults\<close>

definition apply_glm_plain_text_defaults :: "string \<Rightarrow> json dict \<Rightarrow> json dict" where
  "apply_glm_plain_text_defaults path body =
     (let model = (case jget body ''model'' of JStr m \<Rightarrow> m | _ \<Rightarrow> []);
          extra_body = members (jget body ''extra_body'');
          keys = [''thinking'', ''reasoning_effort''] in
      if \<not> chat_completion_path path \<or> normalize_public_model model \<noteq> ''glm-5.2'' then body
      else if list_ex (\<lambda>k. map_of body k \<noteq> None) keys then body
      else if list_ex (\<lambda>k. map_of extra_body k \<noteq> None) keys then body
      else AList.update ''extra_body''
        (JObj (AList.update ''reasoning_effort'' (JStr ''none'')
          (AList.update ''thinking'' (JObj [(''type'', JStr ''disabled'')]) extra_body))) body)"

definition dict_key :: "(json \<Rightarrow> string) \<Rightarrow> json \<Rightarrow> string result" where
  \<comment> \<open>a dictionary key in the JSON text that is sent on\<close>
  "dict_key pystr v = (case v of JStr s \<Rightarrow> Inr s | JInt i \<Rightarrow> Inr (int_str i) | JNull \<Rightarrow> Inr ''null''
     | JBool b \<Rightarrow> Inr (if b then ''true'' else ''false'') | JFloat _ \<Rightarrow> Inr (pystr v)
     | _ \<Rightarrow> Inl (TypeError ''unhashable type''))"

definition pair_of :: "json \<Rightarrow> (json \<times> json) result" where
  "pair_of v = (case v of
      JList [a, b] \<Rightarrow> Inr (a, b)
    | JStr [a, b] \<Rightarrow> Inr (JStr [a], JStr [b])
    | JObj [(a, _), (b, _)] \<Rightarrow> Inr (JStr a, JStr b)
    | JList _ \<Rightarrow> Inl (ValueError ''dictionary update sequence element has wrong length'')
    | JStr _ \<Rightarrow> Inl (ValueError ''dictionary update sequence element has wrong length'')
    | JObj _ \<Rightarrow> Inl (ValueError ''dictionary update sequence element has wrong length'')
    | _ \<Rightarrow> Inl (TypeError ''cannot convert dictionary update sequence element to a sequence''))"

definition dict_of :: "(json \<Rightarrow> string) \<Rightarrow> json \<Rightarrow> json dict result" where
  \<comment> \<open>\<open>dict(v or {})\<close>\<close>
  "dict_of pystr v =
     (if \<not> truthy v then Inr []
      else case v of
        JObj kvs \<Rightarrow> Inr kvs
      | JList xs \<Rightarrow> bindR (mapR pair_of xs) (\<lambda>ps. bindR (mapR (\<lambda>(a, b). bindR (dict_key pystr a) (\<lambda>k. Inr (k, b))) ps)
          (\<lambda>kvs. Inr (put_all kvs)))
      | JStr s \<Rightarrow> Inl (ValueError ''dictionary update sequence element has wrong length'')
      | _ \<Rightarrow> Inl (TypeError ''object is not iterable''))"

definition include_usage :: "(json \<Rightarrow> string) \<Rightarrow> json dict \<Rightarrow> json dict result" where
  \<comment> \<open>\<open>stream_options["include_usage"] = True\<close> on a copy\<close>
  "include_usage pystr routed =
     bindR (dict_of pystr (jget routed ''stream_options'')) (\<lambda>options.
     Inr (AList.update ''stream_options'' (JObj (AList.update ''include_usage'' (JBool True) options)) routed))"

section \<open>Error summaries and notices\<close>

record response =
  rs_status :: int
  rs_headers :: "string dict"
  rs_text :: string
  rs_json :: "json option"
  rs_stream :: bool

definition error_fields :: "(json \<Rightarrow> string) \<Rightarrow> response \<Rightarrow> json dict" where
  \<comment> \<open>the status and what the body's JSON says of the error\<close>
  "error_fields pystr r =
     (let s0 = [(''status_code'', JInt (rs_status r))] in
      case rs_json r of
        Some (JObj obj) \<Rightarrow>
          (case jget obj ''error'' of
             JObj err \<Rightarrow> fold (\<lambda>k. put_some k (jget err k)) [''message'', ''type'', ''code'', ''param''] s0
           | JNull \<Rightarrow> if jget obj ''message'' = JNull then s0
               else AList.update ''message'' (JStr (jstr pystr (jget obj ''message''))) s0
           | e \<Rightarrow> AList.update ''message'' (JStr (jstr pystr e)) s0)
      | _ \<Rightarrow> s0)"

definition error_summary :: "(json \<Rightarrow> string) \<Rightarrow> response \<Rightarrow> json dict" where
  "error_summary pystr r =
     (let text = strip (rs_text r);
          s1 = error_fields pystr r;
          s2 = (if map_of s1 ''message'' = None
                then AList.update ''message''
                  (JStr (if text = [] then ''HTTP '' @ int_str (rs_status r) else take 1000 text)) s1
                else s1)
      in if text = [] then s2 else AList.update ''raw_body'' (JStr (take 2000 text)) s2)"

record candidate =
  ca_account_id :: string
  ca_upstream_model :: string

definition content_policy_detail :: "(json \<Rightarrow> string) \<Rightarrow> string \<Rightarrow> candidate \<Rightarrow> response \<Rightarrow> json dict" where
  "content_policy_detail pystr requested_model c r =
     AList.update ''account_id'' (JStr (ca_account_id c))
       (AList.update ''upstream_model'' (JStr (ca_upstream_model c))
         (AList.update ''requested_model'' (JStr requested_model) (error_summary pystr r)))"

definition or_text :: "(json \<Rightarrow> string) \<Rightarrow> json \<Rightarrow> string \<Rightarrow> string" where
  \<comment> \<open>\<open>str(v or text)\<close>\<close>
  "or_text pystr v text = (if truthy v then jstr pystr v else text)"

definition fallback_notice :: "(json \<Rightarrow> string) \<Rightarrow> json dict \<Rightarrow> string \<Rightarrow> string" where
  "fallback_notice pystr detail fallback_model =
     (let status = jstr pystr (get_or detail ''status_code'' (JStr ''unknown''));
          requested = or_text pystr (jget detail ''requested_model'') ''fugu'';
          upstream = or_text pystr (jget detail ''upstream_model'') requested;
          account_part = (if truthy (jget detail ''account_id'')
              then '' on '' @ jstr pystr (jget detail ''account_id'') else []);
          message = rstrip_on (\<lambda>c. c = CHR ''.'')
              (strip (or_text pystr (jget detail ''message'') ''content policy block''));
          tick = [chr 96] in
      ''Notice: Fugu returned HTTP '' @ status @ '' for '' @ tick @ requested @ tick @ '' via '' @ tick @ upstream
      @ tick @ account_part @ '': '' @ message @ ''. Retrying with fallback model '' @ tick @ fallback_model @ tick
      @ ''; the answer below is from '' @ tick @ fallback_model @ tick @ ''.'')"

definition visible_notice_allowed :: "json dict \<Rightarrow> bool" where
  "visible_notice_allowed body =
     (let response_format = jget body ''response_format'' in
      \<not> (is_obj response_format
         \<and> jget (members response_format) ''type'' \<in> {JStr ''json_object'', JStr ''json_schema''})
      \<and> \<not> list_ex (\<lambda>k. truthy (jget body k)) [''tools'', ''tool_choice'', ''functions'', ''function_call''])"

definition fallback_headers :: "(json \<Rightarrow> string) \<Rightarrow> json dict \<Rightarrow> string \<Rightarrow> string dict" where
  "fallback_headers pystr detail fallback_model = [
     (''x-fugu-fallback'', ''content-policy''),
     (''x-fugu-fallback-model'', fallback_model),
     (''x-fugu-original-status'', jstr pystr (get_or detail ''status_code'' (JStr []))),
     (''x-fugu-original-model'', or_text pystr (jget detail ''upstream_model'') []),
     (''x-fugu-original-account'', or_text pystr (jget detail ''account_id'') [])]"

definition with_headers :: "response \<Rightarrow> string dict \<Rightarrow> response" where
  "with_headers r headers = r\<lparr>rs_headers := fold (\<lambda>(k, v) h. if v = [] then h else AList.update k v h) headers (rs_headers r)\<rparr>"

definition annotate_message :: "string \<Rightarrow> json dict \<Rightarrow> json dict option" where
  \<comment> \<open>the message with the notice in front of its content, \<open>None\<close> where no notice is injected\<close>
  "annotate_message notice message =
     (let gap = [newline, newline] in
      if truthy (jget message ''tool_calls'') then None
      else case jget message ''content'' of
        JStr content \<Rightarrow> Some (AList.update ''content''
          (JStr (if content = [] then notice else notice @ gap @ content)) message)
      | JNull \<Rightarrow> Some (AList.update ''content'' (JStr notice) message)
      | JList content \<Rightarrow> Some (AList.update ''content''
          (JList (JObj [(''type'', JStr ''text''), (''text'', JStr (notice @ gap))] # content)) message)
      | _ \<Rightarrow> None)"

definition inject_notice :: "string \<Rightarrow> json dict \<Rightarrow> json dict option" where
  "inject_notice notice obj = (case jget obj ''choices'' of
      JList (JObj choice # rest) \<Rightarrow> (case jget choice ''message'' of
          JObj message \<Rightarrow> map_option (\<lambda>m. AList.update ''choices''
            (JList (JObj (AList.update ''message'' (JObj m) choice) # rest)) obj) (annotate_message notice message)
        | _ \<Rightarrow> None)
    | _ \<Rightarrow> None)"

definition annotate_fallback_response ::
  "(json \<Rightarrow> string) \<Rightarrow> response \<Rightarrow> json dict \<Rightarrow> json dict \<Rightarrow> string \<Rightarrow> string \<Rightarrow> response" where
  "annotate_fallback_response pystr r body detail fallback_model notice =
     (let headers = fold (\<lambda>(k, v). AList.update k v) (fallback_headers pystr detail fallback_model) (rs_headers r) in
      case rs_json r of
        Some (JObj obj) \<Rightarrow>
         (let metadata = members (jget obj ''metadata'');
              note = (\<lambda>injected. JObj (AList.update ''fugu_content_policy_fallback'' (JObj [
                (''reason'', JStr ''content-policy''), (''fallback_model'', JStr fallback_model),
                (''original'', JObj detail), (''visible_notice_injected'', JBool injected)]) metadata));
              injected = (if visible_notice_allowed body
                then inject_notice notice (AList.update ''metadata'' (note True) obj) else None);
              obj' = (case injected of Some o' \<Rightarrow> o' | None \<Rightarrow> AList.update ''metadata'' (note False) obj)
          in r\<lparr>rs_headers := headers, rs_json := Some (JObj obj')\<rparr>)
      | _ \<Rightarrow> r\<lparr>rs_headers := headers\<rparr>)"

definition content_policy_failure_response ::
  "(json \<Rightarrow> string) \<Rightarrow> string \<Rightarrow> json dict \<Rightarrow> string \<Rightarrow> response option \<Rightarrow> response" where
  \<comment> \<open>the empty fallback model stands for \<open>None\<close>\<close>
  "content_policy_failure_response pystr requested_model detail fallback_model fallback_response =
     (let status = jstr pystr (jget detail ''status_code'');
          first = ''Fugu returned HTTP '' @ status @ '' for '' @ requested_model;
          e0 = [(''message'', JStr (first @ '': '' @ jstr pystr (jget detail ''message''))),
                (''type'', JStr ''fugu_content_policy_block''), (''code'', JStr ''fugu_content_policy_block''),
                (''fugu'', JObj detail)];
          e1 = (if fallback_model = [] then e0 else AList.update ''fallback_model'' (JStr fallback_model) e0);
          e2 = (case fallback_response of
              Some fr \<Rightarrow> AList.update ''message'' (JStr (first @ ''; fallback model ''
                  @ (if fallback_model = [] then ''None'' else fallback_model)
                  @ '' also failed with HTTP '' @ int_str (rs_status fr) @ ''.''))
                (AList.update ''fallback'' (JObj (error_summary pystr fr)) e1)
            | None \<Rightarrow> e1);
          code = (case int_of_json (or_else (jget detail ''status_code'') (JInt 451)) of Inr i \<Rightarrow> i | Inl _ \<Rightarrow> 451)
      in \<lparr>rs_status = code,
          rs_headers = filter (\<lambda>(k, v). v \<noteq> []) (fallback_headers pystr detail fallback_model),
          rs_text = [], rs_json = Some (JObj [(''error'', JObj e2)]), rs_stream = False\<rparr>)"

end
