(* ===== verification/Fugu_Router.thy ===== *)
theory Fugu_Router
  imports Fugu_Ledger Fugu_Fallback "HOL-Library.Product_Lexorder"
begin

text \<open>
  The routing core of deploy/fugu-router/fugu_session_router.py: candidate subscriptions ordered
  by use, sticky session assignments, cooldowns, and the proxy loop with its failover and its
  content-policy fallback. The LiteLLM upstream is a parameter: the \<open>n\<close>-th call of a request
  and its body give a response or an exception; so are the instants at which calls start and end.
\<close>

section \<open>Candidates\<close>

record window_score =
  ws_start :: instant
  ws_used_units :: pyfloat
  ws_allowance :: "pyfloat option"
  ws_ratio :: "pyfloat option"

record scored = candidate +
  sc_display_name :: string
  sc_priority :: int
  sc_windows :: "window_score dict"
  sc_sort_key :: "rat list"

definition active_cooldown :: "db \<Rightarrow> string \<Rightarrow> string \<Rightarrow> instant \<Rightarrow> bool" where
  "active_cooldown d account_id requested_model now =
     (case map_of (fugu_account_cooldowns d) (account_id, requested_model) of
        Some c \<Rightarrow> now < cd_cooldown_until c | None \<Rightarrow> False)"

definition usable :: "db \<Rightarrow> string \<Rightarrow> instant \<Rightarrow> string \<Rightarrow> bool" where
  \<comment> \<open>enabled account with an enabled deployment of the model and no active cooldown\<close>
  "usable d requested_model now account_id =
     ((case map_of (fugu_accounts d) account_id of Some a \<Rightarrow> ac_enabled a | None \<Rightarrow> False)
      \<and> (case map_of (fugu_model_deployments d) (requested_model, account_id) of
           Some p \<Rightarrow> dp_enabled p | None \<Rightarrow> False)
      \<and> \<not> active_cooldown d account_id requested_model now)"

definition usable_accounts :: "db \<Rightarrow> string \<Rightarrow> instant \<Rightarrow> (string \<times> account_row) list" where
  "usable_accounts d requested_model now =
     sort_key (\<lambda>(k, a). (ac_priority a, k)) (filter (\<lambda>(k, a). usable d requested_model now k) (fugu_accounts d))"

definition used_units :: "db \<Rightarrow> string \<Rightarrow> string \<Rightarrow> instant \<Rightarrow> pyfloat" where
  "used_units d account_id requested_model start =
     sum_list (List.map_filter (\<lambda>(_, r).
       if x_account_id (k_text r) = Some account_id \<and> x_requested_model (k_text r) = Some requested_model
          \<and> k_status r = ''success'' \<and> (case k_start_time r of Some t \<Rightarrow> start \<le> t | None \<Rightarrow> False)
       then t_usage_units (k_tokens r) else None) (fugu_credit_ledger d))"

fun pf_div :: "pyfloat \<Rightarrow> pyfloat \<Rightarrow> pyfloat" where
  \<comment> \<open>\<open>Decimal\<close> division by a divisor that is not zero\<close>
  "pf_div (Fin a) (Fin b) = Fin (a / b)"
| "pf_div (Fin a) PInf = Fin 0"
| "pf_div (Fin a) NInf = Fin 0"
| "pf_div PInf (Fin b) = (if b < 0 then NInf else PInf)"
| "pf_div NInf (Fin b) = (if b < 0 then PInf else NInf)"
| "pf_div _ _ = NaN"

text \<open>\<open>load_interval\<close> is the value the database driver makes of an interval column.\<close>

definition score_window ::
  "(string \<Rightarrow> interval) \<Rightarrow> db \<Rightarrow> string \<Rightarrow> string \<Rightarrow> instant \<Rightarrow> string \<Rightarrow> (window_score \<times> pyfloat) result" where
  "score_window load_interval d requested_model account_id now kind =
     (case map_of (fugu_account_windows d) (account_id, kind) of
        None \<Rightarrow> Inr (\<lparr>ws_start = now, ws_used_units = 0, ws_allowance = None, ws_ratio = None\<rparr>, 0)
      | Some w \<Rightarrow>
         bindR (window_start (w_reset_anchor_at w) (load_interval (w_reset_interval w)) now) (\<lambda>start.
         let used = used_units d account_id requested_model start;
             allowance = w_allowance_usage_units w;
             ratio = (case allowance of Some a \<Rightarrow> if a = Fin 0 then None else Some (pf_div used a) | None \<Rightarrow> None)
         in Inr (\<lparr>ws_start = start, ws_used_units = used, ws_allowance = allowance, ws_ratio = ratio\<rparr>,
                 case ratio of Some r \<Rightarrow> r | None \<Rightarrow> used)))"

definition KINDS :: "string list" where
  "KINDS = [''5h'', ''week'', ''month'']"

definition score_account ::
  "(string \<Rightarrow> interval) \<Rightarrow> db \<Rightarrow> string \<Rightarrow> instant \<Rightarrow> string \<times> account_row \<Rightarrow> (scored \<times> bool) result" where
  \<comment> \<open>the candidate, and whether all its scores are finite\<close>
  "score_account load_interval d requested_model now ka = (case ka of (account_id, a) \<Rightarrow>
     bindR (mapR (score_window load_interval d requested_model account_id now) KINDS) (\<lambda>ws.
     Inr (\<lparr>ca_account_id = account_id,
           ca_upstream_model = (case map_of (fugu_model_deployments d) (requested_model, account_id) of
               Some p \<Rightarrow> dp_upstream_model p | None \<Rightarrow> []),
           sc_display_name = ac_display_name a,
           sc_priority = ac_priority a,
           sc_windows = zip KINDS (map fst ws),
           sc_sort_key = map (\<lambda>w. fin_val (snd w)) ws @ [of_int (ac_priority a)]\<rparr>,
          list_all (\<lambda>w. is_fin (snd w)) ws)))"

definition routing_candidates ::
  "(string \<Rightarrow> interval) \<Rightarrow> db \<Rightarrow> string \<Rightarrow> instant \<Rightarrow> scored list result" where
  \<comment> \<open>a score that is no number makes the comparison of two candidates raise\<close>
  "routing_candidates load_interval d requested_model now =
     bindR (mapR (score_account load_interval d requested_model now) (usable_accounts d requested_model now)) (\<lambda>cs.
     bindR (guard_that (length cs \<le> 1 \<or> list_all snd cs) (RuntimeError ''InvalidOperation'')) (\<lambda>_.
     Inr (sort_key sc_sort_key (map fst cs))))"

section \<open>Assignments\<close>

definition upsert_assignment ::
  "string \<Rightarrow> string \<Rightarrow> string \<Rightarrow> string \<Rightarrow> string \<Rightarrow> instant \<Rightarrow> db \<Rightarrow> exc option \<times> db" where
  "upsert_assignment skey requested_model account_id upstream reason now d =
     (if map_of (fugu_accounts d) account_id = None then (Some (RuntimeError ''ForeignKeyViolation''), d)
      else (None, d\<lparr>fugu_session_assignments :=
        upsert (skey, requested_model)
          \<lparr>as_account_id = account_id, as_upstream_model = upstream, as_chosen_by_window = ''5h'',
           as_assigned_at = now, as_last_used_at = now, as_failover_count = 0, as_state = ''active'',
           as_reason = reason\<rparr>
          (\<lambda>old. old\<lparr>as_account_id := account_id, as_upstream_model := upstream, as_chosen_by_window := ''5h'',
             as_last_used_at := now, as_state := ''active'', as_reason := reason\<rparr>)
          (fugu_session_assignments d)\<rparr>))"

definition update_assignment :: "string \<Rightarrow> string \<Rightarrow> (assignment_row \<Rightarrow> assignment_row) \<Rightarrow> db \<Rightarrow> db" where
  \<comment> \<open>\<open>UPDATE ... WHERE session_key = %s AND requested_model = %s\<close>\<close>
  "update_assignment skey requested_model f d = d\<lparr>fugu_session_assignments :=
     map (\<lambda>(k, r). (k, if k = (skey, requested_model) then f r else r)) (fugu_session_assignments d)\<rparr>"

definition mark_failover_assignment ::
  "string \<Rightarrow> string \<Rightarrow> string \<Rightarrow> string \<Rightarrow> instant \<Rightarrow> db \<Rightarrow> exc option \<times> db" where
  "mark_failover_assignment skey requested_model account_id upstream now d =
     then_do (upsert_assignment skey requested_model account_id upstream ''limit-failover'' now d) (\<lambda>d'.
     (None, update_assignment skey requested_model (\<lambda>r. r\<lparr>as_failover_count := as_failover_count r + 1\<rparr>) d'))"

definition window_json :: "window_score \<Rightarrow> json" where
  "window_json w = JObj [(''start'', JStr (isoformat (ws_start w))), (''used_units'', JFloat (ws_used_units w)),
     (''allowance_usage_units'', (case ws_allowance w of Some a \<Rightarrow> JFloat a | None \<Rightarrow> JNull)),
     (''ratio'', (case ws_ratio w of Some r \<Rightarrow> JFloat r | None \<Rightarrow> JNull))]"

definition candidate_json :: "(rat list \<Rightarrow> string) \<Rightarrow> scored \<Rightarrow> json" where
  \<comment> \<open>\<open>tuple_str\<close> is \<open>str()\<close> of the sort key, which is a tuple\<close>
  "candidate_json tuple_str c = JObj [(''account_id'', JStr (ca_account_id c)),
     (''display_name'', JStr (sc_display_name c)), (''upstream_model'', JStr (ca_upstream_model c)),
     (''priority'', JInt (sc_priority c)),
     (''windows'', JObj (map (\<lambda>(k, w). (k, window_json w)) (sc_windows c))),
     (''sort_key'', JStr (tuple_str (sc_sort_key c))), (''chosen_by_window'', JStr ''5h'')]"

definition record_decision ::
  "(rat list \<Rightarrow> string) \<Rightarrow> string \<Rightarrow> string \<Rightarrow> scored \<Rightarrow> scored list \<Rightarrow> string \<Rightarrow> instant \<Rightarrow> db \<Rightarrow> exc option \<times> db" where
  "record_decision tuple_str skey requested_model chosen candidates reason now d =
     (let cj = JList (map (candidate_json tuple_str) candidates) in
      if \<not> jsonb_ok cj then (Some (RuntimeError ''InvalidTextRepresentation''), d)
      else (None, d\<lparr>fugu_routing_decisions := fugu_routing_decisions d @ [\<lparr>dc_decided_at = now,
        dc_session_key = skey, dc_requested_model = requested_model,
        dc_selected_account_id = ca_account_id chosen, dc_selected_upstream_model = ca_upstream_model chosen,
        dc_chosen_by_window = ''5h'', dc_reason = reason, dc_candidates = cj\<rparr>]\<rparr>))"

definition cooldown :: "int \<Rightarrow> string \<Rightarrow> string \<Rightarrow> string \<Rightarrow> json \<Rightarrow> instant \<Rightarrow> db \<Rightarrow> exc option \<times> db" where
  "cooldown seconds account_id requested_model reason err now d =
     (if \<not> jsonb_ok err then (Some (RuntimeError ''UntranslatableCharacter''), d)
      else if map_of (fugu_accounts d) account_id = None then (Some (RuntimeError ''ForeignKeyViolation''), d)
      else
       (let row = \<lparr>cd_cooldown_until = now + usec seconds, cd_reason = reason, cd_last_error = err, cd_updated_at = now\<rparr>
        in (None, d\<lparr>fugu_account_cooldowns :=
             upsert (account_id, requested_model) row (\<lambda>_. row) (fugu_account_cooldowns d)\<rparr>)))"

definition sticky_assignment :: "db \<Rightarrow> string \<Rightarrow> string \<Rightarrow> instant \<Rightarrow> assignment_row option" where
  "sticky_assignment d skey requested_model now =
     (case map_of (fugu_session_assignments d) (skey, requested_model) of
        Some s \<Rightarrow> if as_state s = ''active'' \<and> usable d requested_model now (as_account_id s) then Some s else None
      | None \<Rightarrow> None)"

definition to_front :: "string \<Rightarrow> scored list \<Rightarrow> scored list" where
  \<comment> \<open>the first candidate of the account is moved to the front\<close>
  "to_front account_id cs = (case dropWhile (\<lambda>c. ca_account_id c \<noteq> account_id) cs of
      [] \<Rightarrow> cs
    | c # rest \<Rightarrow> c # takeWhile (\<lambda>c. ca_account_id c \<noteq> account_id) cs @ rest)"

record routing =
  ro_account_id :: string
  ro_upstream :: string
  ro_candidates :: "scored list"
  ro_reason :: string

definition assignment ::
  "(string \<Rightarrow> interval) \<Rightarrow> (rat list \<Rightarrow> string) \<Rightarrow> string \<Rightarrow> string \<Rightarrow> instant \<Rightarrow> db \<Rightarrow> routing result \<times> db" where
  "assignment load_interval tuple_str skey requested_model now d =
     (case routing_candidates load_interval d requested_model now of
        Inl e \<Rightarrow> (Inl e, d)
      | Inr candidates \<Rightarrow>
         (case sticky_assignment d skey requested_model now of
            Some s \<Rightarrow>
              (Inr \<lparr>ro_account_id = as_account_id s, ro_upstream = as_upstream_model s,
                    ro_candidates = to_front (as_account_id s) candidates, ro_reason = ''sticky''\<rparr>,
               update_assignment skey requested_model (\<lambda>r. r\<lparr>as_last_used_at := now\<rparr>) d)
          | None \<Rightarrow>
             (case candidates of
                [] \<Rightarrow> (Inr \<lparr>ro_account_id = ''sub1'', ro_upstream = upstream_model requested_model ''sub1'',
                       ro_candidates = [], ro_reason = ''fallback-no-db-candidates''\<rparr>, d)
              | chosen # _ \<Rightarrow>
                 (case then_do (upsert_assignment skey requested_model (ca_account_id chosen)
                                 (ca_upstream_model chosen) ''new'' now d)
                         (record_decision tuple_str skey requested_model chosen candidates ''new'' now) of
                    (Some e, d') \<Rightarrow> (Inl e, d')
                  | (None, d') \<Rightarrow>
                      (Inr \<lparr>ro_account_id = ca_account_id chosen, ro_upstream = ca_upstream_model chosen,
                            ro_candidates = candidates, ro_reason = ''new''\<rparr>, d')))))"

definition attempts :: "routing \<Rightarrow> candidate list" where
  \<comment> \<open>the selected deployment first, then the candidates, each pair of account and upstream model once\<close>
  "attempts r = foldl (\<lambda>out c. if (ca_account_id c, ca_upstream_model c)
         \<in> set (map (\<lambda>c. (ca_account_id c, ca_upstream_model c)) out) then out else out @ [c]) []
     (\<lparr>ca_account_id = ro_account_id r, ca_upstream_model = ro_upstream r\<rparr> # map candidate.truncate (ro_candidates r))"

section \<open>The proxy\<close>

text \<open>
  The surroundings of a request: what \<open>python_env\<close> holds, configuration, the upstream's answer
  to the \<open>n\<close>-th call (an exception of \<open>httpx\<close> is the left case; the chunks of a streamed answer
  come with it), the instants at which that call starts and ends, and the text of a missing id.
\<close>

record world =
  wd_python :: python_env
  wd_str :: "json \<Rightarrow> string"
  wd_tuple :: "rat list \<Rightarrow> string"
  wd_interval :: "string \<Rightarrow> interval"
  wd_loads :: "string \<Rightarrow> json option"
  wd_up :: "nat \<Rightarrow> json dict \<Rightarrow> (response \<times> string list) result"
  wd_start :: "nat \<Rightarrow> instant"
  wd_end :: "nat \<Rightarrow> instant"
  wd_missing :: string
  wd_cooldown_seconds :: int
  wd_fallback_model :: string
  wd_fallback_enabled :: bool

record http_call =
  hc_path :: string
  hc_headers :: "string dict"

definition headers_value :: "string dict \<Rightarrow> pyval" where
  "headers_value h = VDict (map (\<lambda>(k, v). (k, VStr v)) h)"

definition with_response_headers :: "string dict \<Rightarrow> json \<Rightarrow> json" where
  \<comment> \<open>\<open>response_obj["metadata"]["fugu_response_headers"]\<close>, where the response is an object\<close>
  "with_response_headers headers obj = (case obj of
      JObj d \<Rightarrow> JObj (AList.update ''metadata'' (JObj (AList.update ''fugu_response_headers''
        (JObj (map (\<lambda>(k, v). (k, JStr v)) headers)) (members (jget d ''metadata'')))) d)
    | _ \<Rightarrow> obj)"

definition proxy_event ::
  "http_call \<Rightarrow> string \<Rightarrow> candidate \<Rightarrow> json dict \<Rightarrow> int \<Rightarrow> string dict \<Rightarrow> json \<Rightarrow> instant \<Rightarrow> instant \<Rightarrow> call_event" where
  "proxy_event hc requested_model c meta status headers response_obj started ended =
     (let rh = map (\<lambda>(k, v). (lower k, v)) headers;
          obj = with_response_headers rh response_obj;
          std = [(''request_id'', jget (members obj) ''id''), (''model'', JStr requested_model),
            (''model_group'', JStr (ca_upstream_model c)), (''status_code'', JInt status),
            (''call_type'', JStr (hc_path hc)),
            (''response_cost'', decimal_header rh ''x-litellm-response-cost''),
            (''response_cost_original'', decimal_header rh ''x-litellm-response-cost-original''),
            (''response_duration_ms'', decimal_header rh ''x-litellm-response-duration-ms''),
            (''response_headers'', JObj (map (\<lambda>(k, v). (k, JStr v)) rh))] in
      \<lparr>ev_kwargs = [(''model'', VStr (ca_upstream_model c)), (''call_type'', VStr (hc_path hc)),
         (''litellm_params'', VDict [(''metadata'', of_json (JObj meta))]),
         (''proxy_server_request'', VDict [(''headers'', headers_value (map (\<lambda>(k, v). (lower k, v)) (hc_headers hc)))]),
         (''standard_logging_object'', of_json (JObj std))],
       ev_response = of_json obj,
       ev_start = VTime started, ev_end = VTime ended,
       ev_status = (if status < 400 then ''success'' else ''failure''),
       ev_error = (if status < 400 then VNone else of_json obj)\<rparr>)"

definition response_obj :: "response \<Rightarrow> json" where
  "response_obj r = (case rs_json r of Some j \<Rightarrow> j | None \<Rightarrow> JObj [(''raw_body'', JStr (take 2000 (rs_text r)))])"

definition record_call_ledger ::
  "world \<Rightarrow> http_call \<Rightarrow> string \<Rightarrow> candidate \<Rightarrow> json dict \<Rightarrow> nat \<Rightarrow> response \<times> string list \<Rightarrow> credit_state \<Rightarrow> credit_state" where
  \<comment> \<open>the ledger write of a call, whose errors are printed and dropped: for a plain response from its
    body, for a stream from the events seen when it ends\<close>
  "record_call_ledger wd hc requested_model c meta n rc st = (case rc of (r, chunks) \<Rightarrow>
     let obj = (if rs_stream r then JObj (stream_response_obj (sse_events (wd_loads wd) chunks)) else response_obj r)
     in snd (write_ledger (wd_python wd) (wd_end wd n) (wd_missing wd)
               (proxy_event hc requested_model c meta (rs_status r) (rs_headers r) obj (wd_start wd n) (wd_end wd n)) st))"

definition on_db :: "(db \<Rightarrow> exc option \<times> db) \<Rightarrow> credit_state \<Rightarrow> exc option \<times> credit_state" where
  "on_db f st = (case database st of
      None \<Rightarrow> (Some (RuntimeError ''UndefinedTable''), st)
    | Some d \<Rightarrow> (case f d of (e, d') \<Rightarrow> (e, st\<lparr>database := Some d'\<rparr>)))"

definition put_meta :: "(string \<times> json) list \<Rightarrow> json dict \<Rightarrow> json dict" where
  \<comment> \<open>\<open>meta.update({...})\<close>\<close>
  "put_meta kvs meta = fold (\<lambda>(k, v). AList.update k v) kvs meta"

definition routed_body ::
  "world \<Rightarrow> json dict \<Rightarrow> string \<Rightarrow> string \<Rightarrow> string \<Rightarrow> candidate \<Rightarrow> (json dict \<times> json dict) result" where
  \<comment> \<open>the body sent for one attempt, and its metadata\<close>
  "routed_body wd body skey requested_model reason c =
     (let r1 = AList.update ''model'' (JStr (ca_upstream_model c)) body in
      bindR (if truthy (jget r1 ''stream'') then include_usage (wd_str wd) r1 else Inr r1) (\<lambda>r2.
      bindR (dict_of (wd_str wd) (jget r2 ''metadata'')) (\<lambda>meta0.
      let meta = put_meta [(''fugu_session_id'', JStr skey), (''fugu_requested_model'', JStr requested_model),
            (''fugu_account_id'', JStr (ca_account_id c)), (''fugu_upstream_model'', JStr (ca_upstream_model c)),
            (''fugu_routing_reason'', JStr reason)] meta0
      in Inr (AList.update ''metadata'' (JObj meta) r2, meta))))"

definition fallback_body ::
  "world \<Rightarrow> string \<Rightarrow> json dict \<Rightarrow> string \<Rightarrow> string \<Rightarrow> json dict \<Rightarrow> (json dict \<times> json dict) result" where
  "fallback_body wd path body skey requested_model detail =
     (let r1 = AList.update ''model'' (JStr (wd_fallback_model wd)) body in
      bindR (if truthy (jget r1 ''stream'') then include_usage (wd_str wd) r1 else Inr r1) (\<lambda>r2.
      let r3 = apply_glm_plain_text_defaults path r2 in
      bindR (dict_of (wd_str wd) (jget r3 ''metadata'')) (\<lambda>meta0.
      let meta = put_meta [(''fugu_session_id'', JStr skey), (''fugu_requested_model'', JStr requested_model),
            (''fugu_routing_reason'', JStr ''content-policy-fallback''),
            (''fugu_fallback_model'', JStr (wd_fallback_model wd)),
            (''fugu_fallback_from_model'', jget detail ''upstream_model''),
            (''fugu_fallback_from_account'', jget detail ''account_id''),
            (''fugu_fallback_original_status'', jget detail ''status_code''),
            (''fugu_fallback_original_message'',
               JStr (take 500 (or_text (wd_str wd) (jget detail ''message'') [])))] meta0
      in Inr (AList.update ''metadata'' (JObj meta) r3, meta))))"

datatype target = Account string | Fallback_model | Direct_model

type_synonym call_log = "(target \<times> json dict) list"

definition forward_once ::
  "world \<Rightarrow> nat \<Rightarrow> json dict \<Rightarrow> string dict \<Rightarrow> (response \<times> string list) result" where
  \<comment> \<open>an answer is streamed on only if a stream was asked for and the status is no error\<close>
  "forward_once wd n routed extra = bindR (wd_up wd n routed) (\<lambda>(r, chunks).
     Inr (r\<lparr>rs_headers := passthrough_headers (rs_headers r) extra,
            rs_stream := truthy (jget routed ''stream'') \<and> rs_status r < 400\<rparr>, chunks))"

definition content_policy_fallback ::
  "world \<Rightarrow> http_call \<Rightarrow> json dict \<Rightarrow> string \<Rightarrow> string \<Rightarrow> nat \<Rightarrow> candidate \<Rightarrow> response \<Rightarrow> credit_state
     \<Rightarrow> response result \<times> credit_state \<times> call_log" where
  "content_policy_fallback wd hc body requested_model skey n c failed st =
     (let detail = content_policy_detail (wd_str wd) requested_model c failed;
          fallback_model = wd_fallback_model wd in
      if \<not> wd_fallback_enabled wd \<or> fallback_model = [] \<or> \<not> chat_completion_path (hc_path hc)
      then (Inr (content_policy_failure_response (wd_str wd) requested_model detail fallback_model None), st, [])
      else (case fallback_body wd (hc_path hc) body skey requested_model detail of
          Inl e \<Rightarrow> (Inl e, st, [])
        | Inr (routed, meta) \<Rightarrow>
           (let log = [(Fallback_model, routed)];
                extra = fallback_headers (wd_str wd) detail fallback_model in
            case forward_once wd n routed extra of
              Inl e \<Rightarrow> (Inl e, st, log)
            | Inr (r1, chunks) \<Rightarrow>
               (let st1 = record_call_ledger wd hc requested_model
                      \<lparr>ca_account_id = ''redpill'', ca_upstream_model = fallback_model\<rparr> meta n (r1, chunks) st in
                if rs_status r1 < 400
                then (Inr (if rs_stream r1 then with_headers r1 extra
                           else annotate_fallback_response (wd_str wd) r1 body detail fallback_model
                                  (fallback_notice (wd_str wd) detail fallback_model)), st1, log)
                else (Inr (content_policy_failure_response (wd_str wd) requested_model detail fallback_model (Some r1)),
                      st1, log)))))"

definition limit_json :: "response \<Rightarrow> json" where
  "limit_json r = JObj [(''status_code'', JInt (rs_status r)), (''body'', JStr (take 2000 (rs_text r)))]"

definition no_subscription :: response where
  "no_subscription = \<lparr>rs_status = 503, rs_headers = [], rs_text = [],
     rs_json = Some (JObj [(''error'', JObj [(''message'', JStr ''no fugu subscription available'')])]), rs_stream = False\<rparr>"

text \<open>One round of the loop over the attempts: it returns, or goes on after a limit error.\<close>

datatype round = Stop "response result" credit_state call_log | Next response credit_state call_log

definition proxy_answer ::
  "world \<Rightarrow> http_call \<Rightarrow> json dict \<Rightarrow> string \<Rightarrow> string \<Rightarrow> routing \<Rightarrow> nat \<Rightarrow> candidate \<Rightarrow> response \<Rightarrow> credit_state \<Rightarrow> call_log
     \<Rightarrow> round" where
  \<comment> \<open>from the answer of the upstream on\<close>
  "proxy_answer wd hc body requested_model skey ro n c r st calls =
     (if rs_status r < 400
      then (if 0 < n \<or> ca_account_id c \<noteq> ro_account_id ro
            then (case on_db (mark_failover_assignment skey requested_model (ca_account_id c)
                                (ca_upstream_model c) (wd_end wd n)) st of
                    (None, st') \<Rightarrow> Stop (Inr r) st' calls
                  | (Some e, st') \<Rightarrow> Stop (Inl e) st' calls)
            else Stop (Inr r) st calls)
      else if content_policy_error (rs_status r) (rs_text r)
      then (case content_policy_fallback wd hc body requested_model skey (Suc n) c r st of
              (out, st', calls') \<Rightarrow> Stop out st' (calls @ calls'))
      else if \<not> limit_error (rs_status r) (rs_text r) then Stop (Inr r) st calls
      else (case on_db (cooldown (wd_cooldown_seconds wd) (ca_account_id c) requested_model
                          (''upstream status '' @ int_str (rs_status r)) (limit_json r) (wd_end wd n)) st of
              (Some e, st') \<Rightarrow> Stop (Inl e) st' calls
            | (None, st') \<Rightarrow> Next r st' calls))"

definition proxy_attempt ::
  "world \<Rightarrow> http_call \<Rightarrow> json dict \<Rightarrow> string \<Rightarrow> string \<Rightarrow> routing \<Rightarrow> nat \<Rightarrow> candidate \<Rightarrow> credit_state \<Rightarrow> round" where
  "proxy_attempt wd hc body requested_model skey ro n c st =
     (case routed_body wd body skey requested_model (if n = 0 then ro_reason ro else ''limit-failover'') c of
        Inl e \<Rightarrow> Stop (Inl e) st []
      | Inr (routed, meta) \<Rightarrow>
         (let calls = [(Account (ca_account_id c), routed)] in
          case forward_once wd n routed [] of
            Inl e \<Rightarrow> Stop (Inl e) st calls
          | Inr (r, chunks) \<Rightarrow>
              proxy_answer wd hc body requested_model skey ro n c r
                (record_call_ledger wd hc requested_model c meta n (r, chunks) st) calls))"

fun proxy_loop ::
  "world \<Rightarrow> http_call \<Rightarrow> json dict \<Rightarrow> string \<Rightarrow> string \<Rightarrow> routing \<Rightarrow> nat \<Rightarrow> candidate list \<Rightarrow> response option \<Rightarrow> credit_state
     \<Rightarrow> response result \<times> credit_state \<times> call_log" where
  "proxy_loop wd hc body requested_model skey ro n [] last_response st =
     (Inr (case last_response of Some r \<Rightarrow> r | None \<Rightarrow> no_subscription), st, [])"
| "proxy_loop wd hc body requested_model skey ro n (c # cs) last_response st =
     (case proxy_attempt wd hc body requested_model skey ro n c st of
        Stop out st' calls \<Rightarrow> (out, st', calls)
      | Next r st' calls \<Rightarrow>
         (case proxy_loop wd hc body requested_model skey ro (Suc n) cs (Some r) st' of
            (out, st'', calls') \<Rightarrow> (out, st'', calls @ calls')))"

definition proxy_fugu ::
  "world \<Rightarrow> http_call \<Rightarrow> json dict \<Rightarrow> string \<Rightarrow> string \<Rightarrow> instant \<Rightarrow> credit_state
     \<Rightarrow> response result \<times> credit_state \<times> call_log" where
  \<comment> \<open>a request for one of the public Fugu models\<close>
  "proxy_fugu wd hc body requested_model skey now st =
     (case database st of
        None \<Rightarrow> (Inl (RuntimeError ''UndefinedTable''), st, [])
      | Some d \<Rightarrow> (case assignment (wd_interval wd) (wd_tuple wd) skey requested_model now d of
            (Inl e, d') \<Rightarrow> (Inl e, st\<lparr>database := Some d'\<rparr>, [])
          | (Inr ro, d') \<Rightarrow> proxy_loop wd hc body requested_model skey ro 0 (attempts ro) None (st\<lparr>database := Some d'\<rparr>)))"

definition direct_model_proxy ::
  "world \<Rightarrow> http_call \<Rightarrow> json dict \<Rightarrow> string \<Rightarrow> credit_state \<Rightarrow> response result \<times> credit_state \<times> call_log" where
  "direct_model_proxy wd hc body requested_model st =
     (case (if truthy (jget body ''stream'') \<and> chat_completion_path (hc_path hc)
            then include_usage (wd_str wd) body else Inr body) of
        Inl e \<Rightarrow> (Inl e, st, [])
      | Inr r1 \<Rightarrow>
         (let r2 = apply_glm_plain_text_defaults (hc_path hc) r1 in
          case dict_of (wd_str wd) (jget r2 ''metadata'') of
            Inl e \<Rightarrow> (Inl e, st, [])
          | Inr meta0 \<Rightarrow>
             (let meta = put_meta [(''fugu_requested_model'', JStr requested_model),
                    (''fugu_direct_model'', JStr requested_model), (''fugu_routing_reason'', JStr ''direct-provider'')] meta0;
                  r3 = (if is_obj (jget r2 ''metadata'') then AList.update ''metadata'' (JObj meta) r2 else r2);
                  log = [(Direct_model, r3)] in
              case forward_once wd 0 r3 [] of
                Inl e \<Rightarrow> (Inl e, st, log)
              | Inr (r, chunks) \<Rightarrow>
                  (Inr r, record_call_ledger wd hc requested_model
                     \<lparr>ca_account_id = ''direct'', ca_upstream_model = requested_model\<rparr> meta 0 (r, chunks) st, log))))"

datatype route = Passthrough bool | Direct string | Fugu string

definition proxy_route :: "string \<Rightarrow> string \<Rightarrow> json option \<Rightarrow> route result" where
  \<comment> \<open>where \<open>proxy\<close> sends a request: method, content type, and what \<open>json.loads\<close> makes of its body\<close>
  "proxy_route request_method content_type body =
     (if request_method \<noteq> ''POST'' \<or> \<not> contains content_type ''json'' then Inr (Passthrough False)
      else case body of
        None \<Rightarrow> Inr (Passthrough False)
      | Some (JObj d) \<Rightarrow> (case jget d ''model'' of
            JStr m \<Rightarrow> if m \<in> set MODEL_PUBLIC_NAMES then Inr (Fugu m)
              else if m \<in> set DIRECT_PUBLIC_NAMES then Inr (Direct m)
              else Inr (Passthrough (truthy (jget d ''stream'')))
          | _ \<Rightarrow> Inr (Passthrough (truthy (jget d ''stream''))))
      | Some _ \<Rightarrow> Inl (AttributeError ''get''))"

end
