(* ===== verification/Fugu_Ledger_Props.thy ===== *)
theory Fugu_Ledger_Props
  imports Fugu_Ledger
begin

text \<open>
  What the ledger of the Fugu credit module guarantees: every stored row is free of secrets and
  within its columns, a later write never erases a recorded count, seeding a database that is in
  use keeps what operators calibrated and leaves every configured subscription routable.
\<close>

section \<open>The ledger invariant\<close>

definition json_cols :: "credit_row \<Rightarrow> json list" where
  "json_cols r = [k_raw_usage r, k_raw_token_metadata r, k_request_metadata r, k_response_metadata r,
     k_standard_logging_object r, k_proxy_server_request r]"

definition row_ok :: "account_row dict \<Rightarrow> credit_row \<Rightarrow> bool" where
  "row_ok accounts r = (list_all clean_json (json_cols r) \<and> list_all jsonb_ok (json_cols r)
     \<and> list_all (fits_int 64) (bigints (k_tokens r)) \<and> fits_int 32 (k_http_status r)
     \<and> (case x_account_id (k_text r) of Some a \<Rightarrow> map_of accounts a \<noteq> None | None \<Rightarrow> True))"

definition ledger_inv :: "db \<Rightarrow> bool" where
  "ledger_inv d = (dict_ok (fugu_credit_ledger d) \<and> (\<forall>(rid, r) \<in> set (fugu_credit_ledger d). row_ok (fugu_accounts d) r))"

lemma fits_int_coalesce: "fits_int w a \<Longrightarrow> fits_int w b \<Longrightarrow> fits_int w (coalesce a b)"
  by (cases a) simp_all

lemma bigints_merge: "bigints (merge_tokens new old) = map2 coalesce (bigints new) (bigints old)"
  by (simp add: bigints_def merge_tokens_def)

lemma fits_merge_tokens:
  "list_all (fits_int 64) (bigints a) \<Longrightarrow> list_all (fits_int 64) (bigints b) \<Longrightarrow>
   list_all (fits_int 64) (bigints (merge_tokens a b))"
  by (simp add: bigints_def merge_tokens_def fits_int_coalesce)

lemma row_ok_merge: "row_ok acc new \<Longrightarrow> row_ok acc old \<Longrightarrow> row_ok acc (merge_credit new old)"
  using fits_merge_tokens [of "k_tokens new" "k_tokens old"]
  by (cases "x_account_id (k_text new)") (simp_all add: row_ok_def merge_credit_def json_cols_def merge_text_def)

lemma ledger_row_clean:
  assumes "ledger_row pe now missing ev = Inr (rid, r)"
  shows "list_all clean_json (json_cols r)"
  using assms clean_jsonable unfolding ledger_row_def Let_def bindR_eq_Inr sum.inject prod.inject
  by (elim exE conjE, hypsubst) (simp add: json_cols_def rejson_def del: jsonable.simps of_json.simps)

lemma row_accepted_ok:
  "row_accepted d rid r = None \<Longrightarrow> list_all clean_json (json_cols r) \<Longrightarrow> row_ok (fugu_accounts d) r"
  by (auto simp: row_accepted_def row_ok_def json_cols_def split: if_splits option.splits)

lemma upsert_in: "(k', r') \<in> set (upsert k fresh merge t) \<Longrightarrow> dict_ok t \<Longrightarrow>
   (k', r') \<in> set t \<or> (k' = k \<and> r' = (case map_of t k of None \<Rightarrow> fresh | Some old \<Rightarrow> merge old))"
  using set_update_subset [of k _ t] by (force simp: upsert_def)

lemma upsert_credit_inv:
  assumes "ledger_inv d" and "list_all clean_json (json_cols r)" and "upsert_credit rid r d = (e, d')"
  shows "ledger_inv d'"
proof (cases "row_accepted d rid r")
  case None
  then have d': "d' = d\<lparr>fugu_credit_ledger := upsert rid r (merge_credit r) (fugu_credit_ledger d)\<rparr>"
    using assms(3) by (simp add: upsert_credit_def)
  have new: "row_ok (fugu_accounts d) r"
    using row_accepted_ok None assms(2) by blast
  have old: "map_of (fugu_credit_ledger d) rid = Some o1 \<Longrightarrow> row_ok (fugu_accounts d) o1" for o1
    using assms(1) map_of_SomeD by (fastforce simp: ledger_inv_def)
  have merged: "row_ok (fugu_accounts d) (case map_of (fugu_credit_ledger d) rid of None \<Rightarrow> r | Some o1 \<Rightarrow> merge_credit r o1)"
    using new old row_ok_merge by (simp split: option.splits)
  have "row_ok (fugu_accounts d) r'" if "(k, r') \<in> set (fugu_credit_ledger d')" for k r'
    using upsert_in [of k r' rid r "merge_credit r" "fugu_credit_ledger d"] that assms(1) merged
    unfolding ledger_inv_def d' by auto
  then show ?thesis
    using assms(1) by (auto simp: ledger_inv_def d')
qed (use assms in \<open>simp add: upsert_credit_def\<close>)

section \<open>Seeding keeps what is there\<close>

definition window_kept :: "window_row \<Rightarrow> window_row \<Rightarrow> bool" where
  \<comment> \<open>the interval stays, an allowance is never erased, the anchor moves only when the environment sets one\<close>
  "window_kept r r' = (w_reset_interval r' = w_reset_interval r
     \<and> (w_allowance_usage_units r \<noteq> None \<longrightarrow> w_allowance_usage_units r' \<noteq> None)
     \<and> (w_reset_anchor_at r' = w_reset_anchor_at r \<and> w_source r' = w_source r \<or> w_source r' = ''env''))"

definition account_kept :: "account_row \<Rightarrow> account_row \<Rightarrow> bool" where
  "account_kept r r' = (ac_account_kind r' = ac_account_kind r \<and> (ac_billing_plan r \<noteq> None \<longrightarrow> ac_billing_plan r' \<noteq> None)
     \<and> (ac_enabled r \<longrightarrow> ac_enabled r'))"

definition deployment_kept :: "deployment_row \<Rightarrow> deployment_row \<Rightarrow> bool" where
  "deployment_kept r r' = (dp_enabled r \<longrightarrow> dp_enabled r')"

definition kept :: "('r \<Rightarrow> 'r \<Rightarrow> bool) \<Rightarrow> ('k \<times> 'r) list \<Rightarrow> ('k \<times> 'r) list \<Rightarrow> bool" where
  "kept R t t' = (\<forall>k r. map_of t k = Some r \<longrightarrow> (\<exists>r'. map_of t' k = Some r' \<and> R r r'))"

definition db_kept :: "db \<Rightarrow> db \<Rightarrow> bool" where
  "db_kept d d' = (kept window_kept (fugu_account_windows d) (fugu_account_windows d')
     \<and> kept account_kept (fugu_accounts d) (fugu_accounts d')
     \<and> kept deployment_kept (fugu_model_deployments d) (fugu_model_deployments d')
     \<and> fugu_account_cooldowns d' = fugu_account_cooldowns d
     \<and> fugu_session_assignments d' = fugu_session_assignments d
     \<and> fugu_routing_decisions d' = fugu_routing_decisions d
     \<and> fugu_credit_ledger d' = fugu_credit_ledger d)"

lemma kept_refl: "(\<And>r. R r r) \<Longrightarrow> kept R t t"
  by (simp add: kept_def)

lemma kept_trans: "(\<And>a b c. R a b \<Longrightarrow> R b c \<Longrightarrow> R a c) \<Longrightarrow> kept R t t' \<Longrightarrow> kept R t' t'' \<Longrightarrow> kept R t t''"
  by (simp add: kept_def) metis

lemma kept_upsert: "(\<And>r. R r r) \<Longrightarrow> (\<And>r. R r (merge r)) \<Longrightarrow> kept R t (upsert k fresh merge t)"
  by (auto simp: kept_def tbl.lookup_upsert)

lemma kept_present: "kept R t t' \<Longrightarrow> map_of t k \<noteq> None \<Longrightarrow> map_of t' k \<noteq> None"
  unfolding kept_def by (metis not_None_eq)

lemma kept_rels: "window_kept r r" "account_kept a a" "deployment_kept p p"
  by (simp_all add: window_kept_def account_kept_def deployment_kept_def)

lemma db_kept_refl: "db_kept d d"
  by (simp add: db_kept_def kept_refl kept_rels)

lemma kept_rels_trans:
  "window_kept r r' \<Longrightarrow> window_kept r' r'' \<Longrightarrow> window_kept r r''"
  "account_kept a a' \<Longrightarrow> account_kept a' a'' \<Longrightarrow> account_kept a a''"
  "deployment_kept p p' \<Longrightarrow> deployment_kept p' p'' \<Longrightarrow> deployment_kept p p''"
  unfolding window_kept_def account_kept_def deployment_kept_def by metis+

lemma db_kept_trans:
  assumes "db_kept d1 d2" "db_kept d2 d3"
  shows "db_kept d1 d3"
proof -
  have "kept window_kept (fugu_account_windows d1) (fugu_account_windows d3)"
    by (rule kept_trans [OF kept_rels_trans(1)]) (use assms in \<open>auto simp: db_kept_def\<close>)
  moreover have "kept account_kept (fugu_accounts d1) (fugu_accounts d3)"
    by (rule kept_trans [OF kept_rels_trans(2)]) (use assms in \<open>auto simp: db_kept_def\<close>)
  moreover have "kept deployment_kept (fugu_model_deployments d1) (fugu_model_deployments d3)"
    by (rule kept_trans [OF kept_rels_trans(3)]) (use assms in \<open>auto simp: db_kept_def\<close>)
  ultimately show ?thesis
    using assms by (simp add: db_kept_def)
qed

lemma upsert_window_kept: "db_kept d (upsert_window account kind anchor interval allowance source now d)"
  unfolding db_kept_def upsert_window_def
  by (simp add: kept_refl kept_rels, rule kept_upsert) (auto simp: window_kept_def coalesce_def split: option.splits)

lemma upsert_account_kept: "db_kept d (upsert_account account name plan priority now d)"
  unfolding db_kept_def upsert_account_def
  by (simp add: kept_refl kept_rels, rule kept_upsert) (auto simp: account_kept_def coalesce_def split: option.splits)

lemma upsert_deployment_kept: "db_kept d (snd (upsert_deployment model account d))"
proof -
  have "kept deployment_kept t (upsert k f (\<lambda>old. old\<lparr>dp_upstream_model := n, dp_enabled := True\<rparr>) t)"
    for k f n and t :: "((string \<times> string) \<times> deployment_row) list"
    by (rule kept_upsert) (simp_all add: deployment_kept_def)
  then show ?thesis
    by (simp add: db_kept_def upsert_deployment_def kept_refl kept_rels Let_def)
qed

lemma seed_windows_kept: "db_kept d (fold (seed_window env f now account prefix) ws d)"
proof (induction ws arbitrary: d)
  case (Cons w ws)
  have "db_kept d (seed_window env f now account prefix w d)"
    by (cases w) (simp add: seed_window_def Let_def upsert_window_kept)
  with Cons show ?case using db_kept_trans by fastforce
qed (simp add: db_kept_refl)

lemma then_do_kept:
  "db_kept d (snd r) \<Longrightarrow> (\<And>d'. db_kept d' (snd (f d'))) \<Longrightarrow> db_kept d (snd (then_do r f))"
  using db_kept_trans by (auto simp: then_do_def split: prod.splits option.splits)

lemma seed_account_kept: "db_kept d (snd (seed_account env f now i d))"
  unfolding seed_account_def Let_def
  by (auto intro!: then_do_kept db_kept_trans [OF upsert_account_kept upsert_deployment_kept]
      simp: upsert_deployment_kept seed_windows_kept db_kept_refl)

lemma seed_loop_kept: "db_kept d (snd (seed_loop env f now is d))"
  by (induction "is" arbitrary: d) (auto simp: db_kept_refl intro!: then_do_kept seed_account_kept)

lemma seed_accounts_kept: "db_kept d (snd (seed_accounts env f n now d))"
  by (simp add: seed_accounts_def seed_loop_kept)

section \<open>Seeded accounts can be routed to\<close>

definition routable :: "string \<Rightarrow> db \<Rightarrow> bool" where
  "routable account d = ((\<exists>r. map_of (fugu_accounts d) account = Some r \<and> ac_enabled r)
     \<and> (\<forall>m \<in> set MODEL_PUBLIC_NAMES. \<exists>p. map_of (fugu_model_deployments d) (m, account) = Some p \<and> dp_enabled p)
     \<and> (\<forall>k \<in> set (map fst WINDOWS). map_of (fugu_account_windows d) (account, k) \<noteq> None))"

lemma routable_kept: "db_kept d d' \<Longrightarrow> routable account d \<Longrightarrow> routable account d'"
  unfolding routable_def db_kept_def kept_def account_kept_def deployment_kept_def by (metis not_None_eq)

lemma upsert_deployment_ok:
  "upsert_deployment m account d = (None, d') \<Longrightarrow>
   (\<exists>p. map_of (fugu_model_deployments d') (m, account) = Some p \<and> dp_enabled p)
   \<and> fugu_accounts d' = fugu_accounts d \<and> fugu_account_windows d' = fugu_account_windows d
   \<and> (\<forall>k. k \<noteq> (m, account) \<longrightarrow> map_of (fugu_model_deployments d') k = map_of (fugu_model_deployments d) k)"
  by (auto simp: upsert_deployment_def Let_def tbl.lookup_upsert split: if_splits option.splits)

lemma seed_windows_frame:
  "fugu_accounts (fold (seed_window env f now account prefix) ws d) = fugu_accounts d
   \<and> fugu_model_deployments (fold (seed_window env f now account prefix) ws d) = fugu_model_deployments d"
  by (induction ws arbitrary: d) (auto simp: seed_window_def upsert_window_def Let_def)

lemma seed_windows_present:
  "k \<in> set (map fst ws) \<Longrightarrow>
   map_of (fugu_account_windows (fold (seed_window env f now account prefix) ws d)) (account, k) \<noteq> None"
proof (induction ws arbitrary: d)
  case (Cons w ws)
  let ?d = "seed_window env f now account prefix w d"
  show ?case
  proof (cases "k = fst w")
    case True
    then have "map_of (fugu_account_windows ?d) (account, k) \<noteq> None"
      by (cases w) (simp add: seed_window_def upsert_window_def Let_def tbl.lookup_upsert)
    then show ?thesis
      using seed_windows_kept [of ?d env f now account prefix ws] kept_present unfolding db_kept_def by fastforce
  qed (use Cons in auto)
qed simp

lemma then_do_None: "then_do r f = (None, s) \<longleftrightarrow> (\<exists>s1. r = (None, s1) \<and> f s1 = (None, s))"
  by (auto simp: then_do_def split: prod.splits option.splits)

lemma seed_account_routable:
  assumes "seed_account env f now i d = (None, d')" and "account_active env i"
  shows "routable (''sub'' @ nat_str i) d'"
proof -
  let ?a = "''sub'' @ nat_str i"
  obtain name plan d2 d3 prefix where
    d2: "upsert_deployment ''fugu-ultra'' ?a (upsert_account ?a name plan (int i) now d) = (None, d2)"
    and d3: "upsert_deployment ''fugu'' ?a d2 = (None, d3)"
    and d': "d' = fold (seed_window env f now ?a prefix) WINDOWS d3"
    using assms unfolding seed_account_def Let_def by (simp add: then_do_None del: append.simps) blast
  have d1: "\<exists>r. map_of (fugu_accounts (upsert_account ?a name plan (int i) now d)) ?a = Some r \<and> ac_enabled r"
    by (simp add: upsert_account_def tbl.lookup_upsert split: option.splits)
  have "routable ?a (fold (seed_window env f now ?a prefix) WINDOWS d3)"
    using d1 upsert_deployment_ok [OF d2] upsert_deployment_ok [OF d3] seed_windows_present seed_windows_frame
    unfolding routable_def MODEL_PUBLIC_NAMES_def by auto
  then show ?thesis by (simp add: d')
qed

lemma seed_loop_routable:
  "seed_loop env f now is d = (None, d') \<Longrightarrow> i \<in> set is \<Longrightarrow> account_active env i \<Longrightarrow>
   routable (''sub'' @ nat_str i) d'"
proof (induction "is" arbitrary: d)
  case (Cons j js)
  then obtain d1 where d1: "seed_account env f now j d = (None, d1)" "seed_loop env f now js d1 = (None, d')"
    by (auto simp: then_do_def split: prod.splits option.splits)
  have later: "db_kept d1 d'"
    using seed_loop_kept [of d1 env f now js] d1(2) by simp
  show ?case
  proof (cases "i = j")
    case True
    with seed_account_routable [OF d1(1)] Cons.prems(3) show ?thesis
      using routable_kept [OF later] by simp
  qed (use Cons d1 in auto)
qed simp

text \<open>
  Seeding is safe on a database in use and makes subscriptions routable. Whatever it is run on
  and wherever it fails, it never erases an allowance or a billing plan, moves a window's anchor
  only when the environment sets one, disables nothing, and touches neither ledger, cooldowns nor
  assignments; when it succeeds, every configured subscription is enabled, has both deployments
  enabled and all three windows.
\<close>

theorem seeding_keeps_and_enables:
  assumes "seed_accounts env fromiso n now d = (e, d')"
  shows "db_kept d d' \<and> (e = None \<longrightarrow>
     (\<forall>i. 1 \<le> i \<and> i \<le> n \<and> account_active env i \<longrightarrow> routable (''sub'' @ nat_str i) d'))"
proof -
  have "db_kept d d'"
    using seed_accounts_kept [of d env fromiso n now] assms by simp
  then show ?thesis
    using seed_loop_routable [of env fromiso now "[1..<n + 1]" d d'] assms unfolding seed_accounts_def
    by (metis atLeastLessThan_iff less_Suc_eq_le set_upt Suc_eq_plus1)
qed

definition demo_fugu_env :: env where
  "demo_fugu_env = [''SAKANA_SUB_1_KEY'' \<mapsto> ''k'']"

definition demo_db :: db where
  "demo_db = snd (seed_accounts demo_fugu_env (\<lambda>_. None) 2 0 empty_db)"

lemma demo_seeds: "seed_accounts demo_fugu_env (\<lambda>_. None) 2 0 empty_db = (None, demo_db)"
  unfolding demo_db_def by code_simp

theorem seeding_keeps_and_enables_witness:
  "db_kept empty_db demo_db \<and> routable (''sub'' @ nat_str 1) demo_db"
proof -
  have "account_active demo_fugu_env 1"
    by code_simp
  then show ?thesis
    using seeding_keeps_and_enables [OF demo_seeds] by fastforce
qed

section \<open>Ledger writes\<close>

definition counts_kept :: "credit_row \<Rightarrow> credit_row \<Rightarrow> bool" where
  "counts_kept r r' = (list_all2 (\<lambda>v v'. v \<noteq> None \<longrightarrow> v' \<noteq> None) (bigints (k_tokens r)) (bigints (k_tokens r'))
     \<and> list_all2 (\<lambda>v v'. v \<noteq> None \<longrightarrow> v' \<noteq> None) (text_list (k_text r)) (text_list (k_text r'))
     \<and> k_start_time r' = k_start_time r \<and> k_created_at r' = k_created_at r)"

lemma coalesce_none: "coalesce a b \<noteq> None \<longleftrightarrow> a \<noteq> None \<or> b \<noteq> None"
  by (cases a) auto

lemma counts_kept_rels: "counts_kept r r" "counts_kept r (merge_credit n r)"
  by (simp_all add: counts_kept_def merge_credit_def merge_tokens_def merge_text_def bigints_def text_list_def
      coalesce_none list.rel_refl del: not_None_eq)

lemma upsert_credit_kept:
  "upsert_credit rid r d = (e, d') \<Longrightarrow> kept counts_kept (fugu_credit_ledger d) (fugu_credit_ledger d')
   \<and> (e \<noteq> None \<longrightarrow> d' = d)"
  by (auto simp: upsert_credit_def kept_refl kept_upsert counts_kept_rels split: option.splits)

lemma write_ledger_cases:
  assumes "schema_ready st" "database st = Some d" "write_ledger pe now missing ev st = (e, st')"
  shows "(st' = st \<and> e \<noteq> None) \<or>
    (\<exists>rid r d'. ledger_row pe now missing ev = Inr (rid, r) \<and> upsert_credit rid r d = (e, d')
      \<and> st' = st\<lparr>database := Some d'\<rparr>)"
  using assms by (auto simp: write_ledger_def ensure_db_def then_do_def split: sum.splits prod.splits option.splits)


definition demo_python :: python_env where
  "demo_python = \<lparr>e_env = demo_fugu_env, e_fromisoformat = (\<lambda>_. None), e_pystr = (\<lambda>_. []),
     e_pgtext = (\<lambda>_. Inl (RuntimeError ''DatatypeMismatch'')), e_account_count = 2\<rparr>"

definition demo_event :: call_event where
  "demo_event = \<lparr>ev_kwargs = [(''model'', VStr ''fugu-sub-1''), (''call_id'', VStr ''r'')], ev_response = VNone,
     ev_start = VTime 5, ev_end = VTime 9, ev_status = ''failure'', ev_error = VStr ''boom''\<rparr>"

definition demo_row :: credit_row where
  "demo_row = \<lparr>k_created_at = 1, k_start_time = Some 1, k_end_time = Some 2, k_status = ''success'',
     k_http_status = Some 200, k_error_message = None,
     k_text = \<lparr>x_call_type = None, x_requested_model = Some ''fugu'', x_upstream_model = Some ''fugu-sub-1'',
       x_model = None, x_model_group = None, x_model_id = None, x_custom_llm_provider = None,
       x_account_id = Some ''sub1'', x_session_id = None, x_agent_id = None, x_agent_role = None, x_user_id = None\<rparr>,
     k_tokens = \<lparr>t_input_tokens = Some 7, t_output_tokens = None, t_cached_input_tokens = None,
       t_orchestration_input_tokens = None, t_orchestration_output_tokens = None,
       t_orchestration_input_cached_tokens = None, t_orchestration_tokens_total = None, t_visible_tokens = None,
       t_prompt_tokens = None, t_completion_tokens = None, t_total_tokens = None, t_usage_units = None,
       t_estimated_cost_usd = None\<rparr>,
     k_litellm_spend = None, k_raw_usage = JObj [], k_raw_token_metadata = JObj [], k_request_metadata = JObj [],
     k_response_metadata = JObj [], k_standard_logging_object = JObj [], k_proxy_server_request = JNull\<rparr>"

definition demo_credit :: credit_state where
  "demo_credit = \<lparr>schema_ready = True, database = Some (demo_db\<lparr>fugu_credit_ledger := [(''r'', demo_row)]\<rparr>)\<rparr>"

lemma demo_credit_inv: "ledger_inv (demo_db\<lparr>fugu_credit_ledger := [(''r'', demo_row)]\<rparr>)"
proof -
  have "map_of (fugu_accounts demo_db) ''sub1'' \<noteq> None"
    unfolding demo_db_def by code_simp
  then show ?thesis
    by (simp add: ledger_inv_def row_ok_def demo_row_def json_cols_def bigints_def fits_int_def dict_ok_def)
qed




end
