(* ===== verification/Fugu_Router_Props.thy ===== *)
theory Fugu_Router_Props
  imports Fugu_Router Fugu_Ledger_Props
begin

text \<open>
  Properties of the Fugu session router: usage windows contain the present, server-sent events
  are read independently of how the stream is cut into chunks, candidates are exactly the usable
  subscriptions with the least used first, the failover loop tries each deployment at most once
  and puts the exhausted ones into cooldown, and sessions stick to the subscription that answered.
\<close>

section \<open>Windows\<close>

text \<open>
  The usage window of a subscription starts at the anchor or a whole number of intervals after
  it, never in the future, and less than one interval before now (for an anchor in the past and a
  positive interval).
\<close>

theorem window_contains_now:
  assumes "parse_interval interval = Inr delta" and "0 < delta" and "anchor \<le> now"
  shows "\<exists>start. window_start anchor interval now = Inr start \<and> anchor \<le> start \<and> start \<le> now
    \<and> now < start + delta \<and> delta dvd (start - anchor)"
proof -
  let ?n = "(now - anchor) div delta"
  have "?n * delta \<le> now - anchor" "now - anchor < ?n * delta + delta"
    using div_mult_mod_eq [of "now - anchor" delta] pos_mod_bound [OF assms(2), of "now - anchor"]
      pos_mod_sign [OF assms(2), of "now - anchor"] by linarith+
  moreover have "0 \<le> ?n * delta"
    using assms(2,3) by (simp add: pos_imp_zdiv_nonneg_iff)
  ultimately show ?thesis
    using assms by (simp add: window_start_def max_def)
qed

theorem window_contains_now_witness:
  "\<exists>start. window_start 0 (Text ''5 hours'') (usec 40000) = Inr start \<and> start \<le> usec 40000
     \<and> usec 40000 < start + usec 18000"
proof -
  have "split_ws ''5 hours'' = [''5'', ''hours'']" "contains ''5 hours'' ''hour''"
    "\<not> contains ''5 hours'' ''month''" "\<not> contains ''5 hours'' ''day''" "CHR '':'' \<notin> set ''5 hours''"
    by code_simp+
  moreover have "py_float ''5'' = Some (Fin 5)"
    by (simp add: float_text_simps)
  ultimately have "parse_interval (Text ''5 hours'') = Inr (usec 18000)"
    by (simp add: parse_interval_def whole_number_def float_text_def trunc_rat_def)
  from window_contains_now [OF this, of 0 "usec 40000"] show ?thesis by auto
qed

section \<open>Server-sent events\<close>

lemma drain_split_on:
  "drain loads p events = (last (split_on newline p),
     foldl (\<lambda>ev line. sse_line loads line ev) events (butlast (split_on newline p)))"
proof (induction loads p events rule: drain.induct)
  case (1 loads pending events)
  show ?case
  proof (cases "split1 newline pending")
    case None
    then show ?thesis
      using split_on_absent [of newline pending] split1_None [of newline pending] by (subst drain.simps) simp
  next
    case (Some lr)
    obtain line rest where lr: "lr = (line, rest)" by fastforce
    with Some have p: "pending = line @ newline # rest" "newline \<notin> set line"
      by (simp_all add: split1_Some)
    then have "split_on newline pending = line # split_on newline rest"
      by (simp add: split_on_sep)
    then show ?thesis
      using 1 Some lr by (subst drain.simps) simp
  qed
qed

lemma drain_append: "drain loads (a @ b) events = (case drain loads a events of (p, ev) \<Rightarrow> drain loads (p @ b) ev)"
proof -
  let ?p = "last (split_on newline a)"
  obtain w ws where b: "split_on newline b = w # ws"
    by (metis list.exhaust split_on_not_Nil)
  have "split_on newline ?p = [?p]"
    by (simp add: split_on_absent last_split_on)
  then have "split_on newline (?p @ b) = (?p @ w) # ws"
    using b by (simp add: split_on_append [of newline ?p])
  then show ?thesis
    using b by (simp add: drain_split_on split_on_append [of newline a] butlast_append)
qed

lemma consume_chunks: "chunks \<noteq> [] \<or> newline \<notin> set (fst st) \<Longrightarrow>
   foldl (consume_sse loads) st chunks = drain loads (fst st @ concat chunks) (snd st)"
proof (induction chunks arbitrary: st)
  case Nil
  then show ?case by (simp add: drain_split_on split_on_absent)
next
  case (Cons chunk chunks)
  obtain p ev where pev: "drain loads (fst st @ chunk) (snd st) = (p, ev)" by fastforce
  have "newline \<notin> set p"
    using pev last_split_on [of newline "fst st @ chunk"] by (simp add: drain_split_on)
  moreover have "consume_sse loads st chunk = (p, ev)"
    using pev by (simp add: consume_sse_def split_beta)
  ultimately show ?case
    using Cons.IH [of "(p, ev)"] drain_append [of loads "fst st @ chunk" "concat chunks" "snd st"] pev by simp
qed

text \<open>
  C18: The events recorded from a stream depend only on its bytes, not on how the network cuts them
  into chunks: they are what reading the whole text line by line gives, the last line counted even
  without its newline unless it is blank.
\<close>

theorem sse_chunking_irrelevant:
  "sse_events loads chunks =
     (let lines = split_on newline (concat chunks);
          complete = (if strip_on is_bspace (last lines) = [] then butlast lines else lines) in
      foldl (\<lambda>ev line. sse_line loads line ev) [] complete)"
proof -
  let ?lines = "split_on newline (concat chunks)"
  have run: "foldl (consume_sse loads) ([], []) chunks
      = (last ?lines, foldl (\<lambda>ev line. sse_line loads line ev) [] (butlast ?lines))"
    using consume_chunks [of chunks "([], [])" loads] by (simp add: drain_split_on)
  have "split_on newline (last ?lines @ [newline]) = [last ?lines, []]"
    by (simp add: split_on_sep last_split_on)
  then have "snd (consume_sse loads (last ?lines, ev) [newline]) = sse_line loads (last ?lines) ev" for ev
    by (simp add: consume_sse_def drain_split_on)
  moreover have "?lines = butlast ?lines @ [last ?lines]"
    by simp
  then have "foldl (\<lambda>ev line. sse_line loads line ev) [] ?lines
      = sse_line loads (last ?lines) (foldl (\<lambda>ev line. sse_line loads line ev) [] (butlast ?lines))"
    by (metis (no_types, lifting) foldl_Cons foldl_Nil foldl_append)
  ultimately show ?thesis
    by (simp add: sse_events_def run Let_def)
qed

section \<open>Candidates\<close>

lemma mapR_fst: "mapR f xs = Inr ys \<Longrightarrow> (\<And>x y. f x = Inr y \<Longrightarrow> g y = h x) \<Longrightarrow> map g ys = map h xs"
proof (induction xs arbitrary: ys)
  case (Cons x xs)
  then show ?case by fastforce
qed simp

lemma score_account_id: "score_account li d m now ka = Inr y \<Longrightarrow> ca_account_id (fst y) = fst ka"
  by (cases ka) (auto simp: score_account_def)

lemma routing_candidates_facts:
  assumes "routing_candidates li d m now = Inr cs"
  shows "mset (map ca_account_id cs) = mset (filter (usable d m now) (map fst (fugu_accounts d)))"
    and "sorted (map sc_sort_key cs)"
proof -
  obtain ys where ys: "mapR (score_account li d m now) (usable_accounts d m now) = Inr ys"
    and cs: "cs = sort_key sc_sort_key (map fst ys)"
    using assms by (auto simp: routing_candidates_def)
  have "map (\<lambda>y. ca_account_id (fst y)) ys = map fst (usable_accounts d m now)"
    by (rule mapR_fst [OF ys]) (rule score_account_id)
  then have "mset (map ca_account_id cs) = mset (map fst (usable_accounts d m now))"
    by (metis (no_types, lifting) cs list.map_comp comp_def map_eq_conv mset_map mset_sort)
  also have "\<dots> = mset (map fst (filter (\<lambda>(k, a). usable d m now k) (fugu_accounts d)))"
    by (simp add: usable_accounts_def)
  also have "map fst (filter (\<lambda>(k, a). usable d m now k) (fugu_accounts d))
      = filter (usable d m now) (map fst (fugu_accounts d))"
    by (simp add: filter_map comp_def case_prod_unfold)
  finally show "mset (map ca_account_id cs) = mset (filter (usable d m now) (map fst (fugu_accounts d)))" .
  show "sorted (map sc_sort_key cs)"
    by (simp add: cs)
qed


lemma mapR_total: "(\<And>x. \<exists>y. f x = Inr y) \<Longrightarrow> \<exists>ys. mapR f xs = Inr ys \<and> length ys = length xs"
proof (induction xs)
  case (Cons x xs)
  then obtain y ys where "f x = Inr y" "mapR f xs = Inr ys" "length ys = length xs" by blast
  then show ?case by simp
qed simp

lemma score_total: "\<exists>y. score_account (\<lambda>_. Delta delta) d m now ka = Inr y"
proof -
  have "\<exists>w. score_window (\<lambda>_. Delta delta) d m k now kind = Inr w" for k kind
    by (simp add: score_window_def window_start_def parse_interval_def Let_def split: option.splits)
  then obtain ws where "mapR (score_window (\<lambda>_. Delta delta) d m (fst ka) now) KINDS = Inr ws"
    using mapR_total by metis
  then show ?thesis by (cases ka) (simp add: score_account_def)
qed

definition demo_route_db :: db where
  "demo_route_db = empty_db\<lparr>
     fugu_accounts := [(''sub1'', \<lparr>ac_display_name = ''One'', ac_account_kind = ''subscription'', ac_billing_plan = None,
       ac_enabled = True, ac_priority = 1, ac_updated_at = 0\<rparr>)],
     fugu_model_deployments := [((''fugu'', ''sub1''), \<lparr>dp_upstream_model = ''fugu-sub-1'', dp_enabled = True\<rparr>)],
     fugu_session_assignments := [((''s'', ''fugu''), \<lparr>as_account_id = ''sub1'', as_upstream_model = ''fugu-sub-1'',
       as_chosen_by_window = ''5h'', as_assigned_at = 1, as_last_used_at = 1, as_failover_count = 0,
       as_state = ''active'', as_reason = ''new''\<rparr>)]\<rparr>"

lemma demo_usable: "filter (usable demo_route_db ''fugu'' 7) (map fst (fugu_accounts demo_route_db)) = [''sub1'']"
  by (simp add: usable_def demo_route_db_def empty_db_def active_cooldown_def)

lemma demo_candidates: "\<exists>cs. routing_candidates (\<lambda>_. Delta (usec 18000)) demo_route_db ''fugu'' 7 = Inr cs"
proof -
  have one: "length (usable_accounts demo_route_db ''fugu'' 7) = 1"
    using arg_cong [OF demo_usable, of length] by (simp add: usable_accounts_def filter_map comp_def case_prod_unfold)
  obtain ys where "mapR (score_account (\<lambda>_. Delta (usec 18000)) demo_route_db ''fugu'' 7) (usable_accounts demo_route_db ''fugu'' 7) = Inr ys"
    "length ys = 1"
    using mapR_total [of "score_account (\<lambda>_. Delta (usec 18000)) demo_route_db ''fugu'' 7"
        "usable_accounts demo_route_db ''fugu'' 7", OF score_total] one by auto
  then show ?thesis by (simp add: routing_candidates_def)
qed


section \<open>Failover\<close>

definition route_frame :: "db \<Rightarrow> db \<Rightarrow> bool" where
  \<comment> \<open>cooldowns and assignments are the same\<close>
  "route_frame d d' = (fugu_account_cooldowns d' = fugu_account_cooldowns d
     \<and> fugu_session_assignments d' = fugu_session_assignments d)"

lemma route_frame_refl [simp]: "route_frame d d"
  by (simp add: route_frame_def)

lemma route_frame_trans: "route_frame d1 d2 \<Longrightarrow> route_frame d2 d3 \<Longrightarrow> route_frame d1 d3"
  by (simp add: route_frame_def)

lemma ensure_db_frame:
  assumes "database st = Some d"
  shows "\<exists>d'. database (snd (ensure_db env f n now st)) = Some d' \<and> route_frame d d'"
proof (cases "schema_ready st")
  case False
  obtain e d' where r: "seed_accounts env f n now d = (e, d')" by fastforce
  then have "route_frame d d'"
    using seed_accounts_kept [of d env f n now] by (simp add: db_kept_def route_frame_def)
  then show ?thesis
    using False assms r by (cases e) (simp_all add: ensure_db_def)
qed (use assms in \<open>simp add: ensure_db_def\<close>)

lemma upsert_credit_frame: "route_frame d (snd (upsert_credit rid r d))"
  by (simp add: upsert_credit_def route_frame_def split: option.splits)

lemma write_ledger_frame:
  assumes "database st = Some d"
  shows "\<exists>d'. database (snd (write_ledger pe now missing ev st)) = Some d' \<and> route_frame d d'"
proof -
  obtain e st1 where r: "ensure_db (e_env pe) (e_fromisoformat pe) (e_account_count pe) now st = (e, st1)" by fastforce
  then obtain d1 where d1: "database st1 = Some d1" "route_frame d d1"
    using ensure_db_frame [OF assms] by (metis snd_conv)
  show ?thesis
  proof (cases e)
    case None
    note st1 = None r d1
    show ?thesis
    proof (cases "ledger_row pe now missing ev")
      case (Inr rr)
      obtain e' d' where u: "upsert_credit (fst rr) (snd rr) d1 = (e', d')" by fastforce
      then have "route_frame d d'"
        using upsert_credit_frame [of d1 "fst rr" "snd rr"] route_frame_trans [OF d1(2)] by simp
      then show ?thesis
        using st1 Inr u by (simp add: write_ledger_def then_do_def split_beta)
    qed (use st1 in \<open>simp add: write_ledger_def then_do_def\<close>)
  qed (use r d1 in \<open>simp add: write_ledger_def then_do_def\<close>)
qed

lemma record_call_ledger_frame:
  "database st = Some d \<Longrightarrow> \<exists>d'. database (record_call_ledger wd hc m c meta n rc st) = Some d' \<and> route_frame d d'"
  using write_ledger_frame by (simp add: record_call_ledger_def Let_def split: prod.split)

lemma fallback_frame:
  assumes "database st = Some d" and "content_policy_fallback wd hc body m skey n c r st = (out, st', cl)"
  shows "\<exists>d'. database st' = Some d' \<and> route_frame d d'"
    and "cl = [] \<or> map fst cl = [Fallback_model]"
  using assms record_call_ledger_frame [OF assms(1)]
  by (auto simp: content_policy_fallback_def Let_def split: if_splits sum.splits prod.splits)

definition cooled :: "world \<Rightarrow> string \<Rightarrow> nat \<Rightarrow> nat \<Rightarrow> db \<Rightarrow> string \<Rightarrow> bool" where
  \<comment> \<open>the account is in cooldown for the model since one of the calls \<open>n\<close> to \<open>n + k - 1\<close>\<close>
  "cooled wd m n k d a = (\<exists>row i. i < k \<and> map_of (fugu_account_cooldowns d) (a, m) = Some row
     \<and> cd_cooldown_until row = wd_end wd (n + i) + usec (wd_cooldown_seconds wd))"

definition cooldowns_kept :: "world \<Rightarrow> string \<Rightarrow> nat \<Rightarrow> nat \<Rightarrow> db \<Rightarrow> db \<Rightarrow> bool" where
  "cooldowns_kept wd m n k d d' = (\<forall>a row. map_of (fugu_account_cooldowns d) (a, m) = Some row \<longrightarrow>
     map_of (fugu_account_cooldowns d') (a, m) = Some row \<or> cooled wd m n k d' a)"

definition calls_ok :: "world \<Rightarrow> string \<Rightarrow> nat \<Rightarrow> candidate list \<Rightarrow> db \<Rightarrow> call_log \<Rightarrow> db \<Rightarrow> nat \<Rightarrow> bool" where
  "calls_ok wd m n cs d cl d' k = (k \<le> length cs
     \<and> (map fst cl = map (\<lambda>c. Account (ca_account_id c)) (take k cs)
        \<or> map fst cl = map (\<lambda>c. Account (ca_account_id c)) (take k cs) @ [Fallback_model])
     \<and> (\<forall>c \<in> set (take (k - 1) cs). cooled wd m n k d' (ca_account_id c))
     \<and> cooldowns_kept wd m n k d d')"

lemma calls_ok_stop:
  "fugu_account_cooldowns d' = fugu_account_cooldowns d \<Longrightarrow>
   map fst cl = [Account (ca_account_id c)] \<or> map fst cl = [Account (ca_account_id c), Fallback_model] \<Longrightarrow>
   calls_ok wd m n (c # cs) d cl d' 1"
  by (auto simp: calls_ok_def cooldowns_kept_def)

lemma cooled_Suc: "cooled wd m (Suc n) k d a \<Longrightarrow> cooled wd m n (Suc k) d a"
  unfolding cooled_def by (metis Suc_less_eq add_Suc add_Suc_right)

lemma calls_ok_next:
  assumes "calls_ok wd m (Suc n) cs d2 cl' d' k" and "route_frame d d1"
    and "cooldown (wd_cooldown_seconds wd) (ca_account_id c) m why err (wd_end wd n) d1 = (None, d2)"
  shows "calls_ok wd m n (c # cs) d ((Account (ca_account_id c), routed) # cl') d' (Suc k)"
proof -
  have cd: "\<And>a. map_of (fugu_account_cooldowns d2) (a, m) =
      (if a = ca_account_id c then Some \<lparr>cd_cooldown_until = wd_end wd n + usec (wd_cooldown_seconds wd), cd_reason = why,
         cd_last_error = err, cd_updated_at = wd_end wd n\<rparr> else map_of (fugu_account_cooldowns d) (a, m))"
    using assms(2,3) by (auto simp: cooldown_def Let_def tbl.lookup_upsert route_frame_def split: if_splits option.splits)
  note kept = assms(1) [unfolded calls_ok_def cooldowns_kept_def]
  have "cooled wd m n (Suc k) d' (ca_account_id c)"
  proof -
    have "map_of (fugu_account_cooldowns d') (ca_account_id c, m) = map_of (fugu_account_cooldowns d2) (ca_account_id c, m)
        \<or> cooled wd m (Suc n) k d' (ca_account_id c)"
      using kept cd [of "ca_account_id c"] by auto
    then show ?thesis
    proof
      assume "map_of (fugu_account_cooldowns d') (ca_account_id c, m) = map_of (fugu_account_cooldowns d2) (ca_account_id c, m)"
      then show ?thesis
        unfolding cooled_def using cd [of "ca_account_id c"] by simp (metis add.right_neutral zero_less_Suc)
    qed (rule cooled_Suc)
  qed
  moreover have "\<forall>c' \<in> set (take (k - 1) cs). cooled wd m n (Suc k) d' (ca_account_id c')"
    using kept cooled_Suc by blast
  moreover have "set (take k (c # cs)) \<subseteq> insert c (set (take (k - 1) cs))"
    by (cases k) auto
  moreover have "cooldowns_kept wd m n (Suc k) d d'"
    unfolding cooldowns_kept_def
  proof (intro allI impI)
    fix a row
    assume row: "map_of (fugu_account_cooldowns d) (a, m) = Some row"
    show "map_of (fugu_account_cooldowns d') (a, m) = Some row \<or> cooled wd m n (Suc k) d' a"
    proof (cases "a = ca_account_id c")
      case False
      then have "map_of (fugu_account_cooldowns d2) (a, m) = Some row" using cd row by simp
      then show ?thesis using kept cooled_Suc by blast
    qed (use \<open>cooled wd m n (Suc k) d' (ca_account_id c)\<close> in simp)
  qed
  ultimately show ?thesis
    using kept by (auto simp: calls_ok_def)
qed

lemma on_db_Some: "database st = Some d \<Longrightarrow> on_db f st = (fst (f d), st\<lparr>database := Some (snd (f d))\<rparr>)"
  by (simp add: on_db_def split_beta)

lemma mark_failover_cooldowns:
  "fugu_account_cooldowns (snd (mark_failover_assignment skey m a u now d)) = fugu_account_cooldowns d"
  by (simp add: mark_failover_assignment_def then_do_def upsert_assignment_def update_assignment_def)

lemma cooldown_error: "cooldown secs a m why err now d = (Some e, d') \<Longrightarrow> d' = d"
  by (auto simp: cooldown_def Let_def split: if_splits)

definition assigned :: "string \<Rightarrow> string \<Rightarrow> string \<Rightarrow> db \<Rightarrow> bool" where
  "assigned skey m a d = (\<exists>row. map_of (fugu_session_assignments d) (skey, m) = Some row
     \<and> as_account_id row = a \<and> as_state row = ''active'')"

lemma map_of_update_rows:
  "map_of (map (\<lambda>(k, r). (k, if k = k0 then f r else r)) t) k = map_option (if k = k0 then f else id) (map_of t k)"
  by (induction t) auto

lemma mark_failover_assigned:
  "mark_failover_assignment skey m a u now d = (None, d') \<Longrightarrow> assigned skey m a d'"
  by (auto simp: mark_failover_assignment_def then_do_def upsert_assignment_def update_assignment_def assigned_def
      map_of_update_rows tbl.lookup_upsert split: if_splits option.splits)

text \<open>What a round that stops has done.\<close>

definition stopped :: "string \<Rightarrow> string \<Rightarrow> routing \<Rightarrow> nat \<Rightarrow> candidate \<Rightarrow> db \<Rightarrow> response result \<Rightarrow> call_log \<Rightarrow> db \<Rightarrow> bool" where
  "stopped m skey ro n c d out cl d' = (fugu_account_cooldowns d' = fugu_account_cooldowns d
     \<and> (map fst cl = [Account (ca_account_id c)] \<or> map fst cl = [Account (ca_account_id c), Fallback_model])
     \<and> (\<forall>r. out = Inr r \<and> rs_status r < 400 \<and> map fst cl = [Account (ca_account_id c)] \<longrightarrow>
          (if 0 < n \<or> ca_account_id c \<noteq> ro_account_id ro then assigned skey m (ca_account_id c) d'
           else fugu_session_assignments d' = fugu_session_assignments d)))"

lemma error_summary_status: "map_of (error_summary pystr r) ''status_code'' = Some (JInt (rs_status r))"
proof -
  have "map_of (put_some k v d) ''status_code'' = map_of d ''status_code''" if "k \<noteq> ''status_code''" for k v d
    using that by (simp add: put_some_def AList.update_conv')
  then have "map_of (error_fields pystr r) ''status_code'' = Some (JInt (rs_status r))"
    unfolding error_fields_def Let_def by (simp add: AList.update_conv' split: option.split json.split)
  then show ?thesis
    by (simp add: error_summary_def Let_def AList.update_conv')
qed

lemma policy_failure_status:
  "rs_status r \<noteq> 0 \<Longrightarrow> rs_status (content_policy_failure_response pystr m (content_policy_detail pystr m c r) fm fr) = rs_status r"
  by (simp add: content_policy_failure_response_def content_policy_detail_def get_or_def AList.update_conv'
      error_summary_status or_else_def Let_def)

lemma fallback_without_call:
  assumes "content_policy_fallback wd hc body m skey n c r st = (Inr r', st', [])" and "400 \<le> rs_status r"
  shows "400 \<le> rs_status r'"
  using assms policy_failure_status [of r]
  by (auto simp: content_policy_fallback_def Let_def split: if_splits sum.splits prod.splits)

lemma proxy_answer_Stop:
  assumes "proxy_answer wd hc body m skey ro n c r st [(Account (ca_account_id c), routed)] = Stop out st' cl"
    and st: "database st = Some d"
  shows "\<exists>d'. database st' = Some d' \<and> stopped m skey ro n c d out cl d'"
proof -
  let ?mark = "mark_failover_assignment skey m (ca_account_id c) (ca_upstream_model c) (wd_end wd n) d"
  consider (ok) "rs_status r < 400" | (policy) "400 \<le> rs_status r" "content_policy_error (rs_status r) (rs_text r)"
    | (other) "400 \<le> rs_status r" "\<not> content_policy_error (rs_status r) (rs_text r)"
    by linarith
  then show ?thesis
  proof cases
    case ok
    then show ?thesis
      using assms mark_failover_assigned [of skey m "ca_account_id c" "ca_upstream_model c" "wd_end wd n" d]
        mark_failover_cooldowns [of skey m "ca_account_id c" "ca_upstream_model c" "wd_end wd n" d]
      by (cases ?mark) (auto simp: proxy_answer_def on_db_Some stopped_def split: if_splits option.splits)
  next
    case policy
    obtain out2 st2 cl2 where f: "content_policy_fallback wd hc body m skey (Suc n) c r st = (out2, st2, cl2)"
      by (metis prod_cases3)
    then have cl: "st' = st2" "out = out2" "cl = (Account (ca_account_id c), routed) # cl2"
      using assms policy by (simp_all add: proxy_answer_def)
    obtain d2 where d2: "database st2 = Some d2" "route_frame d d2"
      using fallback_frame(1) [OF st f] by blast
    have "stopped m skey ro n c d out cl d2"
      using fallback_frame(2) [OF st f] fallback_without_call [of wd hc body m skey "Suc n" c r st] f policy(1) d2(2) cl
      by (auto simp: stopped_def route_frame_def)
    then show ?thesis using d2(1) cl(1) by blast
  next
    case other
    then show ?thesis
      using assms cooldown_error
      by (fastforce simp: proxy_answer_def on_db_def stopped_def split: if_splits option.splits prod.splits)
  qed
qed

lemma proxy_answer_Next:
  assumes "proxy_answer wd hc body m skey ro n c r st cl = Next r' st' cl'" and "database st = Some d"
  shows "r' = r \<and> cl' = cl \<and> 400 \<le> rs_status r \<and> (\<exists>d' why. database st' = Some d'
    \<and> cooldown (wd_cooldown_seconds wd) (ca_account_id c) m why (limit_json r) (wd_end wd n) d = (None, d'))"
  using assms
  by (fastforce simp: proxy_answer_def on_db_def split: if_splits option.splits prod.splits)

lemma stopped_frame: "route_frame d d1 \<Longrightarrow> stopped m skey ro n c d1 out cl d' \<Longrightarrow> stopped m skey ro n c d out cl d'"
  by (simp add: stopped_def route_frame_def)

lemma proxy_attempt_Stop:
  assumes "proxy_attempt wd hc body m skey ro n c st = Stop out st' cl" and "database st = Some d"
  shows "(cl = [] \<and> st' = st \<and> (\<exists>e. out = Inl e)) \<or> (\<exists>d'. database st' = Some d' \<and> stopped m skey ro n c d out cl d')"
proof (cases "routed_body wd body skey m (if n = 0 then ro_reason ro else ''limit-failover'') c")
  case (Inr rm)
  show ?thesis
  proof (cases "forward_once wd n (fst rm) []")
    case (Inl e)
    then have "st' = st" "out = Inl e" "cl = [(Account (ca_account_id c), fst rm)]"
      using assms(1) Inr by (simp_all add: proxy_attempt_def split_beta)
    then show ?thesis using assms(2) by (simp add: stopped_def)
  next
    case (Inr rc)
    obtain d1 where d1: "database (record_call_ledger wd hc m c (snd rm) n rc st) = Some d1" "route_frame d d1"
      using record_call_ledger_frame [OF assms(2)] by blast
    have "proxy_answer wd hc body m skey ro n c (fst rc) (record_call_ledger wd hc m c (snd rm) n rc st)
        [(Account (ca_account_id c), fst rm)] = Stop out st' cl"
      using assms(1) Inr \<open>routed_body _ _ _ _ _ _ = Inr rm\<close> by (simp add: proxy_attempt_def split_beta)
    from proxy_answer_Stop [OF this d1(1)] stopped_frame [OF d1(2)] show ?thesis by blast
  qed
qed (use assms in \<open>auto simp: proxy_attempt_def\<close>)

lemma proxy_attempt_Next:
  assumes "proxy_attempt wd hc body m skey ro n c st = Next r st' cl" and "database st = Some d"
  shows "\<exists>routed d1 d' why. cl = [(Account (ca_account_id c), routed)] \<and> 400 \<le> rs_status r \<and> route_frame d d1
    \<and> database st' = Some d'
    \<and> cooldown (wd_cooldown_seconds wd) (ca_account_id c) m why (limit_json r) (wd_end wd n) d1 = (None, d')"
proof -
  obtain rm rc where rm: "routed_body wd body skey m (if n = 0 then ro_reason ro else ''limit-failover'') c = Inr rm"
    and rc: "forward_once wd n (fst rm) [] = Inr rc"
    using assms(1) by (auto simp: proxy_attempt_def Let_def split: sum.splits prod.splits)
  obtain d1 where d1: "database (record_call_ledger wd hc m c (snd rm) n rc st) = Some d1" "route_frame d d1"
    using record_call_ledger_frame [OF assms(2)] by blast
  have "proxy_answer wd hc body m skey ro n c (fst rc) (record_call_ledger wd hc m c (snd rm) n rc st)
      [(Account (ca_account_id c), fst rm)] = Next r st' cl"
    using assms(1) rm rc by (simp add: proxy_attempt_def split_beta)
  from proxy_answer_Next [OF this d1(1)] d1(2) show ?thesis by blast
qed

lemma calls_ok_stopped: "stopped m skey ro n c d out cl d' \<Longrightarrow> calls_ok wd m n (c # cs) d cl d' 1"
  by (rule calls_ok_stop) (auto simp: stopped_def)

lemma proxy_loop_calls:
  assumes "database st = Some d"
    and "proxy_loop wd hc body m skey ro n cs last_response st = (out, st', cl)"
  shows "\<exists>k d'. database st' = Some d' \<and> calls_ok wd m n cs d cl d' k"
  using assms
proof (induction cs arbitrary: n last_response st d out st' cl)
  case Nil
  then show ?case by (auto simp: calls_ok_def cooldowns_kept_def)
next
  case (Cons c cs)
  show ?case
  proof (cases "proxy_attempt wd hc body m skey ro n c st")
    case (Stop out1 st1 cl1)
    with Cons.prems(2) have "cl = cl1" "st' = st1" by simp_all
    moreover have "calls_ok wd m n (c # cs) d [] d 0"
      by (simp add: calls_ok_def cooldowns_kept_def)
    ultimately show ?thesis
      using proxy_attempt_Stop [OF Stop Cons.prems(1)] Cons.prems(1) calls_ok_stopped by metis
  next
    case (Next r st1 cl1)
    obtain routed d1 d2 why where nx: "cl1 = [(Account (ca_account_id c), routed)]" "route_frame d d1" "database st1 = Some d2"
      "cooldown (wd_cooldown_seconds wd) (ca_account_id c) m why (limit_json r) (wd_end wd n) d1 = (None, d2)"
      using proxy_attempt_Next [OF Next Cons.prems(1)] by blast
    obtain out3 st3 cl3 where rec: "proxy_loop wd hc body m skey ro (Suc n) cs (Some r) st1 = (out3, st3, cl3)"
      by (metis prod_cases3)
    then have "st' = st3" "cl = (Account (ca_account_id c), routed) # cl3"
      using Cons.prems(2) Next nx(1) by simp_all
    then show ?thesis
      using Cons.IH [OF nx(3) rec] calls_ok_next [OF _ nx(2,4)] by blast
  qed
qed

lemma assigned_cooldown:
  "cooldown secs a m why err now d = (e, d') \<Longrightarrow> assigned skey m' b d' = assigned skey m' b d"
  by (auto simp: cooldown_def Let_def assigned_def split: if_splits)

lemma proxy_loop_success:
  assumes "database st = Some d"
    and "proxy_loop wd hc body m skey ro n cs last_response st = (Inr r, st', cl)" and "rs_status r < 400"
    and "\<forall>r. last_response = Some r \<longrightarrow> 400 \<le> rs_status r"
    and "assigned skey m (ro_account_id ro) d" and "cl \<noteq> []" and "fst (last cl) = Account a"
  shows "\<exists>d'. database st' = Some d' \<and> assigned skey m a d'"
  using assms
proof (induction cs arbitrary: n last_response st d cl)
  case (Cons c cs)
  show ?case
  proof (cases "proxy_attempt wd hc body m skey ro n c st")
    case (Stop out1 st1 cl1)
    with Cons.prems(2) have eq: "cl = cl1" "st' = st1" "out1 = Inr r" by simp_all
    then obtain d' where d': "database st1 = Some d'" "stopped m skey ro n c d (Inr r) cl d'"
      using proxy_attempt_Stop [OF Stop Cons.prems(1)] Cons.prems(6) by auto
    moreover have "map fst cl = [Account (ca_account_id c)] \<and> a = ca_account_id c"
    proof -
      have "last (map fst cl) = Account a"
        using Cons.prems(6,7) by (simp add: last_map)
      then show ?thesis using d'(2) by (auto simp: stopped_def)
    qed
    ultimately show ?thesis
      using Cons.prems(3,5) eq(2) by (auto simp: stopped_def assigned_def split: if_splits)
  next
    case (Next r1 st1 cl1)
    obtain routed d1 d2 why where nx: "cl1 = [(Account (ca_account_id c), routed)]" "400 \<le> rs_status r1" "route_frame d d1"
      "database st1 = Some d2"
      "cooldown (wd_cooldown_seconds wd) (ca_account_id c) m why (limit_json r1) (wd_end wd n) d1 = (None, d2)"
      using proxy_attempt_Next [OF Next Cons.prems(1)] by blast
    obtain out3 st3 cl3 where rec: "proxy_loop wd hc body m skey ro (Suc n) cs (Some r1) st1 = (out3, st3, cl3)"
      by (metis prod_cases3)
    then have eq: "st' = st3" "out3 = Inr r" "cl = (Account (ca_account_id c), routed) # cl3"
      using Cons.prems(2) Next nx(1) by simp_all
    have "assigned skey m (ro_account_id ro) d2"
      using Cons.prems(5) assigned_cooldown [OF nx(5)] nx(3) by (simp add: assigned_def route_frame_def)
    moreover have "cl3 \<noteq> []"
      using rec eq(2) nx(2) Cons.prems(3) by (cases cs) (auto split: round.splits prod.splits dest!: proxy_attempt_Stop proxy_attempt_Next simp: nx(4) stopped_def)
    ultimately show ?thesis
      using Cons.IH [OF nx(4) rec [unfolded eq(2), folded eq(1)] Cons.prems(3)] nx(2) Cons.prems(7) eq by auto
  qed
qed simp

lemma distinct_fold_new:
  "distinct (map f out) \<Longrightarrow> distinct (map f (foldl (\<lambda>out c. if f c \<in> set (map f out) then out else out @ [c]) out cs))"
  by (induction cs arbitrary: out) simp_all

lemma attempts_distinct: "distinct (map (\<lambda>c. (ca_account_id c, ca_upstream_model c)) (attempts ro))"
  unfolding attempts_def by (rule distinct_fold_new) simp

lemma fold_new_prefix: "\<exists>rest. foldl (\<lambda>out c. if f c \<in> set (map f out) then out else out @ [c]) out cs = out @ rest"
proof (induction cs arbitrary: out)
  case (Cons c cs)
  show ?case
  proof (cases "f c \<in> set (map f out)")
    case True
    then show ?thesis
      using Cons.IH [of out] by simp
  next
    case False
    then show ?thesis
      using Cons.IH [of "out @ [c]"] by auto
  qed
qed simp

lemma attempts_first: "\<exists>rest. attempts ro = \<lparr>ca_account_id = ro_account_id ro, ca_upstream_model = ro_upstream ro\<rparr> # rest"
  using fold_new_prefix [of "\<lambda>c. (ca_account_id c, ca_upstream_model c)"
      "[\<lparr>ca_account_id = ro_account_id ro, ca_upstream_model = ro_upstream ro\<rparr>]"]
  by (fastforce simp: attempts_def)

definition demo_world :: world where
  "demo_world = \<lparr>wd_python = demo_python, wd_str = (\<lambda>_. []), wd_tuple = (\<lambda>_. []),
     wd_interval = (\<lambda>_. Delta (usec 18000)), wd_loads = (\<lambda>_. None),
     wd_up = (\<lambda>n body. Inr (\<lparr>rs_status = 200, rs_headers = [], rs_text = [], rs_json = Some (JObj []), rs_stream = False\<rparr>, [])),
     wd_start = (\<lambda>n. 8), wd_end = (\<lambda>n. 9), wd_missing = ''m'', wd_cooldown_seconds = 300,
     wd_fallback_model = ''glm-5.2'', wd_fallback_enabled = True\<rparr>"

definition demo_http :: http_call where
  "demo_http = \<lparr>hc_path = ''v1/chat/completions'', hc_headers = []\<rparr>"

definition demo_route_state :: credit_state where
  "demo_route_state = \<lparr>schema_ready = True, database = Some demo_route_db\<rparr>"

lemma demo_assignment:
  "\<exists>ro d'. assignment (wd_interval demo_world) (wd_tuple demo_world) ''s'' ''fugu'' 7 demo_route_db = (Inr ro, d')
     \<and> ro_account_id ro = ''sub1''"
proof -
  obtain cs where cs: "routing_candidates (wd_interval demo_world) demo_route_db ''fugu'' 7 = Inr cs"
    using demo_candidates by (auto simp: demo_world_def)
  have "usable demo_route_db ''fugu'' 7 ''sub1''"
    by (simp add: usable_def demo_route_db_def empty_db_def active_cooldown_def)
  then have "\<exists>s. sticky_assignment demo_route_db ''s'' ''fugu'' 7 = Some s \<and> as_account_id s = ''sub1''"
    by (simp add: sticky_assignment_def demo_route_db_def)
  with cs show ?thesis
    by (auto simp: assignment_def)
qed

lemma demo_attempt:
  "\<exists>r st' routed. proxy_attempt demo_world demo_http [(''model'', JStr ''fugu'')] ''fugu'' ''s'' ro 0
      \<lparr>ca_account_id = ro_account_id ro, ca_upstream_model = u\<rparr> st = Stop (Inr r) st' [(Account (ro_account_id ro), routed)]
    \<and> rs_status r = 200"
  by (simp add: proxy_attempt_def proxy_answer_def routed_body_def forward_once_def demo_world_def get_or_def
      AList.update_conv' dict_of_def Let_def)

lemma demo_proxy:
  "\<exists>r st' routed. proxy_fugu demo_world demo_http [(''model'', JStr ''fugu'')] ''fugu'' ''s'' 7 demo_route_state
      = (Inr r, st', [(Account ''sub1'', routed)]) \<and> rs_status r = 200"
proof -
  obtain ro d' where a: "assignment (wd_interval demo_world) (wd_tuple demo_world) ''s'' ''fugu'' 7 demo_route_db = (Inr ro, d')"
    and acc: "ro_account_id ro = ''sub1''"
    using demo_assignment by blast
  obtain rest where first: "attempts ro = \<lparr>ca_account_id = ro_account_id ro, ca_upstream_model = ro_upstream ro\<rparr> # rest"
    using attempts_first by blast
  obtain r st' routed where "proxy_attempt demo_world demo_http [(''model'', JStr ''fugu'')] ''fugu'' ''s'' ro 0
      \<lparr>ca_account_id = ro_account_id ro, ca_upstream_model = ro_upstream ro\<rparr> (demo_route_state\<lparr>database := Some d'\<rparr>)
      = Stop (Inr r) st' [(Account (ro_account_id ro), routed)]" "rs_status r = 200"
    using demo_attempt by blast
  then show ?thesis
    using a acc first by (simp add: proxy_fugu_def demo_route_state_def)
qed



lemma assignment_assigned:
  assumes "assignment li ts skey m now d = (Inr ro, d')" and "filter (usable d m now) (map fst (fugu_accounts d)) \<noteq> []"
  shows "assigned skey m (ro_account_id ro) d'"
proof -
  obtain cs where cs: "routing_candidates li d m now = Inr cs"
    using assms(1) by (auto simp: assignment_def split: sum.splits)
  have "mset (map ca_account_id cs) \<noteq> {#}"
    unfolding routing_candidates_facts(1) [OF cs] using assms(2) by (simp only: mset_zero_iff not_False_eq_True)
  then obtain c rest where "cs = c # rest"
    by (cases cs) auto
  then show ?thesis
    using assms(1) cs
    by (auto simp: assignment_def then_do_def upsert_assignment_def record_decision_def update_assignment_def
        assigned_def map_of_update_rows tbl.lookup_upsert sticky_assignment_def Let_def
        split: option.splits if_splits prod.splits)
qed

text \<open>
  C14: Sessions stick. When some subscription is usable and a request of a session is answered
  successfully by a subscription, that subscription is the session's assignment for the model
  afterwards, whether it was the first choice or reached by failover: as long as it stays usable,
  the next request of the session finds it as its sticky assignment.
\<close>

theorem session_sticks:
  assumes "proxy_fugu wd hc body m skey now st = (Inr r, st', cl)" and "database st = Some d"
    and "rs_status r < 400" and "cl \<noteq> []" and "fst (last cl) = Account a"
    and "filter (usable d m now) (map fst (fugu_accounts d)) \<noteq> []"
  shows "\<exists>d'. database st' = Some d' \<and> (\<forall>now'. usable d' m now' a \<longrightarrow>
    (\<exists>row. sticky_assignment d' skey m now' = Some row \<and> as_account_id row = a))"
proof -
  obtain ro d1 where a: "assignment (wd_interval wd) (wd_tuple wd) skey m now d = (Inr ro, d1)"
    and run: "proxy_loop wd hc body m skey ro 0 (attempts ro) None (st\<lparr>database := Some d1\<rparr>) = (Inr r, st', cl)"
    using assms(1,2) by (auto simp: proxy_fugu_def split: prod.splits sum.splits)
  obtain d' where "database st' = Some d'" "assigned skey m a d'"
    using proxy_loop_success [OF _ run assms(3) _ assignment_assigned [OF a assms(6)] assms(4,5)] by auto
  then show ?thesis
    by (auto simp: assigned_def sticky_assignment_def)
qed

theorem session_sticks_witness:
  "\<exists>r st' cl d'. proxy_fugu demo_world demo_http [(''model'', JStr ''fugu'')] ''fugu'' ''s'' 7 demo_route_state = (Inr r, st', cl)
     \<and> database st' = Some d' \<and> (\<forall>now'. usable d' ''fugu'' now' ''sub1'' \<longrightarrow>
       (\<exists>row. sticky_assignment d' ''s'' ''fugu'' now' = Some row \<and> as_account_id row = ''sub1''))"
proof -
  obtain r st' routed where run: "proxy_fugu demo_world demo_http [(''model'', JStr ''fugu'')] ''fugu'' ''s'' 7 demo_route_state
      = (Inr r, st', [(Account ''sub1'', routed)])" "rs_status r = 200"
    using demo_proxy by blast
  have "database demo_route_state = Some demo_route_db" "rs_status r < 400"
    using run(2) by (simp_all add: demo_route_state_def)
  from session_sticks [OF run(1) this, of "''sub1''"] demo_usable run(1) show ?thesis by auto
qed

end
