(* ===== verification/Orch_Inputs.thy ===== *)
theory Orch_Inputs
  imports Py_Text "HOL-Library.Product_Lexorder"
begin

text \<open>
  What deploy/cluster-orchestrator.py makes of a deployment request before anything runs: names,
  environment text, the image, the compose file, and the shell script that is given to bash. A job is
  the JSON object that the program keeps of it.
\<close>

section \<open>Configuration and names\<close>

record deploy_config =
  rpc_url :: string
  bundler_url :: string
  gas_policy_id :: string
  box_rpc :: string

definition validate_deploy_config :: "deploy_config \<Rightarrow> unit result" where
  "validate_deploy_config cfg =
     bindR (guard_that (bundler_url cfg \<noteq> []) (RuntimeError ''ORCHESTRATOR_BUNDLER_URL is not configured. Cluster CVMs need an EIP-4337 bundler/paymaster endpoint; a plain Base RPC URL cannot register members.'')) (\<lambda>_.
     bindR (guard_that (bundler_url cfg \<noteq> rpc_url cfg) (RuntimeError ''ORCHESTRATOR_BUNDLER_URL must be a real EIP-4337 bundler/paymaster endpoint, not the same plain RPC URL used for chain reads.'')) (\<lambda>_.
     guard_that (gas_policy_id cfg \<noteq> []) (RuntimeError ''ORCHESTRATOR_GAS_POLICY_ID is not configured. Cluster CVMs need the paymaster sponsorship policy id that matches ORCHESTRATOR_BUNDLER_URL.'')))"

definition slug_char :: "char \<Rightarrow> bool" where
  "slug_char c = (is_lower c \<or> is_digit c \<or> c = CHR ''-'')"

fun dash_runs :: "bool \<Rightarrow> string \<Rightarrow> string" where
  \<comment> \<open>\<open>re.sub(r"[^a-z0-9-]+", "-", s)\<close>; the flag says that a run of other characters has begun\<close>
  "dash_runs in_run [] = []"
| "dash_runs in_run (c # s) =
     (if slug_char c then c # dash_runs False s
      else if in_run then dash_runs True s
      else CHR ''-'' # dash_runs True s)"

definition slug :: "string \<Rightarrow> string" where
  "slug value = (let s = strip_on (\<lambda>c. c = CHR ''-'') (dash_runs False (lower value)) in
     if take 48 s = [] then ''workload'' else take 48 s)"

section \<open>Environment\<close>

definition ident_start :: "char \<Rightarrow> bool" where
  "ident_start c = (is_lower c \<or> is_upper c \<or> c = CHR ''_'')"

definition is_ident :: "string \<Rightarrow> bool" where
  \<comment> \<open>\<open>[A-Za-z_][A-Za-z0-9_]*\<close>\<close>
  "is_ident k = (case k of [] \<Rightarrow> False | c # cs \<Rightarrow> ident_start c \<and> list_all (\<lambda>c. ident_start c \<or> is_digit c) cs)"

definition parse_env_line :: "string \<Rightarrow> string dict \<Rightarrow> string dict result" where
  "parse_env_line line parsed =
     (let s = strip line in
      if s = [] \<or> startswith s ''#'' then Inr parsed
      else case split1 (CHR ''='') s of
        Some (key, value) \<Rightarrow> if is_ident key then Inr (AList.update key value parsed)
          else Inl (ValueError ''Invalid environment line'')
      | None \<Rightarrow> Inl (ValueError ''Invalid environment line''))"

fun parse_env_lines :: "string list \<Rightarrow> string dict \<Rightarrow> string dict result" where
  "parse_env_lines [] parsed = Inr parsed"
| "parse_env_lines (line # lines) parsed = bindR (parse_env_line line parsed) (parse_env_lines lines)"

definition parse_env :: "string \<Rightarrow> string dict result" where
  "parse_env raw = (if strip raw = [] then Inr [] else parse_env_lines (splitlines raw) [])"

definition env_text :: "string dict \<Rightarrow> string" where
  "env_text env = text_lines (map (\<lambda>(k, v). k @ ''='' @ v) (sort env))"

definition setdefault :: "string \<Rightarrow> 'v \<Rightarrow> 'v dict \<Rightarrow> 'v dict" where
  "setdefault k v d = (if map_of d k = None then d @ [(k, v)] else d)"

definition env_for_catalog :: "string option \<Rightarrow> string dict \<Rightarrow> string dict result" where
  "env_for_catalog catalog_id env =
     (if catalog_id = Some ''postgres''
      then bindR (guard_that (case map_of env ''POSTGRES_PASSWORD'' of Some p \<Rightarrow> p \<noteq> [] | None \<Rightarrow> False)
                    (ValueError ''Postgres requires POSTGRES_PASSWORD in Advanced environment.'')) (\<lambda>_.
           Inr (setdefault ''POSTGRES_INITDB_ARGS'' ''--encoding=UTF8 --locale=C''
                 (setdefault ''POSTGRES_DB'' ''postgres'' (setdefault ''POSTGRES_USER'' ''postgres'' env))))
      else Inr env)"

section \<open>Image and compose file\<close>

definition CATALOG_IMAGES :: "string dict" where
  "CATALOG_IMAGES = [(''postgres'', ''postgres:16-alpine''), (''redis'', ''redis:7-alpine''),
     (''qdrant'', ''qdrant/qdrant:latest''), (''agent-runtime'', ''alpine:3.20'')]"

definition box_size :: "string \<Rightarrow> string \<Rightarrow> string \<Rightarrow> json" where
  "box_size vcpu mem disk = JObj [(''vcpu'', JStr vcpu), (''mem'', JStr mem), (''disk'', JStr disk)]"

definition FLAVORS :: "json dict" where
  "FLAVORS = [(''small'', box_size ''2'' ''4096'' ''40''), (''medium'', box_size ''4'' ''8192'' ''80''),
     (''large'', box_size ''8'' ''16384'' ''160'')]"

definition SIDECAR_IMAGE :: string where
  "SIDECAR_IMAGE = ''ghcr.io/attestmesh/cluster-mesh-agent@sha256:b9e0ae107d9db015c22059c9fecdc28f2b35e09b257eabb4739bd4e46d96f641''"

definition workload_image :: "(json \<Rightarrow> string) \<Rightarrow> json dict \<Rightarrow> string result" where
  "workload_image pystr body =
     (if jget body ''source'' = JStr ''image''
      then (let img = strip (jstr pystr (or_else (jget body ''imageRef'') (JStr []))) in
            if img = [] then Inl (ValueError ''imageRef is required for custom-image deploys'') else Inr img)
      else (let catalog_id = strip (jstr pystr (or_else (jget body ''catalogId'') (JStr []))) in
            case map_of CATALOG_IMAGES catalog_id of
              Some img \<Rightarrow> Inr img
            | None \<Rightarrow> Inl (ValueError (''Catalog item '' @ (if catalog_id = [] then ''<missing>'' else catalog_id)
                @ '' is not deployable yet. Supported catalog CVMs: ''
                @ join '', '' (sort (map fst CATALOG_IMAGES))))))"

definition compose_head :: "string list" where
  \<comment> \<open>the sidecar and the registration helper, the same in both files\<close>
  "compose_head = [
      ''services:'',
      ''  sidecar:'',
      ''    image: '' @ SIDECAR_IMAGE,
      ''    restart: unless-stopped'',
      ''    environment:'',
      ''      - CHAIN_ID=${CHAIN_ID}'',
      ''      - RPC_URL=${RPC_URL}'',
      ''      - BUNDLER_URL=${BUNDLER_URL}'',
      ''      - GAS_POLICY_ID=${GAS_POLICY_ID}'',
      ''      - INDEXER_REGISTRY_ADDR=${INDEXER_REGISTRY_ADDR}'',
      ''      - GATEWAY_DOMAIN=${GATEWAY_DOMAIN}'',
      ''      - DSTACK_SOCKET=/var/run/dstack.sock'',
      ''      - SIDECAR_STATE_DIR=/var/lib/attestmesh'',
      ''      - HEALTH_HTTP_ADDR=0.0.0.0:9090'',
      ''      - LOG_FORMAT=pretty'',
      ''      - LOG_LEVEL=info,cluster_mesh_agent=debug'',
      ''    volumes:'',
      ''      - /var/run/dstack.sock:/var/run/dstack.sock'',
      ''      - sidecar-state:/var/lib/attestmesh'',
      ''    ports:'',
      ''      - '' @ [CHR 0x22] @ ''9090:9090'' @ [CHR 0x22],
      ''      - '' @ [CHR 0x22] @ ''51900:51900'' @ [CHR 0x22],
      ''    cap_add:'',
      ''      - NET_ADMIN'',
      ''    devices:'',
      ''      - /dev/net/tun'',
      [],
      ''  registration-helper:'',
      ''    image: '' @ SIDECAR_IMAGE,
      ''    restart: unless-stopped'',
      ''    environment:'',
      ''      - CLUSTER=${CLUSTER}'',
      ''      - DSTACK_SOCKET=/var/run/dstack.sock'',
      ''      - REGISTRATION_HELPER_ADDR=0.0.0.0:9092'',
      ''    volumes:'',
      ''      - /var/run/dstack.sock:/var/run/dstack.sock'',
      ''    entrypoint: ['' @ [CHR 0x22] @ ''/usr/local/bin/attestmesh-registration-calldata'' @ [CHR 0x22] @ '']'',
      []]"

definition postgres_compose :: "string \<Rightarrow> string" where
  "postgres_compose name = text_lines (compose_head @ [
      ''  postgres:'',
      ''    image: postgres:16-alpine'',
      ''    restart: unless-stopped'',
      ''    env_file:'',
      ''      - /tmp/attestmesh-workload.env'',
      ''    volumes:'',
      ''      - pgdata:/var/lib/postgresql/data'',
      ''    labels:'',
      ''      attestmesh.name: '' @ [CHR 0x22] @ name @ [CHR 0x22],
      ''      attestmesh.source: '' @ [CHR 0x22] @ ''fleet-control'' @ [CHR 0x22],
      [],
      ''  postgres-mesh-proxy:'',
      ''    image: alpine/socat:1.8.0.0'',
      ''    restart: unless-stopped'',
      ''    network_mode: service:sidecar'',
      ''    depends_on:'',
      ''      sidecar:'',
      ''        condition: service_started'',
      ''      postgres:'',
      ''        condition: service_started'',
      ''    entrypoint:'',
      ''      - /bin/sh'',
      ''      - -ec'',
      ''    command:'',
      ''      - |'',
      ''        while :; do'',
      ''          ip='' @ [CHR 0x22] @ ''$$(ip -4 -o addr show dev attestmesh0 2>/dev/null | awk '' @ [CHR 0x27] @ ''{print $$4}'' @ [CHR 0x27] @ '' | cut -d/ -f1)'' @ [CHR 0x22],
      ''          [ -n '' @ [CHR 0x22] @ ''$$ip'' @ [CHR 0x22] @ '' ] && break'',
      ''          sleep 1'',
      ''        done'',
      ''        exec socat -d -d TCP-LISTEN:5432,fork,reuseaddr,bind='' @ [CHR 0x22] @ ''$${ip}'' @ [CHR 0x22] @ '' TCP:postgres:5432'',
      ''    read_only: true'',
      ''    cap_drop:'',
      ''      - ALL'',
      ''    security_opt:'',
      ''      - no-new-privileges:true'',
      [],
      ''volumes:'',
      ''  sidecar-state:'',
      ''  pgdata:''])"

definition generic_compose :: "string \<Rightarrow> string \<Rightarrow> json \<Rightarrow> string" where
  "generic_compose name img catalog_id =
     (let command = (if catalog_id = JStr ''agent-runtime''
        then [newline] @ ''    command: ['' @ [CHR 0x22] @ ''sh'' @ [CHR 0x22] @ '', '' @ [CHR 0x22] @ ''-lc'' @ [CHR 0x22] @ '', ''
          @ [CHR 0x22] @ ''while true; do sleep 3600; done'' @ [CHR 0x22] @ '']''
        else []) in
      text_lines (compose_head @ [
      ''  workload:'',
      ''    image: '' @ img,
      ''    restart: unless-stopped'',
      ''    env_file:'',
      ''      - /tmp/attestmesh-workload.env'' @ command,
      ''    labels:'',
      ''      attestmesh.name: '' @ [CHR 0x22] @ name @ [CHR 0x22],
      ''      attestmesh.source: '' @ [CHR 0x22] @ ''fleet-control'' @ [CHR 0x22],
      [],
      ''volumes:'',
      ''  sidecar-state:'']))"

definition compose_for :: "string \<Rightarrow> string \<Rightarrow> json \<Rightarrow> string" where
  "compose_for name img catalog_id =
     (if catalog_id = JStr ''postgres'' then postgres_compose name else generic_compose name img catalog_id)"

section \<open>The shell script\<close>

definition need_text :: "json dict \<Rightarrow> string \<Rightarrow> string result" where
  \<comment> \<open>\<open>job[k]\<close> where a string is needed\<close>
  "need_text d k = (case map_of d k of None \<Rightarrow> Inl (KeyError k) | Some (JStr s) \<Rightarrow> Inr s
     | Some _ \<Rightarrow> Inl (TypeError ''expected string or bytes-like object''))"

definition need_obj :: "json dict \<Rightarrow> string \<Rightarrow> json dict result" where
  "need_obj d k = (case map_of d k of None \<Rightarrow> Inl (KeyError k) | Some (JObj o') \<Rightarrow> Inr o'
     | Some _ \<Rightarrow> Inl (TypeError ''object is not subscriptable''))"

definition deploy_shell :: "deploy_config \<Rightarrow> json dict \<Rightarrow> string \<Rightarrow> string result" where
  \<comment> \<open>the script that is passed to \<open>bash -lc\<close>\<close>
  "deploy_shell cfg job body =
     bindR (need_text job ''cluster'') (\<lambda>cluster.
     bindR (need_text job ''memberImpl'') (\<lambda>member_impl.
     bindR (need_text job ''composePath'') (\<lambda>compose_path.
     bindR (need_text job ''appEnvB64'') (\<lambda>app_env.
     bindR (need_obj job ''box'') (\<lambda>box.
     bindR (need_text box ''vcpu'') (\<lambda>vcpu.
     bindR (need_text box ''mem'') (\<lambda>mem.
     bindR (need_text box ''disk'') (\<lambda>disk.
     Inr (''set -euo pipefail; ''
       @ ''source deploy/env.sh; ''
       @ ''export RPC_URL='' @ shell_quote (rpc_url cfg) @ ''; ''
       @ ''export BUNDLER_URL='' @ shell_quote (bundler_url cfg) @ ''; ''
       @ ''export GAS_POLICY_ID='' @ shell_quote (gas_policy_id cfg) @ ''; ''
       @ ''export BOX_RPC='' @ shell_quote (box_rpc cfg) @ ''; ''
       @ ''export CLUSTER='' @ shell_quote cluster @ '' MEMBER_IMPL='' @ shell_quote member_impl @ ''; ''
       @ ''export COMPOSE='' @ shell_quote compose_path @ '' APP_ENV_B64='' @ shell_quote app_env @ ''; ''
       @ ''export BOX_VCPU='' @ vcpu @ '' BOX_MEM='' @ mem @ '' BOX_DISK='' @ disk @ ''; ''
       @ body)))))))))"

definition node_command :: "string \<Rightarrow> string \<Rightarrow> string" where
  "node_command node verb = ''deploy/generic-node.sh '' @ shell_quote node @ '' '' @ verb"

definition deploy_script :: "string \<Rightarrow> string" where
  "deploy_script node = join ''; '' (map (node_command node)
     [''preflight'', ''deploy'', ''prime'', ''bind'', ''start'', ''register-direct'', ''verify''])"

definition cleanup_script :: "bool \<Rightarrow> string \<Rightarrow> string" where
  "cleanup_script force node =
     ''export FORCE_CLEANUP='' @ (if force then ''1'' else ''0'') @ ''; '' @ node_command node ''cleanup''"

end
