(* ===== verification/Orch_Jobs.thy ===== *)
theory Orch_Jobs
  imports Orch_Inputs
begin

text \<open>
  The jobs of deploy/cluster-orchestrator.py: creation, the deployment run with its log tail,
  cleanup, cancellation and the recovery at a restart. A thread loads a job once and then only
  writes its own copy, so an operation is modelled by the successive contents it saves. What comes
  from outside (request bodies, the output and the end of a process, the node's state file, time
  stamps, the text of an exception) is an argument; writing a file succeeds.
\<close>

section \<open>Job files\<close>

type_synonym job = "json dict"

type_synonym job_files = "(string \<times> json option) list"
  \<comment> \<open>the files of the jobs directory by their stem; \<open>None\<close> is a file that is no JSON\<close>

definition put :: "string \<Rightarrow> json \<Rightarrow> job \<Rightarrow> job" where
  \<comment> \<open>\<open>job[k] = v\<close>\<close>
  "put k v job = AList.update k v job"

definition load_job :: "job_files \<Rightarrow> string \<Rightarrow> json option result" where
  "load_job files job_id = (case map_of files job_id of
      None \<Rightarrow> Inr None
    | Some None \<Rightarrow> Inl (ValueError ''JSONDecodeError'')
    | Some (Some j) \<Rightarrow> Inr (Some j))"

definition save_job :: "string \<Rightarrow> job \<Rightarrow> job result" where
  \<comment> \<open>the content that is written, under the name that the job carries\<close>
  "save_job stamp job = (let job' = put ''updatedAt'' (JStr stamp) job in
     bindR (need_text job' ''id'') (\<lambda>_. Inr job'))"

definition store :: "job \<Rightarrow> job_files \<Rightarrow> job_files" where
  "store job files = (case need_text job ''id'' of
      Inr job_id \<Rightarrow> AList.update job_id (Some (JObj job)) files | Inl _ \<Rightarrow> files)"

definition or_None :: "string option \<Rightarrow> json" where
  "or_None v = (case v of Some s \<Rightarrow> if s = [] then JNull else JStr s | None \<Rightarrow> JNull)"

definition read_state :: "string \<Rightarrow> string dict" where
  "read_state txt = foldl (\<lambda>state line. case split1 (CHR ''='') line of
      Some (k, v) \<Rightarrow> AList.update k v state | None \<Rightarrow> state) [] (splitlines txt)"

definition absorb_state :: "string option \<Rightarrow> job \<Rightarrow> job" where
  \<comment> \<open>the node's state file, if there is one\<close>
  "absorb_state state_file job = (case state_file of
      None \<Rightarrow> job
    | Some txt \<Rightarrow> let state = read_state txt in
        put ''statePhase'' (or_None (map_of state ''STATE_PHASE''))
          (put ''composeHash'' (or_None (map_of state ''H''))
            (put ''vmId'' (or_None (map_of state ''VM_ID''))
              (put ''appId'' (or_None (map_of state ''X'')) job))))"

definition last_n :: "nat \<Rightarrow> 'a list \<Rightarrow> 'a list" where
  \<comment> \<open>\<open>xs[-n:]\<close>\<close>
  "last_n n xs = drop (length xs - n) xs"

definition log_text :: "string list \<Rightarrow> string" where
  "log_text ls = join [newline] (last_n 40 ls)"

section \<open>Cleanup\<close>

record process_end =
  pe_outcome :: "(int \<times> string) result"
  pe_state :: "string option"
  pe_stamp :: string

record orch_env =
  su_config :: deploy_config
  su_logs :: string
  su_auto :: bool
  su_text :: "exc \<Rightarrow> string"

definition cleanup_job :: "orch_env \<Rightarrow> process_end \<Rightarrow> bool \<Rightarrow> job \<Rightarrow> job result" where
  "cleanup_job su p force job =
     bindR (need_text job ''nodeName'') (\<lambda>node.
     bindR (deploy_shell (su_config su) job (cleanup_script force node)) (\<lambda>_.
     bindR (pe_outcome p) (\<lambda>(returncode, stdout).
     Inr (put ''cleanup'' (JObj
       [(''status'', JStr (if returncode = 0 then ''succeeded'' else ''failed'')),
        (''forced'', JBool force), (''exitCode'', JInt returncode),
        (''logPath'', JStr (su_logs su @ ''/orchestrator-'' @ node @ ''-cleanup.log'')),
        (''logTail'', JStr (log_text (splitlines stdout))), (''updatedAt'', JStr (pe_stamp p))])
       (absorb_state (pe_state p) job)))))"

definition cleanup_failed :: "string \<Rightarrow> json" where
  "cleanup_failed msg = JObj [(''status'', JStr ''failed''), (''error'', JStr msg)]"

definition auto_cleanup :: "orch_env \<Rightarrow> process_end \<Rightarrow> job \<Rightarrow> job" where
  "auto_cleanup su p job = (if su_auto su
     then (case cleanup_job su p False job of
             Inr job' \<Rightarrow> job' | Inl e \<Rightarrow> put ''cleanup'' (cleanup_failed (su_text su e)) job)
     else job)"

section \<open>Deployment run\<close>

record tick =
  \<comment> \<open>a line of output, when it is read, and what the state file and the clock say then\<close>
  tk_line :: string
  tk_clock :: int
  tk_state :: "string option"
  tk_stamp :: string

record run_state =
  rn_tail :: "string list"
  rn_last_save :: int
  rn_job :: job
  rn_saves :: "job list"

definition with_log :: "string \<Rightarrow> string list \<Rightarrow> job \<Rightarrow> job" where
  "with_log log_path tail job = put ''logTail'' (JStr (log_text tail)) (put ''logPath'' (JStr log_path) job)"

definition run_line :: "string \<Rightarrow> run_state \<Rightarrow> tick \<Rightarrow> run_state" where
  "run_line log_path r t =
     (let tail1 = rn_tail r @ [rstrip_on (\<lambda>c. c = newline) (tk_line t)];
          tail = (if 80 < length tail1 then last_n 80 tail1 else tail1) in
      if usec 2 \<le> tk_clock t - rn_last_save r
      then (let job = put ''updatedAt'' (JStr (tk_stamp t)) (absorb_state (tk_state t) (with_log log_path tail (rn_job r))) in
            \<lparr>rn_tail = tail, rn_last_save = tk_clock t, rn_job = job, rn_saves = rn_saves r @ [job]\<rparr>)
      else r\<lparr>rn_tail := tail\<rparr>)"

datatype run_end = Exited int | Broke exc

record run_input =
  ru_begin :: string
  ru_ticks :: "tick list"
  ru_end :: run_end
  ru_state :: "string option"
  ru_cleanup :: process_end
  ru_stamp :: string

definition run_exit :: "orch_env \<Rightarrow> run_input \<Rightarrow> string \<Rightarrow> int \<Rightarrow> run_state \<Rightarrow> job" where
  "run_exit su ru log_path exit_code r =
     (let job1 = absorb_state (ru_state ru)
            (with_log log_path (rn_tail r) (put ''exitCode'' (JInt exit_code) (rn_job r)));
          job2 = put ''status'' (JStr (if exit_code = 0 then ''succeeded'' else ''failed'')) job1 in
      if exit_code \<noteq> 0
      then auto_cleanup su (ru_cleanup ru)
             (put ''error'' (JStr (''generic-node deploy failed with exit code '' @ int_str exit_code)) job2)
      else job2)"

definition run_failed :: "orch_env \<Rightarrow> run_input \<Rightarrow> exc \<Rightarrow> job \<Rightarrow> job" where
  "run_failed su ru e job = auto_cleanup su (ru_cleanup ru)
     (put ''error'' (JStr (su_text su e)) (put ''status'' (JStr ''failed'') job))"

definition run_body :: "orch_env \<Rightarrow> run_input \<Rightarrow> job \<Rightarrow> job \<times> job list" where
  \<comment> \<open>the \<open>try\<close> statement: the job at its end, and what was saved on the way\<close>
  "run_body su ru job0 =
     (let job1 = put ''status'' (JStr ''running'') job0 in
      case save_job (ru_begin ru) job1 of
        Inl e \<Rightarrow> (run_failed su ru e job1, [])
      | Inr job \<Rightarrow>
         (case bindR (need_text job ''nodeName'') (\<lambda>node.
                 bindR (deploy_shell (su_config su) job (deploy_script node)) (\<lambda>_. Inr node)) of
            Inl e \<Rightarrow> (run_failed su ru e job, [job])
          | Inr node \<Rightarrow>
             (let log_path = su_logs su @ ''/orchestrator-'' @ node @ ''.log'';
                  r = foldl (run_line log_path)
                        \<lparr>rn_tail = [], rn_last_save = 0, rn_job = job, rn_saves = [job]\<rparr> (ru_ticks ru) in
              case ru_end ru of
                Broke e \<Rightarrow> (run_failed su ru e (rn_job r), rn_saves r)
              | Exited exit_code \<Rightarrow> (run_exit su ru log_path exit_code r, rn_saves r))))"

definition run_job :: "orch_env \<Rightarrow> run_input \<Rightarrow> json \<Rightarrow> job list" where
  \<comment> \<open>what a run saves, from the job it loads\<close>
  "run_job su ru loaded = (case loaded of
      JObj job \<Rightarrow> if job = [] then [] else
        (case run_body su ru job of (job', saves) \<Rightarrow>
           (case save_job (ru_stamp ru) job' of Inr job'' \<Rightarrow> saves @ [job''] | Inl _ \<Rightarrow> saves))
    | _ \<Rightarrow> [])"

section \<open>Restart\<close>

definition INTERRUPTED :: "string list" where
  "INTERRUPTED = [''queued'', ''running'', ''canceling'', ''cleanup_running'']"

definition hashable :: "json \<Rightarrow> bool" where
  "hashable j = (case j of JList _ \<Rightarrow> False | JObj _ \<Rightarrow> False | _ \<Rightarrow> True)"

definition reconcile_job :: "orch_env \<Rightarrow> process_end \<Rightarrow> string option \<Rightarrow> string \<Rightarrow> job \<Rightarrow> job option result" where
  \<comment> \<open>what is saved of one readable job, if anything\<close>
  "reconcile_job su p state_file stamp job =
     bindR (guard_that (hashable (jget job ''status'')) (TypeError ''unhashable type'')) (\<lambda>_.
     if jget job ''status'' \<notin> JStr ` set INTERRUPTED then Inr None
     else
       (let job1 = absorb_state state_file
              (put ''error'' (JStr ''orchestrator restarted before this job reached a terminal state'')
                (put ''status'' (JStr ''interrupted'') job));
            job2 = (if su_auto su
              then (case cleanup_job su p False job1 of
                      Inl e \<Rightarrow> put ''cleanup'' (cleanup_failed (su_text su e)) job1
                    | Inr j \<Rightarrow> if jget (members (jget j ''cleanup'')) ''status'' = JStr ''succeeded''
                        then put ''status'' (JStr ''cleaned'') j else j)
              else job1) in
        bindR (save_job stamp job2) (\<lambda>j. Inr (Some j))))"

record restart_input =
  ri_process :: "string \<Rightarrow> process_end"
  ri_state :: "string \<Rightarrow> string option"
  ri_stamp :: "string \<Rightarrow> string"

fun reconcile_files :: "orch_env \<Rightarrow> restart_input \<Rightarrow> string list \<Rightarrow> job_files \<Rightarrow> exc option \<times> job_files" where
  "reconcile_files su ri [] files = (None, files)"
| "reconcile_files su ri (name # names) files =
     (case map_of files name of
        Some (Some (JObj job)) \<Rightarrow>
          (case reconcile_job su (ri_process ri name) (ri_state ri name) (ri_stamp ri name) job of
             Inl e \<Rightarrow> (Some e, files)
           | Inr None \<Rightarrow> reconcile_files su ri names files
           | Inr (Some job') \<Rightarrow> reconcile_files su ri names (store job' files))
      | Some (Some _) \<Rightarrow> (Some (AttributeError ''get''), files)
      | _ \<Rightarrow> reconcile_files su ri names files)"

definition reconcile_interrupted_jobs :: "orch_env \<Rightarrow> restart_input \<Rightarrow> job_files \<Rightarrow> exc option \<times> job_files" where
  "reconcile_interrupted_jobs su ri files = reconcile_files su ri (map fst files) files"

end
