(* ===== verification/Orch_Server.thy ===== *)
theory Orch_Server
  imports Orch_Jobs
begin

text \<open>
  The HTTP handlers of deploy/cluster-orchestrator.py and the system they form: handler and run
  threads interleave at the granularity of a save, the process may be killed at any moment, and a
  restart recovers the jobs. A reply is its status with the JSON body; a handler that raises outside
  its \<open>try\<close> answers nothing.
\<close>

section \<open>Requests\<close>

record orch_request =
  rq_path :: string
  rq_auth :: "string option"
  rq_body :: "json result"
    \<comment> \<open>what reading the length and decoding the JSON gives, an empty body being an empty object\<close>

definition auth :: "string \<Rightarrow> orch_request \<Rightarrow> (int \<times> json) option" where
  \<comment> \<open>the refusal, if any\<close>
  "auth token rq = (if token = [] then Some (500, JObj [(''error'', JStr ''ORCHESTRATOR_TOKEN is not configured'')])
     else if (case rq_auth rq of Some g \<Rightarrow> g | None \<Rightarrow> []) \<noteq> ''Bearer '' @ token
     then Some (401, JObj [(''error'', JStr ''unauthorized'')]) else None)"

definition id_char :: "char \<Rightarrow> bool" where
  "id_char c = (is_lower c \<or> is_upper c \<or> is_digit c \<or> c = CHR ''_'' \<or> c = CHR ''-'')"

definition deployment_id :: "string \<Rightarrow> string \<Rightarrow> string option" where
  \<comment> \<open>the path \<open>/v1/deployments/<id>\<close> with this ending\<close>
  "deployment_id ending path =
     (let rest = drop (length ''/v1/deployments/'') path; i = take (length rest - length ending) rest in
      if startswith path ''/v1/deployments/'' \<and> i \<noteq> [] \<and> list_all id_char i \<and> rest = i @ ending
      then Some i else None)"

definition err :: "string \<Rightarrow> json" where
  "err msg = JObj [(''error'', JStr msg)]"

definition found :: "job_files \<Rightarrow> string \<Rightarrow> (json option) result" where
  \<comment> \<open>a job that is there and not empty\<close>
  "found files i = bindR (load_job files i) (\<lambda>j. Inr (case j of Some v \<Rightarrow> if truthy v then Some v else None | None \<Rightarrow> None))"

definition do_GET_job :: "orch_env \<Rightarrow> string \<Rightarrow> orch_request \<Rightarrow> job_files \<Rightarrow> (int \<times> json) result" where
  "do_GET_job su token rq files =
     (if rq_path rq = ''/healthz''
      then Inr (200, JObj [(''ok'', JBool True), (''autoCleanupFailed'', JBool (su_auto su)),
        (''bundler'', JBool (bundler_url (su_config su) \<noteq> [])), (''gasPolicy'', JBool (gas_policy_id (su_config su) \<noteq> []))])
      else case auth token rq of Some r \<Rightarrow> Inr r
      | None \<Rightarrow> (case deployment_id [] (rq_path rq) of
          None \<Rightarrow> Inr (404, err ''not found'')
        | Some i \<Rightarrow> bindR (found files i) (\<lambda>j. Inr (case j of None \<Rightarrow> (404, err ''job not found'') | Some v \<Rightarrow> (200, v)))))"

section \<open>Creating a job\<close>

definition text_field :: "(json \<Rightarrow> string) \<Rightarrow> json dict \<Rightarrow> string \<Rightarrow> string \<Rightarrow> string" where
  \<comment> \<open>\<open>str(body.get(k) or default)\<close>\<close>
  "text_field pystr body k dflt = jstr pystr (or_else (jget body k) (JStr dflt))"

definition connection :: "string option \<Rightarrow> string dict \<Rightarrow> json" where
  "connection catalog_id env = (if catalog_id = Some ''postgres''
     then JObj [(''kind'', JStr ''postgres''), (''host'', JStr ''meshIp''), (''port'', JInt 5432),
       (''database'', JStr (case map_of env ''POSTGRES_DB'' of Some v \<Rightarrow> v | None \<Rightarrow> ''postgres'')),
       (''user'', JStr (case map_of env ''POSTGRES_USER'' of Some v \<Rightarrow> v | None \<Rightarrow> ''postgres''))]
     else JNull)"

record create_input =
  cr_pystr :: "json \<Rightarrow> string"
  cr_job_id :: string
  cr_composes :: string
  cr_now :: string

record created =
  cd_job :: job
  cd_compose_path :: string
  cd_compose :: string

definition new_job ::
  "create_input \<Rightarrow> string \<Rightarrow> string \<Rightarrow> json \<Rightarrow> string option \<Rightarrow> string \<Rightarrow> string \<Rightarrow> string \<Rightarrow> string
     \<Rightarrow> string \<Rightarrow> string \<Rightarrow> string dict \<Rightarrow> json \<Rightarrow> job" where
  "new_job ci network_id name source catalog_id img flavor cluster member_impl node compose_path env box =
     [(''id'', JStr (cr_job_id ci)), (''status'', JStr ''queued''), (''networkId'', JStr network_id),
      (''name'', JStr name), (''source'', source),
      (''catalogId'', (case catalog_id of Some c \<Rightarrow> JStr c | None \<Rightarrow> JNull)),
      (''imageRef'', JStr img), (''flavor'', JStr flavor), (''cluster'', JStr cluster),
      (''memberImpl'', JStr member_impl), (''nodeName'', JStr node), (''composePath'', JStr compose_path),
      (''appEnvB64'', JStr (b64encode (utf8 (env_text env)))), (''connection'', connection catalog_id env),
      (''box'', box), (''createdAt'', JStr (cr_now ci)), (''updatedAt'', JStr (cr_now ci)),
      (''appId'', JNull), (''vmId'', JNull), (''composeHash'', JNull), (''error'', JNull)]"

definition create_job :: "orch_env \<Rightarrow> create_input \<Rightarrow> json result \<Rightarrow> created result" where
  "create_job su ci body_in =
     bindR (validate_deploy_config (su_config su)) (\<lambda>_.
     bindR body_in (\<lambda>body_json.
     bindR (guard_that (is_obj body_json) (AttributeError ''get'')) (\<lambda>_.
     let body = members body_json; ps = cr_pystr ci;
         name = slug (text_field ps body ''name'' ''workload'');
         network_id = text_field ps body ''networkId'' [];
         cluster = text_field ps body ''cluster'' [];
         member_impl = text_field ps body ''memberImpl'' [] in
     bindR (guard_that (network_id \<noteq> [] \<and> cluster \<noteq> [] \<and> member_impl \<noteq> [])
              (ValueError ''networkId, cluster, and memberImpl are required'')) (\<lambda>_.
     bindR (workload_image ps body) (\<lambda>img.
     let cid = strip (text_field ps body ''catalogId'' []);
         catalog_id = (if cid = [] then None else Some cid) in
     bindR (bindR (parse_env (text_field ps body ''env'' [])) (env_for_catalog catalog_id)) (\<lambda>env.
     let node = slug (network_id @ ''-'' @ name @ ''-'' @ take 6 (cr_job_id ci));
         flavor = text_field ps body ''flavor'' ''medium'';
         box = get_or FLAVORS flavor (jget FLAVORS ''medium'');
         compose_path = cr_composes ci @ ''/'' @ node @ ''.yaml'';
         compose = compose_for name img (jget body ''catalogId'');
         job = new_job ci network_id name (jget body ''source'') catalog_id img flavor cluster member_impl
           node compose_path env box in
     bindR (save_job (cr_now ci) job) (\<lambda>job'.
     Inr \<lparr>cd_job = job', cd_compose_path = compose_path, cd_compose = compose\<rparr>)))))))"

definition do_POST_create :: "orch_env \<Rightarrow> string \<Rightarrow> create_input \<Rightarrow> orch_request \<Rightarrow> int \<times> json \<times> created option" where
  "do_POST_create su token ci rq =
     (if rq_path rq \<noteq> ''/v1/deployments'' then (404, err ''not found'', None)
      else case auth token rq of Some (st, j) \<Rightarrow> (st, j, None)
      | None \<Rightarrow> (case create_job su ci (rq_body rq) of
          Inl e \<Rightarrow> (422, err (su_text su e), None)
        | Inr c \<Rightarrow> (202, JObj (cd_job c), Some c)))"

section \<open>Cleaning and cancelling\<close>

record handler_out =
  ho_reply :: "(int \<times> json) option"
  ho_saves :: "job list"

definition guarded_cleanup ::
  "orch_env \<Rightarrow> process_end \<Rightarrow> bool \<Rightarrow> string \<Rightarrow> string \<Rightarrow> (job \<Rightarrow> job) \<Rightarrow> job \<Rightarrow> handler_out" where
  \<comment> \<open>cleanup inside the \<open>try\<close>: the final status, or cleanup_failed with the exception\<close>
  "guarded_cleanup su p force stamp final extra job =
     (case bindR (cleanup_job su p force job) (\<lambda>j. save_job stamp (extra (put ''status'' (JStr final) j))) of
        Inr j \<Rightarrow> \<lparr>ho_reply = Some (200, JObj j), ho_saves = [j]\<rparr>
      | Inl e \<Rightarrow>
         (case save_job stamp (put ''error'' (JStr (su_text su e)) (put ''status'' (JStr ''cleanup_failed'') job)) of
            Inr j \<Rightarrow> \<lparr>ho_reply = Some (500, JObj [(''error'', JStr (su_text su e)), (''job'', JObj j)]), ho_saves = [j]\<rparr>
          | Inl _ \<Rightarrow> \<lparr>ho_reply = None, ho_saves = []\<rparr>))"

definition cleanup_begin :: "string \<Rightarrow> json result \<Rightarrow> job \<Rightarrow> (bool \<times> job) result" where
  "cleanup_begin stamp body_in job =
     bindR body_in (\<lambda>b. bindR (guard_that (is_obj b) (AttributeError ''get'')) (\<lambda>_.
     bindR (save_job stamp (put ''status'' (JStr ''cleanup_running'') job)) (\<lambda>j.
     Inr (truthy (jget (members b) ''force''), j))))"

definition post_cleanup_job :: "orch_env \<Rightarrow> process_end \<Rightarrow> string \<times> string \<Rightarrow> json result \<Rightarrow> job \<Rightarrow> handler_out" where
  \<comment> \<open>the \<open>try\<close> statement of the cleanup request\<close>
  "post_cleanup_job su p stamps body_in job =
     (case cleanup_begin (fst stamps) body_in job of
        Inr (force, j) \<Rightarrow>
          (let h = guarded_cleanup su p force (snd stamps) (if force then ''stopped'' else ''cleaned'') id j in
           h\<lparr>ho_saves := j # ho_saves h\<rparr>)
      | Inl e \<Rightarrow>
         (case save_job (snd stamps) (put ''error'' (JStr (su_text su e)) (put ''status'' (JStr ''cleanup_failed'') job)) of
            Inr j \<Rightarrow> \<lparr>ho_reply = Some (500, JObj [(''error'', JStr (su_text su e)), (''job'', JObj j)]), ho_saves = [j]\<rparr>
          | Inl _ \<Rightarrow> \<lparr>ho_reply = None, ho_saves = []\<rparr>))"

definition do_POST_cleanup ::
  "orch_env \<Rightarrow> string \<Rightarrow> process_end \<Rightarrow> string \<times> string \<Rightarrow> orch_request \<Rightarrow> job_files \<Rightarrow> handler_out" where
  "do_POST_cleanup su token p stamps rq files =
     (case deployment_id ''/cleanup'' (rq_path rq) of
        None \<Rightarrow> \<lparr>ho_reply = Some (404, err ''not found''), ho_saves = []\<rparr>
      | Some i \<Rightarrow> (case auth token rq of Some r \<Rightarrow> \<lparr>ho_reply = Some r, ho_saves = []\<rparr>
        | None \<Rightarrow> (case found files i of
            Inl e \<Rightarrow> \<lparr>ho_reply = None, ho_saves = []\<rparr>
          | Inr None \<Rightarrow> \<lparr>ho_reply = Some (404, err ''job not found''), ho_saves = []\<rparr>
          | Inr (Some (JObj job)) \<Rightarrow> post_cleanup_job su p stamps (rq_body rq) job
          | Inr (Some _) \<Rightarrow> \<lparr>ho_reply = None, ho_saves = []\<rparr>)))"

definition do_DELETE ::
  "orch_env \<Rightarrow> string \<Rightarrow> process_end \<Rightarrow> string \<times> string \<Rightarrow> bool \<Rightarrow> orch_request \<Rightarrow> job_files \<Rightarrow> handler_out" where
  \<comment> \<open>\<open>alive\<close>: a process of the job is registered and has not ended; it is killed\<close>
  "do_DELETE su token p stamps alive rq files =
     (case auth token rq of Some r \<Rightarrow> \<lparr>ho_reply = Some r, ho_saves = []\<rparr>
      | None \<Rightarrow> (case deployment_id [] (rq_path rq) of
          None \<Rightarrow> \<lparr>ho_reply = Some (404, err ''not found''), ho_saves = []\<rparr>
        | Some i \<Rightarrow> (case found files i of
            Inl e \<Rightarrow> \<lparr>ho_reply = None, ho_saves = []\<rparr>
          | Inr None \<Rightarrow> \<lparr>ho_reply = Some (404, err ''job not found''), ho_saves = []\<rparr>
          | Inr (Some (JObj job)) \<Rightarrow>
             (case (if alive then save_job (fst stamps) (put ''status'' (JStr ''canceling'') job) else Inr job) of
                Inl e \<Rightarrow> \<lparr>ho_reply = None, ho_saves = []\<rparr>
              | Inr j \<Rightarrow>
                  (let h = guarded_cleanup su p True (snd stamps) ''stopped'' (put ''error'' JNull) j in
                   h\<lparr>ho_saves := (if alive then [j] else []) @ ho_saves h\<rparr>))
          | Inr (Some _) \<Rightarrow> \<lparr>ho_reply = None, ho_saves = []\<rparr>)))"

section \<open>The system\<close>

text \<open>
  \<open>os_pending\<close> holds, for each running thread, the saves it has still to make; \<open>os_compose\<close> the
  compose files.
\<close>

record orch_state =
  os_files :: job_files
  os_compose :: "string dict"
  os_pending :: "job list list"

definition orch_init :: "orch_state \<Rightarrow> bool" where
  "orch_init s = (s = \<lparr>os_files = [], os_compose = [], os_pending = []\<rparr>)"

inductive orch_step :: "orch_env \<Rightarrow> string \<Rightarrow> orch_state \<Rightarrow> orch_state \<Rightarrow> bool" for su token where
  create: "do_POST_create su token ci rq = (202, reply, Some c) \<Longrightarrow> map_of (os_files s) (cr_job_id ci) = None \<Longrightarrow>
     orch_step su token s (s\<lparr>os_files := store (cd_job c) (os_files s),
       os_compose := AList.update (cd_compose_path c) (cd_compose c) (os_compose s)\<rparr>)"
    \<comment> \<open>the fresh random id names no other job\<close>
| start_run: "load_job (os_files s) i = Inr (Some j) \<Longrightarrow>
     orch_step su token s (s\<lparr>os_pending := run_job su ru j # os_pending s\<rparr>)"
| start_cleanup: "orch_step su token s (s\<lparr>os_pending := ho_saves (do_POST_cleanup su token p stamps rq (os_files s)) # os_pending s\<rparr>)"
| start_delete: "orch_step su token s (s\<lparr>os_pending := ho_saves (do_DELETE su token p stamps alive rq (os_files s)) # os_pending s\<rparr>)"
| save: "os_pending s = before @ (job # jobs) # after \<Longrightarrow>
     orch_step su token s (s\<lparr>os_files := store job (os_files s), os_pending := before @ jobs # after\<rparr>)"
| restart: "reconcile_interrupted_jobs su ri (os_files s) = (None, files) \<Longrightarrow>
     orch_step su token s (s\<lparr>os_files := files, os_pending := []\<rparr>)"
    \<comment> \<open>all threads are gone, and the recovery runs before the server listens\<close>

inductive_cases orch_stepE: "orch_step su token s t"

end
