(* ===== verification/Orch_Props.thy ===== *)
theory Orch_Props
  imports Orch_Server
begin

text \<open>
  Properties of the cluster orchestrator: what every operation keeps of a job (a locale, interpreted
  on the types of the stored fields and on the status), the recovery at a restart, the end of a
  run, the log tail, the shell script and the environment text.
\<close>

section \<open>What the operations keep of a job\<close>

definition CORE :: "string list" where
  \<comment> \<open>the fields that no operation sets after the creation, and the status\<close>
  "CORE = [''id'', ''status'', ''cluster'', ''memberImpl'', ''composePath'', ''appEnvB64'', ''nodeName'', ''box'']"

lemma map_of_put [simp]: "map_of (put k v job) k' = (if k' = k then Some v else map_of job k')"
  by (simp add: put_def update_conv')

locale job_contract =
  fixes ok :: "job \<Rightarrow> bool" and known :: "string \<Rightarrow> bool"
  assumes put_status: "ok job \<Longrightarrow> known s \<Longrightarrow> ok (put ''status'' (JStr s) job)"
    and put_other: "ok job \<Longrightarrow> k \<notin> set CORE \<Longrightarrow> ok (put k v job)"
begin

lemma put_fields:
  assumes "ok job"
  shows "ok (put ''updatedAt'' v job)" "ok (put ''statePhase'' v job)" "ok (put ''composeHash'' v job)"
    "ok (put ''vmId'' v job)" "ok (put ''appId'' v job)" "ok (put ''cleanup'' v job)" "ok (put ''logTail'' v job)"
    "ok (put ''logPath'' v job)" "ok (put ''exitCode'' v job)" "ok (put ''error'' v job)"
  by (rule put_other [OF assms], simp add: CORE_def)+

lemma absorb_ok: "ok job \<Longrightarrow> ok (absorb_state sf job)"
  by (cases sf) (simp_all add: absorb_state_def Let_def put_fields)

lemma with_log_ok: "ok job \<Longrightarrow> ok (with_log lp tail job)"
  by (simp add: with_log_def put_fields)

lemma save_ok: "save_job st job = Inr j \<Longrightarrow> ok job \<Longrightarrow> ok j"
  by (auto simp: save_job_def Let_def put_fields)

lemma cleanup_ok: "cleanup_job su p f job = Inr j \<Longrightarrow> ok job \<Longrightarrow> ok j"
  by (auto simp: cleanup_job_def split: prod.splits intro!: put_fields absorb_ok)

lemma auto_ok: "ok job \<Longrightarrow> ok (auto_cleanup su p job)"
  by (auto simp: auto_cleanup_def put_fields cleanup_ok split: sum.splits)

lemma line_ok:
  assumes "ok (rn_job r)" and "\<forall>j \<in> set (rn_saves r). ok j"
  shows "ok (rn_job (run_line lp r t)) \<and> (\<forall>j \<in> set (rn_saves (run_line lp r t)). ok j)"
proof -
  have "ok (put ''updatedAt'' v (absorb_state sf (with_log lp ls (rn_job r))))" for v sf ls
    by (intro put_fields(1) absorb_ok with_log_ok assms(1))
  then show ?thesis
    using assms by (simp add: run_line_def Let_def)
qed

lemma lines_ok:
  "ok (rn_job r) \<Longrightarrow> \<forall>j \<in> set (rn_saves r). ok j \<Longrightarrow>
    ok (rn_job (foldl (run_line lp) r ts)) \<and> (\<forall>j \<in> set (rn_saves (foldl (run_line lp) r ts)). ok j)"
proof (induction ts arbitrary: r)
  case (Cons t ts)
  show ?case
    unfolding foldl_Cons by (rule Cons.IH) (use line_ok [OF Cons.prems, of lp t] in blast)+
qed simp

lemma run_failed_ok: "ok job \<Longrightarrow> known ''failed'' \<Longrightarrow> ok (run_failed su ru e job)"
  by (simp add: run_failed_def auto_ok put_fields put_status)

lemma run_exit_ok: "ok (rn_job r) \<Longrightarrow> known ''failed'' \<Longrightarrow> known ''succeeded'' \<Longrightarrow> ok (run_exit su ru lp n r)"
  by (simp add: run_exit_def Let_def auto_ok put_fields put_status absorb_ok with_log_ok)

lemma run_body_ok:
  assumes "ok job" and "known ''running''" "known ''failed''" "known ''succeeded''"
    and "run_body su ru job = (job', saves)"
  shows "ok job' \<and> (\<forall>j \<in> set saves. ok j)"
proof -
  let ?job1 = "put ''status'' (JStr ''running'') job"
  have 1: "ok ?job1"
    using assms(1,2) by (rule put_status)
  show ?thesis
  proof (cases "save_job (ru_begin ru) ?job1")
    case (Inl e)
    then show ?thesis
      using assms 1 by (auto simp: run_body_def Let_def run_failed_ok)
  next
    case (Inr j)
    then have j: "ok j"
      using 1 by (rule save_ok)
    let ?r = "\<lambda>lp. foldl (run_line lp) \<lparr>rn_tail = [], rn_last_save = 0, rn_job = j, rn_saves = [j]\<rparr> (ru_ticks ru)"
    have r: "ok (rn_job (?r lp)) \<and> (\<forall>x \<in> set (rn_saves (?r lp)). ok x)" for lp
      using j by (intro lines_ok) simp_all
    show ?thesis
      using assms(3-5) Inr j r
      by (auto simp: run_body_def Let_def run_failed_ok run_exit_ok split: sum.splits run_end.splits)
  qed
qed

lemma run_job_ok:
  assumes "ok job" and "known ''running''" "known ''failed''" "known ''succeeded''"
    and "j \<in> set (run_job su ru (JObj job))"
  shows "ok j"
proof -
  obtain job' saves where b: "run_body su ru job = (job', saves)"
    by fastforce
  then have "ok job'" "\<forall>j \<in> set saves. ok j"
    using run_body_ok [OF assms(1-4)] by blast+
  then show ?thesis
    using assms(5) b save_ok [of _ job']
    by (auto simp: run_job_def split: if_splits sum.splits)
qed

lemma guarded_ok:
  assumes "ok job" and "known final" "known ''cleanup_failed''" and "\<And>j. ok j \<Longrightarrow> ok (extra j)"
    and "j \<in> set (ho_saves (guarded_cleanup su p f st final extra job))"
  shows "ok j"
proof -
  have bad: "ok (put ''error'' v (put ''status'' (JStr ''cleanup_failed'') job))" for v
    by (intro put_fields put_status assms)
  have good: "ok (extra (put ''status'' (JStr final) x))" if "cleanup_job su p f job = Inr x" for x
    by (intro assms(4) put_status cleanup_ok [OF that] assms)
  show ?thesis
    using assms(5) save_ok [OF _ bad] save_ok [OF _ good]
    by (auto simp: guarded_cleanup_def split: sum.splits)
qed

lemma reconcile_ok:
  assumes "reconcile_job su p sf st job = Inr (Some j)" and "ok (put ''status'' (JStr ''interrupted'') job)"
    and "known ''cleaned''"
  shows "ok j"
proof -
  let ?job1 = "absorb_state sf (put ''error'' (JStr ''orchestrator restarted before this job reached a terminal state'')
    (put ''status'' (JStr ''interrupted'') job))"
  have 1: "ok ?job1"
    by (intro absorb_ok put_fields assms)
  then have 2: "ok x" "ok (put ''status'' (JStr ''cleaned'') x)" if "cleanup_job su p False ?job1 = Inr x" for x
    using cleanup_ok [OF that] assms(3) by (simp_all add: put_status)
  show ?thesis
    using assms(1) 1 2 save_ok put_fields(6) [OF 1]
    by (auto simp: reconcile_job_def Let_def split: if_splits sum.splits)
qed

end

section \<open>Stored jobs are well typed\<close>

definition STATUSES :: "string list" where
  "STATUSES = INTERRUPTED @ [''succeeded'', ''failed'', ''interrupted'', ''cleaned'', ''stopped'', ''cleanup_failed'']"

definition text_at :: "job \<Rightarrow> string \<Rightarrow> bool" where
  "text_at job k = (case map_of job k of Some (JStr _) \<Rightarrow> True | _ \<Rightarrow> False)"

definition typed :: "string \<Rightarrow> job \<Rightarrow> bool" where
  "typed i job = (map_of job ''id'' = Some (JStr i) \<and> map_of job ''status'' \<in> Some ` JStr ` set STATUSES
     \<and> list_all (text_at job) [''cluster'', ''memberImpl'', ''composePath'', ''appEnvB64'', ''nodeName'']
     \<and> map_of job ''box'' \<in> Some ` snd ` set FLAVORS)"

lemma text_at_put: "k' \<noteq> k \<Longrightarrow> text_at (put k v job) k' = text_at job k'"
  by (simp add: text_at_def)

interpretation tj: job_contract "typed i" "\<lambda>s. s \<in> set STATUSES" for i
  by unfold_locales (auto simp: typed_def text_at_put CORE_def)

interpretation st: job_contract "\<lambda>job. map_of job ''status'' \<in> Some ` JStr ` S" "\<lambda>s. s \<in> S" for S
  by unfold_locales (auto simp: CORE_def)

lemma known_statuses [simp]:
  "''running'' \<in> set STATUSES" "''failed'' \<in> set STATUSES" "''succeeded'' \<in> set STATUSES"
  "''interrupted'' \<in> set STATUSES" "''cleaned'' \<in> set STATUSES" "''stopped'' \<in> set STATUSES"
  "''cleanup_failed'' \<in> set STATUSES" "''cleanup_running'' \<in> set STATUSES" "''canceling'' \<in> set STATUSES"
  "''queued'' \<in> set STATUSES"
  by (simp_all add: STATUSES_def INTERRUPTED_def)

lemma typed_text: "typed i job \<Longrightarrow> k \<in> set [''cluster'', ''memberImpl'', ''composePath'', ''appEnvB64'', ''nodeName''] \<Longrightarrow>
    \<exists>t. need_text job k = Inr t"
  by (auto simp: typed_def text_at_def need_text_def split: option.splits json.splits)

lemma typed_id: "typed i job \<Longrightarrow> need_text job ''id'' = Inr i"
  by (simp add: typed_def need_text_def)

lemma typed_box: "typed i job \<Longrightarrow> \<exists>b. need_obj job ''box'' = Inr b
    \<and> (\<forall>k \<in> set [''vcpu'', ''mem'', ''disk'']. \<exists>t. need_text b k = Inr t \<and> t \<noteq> [] \<and> list_all sh_plain t)"
  by (auto simp: typed_def need_obj_def need_text_def FLAVORS_def box_size_def sh_plain_def is_digit_def code_def)

lemma typed_script: "typed i job \<Longrightarrow> \<exists>script. deploy_shell cfg job body = Inr script"
proof -
  assume t: "typed i job"
  obtain a where "need_text job ''cluster'' = Inr a" using typed_text [OF t, of "''cluster''"] by auto
  moreover obtain b where "need_text job ''memberImpl'' = Inr b" using typed_text [OF t, of "''memberImpl''"] by auto
  moreover obtain c where "need_text job ''composePath'' = Inr c" using typed_text [OF t, of "''composePath''"] by auto
  moreover obtain d where "need_text job ''appEnvB64'' = Inr d" using typed_text [OF t, of "''appEnvB64''"] by auto
  moreover obtain box x y z where "need_obj job ''box'' = Inr box" "need_text box ''vcpu'' = Inr x"
      "need_text box ''mem'' = Inr y" "need_text box ''disk'' = Inr z"
    using typed_box [OF t] by auto
  ultimately show ?thesis
    by (simp only: deploy_shell_def bindR_simps) blast
qed

lemma typed_store: "typed i job \<Longrightarrow> map_of (store job files) i' = (if i' = i then Some (Some (JObj job)) else map_of files i')"
  by (simp add: store_def typed_id update_conv')

definition orch_inv :: "orch_state \<Rightarrow> bool" where
  "orch_inv s = ((\<forall>i f. map_of (os_files s) i = Some f \<longrightarrow> (\<exists>job. f = Some (JObj job) \<and> typed i job))
     \<and> (\<forall>jobs \<in> set (os_pending s). \<forall>job \<in> set jobs. \<exists>i. typed i job))"

lemma found_typed: "orch_inv s \<Longrightarrow> found (os_files s) i = Inr (Some v) \<Longrightarrow> \<exists>job. v = JObj job \<and> typed i job"
  by (auto simp: orch_inv_def found_def load_job_def split: option.splits if_splits)

lemma typed_new_job:
  assumes "box \<in> snd ` set FLAVORS"
  shows "typed (cr_job_id ci) (new_job ci ni nm so ca im fl cl mi nd cp env box)"
  using assms by (simp add: typed_def text_at_def new_job_def)

lemma flavor_box: "get_or FLAVORS flavor (jget FLAVORS ''medium'') \<in> snd ` set FLAVORS"
  by (simp add: get_or_def FLAVORS_def)

lemma create_typed:
  assumes "create_job su ci body_in = Inr c"
  shows "typed (cr_job_id ci) (cd_job c)"
  using assms unfolding create_job_def Let_def bindR_eq_Inr
  apply (elim exE conjE)
  apply (simp only: sum.inject)
  apply hypsubst
  apply (simp only: created.select_convs)
  apply (erule tj.save_ok, rule typed_new_job, rule flavor_box)
  done

lemma post_cleanup_typed:
  assumes t: "typed i job" and "j \<in> set (ho_saves (post_cleanup_job su p stamps body_in job))"
  shows "typed i j"
proof (cases "cleanup_begin (fst stamps) body_in job")
  case (Inl e)
  have "typed i x" if "save_job st (put ''error'' v (put ''status'' (JStr ''cleanup_failed'') job)) = Inr x" for st v x
    by (rule tj.save_ok [OF that]) (intro tj.put_fields tj.put_status t known_statuses)
  then show ?thesis
    using assms(2) Inl by (auto simp: post_cleanup_job_def split: sum.splits)
next
  case (Inr fj)
  then obtain f x where fj: "fj = (f, x)" by (cases fj)
  have x: "typed i x"
    using Inr unfolding fj cleanup_begin_def
    by (auto intro!: tj.save_ok [where job = "put ''status'' (JStr ''cleanup_running'') job"] tj.put_status t)
  have "typed i y" if "y \<in> set (ho_saves (guarded_cleanup su p f st (if f then ''stopped'' else ''cleaned'') id x))" for y st
    by (rule tj.guarded_ok [OF x _ _ _ that]) simp_all
  then show ?thesis
    using assms(2) Inr x by (auto simp: post_cleanup_job_def fj Let_def)
qed

lemma cleanup_saves_typed:
  assumes "orch_inv s" and "j \<in> set (ho_saves (do_POST_cleanup su token p stamps rq (os_files s)))"
  shows "\<exists>i. typed i j"
proof -
  obtain i job where "found (os_files s) i = Inr (Some (JObj job))"
    and "j \<in> set (ho_saves (post_cleanup_job su p stamps (rq_body rq) job))"
    using assms(2) by (auto simp: do_POST_cleanup_def split: option.splits sum.splits json.splits)
  then show ?thesis
    using found_typed [OF assms(1)] post_cleanup_typed by blast
qed

lemma delete_saves_typed:
  assumes "orch_inv s" and "j \<in> set (ho_saves (do_DELETE su token p stamps alive rq (os_files s)))"
  shows "\<exists>i. typed i j"
proof (cases "auth token rq = None \<and> deployment_id [] (rq_path rq) \<noteq> None")
  case True
  then obtain i where path: "auth token rq = None" "deployment_id [] (rq_path rq) = Some i"
    by auto
  then obtain v where "found (os_files s) i = Inr (Some v)"
    using assms(2) by (auto simp: do_DELETE_def split: sum.splits option.splits)
  then obtain job where f: "found (os_files s) i = Inr (Some (JObj job))" and t: "typed i job"
    using found_typed [OF assms(1)] by blast
  have run: "typed i x" if "save_job st (put ''status'' (JStr ''canceling'') job) = Inr x" for st x
    by (rule tj.save_ok [OF that]) (intro tj.put_status t known_statuses)
  have fin: "typed i x" if "x \<in> set (ho_saves (guarded_cleanup su p f st ''stopped'' (put ''error'' JNull) y))" "typed i y" for x y f st
    by (rule tj.guarded_ok [OF that(2) _ _ _ that(1)]) (simp_all add: tj.put_fields)
  show ?thesis
    using assms(2) path f
    by (simp add: do_DELETE_def Let_def split: sum.splits if_splits) (metis t run fin)+
qed (use assms(2) in \<open>auto simp: do_DELETE_def split: option.splits\<close>)

lemma run_saves_typed:
  assumes "orch_inv s" and "load_job (os_files s) i = Inr (Some v)" and "j \<in> set (run_job su ru v)"
  shows "\<exists>i. typed i j"
proof -
  obtain job where "v = JObj job" and t: "typed i job"
    using assms(1,2) by (auto simp: orch_inv_def load_job_def split: option.splits)
  then show ?thesis
    using tj.run_job_ok [OF t] assms(3) by auto
qed

definition resting :: "job \<Rightarrow> bool" where
  "resting job = (map_of job ''status'' \<notin> Some ` JStr ` set INTERRUPTED)"

lemma typed_save: "typed i job \<Longrightarrow> save_job st job = Inr (put ''updatedAt'' (JStr st) job)"
  using typed_id [OF tj.put_fields(1)] by (simp add: save_job_def)

lemma typed_status: "typed i job \<Longrightarrow> \<exists>s. map_of job ''status'' = Some (JStr s)"
  by (auto simp: typed_def)

lemma reconcile_resting: "typed i job \<Longrightarrow> resting job \<Longrightarrow> reconcile_job su p sf st job = Inr None"
  using typed_status [of i job] by (auto simp: reconcile_job_def resting_def get_or_def hashable_def)

lemma reconcile_interrupted:
  assumes t: "typed i job" and "\<not> resting job"
  shows "\<exists>j. reconcile_job su p sf st job = Inr (Some j) \<and> typed i j \<and> resting j"
proof -
  let ?job0 = "put ''status'' (JStr ''interrupted'') job"
  let ?job1 = "absorb_state sf (put ''error'' (JStr ''orchestrator restarted before this job reached a terminal state'') ?job0)"
  have t0: "typed i ?job0"
    by (intro tj.put_status t known_statuses)
  have t1: "typed i ?job1"
    by (intro tj.absorb_ok tj.put_fields t0)
  have t2: "typed i x" "typed i (put ''status'' (JStr ''cleaned'') x)" if "cleanup_job su p False ?job1 = Inr x" for x
    using tj.cleanup_ok [OF that t1] by (simp_all add: tj.put_status)
  let ?job2 = "if su_auto su
              then (case cleanup_job su p False ?job1 of
                      Inl e \<Rightarrow> put ''cleanup'' (cleanup_failed (su_text su e)) ?job1
                    | Inr j \<Rightarrow> if jget (members (jget j ''cleanup'')) ''status'' = JStr ''succeeded''
                        then put ''status'' (JStr ''cleaned'') j else j)
              else ?job1"
  have "typed i ?job2"
    using t1 t2 tj.put_fields(6) [OF t1] by (simp split: sum.split)
  then have "save_job st ?job2 = Inr (put ''updatedAt'' (JStr st) ?job2)"
    by (rule typed_save)
  then obtain j where j: "reconcile_job su p sf st job = Inr (Some j)"
    using assms(2) typed_status [OF t]
    by (auto simp: reconcile_job_def resting_def get_or_def hashable_def Let_def)
  then have "typed i j"
    by (rule tj.reconcile_ok) (simp_all add: t0)
  moreover have "map_of j ''status'' \<in> Some ` JStr ` {''interrupted'', ''cleaned''}"
    by (rule st.reconcile_ok [OF j]) simp_all
  then have "resting j"
    by (auto simp: resting_def INTERRUPTED_def)
  ultimately show ?thesis
    using j by blast
qed

definition files_typed :: "job_files \<Rightarrow> bool" where
  "files_typed files = (\<forall>i f. map_of files i = Some f \<longrightarrow> (\<exists>job. f = Some (JObj job) \<and> typed i job))"

lemma files_typedD: "files_typed files \<Longrightarrow> map_of files i = Some f \<Longrightarrow> \<exists>job. f = Some (JObj job) \<and> typed i job"
  by (simp add: files_typed_def)

definition recovered :: "string list \<Rightarrow> job_files \<Rightarrow> job_files \<Rightarrow> bool" where
  "recovered names files files' \<longleftrightarrow> files_typed files'
     \<and> (\<forall>i. map_of files' i = None \<longleftrightarrow> map_of files i = None)
     \<and> (\<forall>i job. map_of files i = Some (Some (JObj job)) \<and> resting job \<longrightarrow> map_of files' i = Some (Some (JObj job)))
     \<and> (\<forall>i job. i \<in> set names \<and> map_of files' i = Some (Some (JObj job)) \<longrightarrow> resting job)"

lemma recovered_kept:
  "recovered names files files' \<Longrightarrow> map_of files i = Some (Some (JObj job)) \<Longrightarrow> resting job \<Longrightarrow> map_of files' i = Some (Some (JObj job))"
  unfolding recovered_def by blast

lemma recovered_resting:
  "recovered names files files' \<Longrightarrow> i \<in> set names \<Longrightarrow> map_of files' i = Some (Some (JObj job)) \<Longrightarrow> resting job"
  unfolding recovered_def by blast

lemma recovered_None: "recovered names files files' \<Longrightarrow> map_of files' i = None \<longleftrightarrow> map_of files i = None"
  unfolding recovered_def by blast

lemma recovered_skip:
  assumes "recovered names files files'"
    and "map_of files name = None \<or> (\<exists>job. map_of files name = Some (Some (JObj job)) \<and> resting job)"
  shows "recovered (name # names) files files'"
proof -
  have "resting job" if "map_of files' name = Some (Some (JObj job))" for job
    using assms that unfolding recovered_def by (metis json.inject(6) option.distinct(1) option.inject)
  then show ?thesis
    using assms(1) unfolding recovered_def set_simps by blast
qed

lemma recovered_store:
  assumes "recovered names (store j files) files'" and "typed name j" "resting j"
    and "map_of files name = Some (Some (JObj job))" "\<not> resting job"
  shows "recovered (name # names) files files'"
proof -
  have look: "map_of (store j files) i = (if i = name then Some (Some (JObj j)) else map_of files i)" for i
    by (rule typed_store [OF assms(2)])
  have n: "map_of files' name = Some (Some (JObj j))"
    by (rule recovered_kept [OF assms(1) _ assms(3)]) (simp add: look)
  show ?thesis
    unfolding recovered_def
  proof (intro conjI allI impI)
    show "files_typed files'"
      using assms(1) by (simp add: recovered_def)
    show "(map_of files' i = None) = (map_of files i = None)" for i
      using recovered_None [OF assms(1), of i] assms(4) by (cases "i = name") (simp_all add: look)
    show "map_of files' i = Some (Some (JObj x))" if "map_of files i = Some (Some (JObj x)) \<and> resting x" for i x
      using recovered_kept [OF assms(1), of i x] assms(4,5) that by (cases "i = name") (simp_all add: look)
    show "resting x" if "i \<in> set (name # names) \<and> map_of files' i = Some (Some (JObj x))" for i x
      using recovered_resting [OF assms(1), of i x] assms(3) n that by (cases "i = name") simp_all
  qed
qed

lemma reconcile_files_facts:
  "files_typed files \<Longrightarrow> \<exists>files'. reconcile_files su ri names files = (None, files') \<and> recovered names files files'"
proof (induction names arbitrary: files)
  case (Cons name names)
  show ?case
  proof (cases "map_of files name = None \<or> (\<exists>job. map_of files name = Some (Some (JObj job)) \<and> resting job)")
    case True
    have "reconcile_files su ri (name # names) files = reconcile_files su ri names files"
      using True
    proof
      assume "\<exists>job. map_of files name = Some (Some (JObj job)) \<and> resting job"
      then obtain job where job: "map_of files name = Some (Some (JObj job))" "resting job" by blast
      then have "typed name job"
        using files_typedD [OF Cons.prems job(1)] by simp
      then show ?thesis
        using job by (simp add: reconcile_resting)
    qed simp
    then show ?thesis
      using Cons.IH [OF Cons.prems] recovered_skip [OF _ True] by metis
  next
    case False
    then obtain job where job: "map_of files name = Some (Some (JObj job))" "typed name job" "\<not> resting job"
      using files_typedD [OF Cons.prems, of name] by (cases "map_of files name") auto
    obtain j where j: "reconcile_job su (ri_process ri name) (ri_state ri name) (ri_stamp ri name) job = Inr (Some j)"
        "typed name j" "resting j"
      using reconcile_interrupted [OF job(2,3)] by blast
    have "files_typed (store j files)"
      using Cons.prems j(2) by (auto simp: files_typed_def typed_store)
    then obtain files' where n: "reconcile_files su ri names (store j files) = (None, files')" "recovered names (store j files) files'"
      using Cons.IH by blast
    then show ?thesis
      using job(1) j(1) recovered_store [OF n(2) j(2,3) job(1,3)] by simp
  qed
qed (simp add: recovered_def)

section \<open>Reachable states\<close>

lemma orch_inv_files: "orch_inv s \<longleftrightarrow> files_typed (os_files s) \<and> (\<forall>jobs \<in> set (os_pending s). \<forall>job \<in> set jobs. \<exists>i. typed i job)"
  by (simp add: orch_inv_def files_typed_def)

lemma files_typed_store: "files_typed files \<Longrightarrow> typed i job \<Longrightarrow> files_typed (store job files)"
  by (auto simp: files_typed_def typed_store)

interpretation os: invariant_system orch_init "orch_step su token" orch_inv for su token
proof
  fix s :: orch_state
  assume "orch_init s"
  then show "orch_inv s"
    by (simp add: orch_init_def orch_inv_def)
next
  fix s t
  assume inv: "orch_inv s" and "orch_step su token s t"
  from this(2) show "orch_inv t"
  proof cases
    case (create ci rq reply c)
    then have "create_job su ci (rq_body rq) = Inr c"
      by (auto simp: do_POST_create_def split: if_splits option.splits sum.splits)
    then show ?thesis
      using inv create(1) files_typed_store [OF _ create_typed] by (auto simp: orch_inv_files)
  next
    case (start_run i j ru)
    then show ?thesis
      using inv run_saves_typed [OF inv] by (auto simp: orch_inv_files)
  next
    case (start_cleanup p stamps rq)
    then show ?thesis
      using inv cleanup_saves_typed [OF inv] by (auto simp: orch_inv_files)
  next
    case (start_delete p stamps alive rq)
    then show ?thesis
      using inv delete_saves_typed [OF inv] by (auto simp: orch_inv_files)
  next
    case (save before job jobs after)
    then show ?thesis
      using inv files_typed_store by (auto simp: orch_inv_files)
  next
    case (restart ri files)
    then show ?thesis
      using inv reconcile_files_facts [of "os_files s" su ri "map fst (os_files s)"]
      by (auto simp: orch_inv_files reconcile_interrupted_jobs_def recovered_def)
  qed
qed


text \<open>
  Restart recovery. From every reachable state, the recovery at a start succeeds whatever the
  cleanup scripts do, loses no job, leaves no job queued, running, being cancelled or being cleaned,
  and does not touch the jobs that were already at rest.
\<close>

theorem restart_recovers_jobs:
  assumes "reach orch_init (orch_step su token) s"
  shows "\<exists>files. reconcile_interrupted_jobs su ri (os_files s) = (None, files)
    \<and> (\<forall>i. map_of files i = None \<longleftrightarrow> map_of (os_files s) i = None)
    \<and> (\<forall>i job. map_of files i = Some (Some (JObj job)) \<longrightarrow> resting job)
    \<and> (\<forall>i job. map_of (os_files s) i = Some (Some (JObj job)) \<and> resting job \<longrightarrow> map_of files i = Some (Some (JObj job)))"
proof -
  have "files_typed (os_files s)"
    using os.reach_invar [OF assms] by (simp add: orch_inv_files)
  then obtain files where f: "reconcile_files su ri (map fst (os_files s)) (os_files s) = (None, files)"
      "recovered (map fst (os_files s)) (os_files s) files"
    using reconcile_files_facts by blast
  have "i \<in> set (map fst (os_files s))" if "map_of files i = Some x" for i x
    using that recovered_None [OF f(2), of i] by (cases "map_of (os_files s) i") (auto simp: map_of_eq_None_iff dest!: map_of_SomeD intro: rev_image_eqI)
  then have "resting job" if "map_of files i = Some (Some (JObj job))" for i job
    using recovered_resting [OF f(2)] that by blast
  then show ?thesis
    using f(1) recovered_None [OF f(2)] recovered_kept [OF f(2)]
    by (intro exI [of _ files] conjI allI impI) (simp_all only: reconcile_interrupted_jobs_def)
qed

end
