(* ===== verification/Orch_Checks.thy ===== *)
theory Orch_Checks
  imports Orch_Props
begin

text \<open>
  The remaining properties of the cluster orchestrator: how a deployment run ends and what log it
  keeps, the shell script, names and environment text, and three behaviours of the handlers that
  a caller would not expect.
\<close>

section \<open>Runs\<close>

definition output_lines :: "run_input \<Rightarrow> string list" where
  "output_lines ru = map (\<lambda>t. rstrip_on (\<lambda>c. c = newline) (tk_line t)) (ru_ticks ru)"

lemma length_last_n [simp]: "length (last_n n xs) = min n (length xs)"
  by (simp add: last_n_def)

lemma last_n_last_n: "m \<le> n \<Longrightarrow> last_n m (last_n n xs) = last_n m xs"
  by (simp add: last_n_def drop_drop) (rule arg_cong [of _ _ "\<lambda>k. drop k xs"], simp)

lemma last_n_snoc: "last_n 80 (last_n 80 xs @ [x]) = last_n 80 (xs @ [x])"
  by (simp add: last_n_def) (rule arg_cong [of _ _ "\<lambda>k. drop k xs"], arith)

lemma last_n_short: "length xs \<le> n \<Longrightarrow> last_n n xs = xs"
  by (simp add: last_n_def)

lemma run_line_tail: "rn_tail (run_line lp r t) = last_n 80 (rn_tail r @ [rstrip_on (\<lambda>c. c = newline) (tk_line t)])"
  by (simp add: run_line_def Let_def last_n_short)

lemma run_lines_tail:
  "rn_tail r = last_n 80 seen \<Longrightarrow>
   rn_tail (foldl (run_line lp) r ts) = last_n 80 (seen @ map (\<lambda>t. rstrip_on (\<lambda>c. c = newline) (tk_line t)) ts)"
proof (induction ts arbitrary: r seen)
  case (Cons t ts)
  then show ?case
    using Cons.IH [of "run_line lp r t" "seen @ [rstrip_on (\<lambda>c. c = newline) (tk_line t)]"]
    by (simp add: run_line_tail last_n_snoc)
qed simp

lemma log_text_tail: "log_text (last_n 80 ls) = log_text ls"
  by (simp add: log_text_def last_n_last_n)

lemma log_kept:
  "map_of (absorb_state sf job) ''logTail'' = map_of job ''logTail''"
  "cleanup_job su p f job = Inr j \<Longrightarrow> map_of j ''logTail'' = map_of job ''logTail''"
  "map_of (auto_cleanup su p job) ''logTail'' = map_of job ''logTail''"
proof -
  show a: "map_of (absorb_state sf job) ''logTail'' = map_of job ''logTail''" for sf job
    by (cases sf) (simp_all add: absorb_state_def Let_def)
  show c: "cleanup_job su p f job = Inr j \<Longrightarrow> map_of j ''logTail'' = map_of job ''logTail''" for f job j
    by (auto simp: cleanup_job_def a split: prod.splits)
  show "map_of (auto_cleanup su p job) ''logTail'' = map_of job ''logTail''"
    by (simp add: auto_cleanup_def c split: sum.splits)
qed

lemma run_exit_log: "map_of (run_exit su ru lp n r) ''logTail'' = Some (JStr (log_text (rn_tail r)))"
  by (simp add: run_exit_def Let_def log_kept with_log_def)

lemma auto_status:
  "map_of job ''status'' = Some (JStr s) \<Longrightarrow> map_of (auto_cleanup su p job) ''status'' = Some (JStr s)"
  using st.auto_ok [of job "{s}" su p] by auto

lemma run_exit_status:
  "map_of (run_exit su ru lp n r) ''status'' = Some (JStr (if n = 0 then ''succeeded'' else ''failed''))"
  by (simp add: run_exit_def Let_def auto_status)

lemma run_failed_status: "map_of (run_failed su ru e job) ''status'' = Some (JStr ''failed'')"
  by (simp add: run_failed_def auto_status)

lemma run_body_typed:
  assumes "typed i job"
  obtains job' saves where "run_body su ru job = (job', saves)" "typed i job'" "saves \<noteq> []"
    "\<forall>j \<in> set saves. map_of j ''status'' = Some (JStr ''running'')"
    "map_of job' ''status'' = Some (JStr (if ru_end ru = Exited 0 then ''succeeded'' else ''failed''))"
    "\<And>n. ru_end ru = Exited n \<Longrightarrow> map_of job' ''logTail'' = Some (JStr (log_text (output_lines ru)))"
proof -
  let ?job1 = "put ''updatedAt'' (JStr (ru_begin ru)) (put ''status'' (JStr ''running'') job)"
  have t: "typed i (put ''status'' (JStr ''running'') job)" and t1: "typed i ?job1"
    by (intro tj.put_fields tj.put_status assms known_statuses)+
  obtain node where node: "need_text ?job1 ''nodeName'' = Inr node"
    using typed_text [OF t1, of "''nodeName''"] by auto
  obtain script where script: "deploy_shell (su_config su) ?job1 (deploy_script node) = Inr script"
    using typed_script [OF t1] by blast
  let ?lp = "su_logs su @ ''/orchestrator-'' @ node @ ''.log''"
  let ?r = "foldl (run_line ?lp) \<lparr>rn_tail = [], rn_last_save = 0, rn_job = ?job1, rn_saves = [?job1]\<rparr> (ru_ticks ru)"
  have form: "run_body su ru job = ((case ru_end ru of Broke e \<Rightarrow> run_failed su ru e (rn_job ?r)
      | Exited n \<Rightarrow> run_exit su ru ?lp n ?r), rn_saves ?r)"
    using node script by (simp add: run_body_def typed_save [OF t] Let_def split: run_end.splits)
  have "\<forall>j \<in> set (rn_saves ?r). map_of j ''status'' \<in> Some ` JStr ` {''running''}"
    by (rule conjunct2, rule st.lines_ok) simp_all
  then have "\<forall>j \<in> set (rn_saves ?r). map_of j ''status'' = Some (JStr ''running'')"
    by blast
  moreover have "rn_saves ?r \<noteq> []"
  proof -
    have "rn_saves (foldl (run_line ?lp) r ts) \<noteq> []" if "rn_saves r \<noteq> []" for r ts
      using that by (induction ts arbitrary: r) (auto simp: run_line_def Let_def)
    then show ?thesis by simp
  qed
  moreover have "rn_tail ?r = last_n 80 (output_lines ru)"
    using run_lines_tail [of _ "[]" ?lp "ru_ticks ru"] by (simp add: output_lines_def last_n_def)
  ultimately show ?thesis
    using that form tj.run_body_ok [OF assms _ _ _ form]
    by (auto simp: run_exit_status run_failed_status run_exit_log log_text_tail split: run_end.splits)
qed

text \<open>
  C20: Every run ends. Whatever the deployment process prints, however it ends or fails to start,
  and whatever the automatic cleanup does, a run of a stored job first saves it as running, and
  finally saves it once as succeeded (exactly when the process exited with zero) or failed; after a
  process that exited, its log tail is the last forty lines of all the output, although the run keeps
  no more than eighty lines and saves at most every two seconds.
\<close>

theorem run_job_ends:
  assumes "typed i job"
  shows "\<exists>before j. run_job su ru (JObj job) = before @ [j] \<and> before \<noteq> [] \<and> typed i j
    \<and> (\<forall>x \<in> set before. map_of x ''status'' = Some (JStr ''running''))
    \<and> map_of j ''status'' = Some (JStr (if ru_end ru = Exited 0 then ''succeeded'' else ''failed''))
    \<and> (\<forall>n. ru_end ru = Exited n \<longrightarrow> map_of j ''logTail'' = Some (JStr (join [newline] (last_n 40 (output_lines ru)))))"
proof -
  obtain job' saves where b: "run_body su ru job = (job', saves)" "typed i job'" "saves \<noteq> []"
    "\<forall>j \<in> set saves. map_of j ''status'' = Some (JStr ''running'')"
    "map_of job' ''status'' = Some (JStr (if ru_end ru = Exited 0 then ''succeeded'' else ''failed''))"
    "\<And>n. ru_end ru = Exited n \<Longrightarrow> map_of job' ''logTail'' = Some (JStr (log_text (output_lines ru)))"
    using run_body_typed [OF assms] by metis
  have "job \<noteq> []"
    using assms by (auto simp: typed_def)
  then have "run_job su ru (JObj job) = saves @ [put ''updatedAt'' (JStr (ru_stamp ru)) job']"
    by (simp add: run_job_def b(1) typed_save [OF b(2)])
  then show ?thesis
    using b(3-6) tj.put_fields(1) [OF b(2)]
    by (intro exI [of _ saves] exI [of _ "put ''updatedAt'' (JStr (ru_stamp ru)) job'"]) (auto simp: log_text_def)
qed

section \<open>The shell script\<close>

lemma add_word_simps [simp]: "add_word None cmds = cmds" "add_word (Some w) (c # cs) = (w # c) # cs"
  by (simp_all add: add_word_def)

lemma map_option_add_None [simp]: "map_option (add_word None) x = x"
  by (cases x) simp_all

lemma sh_read_word_blank:
  "list_all sh_plain w \<Longrightarrow> w \<noteq> [] \<Longrightarrow> sh_read Bare None (w @ '' '' @ rest) = map_option (add_word (Some w)) (sh_read Bare None rest)"
  using sh_read_plain [of w None "'' '' @ rest"] by simp

lemma sh_read_word_semi:
  "list_all sh_plain w \<Longrightarrow> w \<noteq> [] \<Longrightarrow> sh_read Bare None (w @ ''; '' @ rest) = map_option (\<lambda>cmds. add_word (Some w) ([] # cmds)) (sh_read Bare None rest)"
  using sh_read_plain [of w None "''; '' @ rest"] by simp

lemma sh_read_set_blank:
  "list_all sh_plain w \<Longrightarrow> w \<noteq> [] \<Longrightarrow>
   sh_read Bare None (w @ shell_quote v @ '' '' @ rest) = map_option (add_word (Some (w @ v))) (sh_read Bare None rest)"
  using sh_read_plain [of w None "shell_quote v @ '' '' @ rest"] sh_read_quote [of "Some w" v "'' '' @ rest"] by simp

lemma sh_read_set_semi:
  "list_all sh_plain w \<Longrightarrow> w \<noteq> [] \<Longrightarrow>
   sh_read Bare None (w @ shell_quote v @ ''; '' @ rest) = map_option (\<lambda>cmds. add_word (Some (w @ v)) ([] # cmds)) (sh_read Bare None rest)"
  using sh_read_plain [of w None "shell_quote v @ ''; '' @ rest"] sh_read_quote [of "Some w" v "''; '' @ rest"] by simp

lemma sh_read_plain_blank:
  "list_all sh_plain w \<Longrightarrow> w \<noteq> [] \<Longrightarrow> list_all sh_plain v \<Longrightarrow>
   sh_read Bare None (w @ v @ '' '' @ rest) = map_option (add_word (Some (w @ v))) (sh_read Bare None rest)"
  using sh_read_word_blank [of "w @ v" rest] by simp

lemma sh_read_plain_semi:
  "list_all sh_plain w \<Longrightarrow> w \<noteq> [] \<Longrightarrow> list_all sh_plain v \<Longrightarrow>
   sh_read Bare None (w @ v @ ''; '' @ rest) = map_option (\<lambda>cmds. add_word (Some (w @ v)) ([] # cmds)) (sh_read Bare None rest)"
  using sh_read_word_semi [of "w @ v" rest] by simp

lemma option_map_map: "map_option f (map_option g x) = map_option (\<lambda>y. f (g y)) x"
  by (cases x) simp_all

lemma node_command_words:
  assumes "list_all sh_plain verb" "verb \<noteq> []"
  shows "sh_read Bare None (node_command node verb @ ''; '' @ rest)
      = map_option ((#) [''deploy/generic-node.sh'', node, verb]) (sh_read Bare None rest)"
    and "sh_read Bare None (node_command node verb) = Some [[''deploy/generic-node.sh'', node, verb]]"
proof -
  have w: "list_all sh_plain ''deploy/generic-node.sh''"
    by code_simp
  have first: "sh_read Bare None (node_command node verb @ rest)
     = map_option (add_word (Some ''deploy/generic-node.sh'')) (map_option (add_word (Some node)) (sh_read Bare None (verb @ rest)))" for rest
    using sh_read_word_blank [OF w, of "shell_quote node @ '' '' @ verb @ rest"] sh_read_quote [of None node "'' '' @ verb @ rest"]
    by (simp add: node_command_def)
  show "sh_read Bare None (node_command node verb @ ''; '' @ rest)
      = map_option ((#) [''deploy/generic-node.sh'', node, verb]) (sh_read Bare None rest)"
    unfolding first sh_read_word_semi [OF assms] by (simp add: option_map_map comp_def)
  show "sh_read Bare None (node_command node verb) = Some [[''deploy/generic-node.sh'', node, verb]]"
    using first [of "[]"] sh_read_plain [OF assms(1), of None "[]"] assms(2) by simp
qed

lemma script_words_plain:
  "list_all sh_plain ''set''" "list_all sh_plain ''-euo''" "list_all sh_plain ''pipefail''" "list_all sh_plain ''source''"
  "list_all sh_plain ''deploy/env.sh''" "list_all sh_plain ''export''" "list_all sh_plain ''RPC_URL=''"
  "list_all sh_plain ''BUNDLER_URL=''" "list_all sh_plain ''GAS_POLICY_ID=''" "list_all sh_plain ''BOX_RPC=''"
  "list_all sh_plain ''CLUSTER=''" "list_all sh_plain ''MEMBER_IMPL=''" "list_all sh_plain ''COMPOSE=''"
  "list_all sh_plain ''APP_ENV_B64=''" "list_all sh_plain ''BOX_VCPU=''" "list_all sh_plain ''BOX_MEM=''"
  "list_all sh_plain ''BOX_DISK=''"
  by code_simp+

lemmas sh_read_words = sh_read_word_blank sh_read_word_semi sh_read_set_blank sh_read_set_semi
  sh_read_plain_blank sh_read_plain_semi option_map_map add_word_simps

lemma deploy_shell_words:
  assumes "need_text job ''cluster'' = Inr cluster" "need_text job ''memberImpl'' = Inr member_impl"
    and "need_text job ''composePath'' = Inr compose_path" "need_text job ''appEnvB64'' = Inr app_env"
    and "need_obj job ''box'' = Inr box" "need_text box ''vcpu'' = Inr vcpu" "need_text box ''mem'' = Inr mem" "need_text box ''disk'' = Inr disk"
    and plain: "list_all sh_plain vcpu" "list_all sh_plain mem" "list_all sh_plain disk"
    and "deploy_shell cfg job body = Inr script"
  shows "sh_commands script = map_option (\<lambda>cmds.
     [[''set'', ''-euo'', ''pipefail''], [''source'', ''deploy/env.sh''],
      [''export'', ''RPC_URL='' @ rpc_url cfg], [''export'', ''BUNDLER_URL='' @ bundler_url cfg],
      [''export'', ''GAS_POLICY_ID='' @ gas_policy_id cfg], [''export'', ''BOX_RPC='' @ box_rpc cfg],
      [''export'', ''CLUSTER='' @ cluster, ''MEMBER_IMPL='' @ member_impl],
      [''export'', ''COMPOSE='' @ compose_path, ''APP_ENV_B64='' @ app_env],
      [''export'', ''BOX_VCPU='' @ vcpu, ''BOX_MEM='' @ mem, ''BOX_DISK='' @ disk]] @ cmds) (sh_commands body)"
proof -
  have eq: "script = ''set'' @ '' '' @ ''-euo'' @ '' '' @ ''pipefail'' @ ''; '' @ ''source'' @ '' '' @ ''deploy/env.sh'' @ ''; ''
      @ ''export'' @ '' '' @ ''RPC_URL='' @ shell_quote (rpc_url cfg) @ ''; ''
      @ ''export'' @ '' '' @ ''BUNDLER_URL='' @ shell_quote (bundler_url cfg) @ ''; ''
      @ ''export'' @ '' '' @ ''GAS_POLICY_ID='' @ shell_quote (gas_policy_id cfg) @ ''; ''
      @ ''export'' @ '' '' @ ''BOX_RPC='' @ shell_quote (box_rpc cfg) @ ''; ''
      @ ''export'' @ '' '' @ ''CLUSTER='' @ shell_quote cluster @ '' '' @ ''MEMBER_IMPL='' @ shell_quote member_impl @ ''; ''
      @ ''export'' @ '' '' @ ''COMPOSE='' @ shell_quote compose_path @ '' '' @ ''APP_ENV_B64='' @ shell_quote app_env @ ''; ''
      @ ''export'' @ '' '' @ ''BOX_VCPU='' @ vcpu @ '' '' @ ''BOX_MEM='' @ mem @ '' '' @ ''BOX_DISK='' @ disk @ ''; ''
      @ body"
    using assms(12) unfolding deploy_shell_def assms(1-8) bindR_simps by simp
  show ?thesis
    unfolding eq sh_commands_def
    by (simp only: sh_read_words script_words_plain plain list.distinct simp_thms)
      (cases "sh_read Bare None body", simp_all)
qed

lemma deploy_script_words:
  "sh_commands (deploy_script node) = Some (map (\<lambda>v. [''deploy/generic-node.sh'', node, v])
     [''preflight'', ''deploy'', ''prime'', ''bind'', ''start'', ''register-direct'', ''verify''])"
proof -
  have verbs: "list_all sh_plain ''preflight''" "list_all sh_plain ''deploy''" "list_all sh_plain ''prime''" "list_all sh_plain ''bind''"
      "list_all sh_plain ''start''" "list_all sh_plain ''register-direct''" "list_all sh_plain ''verify''"
    by code_simp+
  have eq: "deploy_script node = node_command node ''preflight'' @ ''; '' @ node_command node ''deploy'' @ ''; '' @ node_command node ''prime''
      @ ''; '' @ node_command node ''bind'' @ ''; '' @ node_command node ''start'' @ ''; '' @ node_command node ''register-direct''
      @ ''; '' @ node_command node ''verify''"
    by (simp add: deploy_script_def join_def)
  show ?thesis
    unfolding eq sh_commands_def
    by (simp only: node_command_words(1) [OF verbs(1)] node_command_words(1) [OF verbs(2)] node_command_words(1) [OF verbs(3)]
      node_command_words(1) [OF verbs(4)] node_command_words(1) [OF verbs(5)] node_command_words(1) [OF verbs(6)]
      node_command_words(2) [OF verbs(7)] list.distinct option.map list.map simp_thms not_False_eq_True)
qed

lemma need_text_Inr: "need_text job k = Inr v \<longleftrightarrow> map_of job k = Some (JStr v)"
  by (auto simp: need_text_def split: option.splits json.splits)

definition deploy_commands ::
  "deploy_config \<Rightarrow> string \<Rightarrow> string \<Rightarrow> string \<Rightarrow> string \<Rightarrow> string \<times> string \<times> string \<Rightarrow> string \<Rightarrow> string list list" where
  \<comment> \<open>the intended commands, as words\<close>
  "deploy_commands cfg cluster member_impl compose_path app_env sizes node = (case sizes of (vcpu, mem, disk) \<Rightarrow>
     [[''set'', ''-euo'', ''pipefail''], [''source'', ''deploy/env.sh''],
      [''export'', ''RPC_URL='' @ rpc_url cfg], [''export'', ''BUNDLER_URL='' @ bundler_url cfg],
      [''export'', ''GAS_POLICY_ID='' @ gas_policy_id cfg], [''export'', ''BOX_RPC='' @ box_rpc cfg],
      [''export'', ''CLUSTER='' @ cluster, ''MEMBER_IMPL='' @ member_impl],
      [''export'', ''COMPOSE='' @ compose_path, ''APP_ENV_B64='' @ app_env],
      [''export'', ''BOX_VCPU='' @ vcpu, ''BOX_MEM='' @ mem, ''BOX_DISK='' @ disk]]
     @ map (\<lambda>v. [''deploy/generic-node.sh'', node, v])
         [''preflight'', ''deploy'', ''prime'', ''bind'', ''start'', ''register-direct'', ''verify''])"


section \<open>Environment text\<close>

definition entry_ok :: "string \<times> string \<Rightarrow> bool" where
  "entry_ok kv = (case kv of (k, v) \<Rightarrow> is_ident k \<and> list_all (\<lambda>c. \<not> is_break c) v \<and> (v = [] \<or> \<not> is_space (last v)))"

lemma ident_char: "ident_start c \<or> is_digit c \<Longrightarrow> \<not> is_space c \<and> \<not> is_break c \<and> c \<noteq> CHR ''='' \<and> c \<noteq> CHR ''#''"
  by (auto simp: ident_start_def is_digit_def is_lower_def is_upper_def is_space_def is_break_def Let_def code_def)

lemma ident_chars: "is_ident k \<Longrightarrow> c \<in> set k \<Longrightarrow> ident_start c \<or> is_digit c"
  by (auto simp: is_ident_def list_all_iff split: list.splits)

lemma ident_not_Nil: "is_ident k \<Longrightarrow> k \<noteq> []"
  by (auto simp: is_ident_def)

lemma ident_hd: "is_ident k \<Longrightarrow> \<exists>c cs. k = c # cs \<and> \<not> is_space c \<and> c \<noteq> CHR ''#''"
  by (cases k) (auto simp: is_ident_def dest!: ident_char [OF disjI1])

lemma strip_eq_Nil: "strip s = [] \<longleftrightarrow> (\<forall>c \<in> set s. is_space c)"
proof
  assume "strip s = []"
  then have "\<forall>c \<in> set (dropWhile is_space s). is_space c"
    by (simp add: strip_def strip_on_def rstrip_on_def dropWhile_eq_Nil_conv)
  then have "dropWhile is_space s = []"
    by (metis hd_dropWhile hd_in_set)
  then show "\<forall>c \<in> set s. is_space c"
    by (simp add: dropWhile_eq_Nil_conv)
next
  assume "\<forall>c \<in> set s. is_space c"
  then show "strip s = []"
    using set_strip [of s] stripped_strip [of s] by (cases "strip s") (auto simp: stripped_def)
qed

lemma not_space_eq: "\<not> is_space (CHR ''='')" "\<not> is_break (CHR ''='')"
  by (simp_all add: is_space_def is_break_def code_def)

lemma entry_stripped:
  assumes "entry_ok (k, v)"
  shows "strip (k @ ''='' @ v) = k @ ''='' @ v"
proof (rule strip_stripped)
  have "\<not> is_space (hd (k @ ''='' @ v))"
    using assms ident_hd [of k] by (auto simp: entry_ok_def)
  moreover have "\<not> is_space (last (k @ ''='' @ v))"
    using assms by (auto simp: entry_ok_def not_space_eq)
  ultimately show "stripped (k @ ''='' @ v)"
    by (simp add: stripped_def)
qed

lemma entry_line:
  assumes "entry_ok (k, v)"
  shows "parse_env_line (k @ ''='' @ v) env = Inr (AList.update k v env)"
proof -
  have i: "is_ident k"
    using assms by (simp add: entry_ok_def)
  then have "CHR ''='' \<notin> set k" "hd k \<noteq> CHR ''#''"
    using ident_char ident_chars by (blast, metis ident_not_Nil hd_in_set)
  then have "split1 (CHR ''='') (k @ CHR ''='' # v) = Some (k, v)" "\<not> startswith (k @ CHR ''='' # v) ''#''"
    using ident_not_Nil [OF i] by (simp add: split1_Some, cases k) (auto simp: startswith_iff)
  then show ?thesis
    using i entry_stripped [OF assms] ident_not_Nil [OF i] by (simp add: parse_env_line_def Let_def)
qed

lemma entries_parsed:
  "list_all entry_ok es \<Longrightarrow> distinct (map fst (acc @ es)) \<Longrightarrow>
   parse_env_lines (map (\<lambda>(k, v). k @ ''='' @ v) es) acc = Inr (acc @ es)"
proof (induction es arbitrary: acc)
  case (Cons kv es)
  obtain k v where kv: "kv = (k, v)" by (cases kv)
  have "map_of acc k = None"
    using Cons.prems(2) kv by (auto simp: map_of_eq_None_iff)
  then have "parse_env_line (k @ ''='' @ v) acc = Inr (acc @ [(k, v)])"
    using Cons.prems(1) kv by (simp only: list.pred_inject entry_line update_fresh)
  then show ?case
    using Cons.IH [of "acc @ [(k, v)]"] Cons.prems kv by simp
qed simp

lemma entry_no_break: "entry_ok (k, v) \<Longrightarrow> list_all (\<lambda>c. \<not> is_break c) (k @ ''='' @ v)"
  using ident_char ident_chars by (auto simp: entry_ok_def list_all_iff not_space_eq)

lemma text_parsed:
  assumes "list_all entry_ok es" and "distinct (map fst es)"
  shows "parse_env (env_text es) = Inr (sort es)"
proof -
  have ok: "list_all entry_ok (sort es)" and d: "distinct (map fst (sort es))"
    using assms by (simp_all add: list_all_iff distinct_map inj_on_def)
  have lines: "splitlines (env_text es) = map (\<lambda>(k, v). k @ ''='' @ v) (sort es)"
    unfolding env_text_def using ok entry_no_break
    by (intro splitlines_text_lines) (fastforce simp: list_all_iff)
  show ?thesis
  proof (cases "sort es")
    case Nil
    then show ?thesis
      by (simp add: parse_env_def env_text_def text_lines_def strip_def strip_on_def rstrip_on_def)
  next
    case (Cons kv rest)
    obtain k v where kv: "kv = (k, v)" by (cases kv)
    obtain c cs where c: "k = c # cs" "\<not> is_space c"
      using ok Cons kv ident_hd [of k] by (auto simp: entry_ok_def)
    then have "c \<in> set (env_text es)"
      using Cons kv by (simp add: env_text_def text_lines_def)
    then have "strip (env_text es) \<noteq> []"
      using c(2) by (auto simp: strip_eq_Nil)
    then show ?thesis
      using entries_parsed [of "sort es" "[]"] ok d by (simp add: parse_env_def lines)
  qed
qed

definition env_ok :: "string dict \<Rightarrow> bool" where
  "env_ok env = (list_all entry_ok env \<and> dict_ok env)"

lemma env_ok_update: "env_ok env \<Longrightarrow> entry_ok (k, v) \<Longrightarrow> env_ok (AList.update k v env)"
  using set_update_subset [of k v env] by (auto simp: env_ok_def list_all_iff)

lemma parsed_line_ok:
  assumes "list_all (\<lambda>c. \<not> is_break c) line" and "env_ok env" and "parse_env_line line env = Inr env'"
  shows "env_ok env'"
proof (cases "split1 (CHR ''='') (strip line)")
  case None
  then show ?thesis
    using assms(2,3) by (auto simp: parse_env_line_def Let_def split: if_splits)
next
  case (Some kv)
  obtain k v where kv: "kv = (k, v)" by (cases kv)
  have line: "strip line = k @ CHR ''='' # v"
    using Some kv by (simp add: split1_Some)
  have "list_all (\<lambda>c. \<not> is_break c) (strip line)"
    using assms(1) set_strip [of line] by (auto simp: list_all_iff)
  moreover have "stripped (strip line)"
    by simp
  ultimately have "entry_ok (k, v)" if "is_ident k"
    using that by (auto simp: line entry_ok_def stripped_def)
  then show ?thesis
    using assms(2,3) Some kv env_ok_update by (auto simp: parse_env_line_def Let_def split: if_splits)
qed

lemma parsed_lines_ok:
  "\<forall>l \<in> set ls. list_all (\<lambda>c. \<not> is_break c) l \<Longrightarrow> env_ok env \<Longrightarrow> parse_env_lines ls env = Inr env' \<Longrightarrow> env_ok env'"
  by (induction ls arbitrary: env) (auto dest: parsed_line_ok)

lemma parse_env_ok: "parse_env raw = Inr env \<Longrightarrow> env_ok env"
  using parsed_lines_ok [of "splitlines raw" "[]" env] splitlines_no_break
  by (auto simp: parse_env_def env_ok_def split: if_splits)

lemma setdefault_ok: "env_ok env \<Longrightarrow> entry_ok (k, v) \<Longrightarrow> env_ok (setdefault k v env)"
  by (auto simp: setdefault_def env_ok_def dict_ok_def map_of_eq_None_iff)

lemma default_entries:
  "entry_ok (''POSTGRES_USER'', ''postgres'')" "entry_ok (''POSTGRES_DB'', ''postgres'')"
  "entry_ok (''POSTGRES_INITDB_ARGS'', ''--encoding=UTF8 --locale=C'')"
  by code_simp+

lemma catalog_env_ok: "env_for_catalog cid env = Inr env' \<Longrightarrow> env_ok env \<Longrightarrow> env_ok env'"
  by (auto simp: env_for_catalog_def split: if_splits intro!: setdefault_ok default_entries)

text \<open>
  C22: The environment reaches the node. What a requester's environment text defines, with the
  defaults of the catalog item added, is recovered exactly (sorted by name) by decoding the Base64
  field of the job and reading the text again with the same reader.
\<close>

theorem env_roundtrip:
  assumes "parse_env raw = Inr user_env" and "env_for_catalog cid user_env = Inr env"
  shows "parse_env (utf8_decode (b64decode (b64encode (utf8 (env_text env))))) = Inr (sort env)
    \<and> distinct (map fst (sort env))"
proof -
  have ok: "env_ok env"
    using assms parse_env_ok catalog_env_ok by blast
  have "b64decode (b64encode (utf8 (env_text env))) = utf8 (env_text env)"
    by (intro b64_roundtrip ballI utf8_bytes)
  moreover have "parse_env (env_text env) = Inr (sort env)"
    by (rule text_parsed) (use ok in \<open>simp_all add: env_ok_def dict_ok_def\<close>)
  moreover have "distinct (map fst (sort env))"
    using ok by (simp add: env_ok_def dict_ok_def distinct_map inj_on_def)
  ultimately show ?thesis
    by (simp add: utf8_roundtrip)
qed

theorem env_roundtrip_witness:
  "parse_env (utf8_decode (b64decode (b64encode (utf8 (env_text
      [(''B'', ''2''), (''A'', ''x=y''), (''POSTGRES_PASSWORD'', ''p''), (''POSTGRES_USER'', ''postgres''),
       (''POSTGRES_DB'', ''postgres''), (''POSTGRES_INITDB_ARGS'', ''--encoding=UTF8 --locale=C'')])))))
    = Inr (sort [(''B'', ''2''), (''A'', ''x=y''), (''POSTGRES_PASSWORD'', ''p''), (''POSTGRES_USER'', ''postgres''),
       (''POSTGRES_DB'', ''postgres''), (''POSTGRES_INITDB_ARGS'', ''--encoding=UTF8 --locale=C'')])"
proof -
  have a: "parse_env (text_lines [''# comment'', '' B=2'', ''A=x=y'', ''POSTGRES_PASSWORD=p'']) = Inr [(''B'', ''2''), (''A'', ''x=y''), (''POSTGRES_PASSWORD'', ''p'')]"
    by code_simp
  have b: "env_for_catalog (Some ''postgres'') [(''B'', ''2''), (''A'', ''x=y''), (''POSTGRES_PASSWORD'', ''p'')]
     = Inr [(''B'', ''2''), (''A'', ''x=y''), (''POSTGRES_PASSWORD'', ''p''), (''POSTGRES_USER'', ''postgres''),
       (''POSTGRES_DB'', ''postgres''), (''POSTGRES_INITDB_ARGS'', ''--encoding=UTF8 --locale=C'')]"
    by code_simp
  show ?thesis
    using env_roundtrip [OF a b] by (rule conjunct1)
qed

section \<open>Names\<close>

lemma dash_runs_chars: "list_all slug_char (dash_runs b s)"
  by (induction b s rule: dash_runs.induct) (simp_all add: slug_char_def)

lemma slug_facts: "list_all slug_char (slug v)" "slug v \<noteq> []" "length (slug v) \<le> 48"
proof -
  let ?s = "strip_on (\<lambda>c. c = CHR ''-'') (dash_runs False (lower v))"
  have "set ?s \<subseteq> set (dash_runs False (lower v))"
    by (auto simp: strip_on_def rstrip_on_def dest!: set_dropWhileD)
  then have "list_all slug_char (take 48 ?s)"
    using dash_runs_chars [of False "lower v"] by (auto simp: list_all_iff dest!: in_set_takeD)
  moreover have "list_all slug_char ''workload''"
    by code_simp
  ultimately show "list_all slug_char (slug v)"
    by (simp only: slug_def Let_def split: if_split) simp
  show "slug v \<noteq> []" "length (slug v) \<le> 48"
    by (simp_all add: slug_def Let_def)
qed

lemma slug_plain: "list_all slug_char s \<Longrightarrow> list_all sh_plain s"
  by (auto simp: list_all_iff slug_char_def sh_plain_def)

lemma slug_char_no_slash: "slug_char c \<Longrightarrow> c \<noteq> CHR ''/'' \<and> c \<noteq> CHR ''.''"
  by (auto simp: slug_char_def is_lower_def is_digit_def code_def)

text \<open>
  Node names are safe. Whatever names a request carries, the node of the job it creates has a
  name of 1 to 48 lower-case letters, digits and dashes: the compose file lies directly in the compose
  directory, the name needs no quoting in the shell, and the job is queued under the fresh id.
\<close>

theorem node_name_safe:
  assumes "create_job su ci body_in = Inr c"
  shows "\<exists>node. map_of (cd_job c) ''nodeName'' = Some (JStr node) \<and> node \<noteq> [] \<and> length node \<le> 48
    \<and> list_all slug_char node \<and> CHR ''/'' \<notin> set node \<and> shell_quote node = node
    \<and> cd_compose_path c = cr_composes ci @ ''/'' @ node @ ''.yaml''
    \<and> map_of (cd_job c) ''composePath'' = Some (JStr (cd_compose_path c))
    \<and> map_of (cd_job c) ''status'' = Some (JStr ''queued'') \<and> typed (cr_job_id ci) (cd_job c)"
proof -
  have "\<exists>v j ni nm so ca im fl cl mi env box.
      j = new_job ci ni nm so ca im fl cl mi (slug v) (cr_composes ci @ ''/'' @ slug v @ ''.yaml'') env box
      \<and> save_job (cr_now ci) j = Inr (cd_job c) \<and> cd_compose_path c = cr_composes ci @ ''/'' @ slug v @ ''.yaml''"
    using assms unfolding create_job_def Let_def bindR_eq_Inr
    apply (elim exE conjE)
    apply (simp only: sum.inject)
    apply hypsubst
    apply (simp only: created.select_convs)
    apply (intro exI conjI, rule refl, assumption, rule refl)
    done
  then obtain v ni nm so ca im fl cl mi env box where
    j: "save_job (cr_now ci) (new_job ci ni nm so ca im fl cl mi (slug v) (cr_composes ci @ ''/'' @ slug v @ ''.yaml'') env box)
        = Inr (cd_job c)"
    and p: "cd_compose_path c = cr_composes ci @ ''/'' @ slug v @ ''.yaml''"
    by blast
  have "cd_job c = put ''updatedAt'' (JStr (cr_now ci))
      (new_job ci ni nm so ca im fl cl mi (slug v) (cr_composes ci @ ''/'' @ slug v @ ''.yaml'') env box)"
    using j by (auto simp: save_job_def Let_def)
  then have "map_of (cd_job c) ''nodeName'' = Some (JStr (slug v))"
    "map_of (cd_job c) ''composePath'' = Some (JStr (cd_compose_path c))" "map_of (cd_job c) ''status'' = Some (JStr ''queued'')"
    by (simp_all add: p new_job_def)
  moreover have "shell_quote (slug v) = slug v"
    using slug_plain [OF slug_facts(1)] slug_facts(2) by (simp add: shell_quote_def)
  moreover have "CHR ''/'' \<notin> set (slug v)"
    using slug_facts(1) [of v] slug_char_no_slash by (auto simp: list_all_iff)
  ultimately show ?thesis
    using slug_facts [of v] p create_typed [OF assms] by blast
qed

section \<open>Handlers\<close>

lemma create_compose:
  assumes "create_job su ci (Inr (JObj body)) = Inr c"
  shows "\<exists>img. workload_image (cr_pystr ci) body = Inr img \<and> map_of (cd_job c) ''imageRef'' = Some (JStr img)
    \<and> cd_compose c = compose_for (slug (text_field (cr_pystr ci) body ''name'' ''workload'')) img (jget body ''catalogId'')"
proof -
  have "\<exists>img ni nm so ca fl cl mi nd cp env box. workload_image (cr_pystr ci) body = Inr img
      \<and> save_job (cr_now ci) (new_job ci ni nm so ca img fl cl mi nd cp env box) = Inr (cd_job c)
      \<and> cd_compose c = compose_for (slug (text_field (cr_pystr ci) body ''name'' ''workload'')) img (jget body ''catalogId'')"
    using assms unfolding create_job_def Let_def bindR_eq_Inr
    apply (elim exE conjE)
    apply (simp only: sum.inject)
    apply hypsubst
    apply (simp only: created.select_convs members_def json.case)
    apply (intro exI conjI, rule refl, assumption, rule refl)
    done
  then obtain img ni nm so ca fl cl mi nd cp env box where
    w: "workload_image (cr_pystr ci) body = Inr img"
    and j: "save_job (cr_now ci) (new_job ci ni nm so ca img fl cl mi nd cp env box) = Inr (cd_job c)"
    and c: "cd_compose c = compose_for (slug (text_field (cr_pystr ci) body ''name'' ''workload'')) img (jget body ''catalogId'')"
    by blast
  have "cd_job c = put ''updatedAt'' (JStr (cr_now ci)) (new_job ci ni nm so ca img fl cl mi nd cp env box)"
    using j by (auto simp: save_job_def Let_def)
  then have "map_of (cd_job c) ''imageRef'' = Some (JStr img)"
    by (simp add: new_job_def)
  then show ?thesis
    using w c by blast
qed

text \<open>
  A custom image can be dropped silently. A request for a custom image that also names the
  Postgres catalog item is accepted, and its job records the custom image, but the compose file that
  is deployed is that of the catalog item, whatever the image was.
\<close>

theorem custom_image_ignored:
  assumes "create_job su ci (Inr (JObj body)) = Inr c"
    and "jget body ''source'' = JStr ''image''" and "jget body ''imageRef'' = JStr img" and "jget body ''catalogId'' = JStr ''postgres''"
  shows "map_of (cd_job c) ''imageRef'' = Some (JStr (strip img))
    \<and> cd_compose c = postgres_compose (slug (text_field (cr_pystr ci) body ''name'' ''workload''))"
proof -
  obtain i where i: "workload_image (cr_pystr ci) body = Inr i" "map_of (cd_job c) ''imageRef'' = Some (JStr i)"
      "cd_compose c = compose_for (slug (text_field (cr_pystr ci) body ''name'' ''workload'')) i (jget body ''catalogId'')"
    using create_compose [OF assms(1)] by blast
  have "strip [] = []"
    by (simp add: strip_eq_Nil)
  then have "i = strip img"
    using i(1) assms(2,3)
    by (cases img) (auto simp: workload_image_def jstr_def or_else_def Let_def split: if_splits)
  then show ?thesis
    using i(2,3) assms(4) by (simp add: compose_for_def)
qed

text \<open>
  A failed cleanup is reported as clean. When the cleanup script of a job exits with an error,
  the cleanup request is still answered with 200 and the job saved as cleaned (or stopped); only
  the nested cleanup record says failed.
\<close>

theorem failed_cleanup_reported_clean:
  assumes "typed i job" and "pe_outcome p = Inr (returncode, out)" and "returncode \<noteq> 0"
  shows "\<exists>j c. ho_reply (post_cleanup_job su p stamps (Inr (JObj body)) job) = Some (200, JObj j)
    \<and> map_of j ''status'' = Some (JStr (if truthy (jget body ''force'') then ''stopped'' else ''cleaned''))
    \<and> map_of j ''cleanup'' = Some (JObj c) \<and> map_of c ''status'' = Some (JStr ''failed'')"
proof -
  let ?job1 = "put ''updatedAt'' (JStr (fst stamps)) (put ''status'' (JStr ''cleanup_running'') job)"
  have t0: "typed i (put ''status'' (JStr ''cleanup_running'') job)"
    by (intro tj.put_status assms(1) known_statuses)
  have t1: "typed i ?job1"
    by (intro tj.put_fields t0)
  have b: "cleanup_begin (fst stamps) (Inr (JObj body)) job = Inr (truthy (jget body ''force''), ?job1)"
    using typed_save [OF t0] by (simp add: cleanup_begin_def is_obj_def members_def)
  obtain node where node: "need_text ?job1 ''nodeName'' = Inr node"
    using typed_text [OF t1, of "''nodeName''"] by auto
  define f where "f = truthy (jget body ''force'')"
  obtain c j where c: "cleanup_job su p f ?job1 = Inr j" "map_of j ''cleanup'' = Some (JObj c)" "map_of c ''status'' = Some (JStr ''failed'')"
    using node typed_script [OF t1, of "su_config su" "cleanup_script f node"] assms(2,3)
    by (auto simp: cleanup_job_def)
  have t2: "typed i (put ''status'' (JStr (if f then ''stopped'' else ''cleaned'')) j)"
    by (rule tj.put_status) (simp_all add: tj.cleanup_ok [OF c(1) t1])
  have "ho_reply (post_cleanup_job su p stamps (Inr (JObj body)) job)
      = Some (200, JObj (put ''updatedAt'' (JStr (snd stamps)) (put ''status'' (JStr (if f then ''stopped'' else ''cleaned'')) j)))"
    unfolding post_cleanup_job_def b f_def [symmetric] using c(1) typed_save [OF t2]
    by (simp add: Let_def guarded_cleanup_def)
  then show ?thesis
    using c(2,3) by (simp add: f_def)
qed

section \<open>A concrete deployment\<close>

definition demo_orch :: orch_env where
  "demo_orch = \<lparr>su_config = \<lparr>rpc_url = ''https://rpc'', bundler_url = ''https://bundler'', gas_policy_id = ''p1'', box_rpc = ''https://rpc''\<rparr>,
     su_logs = ''logs'', su_auto = True, su_text = (\<lambda>_. ''error'')\<rparr>"

definition demo_create :: create_input where
  "demo_create = \<lparr>cr_pystr = (\<lambda>_. []), cr_job_id = ''00a1'', cr_composes = ''/c'', cr_now = ''t0''\<rparr>"

definition demo_body :: "json dict" where
  "demo_body = [(''name'', JStr ''My DB''), (''networkId'', JStr ''net''), (''cluster'', JStr ''0x1; rm''), (''memberImpl'', JStr ''0x2''),
     (''source'', JStr ''image''), (''imageRef'', JStr ''ghcr.io/me/db:1''), (''catalogId'', JStr ''postgres''),
     (''env'', JStr ''POSTGRES_PASSWORD=p'')]"

definition demo_created :: created where
  "demo_created = (case create_job demo_orch demo_create (Inr (JObj demo_body)) of Inr c \<Rightarrow> c
     | Inl _ \<Rightarrow> \<lparr>cd_job = [], cd_compose_path = [], cd_compose = []\<rparr>)"

lemma demo_created: "create_job demo_orch demo_create (Inr (JObj demo_body)) = Inr demo_created"
proof -
  have "isl (create_job demo_orch demo_create (Inr (JObj demo_body))) = False"
    by code_simp
  then show ?thesis
    by (simp add: demo_created_def isl_def split: sum.splits)
qed

lemma demo_typed: "typed ''00a1'' (cd_job demo_created)"
  using create_typed [OF demo_created] by (simp add: demo_create_def)

definition demo_request :: orch_request where
  "demo_request = \<lparr>rq_path = ''/v1/deployments'', rq_auth = Some ''Bearer k'', rq_body = Inr (JObj demo_body)\<rparr>"

definition demo_state :: orch_state where
  "demo_state = \<lparr>os_files = [(''00a1'', Some (JObj (cd_job demo_created)))],
     os_compose = [(cd_compose_path demo_created, cd_compose demo_created)], os_pending = []\<rparr>"

lemma demo_reached: "reach orch_init (orch_step demo_orch ''k'') demo_state"
proof -
  have "do_POST_create demo_orch ''k'' demo_create demo_request = (202, JObj (cd_job demo_created), Some demo_created)"
    using demo_created by (simp add: do_POST_create_def demo_request_def auth_def)
  moreover have "store (cd_job demo_created) [] = [(''00a1'', Some (JObj (cd_job demo_created)))]"
    by (simp add: store_def typed_id [OF demo_typed])
  ultimately have "orch_step demo_orch ''k'' \<lparr>os_files = [], os_compose = [], os_pending = []\<rparr> demo_state"
    using orch_step.create [of demo_orch "''k''" demo_create demo_request "JObj (cd_job demo_created)" demo_created
        "\<lparr>os_files = [], os_compose = [], os_pending = []\<rparr>"]
    by (simp add: demo_state_def)
  moreover have "orch_init \<lparr>os_files = [], os_compose = [], os_pending = []\<rparr>"
    by (simp add: orch_init_def)
  ultimately show ?thesis
    using reach_step [OF reach_init] by metis
qed


definition demo_end :: process_end where
  "demo_end = \<lparr>pe_outcome = Inr (1, ''gone''), pe_state = Some ''X=app1'', pe_stamp = ''t2''\<rparr>"

definition demo_restart :: restart_input where
  "demo_restart = \<lparr>ri_process = (\<lambda>_. demo_end), ri_state = (\<lambda>_. None), ri_stamp = (\<lambda>_. ''t3'')\<rparr>"

theorem restart_recovers_jobs_witness:
  "\<exists>files job. reconcile_interrupted_jobs demo_orch demo_restart (os_files demo_state) = (None, files)
     \<and> map_of files ''00a1'' = Some (Some (JObj job)) \<and> resting job"
proof -
  obtain files where f: "reconcile_interrupted_jobs demo_orch demo_restart (os_files demo_state) = (None, files)"
      "\<forall>i job. map_of files i = Some (Some (JObj job)) \<longrightarrow> resting job"
      "\<forall>i. map_of files i = None \<longleftrightarrow> map_of (os_files demo_state) i = None"
    using restart_recovers_jobs [OF demo_reached, of demo_restart] by blast
  have "orch_inv (demo_state\<lparr>os_files := files, os_pending := []\<rparr>)"
    by (rule os.reach_invar, rule reach_step [OF demo_reached], rule orch_step.restart [OF f(1)])
  then have "files_typed files"
    by (simp add: orch_inv_files)
  moreover have "map_of files ''00a1'' \<noteq> None"
    unfolding f(3) [rule_format] by (simp add: demo_state_def)
  ultimately obtain job where "map_of files ''00a1'' = Some (Some (JObj job))"
    using files_typedD [of files "''00a1''"] by (cases "map_of files ''00a1''") auto
  then show ?thesis
    using f(1,2) by blast
qed

theorem node_name_safe_witness:
  "\<exists>node. map_of (cd_job demo_created) ''nodeName'' = Some (JStr node) \<and> list_all slug_char node \<and> length node \<le> 48"
  using node_name_safe [OF demo_created] by blast

theorem custom_image_ignored_witness:
  "map_of (cd_job demo_created) ''imageRef'' = Some (JStr ''ghcr.io/me/db:1'') \<and> cd_compose demo_created = postgres_compose ''my-db''"
proof -
  have "jget demo_body ''source'' = JStr ''image''" "jget demo_body ''imageRef'' = JStr ''ghcr.io/me/db:1''"
      "jget demo_body ''catalogId'' = JStr ''postgres''"
    by code_simp+
  note c = custom_image_ignored [OF demo_created this]
  have "strip ''ghcr.io/me/db:1'' = ''ghcr.io/me/db:1''" "slug (text_field (cr_pystr demo_create) demo_body ''name'' ''workload'') = ''my-db''"
    by code_simp+
  with c show ?thesis
    by simp
qed


definition demo_run :: run_input where
  "demo_run = \<lparr>ru_begin = ''t1'', ru_ticks = [\<lparr>tk_line = ''deploying'' @ [newline], tk_clock = 1000000, tk_state = None, tk_stamp = ''t1''\<rparr>],
     ru_end = Exited (-9), ru_state = None, ru_cleanup = demo_end, ru_stamp = ''t5''\<rparr>"

theorem run_job_ends_witness:
  "\<exists>before j. run_job demo_orch demo_run (JObj (cd_job demo_created)) = before @ [j]
     \<and> map_of j ''status'' = Some (JStr ''failed'') \<and> map_of j ''logTail'' = Some (JStr ''deploying'')"
proof -
  have "join [newline] (last_n 40 (output_lines demo_run)) = ''deploying''"
    by code_simp
  then show ?thesis
    using run_job_ends [OF demo_typed, of demo_orch demo_run] by (auto simp: demo_run_def)
qed

theorem failed_cleanup_reported_clean_witness:
  "\<exists>j. ho_reply (post_cleanup_job demo_orch demo_end (''t1'', ''t2'') (Inr (JObj [])) (cd_job demo_created)) = Some (200, JObj j)
     \<and> map_of j ''status'' = Some (JStr ''cleaned'')"
  using failed_cleanup_reported_clean [OF demo_typed, of demo_end 1 "''gone''" demo_orch "(''t1'', ''t2'')" "[]"]
  by (auto simp: demo_end_def get_or_def)

section \<open>A race between a run and its cancellation\<close>

lemma flush_saves:
  "reach orch_init (orch_step su token) s \<Longrightarrow> os_pending s = (xs @ ys) # rest \<Longrightarrow> xs \<noteq> [] \<Longrightarrow> \<forall>x \<in> set xs. typed i x \<Longrightarrow>
   \<exists>s'. reach orch_init (orch_step su token) s' \<and> (orch_step su token)\<^sup>*\<^sup>* s s' \<and> os_pending s' = ys # rest
     \<and> map_of (os_files s') i = Some (Some (JObj (last xs)))"
proof (induction xs arbitrary: s)
  case (Cons x xs)
  let ?t = "s\<lparr>os_files := store x (os_files s), os_pending := [] @ (xs @ ys) # rest\<rparr>"
  have step: "orch_step su token s ?t"
    by (rule orch_step.save) (simp add: Cons.prems(2))
  have r: "reach orch_init (orch_step su token) ?t"
    by (rule reach_step [OF Cons.prems(1) step])
  show ?case
  proof (cases "xs = []")
    case True
    have "map_of (os_files ?t) i = Some (Some (JObj x))"
      using typed_store [of i x "os_files s" i] Cons.prems(4) by simp
    then show ?thesis
      using r step True by (intro exI [of _ ?t]) auto
  next
    case False
    then obtain s' where "reach orch_init (orch_step su token) s'" "(orch_step su token)\<^sup>*\<^sup>* ?t s'" "os_pending s' = ys # rest"
        "map_of (os_files s') i = Some (Some (JObj (last xs)))"
      using Cons.IH [OF r] Cons.prems(4) by auto
    then show ?thesis
      using False step by (intro exI [of _ s']) (auto intro: converse_rtranclp_into_rtranclp)
  qed
qed simp

lemma deployment_id_path: "i \<noteq> [] \<Longrightarrow> list_all id_char i \<Longrightarrow> deployment_id [] (''/v1/deployments/'' @ i) = Some i"
  by (simp add: deployment_id_def Let_def)

lemma delete_saves:
  assumes t: "typed i job" and "map_of files i = Some (Some (JObj job))" and "auth token rq = None"
    and "deployment_id [] (rq_path rq) = Some i" and "pe_outcome p = Inr ro"
  shows "\<exists>c d. ho_saves (do_DELETE su token p stamps True rq files) = [c, d] \<and> typed i c \<and> typed i d
    \<and> map_of d ''status'' = Some (JStr ''stopped'') \<and> fst (the (ho_reply (do_DELETE su token p stamps True rq files))) = 200"
proof -
  let ?job1 = "put ''updatedAt'' (JStr (fst stamps)) (put ''status'' (JStr ''canceling'') job)"
  have t0: "typed i (put ''status'' (JStr ''canceling'') job)" and t1: "typed i ?job1"
    by (intro tj.put_fields tj.put_status t known_statuses)+
  have "job \<noteq> []"
    using t by (auto simp: typed_def)
  then have f: "found files i = Inr (Some (JObj job))"
    using assms(2) by (simp add: found_def load_job_def)
  obtain node where node: "need_text ?job1 ''nodeName'' = Inr node"
    using typed_text [OF t1, of "''nodeName''"] by auto
  obtain j where j: "cleanup_job su p True ?job1 = Inr j"
    using node typed_script [OF t1, of "su_config su" "cleanup_script True node"] assms(5)
    by (cases ro) (auto simp: cleanup_job_def)
  let ?job2 = "put ''error'' JNull (put ''status'' (JStr ''stopped'') j)"
  have t2: "typed i ?job2"
    by (intro tj.put_fields tj.put_status tj.cleanup_ok [OF j t1] known_statuses)
  have "guarded_cleanup su p True (snd stamps) ''stopped'' (put ''error'' JNull) ?job1
      = \<lparr>ho_reply = Some (200, JObj (put ''updatedAt'' (JStr (snd stamps)) ?job2)), ho_saves = [put ''updatedAt'' (JStr (snd stamps)) ?job2]\<rparr>"
    using j typed_save [OF t2] by (simp add: guarded_cleanup_def)
  then show ?thesis
    using assms(3,4) f t1 typed_save [OF t0] tj.put_fields(1) [OF t2] by (simp add: do_DELETE_def Let_def)
qed

text \<open>
  A cancelled job can end as failed. For every stored job there is a schedule in which a DELETE
  is answered with 200 and the job is recorded as stopped, and the run that was killed then
  overwrites the record with failed: each thread saves its own copy.
\<close>

theorem stop_overwritten:
  assumes "reach orch_init (orch_step su token) s" and "map_of (os_files s) i = Some f"
    and "i \<noteq> []" "list_all id_char i" "token \<noteq> []"
  shows "\<exists>s1 s2 job job'. (orch_step su token)\<^sup>*\<^sup>* s s1 \<and> orch_step su token s1 s2
    \<and> map_of (os_files s1) i = Some (Some (JObj job)) \<and> map_of job ''status'' = Some (JStr ''stopped'')
    \<and> map_of (os_files s2) i = Some (Some (JObj job')) \<and> map_of job' ''status'' = Some (JStr ''failed'')"
proof -
  let ?R = "reach orch_init (orch_step su token)"
  let ?p = "\<lparr>pe_outcome = Inr (0, []), pe_state = None, pe_stamp = []\<rparr>"
  let ?ru = "\<lparr>ru_begin = [], ru_ticks = [], ru_end = Exited (-9), ru_state = None, ru_cleanup = ?p, ru_stamp = []\<rparr>"
  let ?rq = "\<lparr>rq_path = ''/v1/deployments/'' @ i, rq_auth = Some (''Bearer '' @ token), rq_body = Inr (JObj [])\<rparr>"
  obtain job where job: "f = Some (JObj job)" "typed i job"
    using os.reach_invar [OF assms(1)] files_typedD [OF _ assms(2)] by (auto simp: orch_inv_files)
  obtain before j where run: "run_job su ?ru (JObj job) = before @ [j]" "before \<noteq> []" "typed i j" "map_of j ''status'' = Some (JStr ''failed'')"
    using run_job_ends [OF job(2), of su ?ru] by auto
  have before: "\<forall>x \<in> set before. typed i x"
    using tj.run_job_ok [OF job(2), of _ su ?ru] run(1) by simp
  let ?s1 = "s\<lparr>os_pending := run_job su ?ru (JObj job) # os_pending s\<rparr>"
  have st1: "orch_step su token s ?s1"
    by (rule orch_step.start_run [of _ i]) (simp add: load_job_def assms(2) job(1))
  obtain s2 where s2: "?R s2" "(orch_step su token)\<^sup>*\<^sup>* ?s1 s2" "os_pending s2 = [j] # os_pending s"
      "map_of (os_files s2) i = Some (Some (JObj (last before)))"
    using flush_saves [OF reach_step [OF assms(1) st1], of before "[j]" "os_pending s" i] run(1,2) before by auto
  have l: "typed i (last before)"
    using before run(2) by simp
  have au: "auth token ?rq = None"
    using assms(5) by (simp add: auth_def)
  have path: "deployment_id [] (rq_path ?rq) = Some i"
    unfolding orch_request.select_convs by (rule deployment_id_path [OF assms(3,4)])
  have "pe_outcome ?p = Inr (0, [])"
    by simp
  then obtain c d where cd: "ho_saves (do_DELETE su token ?p ([], []) True ?rq (os_files s2)) = [c, d]" "typed i c" "typed i d"
      "map_of d ''status'' = Some (JStr ''stopped'')"
    using delete_saves [OF l s2(4) au path, of ?p "(0, [])" su "([], [])"] by blast
  let ?s3 = "s2\<lparr>os_pending := [c, d] # os_pending s2\<rparr>"
  have st3: "orch_step su token s2 ?s3"
    using orch_step.start_delete [of su token s2 ?p "([], [])" True ?rq] unfolding cd(1) .
  have "os_pending ?s3 = ([c, d] @ []) # [j] # os_pending s"
    by (simp add: s2(3))
  from flush_saves [OF reach_step [OF s2(1) st3] this, of i] cd(2,3)
  obtain s4 where s4: "?R s4" "(orch_step su token)\<^sup>*\<^sup>* ?s3 s4" "os_pending s4 = [] # [j] # os_pending s"
      "map_of (os_files s4) i = Some (Some (JObj d))"
    by auto
  let ?s5 = "s4\<lparr>os_files := store j (os_files s4), os_pending := [[]] @ [] # os_pending s\<rparr>"
  have st5: "orch_step su token s4 ?s5"
    by (rule orch_step.save) (simp add: s4(3))
  have "(orch_step su token)\<^sup>*\<^sup>* s s4"
    using st1 s2(2) st3 s4(2) by (meson converse_rtranclp_into_rtranclp rtranclp_trans)
  then show ?thesis
    using st5 s4(4) cd(4) run(4) typed_store [OF run(3), of "os_files s4" i]
    by (intro exI [of _ s4] exI [of _ ?s5] exI [of _ d] exI [of _ j]) simp
qed

theorem stop_overwritten_witness:
  "\<exists>s1 s2 job job'. (orch_step demo_orch ''k'')\<^sup>*\<^sup>* demo_state s1 \<and> orch_step demo_orch ''k'' s1 s2
    \<and> map_of (os_files s1) ''00a1'' = Some (Some (JObj job)) \<and> map_of job ''status'' = Some (JStr ''stopped'')
    \<and> map_of (os_files s2) ''00a1'' = Some (Some (JObj job')) \<and> map_of job' ''status'' = Some (JStr ''failed'')"
  by (rule stop_overwritten [OF demo_reached]) (simp_all add: demo_state_def id_char_def is_lower_def is_digit_def code_def)

end
