(* ===== verification/Py_Regex.thy ===== *)
theory Py_Regex
  imports Py_Text
begin

text \<open>
  The part of Python's \<open>re\<close> that the repository uses: character classes, greedy options and
  repetitions of a class, alternatives tried from left to right, groups, anchors, word
  boundaries and lookahead. The matcher lists the ends of all matches at a position in the order in which the
  backtracking engine tries them; \<open>search\<close> takes the first one at the leftmost position. It is
  proved equal to a relation that says, without any order, what a pattern matches.
\<close>

section \<open>Patterns and the backtracking matcher\<close>

datatype rx =
    Cls "char \<Rightarrow> bool"
  | Cat rx rx
  | Alt rx rx
  | Opt rx
  | Rep "char \<Rightarrow> bool" nat "nat option"
  | Cap nat rx
  | WordB
  | Bol
  | Eol
  | Eps
  | Ahead rx

type_synonym caps = "(nat \<times> nat \<times> nat) list"
  \<comment> \<open>the groups: number, start and end\<close>

definition is_word :: "char \<Rightarrow> bool" where
  \<comment> \<open>\<open>\w\<close> of a \<open>str\<close> pattern: letters, digits and other numerals of the range, and the underscore\<close>
  "is_word c = (is_lower c \<or> is_upper c \<or> is_digit c \<or> c = CHR ''_''
     \<or> code c \<in> set [170, 178, 179, 181, 185, 186, 188, 189, 190]
     \<or> (192 \<le> code c \<and> code c \<noteq> 215 \<and> code c \<noteq> 247))"

definition word_at :: "string \<Rightarrow> nat \<Rightarrow> bool" where
  "word_at s i = (i < length s \<and> is_word (s ! i))"

definition at_boundary :: "string \<Rightarrow> nat \<Rightarrow> bool" where
  "at_boundary s i = ((0 < i \<and> word_at s (i - 1)) \<noteq> word_at s i)"

definition at_end :: "string \<Rightarrow> nat \<Rightarrow> bool" where
  \<comment> \<open>\<open>$\<close>: the end, or before a newline that ends the text\<close>
  "at_end s i = (i = length s \<or> (Suc i = length s \<and> s ! i = newline))"

definition run_len :: "(char \<Rightarrow> bool) \<Rightarrow> string \<Rightarrow> nat \<Rightarrow> nat" where
  "run_len p s i = length (takeWhile p (drop i s))"

definition rep_ends :: "(char \<Rightarrow> bool) \<Rightarrow> nat \<Rightarrow> nat option \<Rightarrow> string \<Rightarrow> nat \<Rightarrow> nat list" where
  "rep_ends p lo hi s i =
     (let k = run_len p s i; top = (case hi of Some h \<Rightarrow> min h k | None \<Rightarrow> k) in
      map (\<lambda>j. i + j) (rev [lo..<Suc top]))"

fun ends :: "rx \<Rightarrow> string \<Rightarrow> nat \<times> caps \<Rightarrow> (nat \<times> caps) list" where
  "ends (Cls p) s (i, g) = (if i < length s \<and> p (s ! i) then [(Suc i, g)] else [])"
| "ends (Cat a b) s (i, g) = concat (map (ends b s) (ends a s (i, g)))"
| "ends (Alt a b) s (i, g) = ends a s (i, g) @ ends b s (i, g)"
| "ends (Opt a) s (i, g) = ends a s (i, g) @ [(i, g)]"
| "ends (Rep p lo hi) s (i, g) = map (\<lambda>j. (j, g)) (rep_ends p lo hi s i)"
| "ends (Cap n a) s (i, g) = map (\<lambda>(j, g'). (j, (n, i, j) # g')) (ends a s (i, g))"
| "ends WordB s (i, g) = (if at_boundary s i then [(i, g)] else [])"
| "ends Bol s (i, g) = (if i = 0 then [(i, g)] else [])"
| "ends Eol s (i, g) = (if at_end s i then [(i, g)] else [])"
| "ends Eps s (i, g) = [(i, g)]"
| "ends (Ahead a) s (i, g) = (if ends a s (i, g) = [] then [] else [(i, g)])"

fun search_from :: "rx \<Rightarrow> string \<Rightarrow> nat \<Rightarrow> nat \<Rightarrow> (nat \<times> nat \<times> caps) option" where
  \<comment> \<open>the start positions from \<open>i\<close> on, as many as the second number says\<close>
  "search_from r s i 0 = None"
| "search_from r s i (Suc n) = (case ends r s (i, []) of
      [] \<Rightarrow> search_from r s (Suc i) n
    | (j, g) # _ \<Rightarrow> Some (i, j, g))"

definition search :: "rx \<Rightarrow> string \<Rightarrow> (nat \<times> nat \<times> caps) option" where
  "search r s = search_from r s 0 (Suc (length s))"

definition fullmatch :: "rx \<Rightarrow> string \<Rightarrow> (nat \<times> caps) option" where
  \<comment> \<open>the first way to match the whole text\<close>
  "fullmatch r s = find (\<lambda>(j, g). j = length s) (ends r s (0, []))"

definition match_start :: "rx \<Rightarrow> string \<Rightarrow> (nat \<times> caps) option" where
  \<comment> \<open>\<open>r.match(s)\<close>\<close>
  "match_start r s = (case ends r s (0, []) of [] \<Rightarrow> None | e # _ \<Rightarrow> Some e)"

definition slice :: "string \<Rightarrow> nat \<Rightarrow> nat \<Rightarrow> string" where
  "slice s i j = take (j - i) (drop i s)"

definition group :: "string \<Rightarrow> caps \<Rightarrow> nat \<Rightarrow> string" where
  "group s g n = (case map_of g n of Some (i, j) \<Rightarrow> slice s i j | None \<Rightarrow> [])"

fun sub_from :: "nat \<Rightarrow> rx \<Rightarrow> (string \<Rightarrow> string) \<Rightarrow> string \<Rightarrow> nat \<Rightarrow> string" where
  \<comment> \<open>\<open>r.sub(f, s)\<close> from position \<open>i\<close> on, for patterns whose matches are not empty; the first
    number bounds the matches\<close>
  "sub_from 0 r f s i = drop i s"
| "sub_from (Suc n) r f s i = (case search_from r s i (Suc (length s) - i) of
      None \<Rightarrow> drop i s
    | Some (a, b, g) \<Rightarrow> if b \<le> i then drop i s else slice s i a @ f (slice s a b) @ sub_from n r f s b)"

definition sub :: "rx \<Rightarrow> (string \<Rightarrow> string) \<Rightarrow> string \<Rightarrow> string" where
  "sub r f s = sub_from (Suc (length s)) r f s 0"

section \<open>Building patterns\<close>

fun cat :: "rx list \<Rightarrow> rx" where
  "cat [] = Eps"
| "cat [r] = r"
| "cat (r # rs) = Cat r (cat rs)"

fun alts :: "rx list \<Rightarrow> rx" where
  "alts [] = Cls (\<lambda>_. False)"
| "alts [r] = r"
| "alts (r # rs) = Alt r (alts rs)"

definition lit :: "string \<Rightarrow> rx" where
  "lit w = cat (map (\<lambda>c. Cls (\<lambda>x. x = c)) w)"

definition ilit :: "string \<Rightarrow> rx" where
  \<comment> \<open>a literal of lower-case text where case is ignored\<close>
  "ilit w = cat (map (\<lambda>c. Cls (\<lambda>x. lower_char x = c)) w)"

definition one_of :: "string \<Rightarrow> rx" where
  "one_of w = Cls (\<lambda>x. x \<in> set w)"

section \<open>What a pattern matches\<close>

inductive rx_matches :: "string \<Rightarrow> rx \<Rightarrow> nat \<Rightarrow> nat \<Rightarrow> bool" for s where
  cls: "i < length s \<Longrightarrow> p (s ! i) \<Longrightarrow> rx_matches s (Cls p) i (Suc i)"
| cat: "rx_matches s a i j \<Longrightarrow> rx_matches s b j k \<Longrightarrow> rx_matches s (Cat a b) i k"
| alt1: "rx_matches s a i j \<Longrightarrow> rx_matches s (Alt a b) i j"
| alt2: "rx_matches s b i j \<Longrightarrow> rx_matches s (Alt a b) i j"
| opt1: "rx_matches s a i j \<Longrightarrow> rx_matches s (Opt a) i j"
| opt0: "rx_matches s (Opt a) i i"
| rep: "i + n \<le> length s \<Longrightarrow> lo \<le> n \<Longrightarrow> (case hi of Some h \<Rightarrow> n \<le> h | None \<Rightarrow> True) \<Longrightarrow>
     \<forall>m < n. p (s ! (i + m)) \<Longrightarrow> rx_matches s (Rep p lo hi) i (i + n)"
| cap: "rx_matches s a i j \<Longrightarrow> rx_matches s (Cap n a) i j"
| wordb: "at_boundary s i \<Longrightarrow> rx_matches s WordB i i"
| bol: "i = 0 \<Longrightarrow> rx_matches s Bol i i"
| eol: "at_end s i \<Longrightarrow> rx_matches s Eol i i"
| eps: "rx_matches s Eps i i"
| ahead: "rx_matches s a i j \<Longrightarrow> rx_matches s (Ahead a) i i"

inductive_cases rx_ClsE: "rx_matches s (Cls p) i j"
inductive_cases rx_CatE: "rx_matches s (Cat a b) i j"
inductive_cases rx_AltE: "rx_matches s (Alt a b) i j"
inductive_cases rx_OptE: "rx_matches s (Opt a) i j"
inductive_cases rx_RepE: "rx_matches s (Rep p lo hi) i j"
inductive_cases rx_CapE: "rx_matches s (Cap n a) i j"
inductive_cases rx_WordBE: "rx_matches s WordB i j"
inductive_cases rx_BolE: "rx_matches s Bol i j"
inductive_cases rx_EolE: "rx_matches s Eol i j"
inductive_cases rx_EpsE: "rx_matches s Eps i j"
inductive_cases rx_AheadE: "rx_matches s (Ahead a) i j"

lemma run_len_iff:
  assumes "i \<le> length s"
  shows "n \<le> run_len p s i \<longleftrightarrow> i + n \<le> length s \<and> (\<forall>m < n. p (s ! (i + m)))"
proof
  assume n: "n \<le> run_len p s i"
  have len: "run_len p s i \<le> length s - i"
    using length_takeWhile_le [of p "drop i s"] by (simp add: run_len_def)
  have "p (s ! (i + m))" if "m < n" for m
  proof -
    have m: "m < length (takeWhile p (drop i s))"
      using that n by (simp add: run_len_def)
    then have "p (takeWhile p (drop i s) ! m)"
      by (meson nth_mem set_takeWhileD)
    then show ?thesis
      using m len by (simp add: takeWhile_nth run_len_def)
  qed
  then show "i + n \<le> length s \<and> (\<forall>m < n. p (s ! (i + m)))"
    using n len assms by simp
next
  assume h: "i + n \<le> length s \<and> (\<forall>m < n. p (s ! (i + m)))"
  then have "takeWhile p (drop i s) = takeWhile p (take n (drop i s) @ drop n (drop i s))"
    by (simp only: append_take_drop_id)
  also have "\<dots> = take n (drop i s) @ takeWhile p (drop n (drop i s))"
    using h by (intro takeWhile_append2) (auto simp: in_set_conv_nth)
  finally have "length (takeWhile p (drop i s)) = n + length (takeWhile p (drop n (drop i s)))"
    using h by (simp add: min_def) arith
  then show "n \<le> run_len p s i"
    by (simp add: run_len_def)
qed

lemma set_rep_ends:
  assumes "i \<le> length s"
  shows "j \<in> set (rep_ends p lo hi s i) \<longleftrightarrow> rx_matches s (Rep p lo hi) i j"
proof
  assume "j \<in> set (rep_ends p lo hi s i)"
  then obtain n where n: "j = i + n" "lo \<le> n" "n \<le> (case hi of Some h \<Rightarrow> min h (run_len p s i) | None \<Rightarrow> run_len p s i)"
    by (auto simp: rep_ends_def Let_def)
  then have "n \<le> run_len p s i" and h: "case hi of Some h \<Rightarrow> n \<le> h | None \<Rightarrow> True"
    by (auto split: option.splits)
  then show "rx_matches s (Rep p lo hi) i j"
    using n run_len_iff [OF assms] by (auto intro: rep)
next
  assume "rx_matches s (Rep p lo hi) i j"
  then show "j \<in> set (rep_ends p lo hi s i)"
  proof (rule rx_RepE)
    fix n
    assume n: "j = i + n" "i + n \<le> length s" "lo \<le> n" "case hi of None \<Rightarrow> True | Some h \<Rightarrow> n \<le> h" "\<forall>m<n. p (s ! (i + m))"
    then have "n \<le> run_len p s i"
      using run_len_iff [OF assms] by blast
    then show ?thesis
      using n by (auto simp: rep_ends_def Let_def split: option.splits)
  qed
qed

lemma rx_matches_range: "rx_matches s r i j \<Longrightarrow> i \<le> length s \<Longrightarrow> i \<le> j \<and> j \<le> length s"
  by (induction rule: rx_matches.induct) auto

lemma ends_sound:
  "(j, g') \<in> set (ends r s (i, g)) \<Longrightarrow> i \<le> length s \<Longrightarrow> rx_matches s r i j"
proof (induction r arbitrary: i j g g')
  case (Cat a b)
  then obtain k h where k: "(k, h) \<in> set (ends a s (i, g))" "(j, g') \<in> set (ends b s (k, h))"
    by auto
  then have a: "rx_matches s a i k"
    using Cat by blast
  then have "rx_matches s b k j"
    using Cat k rx_matches_range by blast
  with a show ?case
    by (rule rx_matches.cat)
next
  case (Rep p lo hi)
  then show ?case
    using set_rep_ends [of i s j p lo hi] by auto
next
  case (Ahead a)
  then obtain k h where "(k, h) \<in> set (ends a s (i, g))" "j = i"
    by (cases "ends a s (i, g)") (auto split: if_splits)
  then show ?case
    using Ahead.IH [of k h i g] Ahead.prems(2) rx_matches.ahead by blast
qed (auto split: if_splits intro: rx_matches.intros)

lemma ends_complete:
  "rx_matches s r i j \<Longrightarrow> i \<le> length s \<Longrightarrow> \<exists>g'. (j, g') \<in> set (ends r s (i, g))"
proof (induction arbitrary: g rule: rx_matches.induct)
  case (cat a i j b k)
  then obtain h where h: "(j, h) \<in> set (ends a s (i, g))"
    by blast
  moreover have "j \<le> length s"
    using cat rx_matches_range by blast
  then obtain h' where "(k, h') \<in> set (ends b s (j, h))"
    using cat by blast
  ultimately show ?case
    by force
next
  case (alt1 a i j b)
  then obtain h where "(j, h) \<in> set (ends a s (i, g))" by blast
  then show ?case by auto
next
  case (alt2 b i j a)
  then obtain h where "(j, h) \<in> set (ends b s (i, g))" by blast
  then show ?case by auto
next
  case (opt1 a i j)
  then obtain h where "(j, h) \<in> set (ends a s (i, g))" by blast
  then show ?case by auto
next
  case (rep i n lo hi p)
  then have "rx_matches s (Rep p lo hi) i (i + n)"
    by (intro rx_matches.rep)
  then have "i + n \<in> set (rep_ends p lo hi s i)"
    using set_rep_ends [OF rep.prems] by blast
  then show ?case
    by (intro exI [of _ g]) simp
next
  case (cap a i j n)
  then obtain h where "(j, h) \<in> set (ends a s (i, g))" by blast
  then show ?case by force
next
  case (ahead a i j)
  then obtain h where "(j, h) \<in> set (ends a s (i, g))" by blast
  then show ?case by auto
qed auto

lemma search_from_None:
  "search_from r s i n = None \<longleftrightarrow> (\<forall>k. i \<le> k \<and> k < i + n \<longrightarrow> ends r s (k, []) = [])"
proof (induction n arbitrary: i)
  case (Suc n)
  have "(\<forall>k. i \<le> k \<and> k < i + Suc n \<longrightarrow> ends r s (k, []) = [])
      \<longleftrightarrow> ends r s (i, []) = [] \<and> (\<forall>k. Suc i \<le> k \<and> k < Suc i + n \<longrightarrow> ends r s (k, []) = [])"
    by (metis Suc_leI add_Suc_right add_Suc le_add1 le_less le_eq_less_or_eq less_add_Suc1 Suc_leD)
  then show ?case
    using Suc [of "Suc i"] by (cases "ends r s (i, [])") auto
qed auto

lemma search_from_Some:
  "search_from r s i n = Some (a, b, g) \<Longrightarrow> i \<le> a \<and> a < i + n \<and> (b, g) = hd (ends r s (a, [])) \<and> ends r s (a, []) \<noteq> []"
  by (induction n arbitrary: i) (fastforce split: list.splits)+

lemma search_None: "search r s = None \<longleftrightarrow> (\<forall>i j. i \<le> length s \<longrightarrow> \<not> rx_matches s r i j)"
proof -
  have "ends r s (i, []) = [] \<longleftrightarrow> (\<forall>j. \<not> rx_matches s r i j)" if "i \<le> length s" for i
    using ends_sound [of _ _ r s i "[]"] ends_complete [of s r i _ "[]"] that
    by (metis list.set_intros(1) neq_Nil_conv surj_pair empty_iff list.set(1))
  then show ?thesis
    unfolding search_def search_from_None by (auto simp: less_Suc_eq_le)
qed

lemma search_Some:
  assumes "search r s = Some (i, j, g)"
  shows "i \<le> length s \<and> rx_matches s r i j \<and> i \<le> j \<and> j \<le> length s"
proof -
  have f: "i \<le> length s" "(j, g) \<in> set (ends r s (i, []))"
    using search_from_Some [OF assms [unfolded search_def]] by (auto simp: less_Suc_eq_le)
  then show ?thesis
    using ends_sound [OF f(2,1)] rx_matches_range by blast
qed

end
