(* ===== verification/Guard_Scan.thy ===== *)
theory Guard_Scan
  imports Py_Regex
begin

text \<open>
  The local scanner of deploy/precommit_security.py: the secret patterns, what it finds in the
  paths and the added lines of a staged snapshot, and the redaction of what a model may see.
  \<open>fp\<close> stands for the digest of a finding (the first digits of a SHA-256).
\<close>

section \<open>Data\<close>

record finding =
  fi_category :: string
  fi_rule :: string
  fi_path :: string
  fi_message :: string
  fi_line :: "int option"
  fi_fingerprint :: "string option"

record added_line =
  al_line :: int
  al_text :: string

record staged_file =
  sf_status :: string
  sf_path :: string
  sf_old_path :: "string option"
  sf_mode :: string
  sf_blob_oid :: string
  sf_size :: int
  sf_kind :: string
  sf_added_lines :: "added_line list"

record staged_snapshot =
  ss_index_tree :: string
  ss_files :: "staged_file list"

record secret_pattern =
  sp_rule :: string
  sp_regex :: rx
  sp_message :: string

definition MAX_BLOB_BYTES :: int where "MAX_BLOB_BYTES = 20 * 1024 * 1024"

definition MAX_ADDED_LINE_BYTES :: nat where "MAX_ADDED_LINE_BYTES = 8 * 1024"

definition MAX_AGENT_PAYLOAD_BYTES :: nat where "MAX_AGENT_PAYLOAD_BYTES = 512 * 1024"

section \<open>Patterns\<close>

definition alnum :: "char \<Rightarrow> bool" where
  "alnum c = (is_lower c \<or> is_upper c \<or> is_digit c)"

definition alnum_or :: "string \<Rightarrow> char \<Rightarrow> bool" where
  "alnum_or extra c = (alnum c \<or> c \<in> set extra)"

definition iletter :: "char \<Rightarrow> bool" where
  \<comment> \<open>\<open>[a-z]\<close> where case is ignored\<close>
  "iletter c = (is_lower c \<or> is_upper c)"

definition quotes :: string where
  "quotes = [CHR 0x22, CHR 0x27]"

definition SECRET_PATTERNS :: "secret_pattern list" where
  "SECRET_PATTERNS = [
     \<lparr>sp_rule = ''github-token'',
      sp_regex = cat [WordB, Alt (cat [lit ''gh'', one_of ''pousr'', lit ''_'', Rep alnum 20 None])
        (Cat (lit ''github_pat_'') (Rep (alnum_or ''_'') 20 None)), WordB],
      sp_message = ''GitHub access token shape is staged''\<rparr>,
     \<lparr>sp_rule = ''openai-api-key'',
      sp_regex = cat [WordB, lit ''sk-'', Opt (Alt (lit ''proj-'') (lit ''svcacct-'')), Rep (alnum_or ''_-'') 20 None, WordB],
      sp_message = ''OpenAI API key shape is staged''\<rparr>,
     \<lparr>sp_rule = ''aws-access-key'',
      sp_regex = cat [WordB, Alt (lit ''AKIA'') (lit ''ASIA''), Rep (\<lambda>c. is_upper c \<or> is_digit c) 16 (Some 16), WordB],
      sp_message = ''AWS access key ID shape is staged''\<rparr>,
     \<lparr>sp_rule = ''google-api-key'',
      sp_regex = cat [WordB, lit ''AIza'', Rep (alnum_or ''_-'') 35 (Some 35), WordB],
      sp_message = ''Google API key shape is staged''\<rparr>,
     \<lparr>sp_rule = ''slack-token'',
      sp_regex = cat [WordB, lit ''xox'', one_of ''baprs'', lit ''-'', Rep (alnum_or ''-'') 16 None, WordB],
      sp_message = ''Slack token shape is staged''\<rparr>,
     \<lparr>sp_rule = ''stripe-live-key'',
      sp_regex = cat [WordB, Alt (lit ''sk'') (lit ''rk''), lit ''_live_'', Rep alnum 16 None, WordB],
      sp_message = ''Stripe live key shape is staged''\<rparr>,
     \<lparr>sp_rule = ''jwt'',
      sp_regex = cat [WordB, lit ''eyJ'', Rep (alnum_or ''_-'') 8 None, lit ''.'', Rep (alnum_or ''_-'') 8 None, lit ''.'',
        Rep (alnum_or ''_-'') 8 None, WordB],
      sp_message = ''JWT shape is staged''\<rparr>,
     \<lparr>sp_rule = ''private-key'',
      sp_regex = cat [lit ''-----BEGIN '', Opt (alts [lit ''RSA '', lit ''EC '', lit ''OPENSSH '', lit ''DSA '']), lit ''PRIVATE KEY-----''],
      sp_message = ''private-key material is staged''\<rparr>,
     \<lparr>sp_rule = ''authorization-bearer'',
      sp_regex = cat [WordB, ilit ''authorization'', Rep is_space 0 None, one_of '':='', Rep is_space 0 None, Opt (one_of quotes),
        ilit ''bearer'', Rep is_space 1 None, Rep (alnum_or ''._~+/=-'') 16 None],
      sp_message = ''literal bearer credential is staged''\<rparr>,
     \<lparr>sp_rule = ''credential-url'',
      sp_regex = cat [WordB, Cls iletter, Rep (\<lambda>c. iletter c \<or> is_digit c \<or> c \<in> set ''+.-'') 1 (Some 20), lit ''://'',
        Rep (\<lambda>c. \<not> is_space c \<and> c \<notin> set ''/:@'') 1 None, lit '':'', Rep (\<lambda>c. \<not> is_space c \<and> c \<notin> set ''/@'') 6 None, lit ''@''],
      sp_message = ''URL containing literal credentials is staged''\<rparr>]"

definition iwords :: "string \<Rightarrow> string \<Rightarrow> rx" where
  \<comment> \<open>two words with an optional underscore or dash between them\<close>
  "iwords a b = cat [ilit a, Opt (one_of ''_-''), ilit b]"

definition SENSITIVE_ASSIGNMENT :: rx where
  \<comment> \<open>group 1 is the name, group 2 the value\<close>
  "SENSITIVE_ASSIGNMENT = cat [Opt (one_of quotes),
     Cap 1 (alts [ilit ''password'', ilit ''passwd'', ilit ''secret'', ilit ''token'', iwords ''api'' ''key'', iwords ''access'' ''key'',
       iwords ''private'' ''key'', iwords ''client'' ''secret'', iwords ''auth'' ''token'', iwords ''bearer'' ''token'']),
     Opt (one_of quotes), Rep is_space 0 None, one_of '':='', Rep is_space 0 None, Cap 2 (Rep (\<lambda>c. c \<noteq> newline) 1 None), Eol]"

definition PLACEHOLDER_VALUES :: "string list" where
  "PLACEHOLDER_VALUES = [[], ''changeme'', ''example'', ''fake'', ''placeholder'', ''redacted'', ''secret'', ''test'', ''test-token'', ''todo'',
     ''your-key-here'', ''your-token-here'']"

definition ENV_REFERENCE_MARKERS :: "string list" where
  "ENV_REFERENCE_MARKERS = [''${'', ''process.env'', ''os.environ'', ''os.getenv'', ''getenv('', ''secretkeyref'', ''secrets.'', ''from_env'', ''vault'']"

definition BACKUP_DIR_COMPONENTS :: "string list" where
  "BACKUP_DIR_COMPONENTS = [''backup'', ''backups'', ''dump'', ''dumps'']"

definition BLOCKED_SUFFIXES :: "string list" where
  "BLOCKED_SUFFIXES = [''.7z'', ''.bak'', ''.backup'', ''.bz2'', ''.db'', ''.dump'', ''.gz'', ''.img'', ''.jks'', ''.key'', ''.mdb'', ''.orig'',
     ''.p12'', ''.pem'', ''.pfx'', ''.pgdump'', ''.qcow'', ''.qcow2'', ''.rar'', ''.rdb'', ''.sqlite'', ''.sqlite3'', ''.tar'', ''.tgz'', ''.vmdk'',
     ''.xz'', ''.zip'', ''.zst'']"

definition BACKUP_NAME :: rx where
  "BACKUP_NAME = cat [Alt Bol (one_of ''-_.''),
     alts [ilit ''backup'', ilit ''dump'', ilit ''export'', ilit ''precutover'', ilit ''pre-cutover'', ilit ''snapshot''],
     Alt (one_of ''-_.'') Eol]"

definition SOURCE_OR_DOC_SUFFIXES :: "string list" where
  "SOURCE_OR_DOC_SUFFIXES = [''.c'', ''.cc'', ''.cpp'', ''.go'', ''.h'', ''.hpp'', ''.java'', ''.js'', ''.jsx'', ''.md'', ''.mjs'', ''.py'', ''.rb'',
     ''.rs'', ''.sh'', ''.sql'', ''.ts'', ''.tsx'']"

definition TOKENISH :: rx where
  "TOKENISH = Rep (alnum_or ''+/=_-'') 20 None"

definition DUMP_SIGNATURES :: "rx list" where
  "DUMP_SIGNATURES = [Cat Bol (ilit ''-- postgresql database dump''), Cat Bol (ilit ''-- mysql dump''), Cat Bol (lit ''SQLite format 3'')]"

section \<open>Assignments\<close>

definition find_from :: "char \<Rightarrow> string \<Rightarrow> nat option" where
  \<comment> \<open>\<open>s.find(c)\<close>\<close>
  "find_from c s = (if c \<in> set s then Some (length (takeWhile (\<lambda>x. x \<noteq> c) s)) else None)"

definition extract_assignment_value :: "string \<Rightarrow> string" where
  "extract_assignment_value raw =
     (case strip raw of
        [] \<Rightarrow> []
      | c # rest \<Rightarrow>
          if c \<in> set [CHR 0x22, CHR 0x27, CHR 0x60]
          then (case find_from c rest of Some n \<Rightarrow> take n rest | None \<Rightarrow> rest)
          else strip (takeWhile (\<lambda>x. \<not> (is_space x \<or> x \<in> set '',;#'')) (c # rest)))"

definition is_placeholder_or_reference :: "string \<Rightarrow> bool" where
  "is_placeholder_or_reference value =
     (let lowered = lower (strip value) in
      lowered \<in> set PLACEHOLDER_VALUES
      \<or> list_ex (startswith lowered) [''<'', ''$'', ''{'']
      \<or> list_ex (contains lowered) ENV_REFERENCE_MARKERS)"

definition sensitive_value :: "string \<Rightarrow> (string \<times> string) option" where
  \<comment> \<open>name and value of a literal assignment that is reported\<close>
  "sensitive_value text = (case search SENSITIVE_ASSIGNMENT text of
      None \<Rightarrow> None
    | Some (_, _, g) \<Rightarrow>
       (let value = extract_assignment_value (group text g 2) in
        if 8 \<le> length value \<and> \<not> is_placeholder_or_reference value then Some (group text g 1, value) else None))"

section \<open>Findings in paths\<close>

definition posix_parts :: "string \<Rightarrow> string list" where
  \<comment> \<open>\<open>PurePosixPath(s).parts\<close>\<close>
  "posix_parts s =
     (if startswith s ''//'' \<and> \<not> startswith s ''///'' then [''//''] else if startswith s ''/'' then [''/''] else [])
     @ filter (\<lambda>p. p \<noteq> [] \<and> p \<noteq> ''.'') (split_on (CHR ''/'') s)"

definition name_suffix :: "string \<Rightarrow> string" where
  \<comment> \<open>\<open>PurePosixPath(name).suffix\<close> for a name without slashes\<close>
  "name_suffix name =
     (let ext = rev (takeWhile (\<lambda>c. c \<noteq> CHR ''.'') (rev name)); i = length name - Suc (length ext) in
      if CHR ''.'' \<in> set name \<and> 0 < i \<and> ext \<noteq> [] then CHR ''.'' # ext else [])"

definition simple_finding :: "staged_file \<Rightarrow> string \<Rightarrow> string \<Rightarrow> string \<Rightarrow> finding" where
  "simple_finding file category rule message = \<lparr>fi_category = category, fi_rule = rule, fi_path = sf_path file, fi_message = message,
     fi_line = None, fi_fingerprint = None\<rparr>"

definition path_secret :: "(string \<Rightarrow> string) \<Rightarrow> staged_file \<Rightarrow> string \<Rightarrow> string \<Rightarrow> secret_pattern \<Rightarrow> finding list" where
  "path_secret fp file label candidate sp = (case search (sp_regex sp) candidate of
      None \<Rightarrow> []
    | Some (i, j, _) \<Rightarrow> [(simple_finding file ''credential'' (sp_rule sp @ ''-in-path'')
        (label @ '' contains a '' @ sp_rule sp @ '' credential shape''))\<lparr>fi_fingerprint := Some (fp (slice candidate i j))\<rparr>])"

definition candidate_findings :: "(string \<Rightarrow> string) \<Rightarrow> staged_file \<Rightarrow> string \<times> string option \<Rightarrow> finding list" where
  "candidate_findings fp file lc = (case lc of (label, None) \<Rightarrow> []
    | (label, Some candidate) \<Rightarrow>
        concat (map (path_secret fp file label candidate) SECRET_PATTERNS)
        @ (case sensitive_value candidate of None \<Rightarrow> []
           | Some (_, value) \<Rightarrow> [(simple_finding file ''credential'' ''literal-sensitive-assignment-in-path''
               (label @ '' contains a literal value assigned to a sensitive field''))\<lparr>fi_fingerprint := Some (fp value)\<rparr>]))"

definition when_found :: "bool \<Rightarrow> 'a \<Rightarrow> 'a list" where
  "when_found b x = (if b then [x] else [])"

definition path_findings :: "(string \<Rightarrow> string) \<Rightarrow> staged_file \<Rightarrow> finding list" where
  "path_findings fp file =
     (let normalized = replace [CHR 0x5C] ''/'' (sf_path file);
          lowered = lower normalized;
          parts = map lower (posix_parts normalized);
          basename = (if parts = [] then lowered else last parts) in
      concat (map (candidate_findings fp file) [(''path'', Some (sf_path file)), (''rename source path'', sf_old_path file)])
      @ when_found (list_ex (\<lambda>p. p \<in> set BACKUP_DIR_COMPONENTS) parts)
          (simple_finding file ''backup'' ''backup-directory'' ''files under backup/dump directories must never be committed'')
      @ when_found (list_ex (endswith lowered) BLOCKED_SUFFIXES)
          (simple_finding file ''backup'' ''blocked-artifact-suffix'' ''backup, archive, database, disk, or key artifact suffix is staged'')
      @ when_found (search BACKUP_NAME basename \<noteq> None \<and> name_suffix basename \<notin> set SOURCE_OR_DOC_SUFFIXES)
          (simple_finding file ''backup'' ''backup-filename'' ''filename looks like an operational backup, dump, export, or snapshot'')
      @ when_found (basename = ''.env'' \<or> (startswith basename ''.env.''
            \<and> \<not> list_ex (endswith basename) [''.example'', ''.sample'', ''.template'']))
          (simple_finding file ''credential'' ''environment-file'' ''non-template environment files must never be committed'')
      @ when_found (basename \<in> set [''id_rsa'', ''id_dsa'', ''id_ecdsa'', ''id_ed25519''])
          (simple_finding file ''credential'' ''private-key-filename'' ''private-key filename is staged'')
      @ (if sf_kind file = ''binary''
         then [simple_finding file ''unreviewable'' ''binary-change'' ''binary changes cannot be safely inspected as staged-only text'']
         else when_found (sf_kind file = ''oversize'')
           (simple_finding file ''unreviewable'' ''oversize-blob'' ''staged blob exceeds the 20 MiB inspection limit'')))"

section \<open>Findings in added lines\<close>

definition line_finding :: "staged_file \<Rightarrow> added_line \<Rightarrow> string \<Rightarrow> string \<Rightarrow> string \<Rightarrow> string option \<Rightarrow> finding" where
  "line_finding file added category rule message print = \<lparr>fi_category = category, fi_rule = rule, fi_path = sf_path file,
     fi_message = message, fi_line = Some (al_line added), fi_fingerprint = print\<rparr>"

definition line_secret :: "(string \<Rightarrow> string) \<Rightarrow> staged_file \<Rightarrow> added_line \<Rightarrow> secret_pattern \<Rightarrow> finding list" where
  "line_secret fp file added sp = (case search (sp_regex sp) (al_text added) of
      None \<Rightarrow> []
    | Some (i, j, _) \<Rightarrow> [line_finding file added ''credential'' (sp_rule sp) (sp_message sp) (Some (fp (slice (al_text added) i j)))])"

definition line_findings :: "(string \<Rightarrow> string) \<Rightarrow> staged_file \<Rightarrow> added_line \<Rightarrow> finding list" where
  "line_findings fp file added =
     (if MAX_ADDED_LINE_BYTES < utf8_len (al_text added)
      then [line_finding file added ''unreviewable'' ''oversize-line'' ''staged line exceeds the 8 KiB inspection limit'' None]
      else when_found (list_ex (\<lambda>r. search r (al_text added) \<noteq> None) DUMP_SIGNATURES)
             (line_finding file added ''backup'' ''database-dump-content'' ''database dump signature is staged'' None)
        @ concat (map (line_secret fp file added) SECRET_PATTERNS)
        @ (case sensitive_value (al_text added) of None \<Rightarrow> []
           | Some (name, value) \<Rightarrow> [line_finding file added ''credential'' ''literal-sensitive-assignment''
               (''literal value assigned to sensitive field '' @ [CHR 0x27] @ name @ [CHR 0x27]) (Some (fp value))]))"

definition content_findings :: "(string \<Rightarrow> string) \<Rightarrow> staged_file \<Rightarrow> finding list" where
  "content_findings fp file = concat (map (line_findings fp file) (sf_added_lines file))"

definition finding_key :: "finding \<Rightarrow> string \<times> string \<times> int option" where
  "finding_key f = (fi_rule f, fi_path f, fi_line f)"

definition add_new :: "finding list \<Rightarrow> finding \<Rightarrow> finding list" where
  "add_new out f = (if finding_key f \<in> finding_key ` set out then out else out @ [f])"

definition local_findings :: "(string \<Rightarrow> string) \<Rightarrow> staged_snapshot \<Rightarrow> finding list" where
  "local_findings fp snapshot =
     foldl add_new [] (concat (map (\<lambda>file. path_findings fp file @ content_findings fp file) (ss_files snapshot)))"

section \<open>Redaction\<close>

definition shannon_entropy :: "string \<Rightarrow> real" where
  "shannon_entropy value = (if value = [] then 0
     else - (\<Sum>c \<in> set value. (count_list value c / length value) * log 2 (count_list value c / length value)))"

definition character_classes :: "string \<Rightarrow> nat" where
  "character_classes value = length (filter (\<lambda>p. list_ex p value) [is_lower, is_upper, is_digit, \<lambda>c. c \<in> set ''_+/=-''])"

definition redact_tokenish :: "string \<Rightarrow> string" where
  "redact_tokenish value = (if 2 \<le> character_classes value \<and> 3.5 \<le> shannon_entropy value
     then ''<redacted-token-like length='' @ nat_str (length value) @ ''>'' else value)"

definition redact_secret :: "string \<Rightarrow> secret_pattern \<Rightarrow> string" where
  "redact_secret text sp =
     sub (sp_regex sp) (\<lambda>m. ''<redacted-'' @ sp_rule sp @ '' length='' @ nat_str (length m) @ ''>'') text"

definition redact_line :: "string \<Rightarrow> string" where
  "redact_line line =
     (let redacted = foldl redact_secret line SECRET_PATTERNS;
          redacted2 = (case search SENSITIVE_ASSIGNMENT redacted of
              None \<Rightarrow> redacted
            | Some (_, _, g) \<Rightarrow>
               (let value = extract_assignment_value (group redacted g 2) in
                if value \<noteq> [] \<and> \<not> is_placeholder_or_reference value
                then (case map_of g 2 of Some (start, _) \<Rightarrow> take start redacted @ ''<redacted-sensitive-value>'' | None \<Rightarrow> redacted)
                else redacted)) in
      sub TOKENISH redact_tokenish redacted2)"

definition added_json :: "added_line \<Rightarrow> json" where
  "added_json a = JObj [(''line'', JInt (al_line a)), (''text'', JStr (redact_line (al_text a)))]"

definition file_json :: "staged_file \<Rightarrow> json" where
  "file_json file = JObj [(''status'', JStr (sf_status file)), (''path'', JStr (redact_line (sf_path file))),
     (''oldPath'', (case sf_old_path file of Some p \<Rightarrow> JStr (redact_line p) | None \<Rightarrow> JNull)),
     (''mode'', JStr (sf_mode file)), (''size'', JInt (sf_size file)), (''kind'', JStr (sf_kind file)),
     (''addedLines'', JList (map added_json (sf_added_lines file)))]"

definition agent_payload :: "(json \<Rightarrow> nat) \<Rightarrow> staged_snapshot \<Rightarrow> json result" where
  \<comment> \<open>\<open>size_of\<close> is the length of the compact ASCII text of the payload\<close>
  "agent_payload size_of snapshot =
     (let payload = JObj [(''schemaVersion'', JInt 1), (''indexTree'', JStr (ss_index_tree snapshot)),
        (''scope'', JStr ''Git index versus HEAD; added staged lines only; no worktree content''),
        (''files'', JList (map file_json (ss_files snapshot)))] in
      if MAX_AGENT_PAYLOAD_BYTES < size_of payload
      then Inl (GuardError (''redacted staged payload is '' @ nat_str (size_of payload) @ '' bytes, above the 524288 byte review limit; split the commit''))
      else Inr payload)"

definition format_finding :: "finding \<Rightarrow> string" where
  "format_finding f = ''  - '' @ redact_line (fi_path f) @ (case fi_line f of Some n \<Rightarrow> '':'' @ int_str n | None \<Rightarrow> [])
     @ '' ['' @ fi_rule f @ ''] '' @ fi_message f
     @ (case fi_fingerprint f of Some p \<Rightarrow> if p = [] then [] else ''; fingerprint='' @ p | None \<Rightarrow> [])"

definition has_agent_reviewable_changes :: "staged_snapshot \<Rightarrow> bool" where
  "has_agent_reviewable_changes snapshot = list_ex (\<lambda>f. sf_added_lines f \<noteq> []) (ss_files snapshot)"

end
