(* ===== verification/Guard_Flow.thy ===== *)
theory Guard_Flow
  imports Guard_Scan
begin

text \<open>
  The flow of deploy/precommit_security.py: reading the index through git, the review by the Smithers
  workflow and the verification of its result database, and the decision of the hook. The outputs
  of git (after the decoding of text), of the reviewer and of its database are arguments; bytes are
  characters, \<open>ascii\<close> and \<open>fsdecode\<close> turn a status and a path of bytes into text. A \<open>GuardError\<close> or any other exception ends the hook with exit code 1.
\<close>

section \<open>Reading the index\<close>

definition split_nul :: "string \<Rightarrow> string list" where
  "split_nul raw = (let parts = split_on (CHR 0x00) raw in if last parts = [] then butlast parts else parts)"

fun parse_changes :: "(string \<Rightarrow> string) \<Rightarrow> (string \<Rightarrow> string) \<Rightarrow> string list
    \<Rightarrow> (string \<times> string option \<times> string) list result" where
  \<comment> \<open>\<open>ascii\<close> is \<open>decode('ascii', 'replace')\<close>\<close>
  "parse_changes ascii fsdecode [] = Inr []"
| "parse_changes ascii fsdecode (raw # others) =
     (let status = ascii raw in
      if status = [] then Inl (GuardError ''git returned an empty staged status'')
      else if hd status = CHR ''R'' \<or> hd status = CHR ''C''
      then (case others of
              old_path # path # rest \<Rightarrow> bindR (parse_changes ascii fsdecode rest) (\<lambda>cs.
                Inr ((status, Some (fsdecode old_path), fsdecode path) # cs))
            | _ \<Rightarrow> Inl (GuardError ''git returned a truncated staged rename/copy record''))
      else (case others of
              path # rest \<Rightarrow> bindR (parse_changes ascii fsdecode rest) (\<lambda>cs. Inr ((status, None, fsdecode path) # cs))
            | [] \<Rightarrow> Inl (GuardError ''git returned a truncated staged path record'')))"

definition changed_index_paths :: "(string \<Rightarrow> string) \<Rightarrow> (string \<Rightarrow> string) \<Rightarrow> string
    \<Rightarrow> (string \<times> string option \<times> string) list result" where
  "changed_index_paths ascii fsdecode raw = parse_changes ascii fsdecode (split_nul raw)"

definition is_bytespace :: "char \<Rightarrow> bool" where
  "is_bytespace c = (c = CHR '' '' \<or> (9 \<le> code c \<and> code c \<le> 13))"

fun byte_words :: "string \<Rightarrow> string list" where
  \<comment> \<open>\<open>b.split()\<close>\<close>
  "byte_words [] = []"
| "byte_words (c # s) = (if is_bytespace c then byte_words s
     else (case s of [] \<Rightarrow> [[c]]
       | d # _ \<Rightarrow> if is_bytespace d then [c] # byte_words s
           else (case byte_words s of [] \<Rightarrow> [[c]] | w # ws \<Rightarrow> (c # w) # ws)))"

definition decode_ascii :: "string \<Rightarrow> string result" where
  "decode_ascii raw = (if list_all (\<lambda>c. code c < 128) raw then Inr raw else Inl (ValueError ''ordinal not in range(128)''))"

definition repr_char :: "char \<Rightarrow> char \<Rightarrow> string" where
  "repr_char quote c =
     (if c = quote \<or> c = CHR 0x5C then [CHR 0x5C, c]
      else if c = CHR 0x09 then [CHR 0x5C, CHR ''t''] else if c = CHR 0x0A then [CHR 0x5C, CHR ''n'']
      else if c = CHR 0x0D then [CHR 0x5C, CHR ''r'']
      else if code c < 32 \<or> (127 \<le> code c \<and> code c \<le> 160) \<or> code c = 173
        then [CHR 0x5C, CHR ''x'', hex_digit (code c div 16), hex_digit (code c mod 16)]
      else [c])"

definition repr_str :: "string \<Rightarrow> string" where
  \<comment> \<open>\<open>repr(s)\<close>: single quotes, unless the text has them and no double ones\<close>
  "repr_str s = (let quote = (if CHR 0x27 \<in> set s \<and> CHR 0x22 \<notin> set s then CHR 0x22 else CHR 0x27) in
     quote # concat (map (repr_char quote) s) @ [quote])"

definition index_entry :: "string \<Rightarrow> string \<Rightarrow> (string \<times> string) result" where
  \<comment> \<open>mode and blob of the one stage-0 record in the output of \<open>git ls-files\<close>\<close>
  "index_entry path raw =
     (case filter (\<lambda>r. r \<noteq> []) (split_on (CHR 0x00) raw) of
        [record] \<Rightarrow>
          (case split1 (CHR 0x09) record of
             None \<Rightarrow> Inl (GuardError (''could not parse index entry for '' @ repr_str path))
           | Some (prefix, _) \<Rightarrow>
              (case byte_words prefix of
                 [mode, oid, stage] \<Rightarrow> if stage = ''0''
                   then bindR (decode_ascii mode) (\<lambda>m. bindR (decode_ascii oid) (\<lambda>d. Inr (m, d)))
                   else Inl (GuardError (''unmerged or malformed index entry for '' @ repr_str path))
               | _ \<Rightarrow> Inl (GuardError (''unmerged or malformed index entry for '' @ repr_str path))))
      | _ \<Rightarrow> Inl (GuardError (''expected one stage-0 index entry for '' @ repr_str path)))"

definition HUNK_HEADER :: rx where
  "HUNK_HEADER = (let count = Opt (Cat (lit '','') (Rep is_digit 1 None)) in
     cat [Bol, lit ''@@ -'', Rep is_digit 1 None, count, lit '' +'', Cap 1 (Rep is_digit 1 None), count, lit '' @@''])"

definition hunk_line :: "string \<Rightarrow> int option" where
  \<comment> \<open>the first new line number of a hunk header\<close>
  "hunk_line l = (case ends HUNK_HEADER l (0, []) of [] \<Rightarrow> None | (_, g) # _ \<Rightarrow> Some (int (digits_val (group l g 1))))"

definition added_step :: "added_line list \<times> int option \<Rightarrow> string \<Rightarrow> added_line list \<times> int option" where
  "added_step st raw_line = (case st of (added, next_line) \<Rightarrow>
     (case hunk_line raw_line of
        Some n \<Rightarrow> (added, Some n)
      | None \<Rightarrow> (case next_line of
          None \<Rightarrow> (added, None)
        | Some n \<Rightarrow>
            if startswith raw_line ''+'' then (added @ [\<lparr>al_line = n, al_text = tl raw_line\<rparr>], Some (n + 1))
            else if startswith raw_line ''-'' then (added, Some n)
            else if startswith raw_line '' '' then (added, Some (n + 1))
            else if startswith raw_line (CHR 0x5C # '' No newline'') then (added, Some n)
            else (added, None))))"

definition added_lines :: "string \<Rightarrow> added_line list" where
  \<comment> \<open>from the decoded text of the patch\<close>
  "added_lines patch = fst (foldl added_step ([], None) (splitlines patch))"

record git_repo =
  gt_tree :: "string result"
  gt_changes :: "string result"
  gt_ls_files :: "string \<Rightarrow> string result"
  gt_size :: "string \<Rightarrow> string result"
  gt_blob :: "string \<Rightarrow> string result"
  gt_patch :: "string \<Rightarrow> string result"
  gt_ascii :: "string \<Rightarrow> string"
  gt_fsdecode :: "string \<Rightarrow> string"

definition staged_file_of :: "git_repo \<Rightarrow> string \<times> string option \<times> string \<Rightarrow> staged_file result" where
  "staged_file_of gt change = (case change of (status, old_path, path) \<Rightarrow>
     bindR (bindR (gt_ls_files gt path) (index_entry path)) (\<lambda>(mode, oid).
     let file = \<lparr>sf_status = status, sf_path = path, sf_old_path = old_path, sf_mode = mode, sf_blob_oid = oid,
           sf_size = 0, sf_kind = ''gitlink'', sf_added_lines = []\<rparr> in
     if mode = ''160000'' then Inr file
     else bindR (gt_size gt oid) (\<lambda>txt.
       bindR (case py_int (strip txt) of Some n \<Rightarrow> Inr n | None \<Rightarrow> Inl (ValueError ''invalid literal for int()'')) (\<lambda>size.
       if MAX_BLOB_BYTES < size then Inr (file\<lparr>sf_size := size, sf_kind := ''oversize''\<rparr>)
       else bindR (gt_blob gt oid) (\<lambda>blob.
         let kind = (if CHR 0x00 \<in> set blob then ''binary'' else if mode = ''120000'' then ''symlink'' else ''text'') in
         bindR (if kind = ''binary'' then Inr [] else bindR (gt_patch gt path) (\<lambda>p. Inr (added_lines p))) (\<lambda>added.
         Inr (file\<lparr>sf_size := size, sf_kind := kind, sf_added_lines := added\<rparr>)))))))"

definition collect_staged_snapshot :: "git_repo \<Rightarrow> staged_snapshot result" where
  "collect_staged_snapshot gt =
     bindR (gt_tree gt) (\<lambda>tree.
     bindR (bindR (gt_changes gt) (changed_index_paths (gt_ascii gt) (gt_fsdecode gt))) (\<lambda>changes.
     bindR (mapR (staged_file_of gt) changes) (\<lambda>files.
     Inr \<lparr>ss_index_tree = strip tree, ss_files = files\<rparr>)))"

section \<open>The agentic review\<close>

definition SAFE_SMITHERS_ENV_KEYS :: "string list" where
  "SAFE_SMITHERS_ENV_KEYS = [''CODEX_HOME'', ''HOME'', ''LANG'', ''LC_ALL'', ''LC_CTYPE'', ''LOGNAME'', ''NODE_EXTRA_CA_CERTS'', ''PATH'', ''SHELL'',
     ''SSL_CERT_DIR'', ''SSL_CERT_FILE'', ''TERM'', ''TMPDIR'', ''TZ'', ''USER'']"

definition smithers_environment :: "string dict \<Rightarrow> string \<Rightarrow> string \<Rightarrow> string \<Rightarrow> string \<Rightarrow> string dict" where
  "smithers_environment environ defpath temp_dir db_path agent_dir =
     (let kept = List.map_filter (\<lambda>k. case map_of environ k of Some v \<Rightarrow> if v = [] then None else Some (k, v) | None \<Rightarrow> None)
            SAFE_SMITHERS_ENV_KEYS;
          with_path = (if map_of kept ''PATH'' = None then kept @ [(''PATH'', defpath)] else kept) in
      AList.update ''SMITHERS_DB_PATH'' db_path
        (AList.update ''ATTESTMESH_PRECOMMIT_INPUT_DIR'' temp_dir
          (AList.update ''ATTESTMESH_PRECOMMIT_AGENT_CWD'' agent_dir with_path)))"

definition parse_json_array :: "(string \<Rightarrow> json option) \<Rightarrow> json \<Rightarrow> string \<Rightarrow> json list result" where
  "parse_json_array loads value field = (case value of
      JStr s \<Rightarrow> (case loads s of
          None \<Rightarrow> Inl (GuardError (''Smithers stored malformed '' @ field @ '' JSON''))
        | Some (JList xs) \<Rightarrow> Inr xs
        | Some _ \<Rightarrow> Inl (GuardError (''Smithers stored a non-array '' @ field @ '' value'')))
    | _ \<Rightarrow> Inl (GuardError (''Smithers stored an invalid '' @ field @ '' value'')))"

definition is_one :: "json \<Rightarrow> bool" where
  \<comment> \<open>\<open>v == 1\<close>\<close>
  "is_one v = (v = JInt 1 \<or> v = JFloat (Fin 1) \<or> v = JBool True)"

record smithers_db =
  \<comment> \<open>the rows of the run; None where the query raises \<open>sqlite3.Error\<close>\<close>
  db_review :: "(json \<times> json \<times> json) list option"
  db_verdict :: "(json \<times> json) list option"
  db_enforce :: "json list option"

definition rows_of :: "'a list option \<Rightarrow> 'a list result" where
  "rows_of q = (case q of Some rows \<Rightarrow> Inr rows | None \<Rightarrow> Inl (GuardError ''could not verify the private Smithers result database''))"

definition EXPECTED_REVIEWERS :: "json list" where
  "EXPECTED_REVIEWERS = [JStr ''adversarial-review'', JStr ''backup-review'', JStr ''credential-review'']"

definition check_review :: "(string \<Rightarrow> json option) \<Rightarrow> json \<times> json \<times> json \<Rightarrow> unit result" where
  "check_review loads row = (case row of (_, clear, findings) \<Rightarrow>
     bindR (parse_json_array loads findings ''specialist findings'') (\<lambda>parsed.
     guard_that (is_one clear \<and> parsed = []) (GuardError ''a Smithers specialist rejected the staged changes'')))"

definition verify_smithers_result :: "(string \<Rightarrow> json option) \<Rightarrow> smithers_db \<Rightarrow> unit result" where
  "verify_smithers_result loads d =
     bindR (rows_of (db_review d)) (\<lambda>review_rows.
     bindR (guard_that (set (map fst review_rows) = set EXPECTED_REVIEWERS \<and> length review_rows = length EXPECTED_REVIEWERS)
              (GuardError ''Smithers did not persist every required specialist review'')) (\<lambda>_.
     bindR (mapR (check_review loads) review_rows) (\<lambda>_.
     bindR (rows_of (db_verdict d)) (\<lambda>verdict_rows.
     (case verdict_rows of
        [(allowed, findings)] \<Rightarrow>
          bindR (if is_one allowed then bindR (parse_json_array loads findings ''verdict findings'') (\<lambda>fs. Inr (fs = [])) else Inr False) (\<lambda>ok.
          bindR (guard_that ok (GuardError ''Smithers agentic review rejected the staged changes'')) (\<lambda>_.
          bindR (rows_of (db_enforce d)) (\<lambda>enforcement_rows.
          guard_that (list_all is_one enforcement_rows \<and> length enforcement_rows = 1)
            (GuardError ''Smithers did not persist a successful enforcement decision''))))
      | _ \<Rightarrow> Inl (GuardError ''Smithers did not persist exactly one final verdict''))))))"

record reviewer =
  rv_bun :: bool
  rv_codex :: bool
  rv_installed :: bool
  rv_version :: "string result"
  rv_workflow :: bool
  rv_size_of :: "json \<Rightarrow> nat"
  rv_run :: "json \<Rightarrow> int"
    \<comment> \<open>the exit code of the workflow on this payload\<close>
  rv_loads :: "string \<Rightarrow> json option"
  rv_db :: smithers_db

definition smithers_entrypoint :: "reviewer \<Rightarrow> unit result" where
  "smithers_entrypoint rv =
     bindR (guard_that (rv_installed rv) (GuardError ''Smithers dependencies are not installed; run deploy/install-precommit-security.sh'')) (\<lambda>_.
     bindR (case rv_version rv of Inr v \<Rightarrow> Inr v | Inl _ \<Rightarrow> Inl (GuardError ''could not verify the installed Smithers package'')) (\<lambda>version.
     guard_that (version = ''0.22.0'') (GuardError (''expected smithers-orchestrator 0.22.0, found '' @ version
       @ ''; run deploy/install-precommit-security.sh''))))"

definition run_smithers_review :: "reviewer \<Rightarrow> staged_snapshot \<Rightarrow> unit result \<times> json option" where
  \<comment> \<open>the outcome, and the payload that was given to the model, if any\<close>
  "run_smithers_review rv snapshot =
     (case bindR (guard_that (rv_bun rv) (GuardError ''Bun is required; install Bun and run deploy/install-precommit-security.sh'')) (\<lambda>_.
           bindR (guard_that (rv_codex rv) (GuardError ''Codex CLI is required; install it and authenticate with codex login'')) (\<lambda>_.
           bindR (smithers_entrypoint rv) (\<lambda>_.
           bindR (guard_that (rv_workflow rv) (GuardError ''the Smithers pre-commit security workflow is missing'')) (\<lambda>_.
           agent_payload (rv_size_of rv) snapshot)))) of
        Inl e \<Rightarrow> (Inl e, None)
      | Inr payload \<Rightarrow>
         (bindR (guard_that (rv_run rv payload = 0)
             (GuardError ''Smithers gpt-5.6-sol/ultra review failed or rejected the staged changes'')) (\<lambda>_.
          verify_smithers_result (rv_loads rv) (rv_db rv)), Some payload))"

section \<open>The decision\<close>

definition guard :: "(string \<Rightarrow> string) \<Rightarrow> git_repo \<Rightarrow> string result \<Rightarrow> reviewer \<Rightarrow> int result \<times> string list \<times> json option" where
  \<comment> \<open>exit code, printed findings, and what was sent to the model; \<open>tree_after\<close> is the index after the review\<close>
  "guard fp gt tree_after rv =
     (case collect_staged_snapshot gt of
        Inl e \<Rightarrow> (Inl e, [], None)
      | Inr snapshot \<Rightarrow>
         (if ss_files snapshot = [] then (Inr 0, [], None)
          else let findings = local_findings fp snapshot in
            if findings \<noteq> [] then (Inr 1, map format_finding findings, None)
            else if \<not> has_agent_reviewable_changes snapshot then (Inr 0, [], None)
            else (case run_smithers_review rv snapshot of
                (Inl e, sent) \<Rightarrow> (Inl e, [], sent)
              | (Inr _, sent) \<Rightarrow>
                  (bindR tree_after (\<lambda>t. bindR (guard_that (strip t = ss_index_tree snapshot)
                     (GuardError ''the Git index changed during review; rerun the commit'')) (\<lambda>_. Inr 0)), [], sent))))"

definition guard_main :: "(string \<Rightarrow> string) \<Rightarrow> git_repo \<Rightarrow> string result \<Rightarrow> reviewer \<Rightarrow> bool \<Rightarrow> int \<times> string list \<times> json option" where
  \<comment> \<open>the exit status of the process; \<open>top_ok\<close>: the directory is the top level of the repository\<close>
  "guard_main fp gt tree_after rv top_ok =
     (if \<not> top_ok then (1, [], None)
      else case guard fp gt tree_after rv of
        (Inr code', out, sent) \<Rightarrow> (code', out, sent) | (Inl _, out, sent) \<Rightarrow> (1, out, sent))"

end
