(* ===== verification/Guard_Props.thy ===== *)
theory Guard_Props
  imports Guard_Flow
begin

text \<open>
  Correctness of the pre-commit guard: what the local scanner excludes, stated with the relation
  \<open>rx_matches\<close> rather than with the matcher; when the hook lets a commit pass and what a model may see
  before; the readers of git's output; the environment of the reviewer.
\<close>

section \<open>Deduplication\<close>

locale dedup =
  fixes key :: "'a \<Rightarrow> 'k" and add :: "'a list \<Rightarrow> 'a \<Rightarrow> 'a list"
  assumes add_old: "key x \<in> key ` set out \<Longrightarrow> add out x = out"
    and add_fresh: "key x \<notin> key ` set out \<Longrightarrow> add out x = out @ [x]"
begin

lemma add_keys: "key ` set (add out x) = insert (key x) (key ` set out)"
  using add_old add_fresh by (cases "key x \<in> key ` set out") auto

lemma fold_keys: "key ` set (foldl add out xs) = key ` set out \<union> key ` set xs"
  by (induction xs arbitrary: out) (simp_all add: add_keys)

lemma fold_distinct: "distinct (map key out) \<Longrightarrow> distinct (map key (foldl add out xs))"
proof (induction xs arbitrary: out)
  case (Cons x xs)
  have "distinct (map key (add out x))"
    using Cons.prems add_old add_fresh by (cases "key x \<in> key ` set out") auto
  then show ?case
    using Cons.IH by simp
qed simp

lemma fold_subset: "set (foldl add out xs) \<subseteq> set out \<union> set xs"
proof (induction xs arbitrary: out)
  case (Cons x xs)
  have "set (add out x) \<subseteq> insert x (set out)"
    using add_old add_fresh by (cases "key x \<in> key ` set out") auto
  then show ?case
    using Cons.IH [of "add out x"] by auto
qed simp

lemma fold_Nil: "foldl add [] xs = [] \<longleftrightarrow> xs = []"
  using fold_keys [of "[]" xs] by (metis Un_empty_left foldl_Nil image_is_empty list.set(1) set_empty)

end

interpretation fd: dedup finding_key add_new
  by unfold_locales (simp_all add: add_new_def)

definition all_findings :: "(string \<Rightarrow> string) \<Rightarrow> staged_snapshot \<Rightarrow> finding list" where
  "all_findings fp snapshot = concat (map (\<lambda>file. path_findings fp file @ content_findings fp file) (ss_files snapshot))"

lemma local_findings_fold: "local_findings fp snapshot = foldl add_new [] (all_findings fp snapshot)"
  by (simp add: local_findings_def all_findings_def)

lemma local_findings_Nil:
  "local_findings fp snapshot = [] \<longleftrightarrow> (\<forall>file \<in> set (ss_files snapshot). path_findings fp file = [] \<and> content_findings fp file = [])"
  by (auto simp: local_findings_def fd.fold_Nil)

section \<open>What the scanner excludes\<close>

definition occurs :: "rx \<Rightarrow> string \<Rightarrow> bool" where
  \<comment> \<open>the pattern matches somewhere in the text\<close>
  "occurs r s = (\<exists>i j. i \<le> length s \<and> rx_matches s r i j)"

lemma search_occurs: "search r s = None \<longleftrightarrow> \<not> occurs r s"
  by (auto simp: search_None occurs_def)

definition free_of_secrets :: "string \<Rightarrow> bool" where
  "free_of_secrets s = ((\<forall>sp \<in> set SECRET_PATTERNS. \<not> occurs (sp_regex sp) s) \<and> sensitive_value s = None)"

definition path_parts :: "staged_file \<Rightarrow> string list" where
  "path_parts file = map lower (posix_parts (replace [CHR 0x5C] ''/'' (sf_path file)))"

definition base_name :: "staged_file \<Rightarrow> string" where
  "base_name file = (if path_parts file = [] then lower (replace [CHR 0x5C] ''/'' (sf_path file)) else last (path_parts file))"

definition clean_path :: "staged_file \<Rightarrow> bool" where
  "clean_path file =
     (free_of_secrets (sf_path file) \<and> (\<forall>p. sf_old_path file = Some p \<longrightarrow> free_of_secrets p)
      \<and> set (path_parts file) \<inter> set BACKUP_DIR_COMPONENTS = {}
      \<and> (\<forall>x \<in> set BLOCKED_SUFFIXES. \<not> endswith (lower (replace [CHR 0x5C] ''/'' (sf_path file))) x)
      \<and> (occurs BACKUP_NAME (base_name file) \<longrightarrow> name_suffix (base_name file) \<in> set SOURCE_OR_DOC_SUFFIXES)
      \<and> base_name file \<noteq> ''.env''
      \<and> (startswith (base_name file) ''.env.'' \<longrightarrow> (\<exists>x \<in> {''.example'', ''.sample'', ''.template''}. endswith (base_name file) x))
      \<and> base_name file \<notin> {''id_rsa'', ''id_dsa'', ''id_ecdsa'', ''id_ed25519''}
      \<and> sf_kind file \<noteq> ''binary'' \<and> sf_kind file \<noteq> ''oversize'')"

definition clean_line :: "string \<Rightarrow> bool" where
  "clean_line s = (utf8_len s \<le> MAX_ADDED_LINE_BYTES \<and> free_of_secrets s \<and> (\<forall>r \<in> set DUMP_SIGNATURES. \<not> occurs r s))"

definition clean_file :: "staged_file \<Rightarrow> bool" where
  "clean_file file = (clean_path file \<and> (\<forall>a \<in> set (sf_added_lines file). clean_line (al_text a)))"

lemma when_found_Nil [simp]: "when_found b x = [] \<longleftrightarrow> \<not> b"
  by (simp add: when_found_def)

lemma line_findings_Nil:
  "line_findings fp file a = [] \<longleftrightarrow> clean_line (al_text a)"
proof (cases "MAX_ADDED_LINE_BYTES < utf8_len (al_text a)")
  case False
  have "line_secret fp file a sp = [] \<longleftrightarrow> \<not> occurs (sp_regex sp) (al_text a)" for sp
    unfolding line_secret_def search_occurs [symmetric] by (auto split: option.splits)
  then show ?thesis
    using False unfolding line_findings_def free_of_secrets_def clean_line_def
    by (auto simp: search_occurs list_ex_iff simp del: not_None_eq split: option.splits)
qed (simp add: line_findings_def clean_line_def)

lemma candidate_findings_Nil:
  "candidate_findings fp file (label, c) = [] \<longleftrightarrow> (\<forall>p. c = Some p \<longrightarrow> free_of_secrets p)"
proof (cases c)
  case (Some p)
  have "path_secret fp file label p sp = [] \<longleftrightarrow> \<not> occurs (sp_regex sp) p" for sp
    unfolding path_secret_def search_occurs [symmetric] by (auto split: option.splits)
  then show ?thesis
    using Some unfolding candidate_findings_def free_of_secrets_def by (auto split: option.splits)
qed (simp add: candidate_findings_def)

lemma path_findings_Nil: "path_findings fp file = [] \<longleftrightarrow> clean_path file"
proof -
  have "path_findings fp file = [] \<longleftrightarrow>
     candidate_findings fp file (''path'', Some (sf_path file)) = [] \<and> candidate_findings fp file (''rename source path'', sf_old_path file) = []
     \<and> \<not> list_ex (\<lambda>p. p \<in> set BACKUP_DIR_COMPONENTS) (path_parts file)
     \<and> \<not> list_ex (endswith (lower (replace [CHR 0x5C] ''/'' (sf_path file)))) BLOCKED_SUFFIXES
     \<and> \<not> (search BACKUP_NAME (base_name file) \<noteq> None \<and> name_suffix (base_name file) \<notin> set SOURCE_OR_DOC_SUFFIXES)
     \<and> \<not> (base_name file = ''.env'' \<or> (startswith (base_name file) ''.env.''
            \<and> \<not> list_ex (endswith (base_name file)) [''.example'', ''.sample'', ''.template'']))
     \<and> base_name file \<notin> set [''id_rsa'', ''id_dsa'', ''id_ecdsa'', ''id_ed25519'']
     \<and> sf_kind file \<noteq> ''binary'' \<and> sf_kind file \<noteq> ''oversize''"
    unfolding path_findings_def Let_def append_is_Nil_conv when_found_Nil path_parts_def [symmetric] base_name_def [symmetric]
    by (cases "sf_kind file = ''binary''") (simp_all only: list.map concat.simps append_is_Nil_conv when_found_Nil list.distinct
      simp_thms if_True if_False append_Nil2 not_Cons_self conj_assoc)
  also have "\<dots> \<longleftrightarrow> clean_path file"
    unfolding clean_path_def candidate_findings_Nil search_occurs list_ex_iff by auto
  finally show ?thesis .
qed

lemma local_findings_clean: "local_findings fp snapshot = [] \<longleftrightarrow> (\<forall>file \<in> set (ss_files snapshot). clean_file file)"
  unfolding local_findings_Nil clean_file_def path_findings_Nil [of fp] content_findings_def
  by (simp add: line_findings_Nil)

section \<open>The panel\<close>

definition empty_array :: "(string \<Rightarrow> json option) \<Rightarrow> json \<Rightarrow> bool" where
  "empty_array loads v = (\<exists>s. v = JStr s \<and> loads s = Some (JList []))"

definition clean_panel :: "(string \<Rightarrow> json option) \<Rightarrow> smithers_db \<Rightarrow> bool" where
  "clean_panel loads d =
     ((\<exists>rows. db_review d = Some rows \<and> mset (map fst rows) = mset EXPECTED_REVIEWERS
         \<and> (\<forall>(_, clear, findings) \<in> set rows. is_one clear \<and> empty_array loads findings))
      \<and> (\<exists>allowed findings. db_verdict d = Some [(allowed, findings)] \<and> is_one allowed \<and> empty_array loads findings)
      \<and> (\<exists>v. db_enforce d = Some [v] \<and> is_one v))"

lemma parse_json_array_Nil: "parse_json_array loads v field = Inr [] \<longleftrightarrow> empty_array loads v"
  by (auto simp: parse_json_array_def empty_array_def split: json.splits option.splits)

lemma check_review_ok: "check_review loads (n, clear, findings) = Inr u \<longleftrightarrow> is_one clear \<and> empty_array loads findings"
  by (auto simp: check_review_def parse_json_array_Nil [symmetric, of _ _ "''specialist findings''"])

lemma mapR_units: "(\<exists>us. mapR f xs = Inr us) \<longleftrightarrow> (\<forall>x \<in> set xs. \<exists>u. f x = Inr u)"
  by (induction xs) auto

lemma distinct_reviewers: "distinct EXPECTED_REVIEWERS"
  by (simp add: EXPECTED_REVIEWERS_def)

lemma same_set_length_mset:
  assumes "distinct ys"
  shows "set xs = set ys \<and> length xs = length ys \<longleftrightarrow> mset xs = mset ys"
proof
  assume a: "set xs = set ys \<and> length xs = length ys"
  then have "distinct xs"
    using assms by (metis card_distinct distinct_card)
  then show "mset xs = mset ys"
    using a assms by (simp add: set_eq_iff_mset_eq_distinct)
qed (auto dest: mset_eq_setD mset_eq_length)

lemma rows_of_Inr [simp]: "rows_of q = Inr rows \<longleftrightarrow> q = Some rows"
  by (auto simp: rows_of_def split: option.splits)

lemma reviews_ok:
  "(\<exists>us. mapR (check_review loads) rows = Inr us) \<longleftrightarrow> (\<forall>(_, clear, findings) \<in> set rows. is_one clear \<and> empty_array loads findings)"
  unfolding mapR_units by (auto simp: check_review_ok split: prod.splits)

lemma singleton_all: "list_all P xs \<and> length xs = 1 \<longleftrightarrow> (\<exists>v. xs = [v] \<and> P v)"
  by (auto simp: length_Suc_conv)

lemma verdict_ok:
  "bindR (if is_one allowed then bindR (parse_json_array loads findings ''verdict findings'') (\<lambda>fs. Inr (fs = [])) else Inr False) (\<lambda>ok.
     bindR (guard_that ok e) k) = Inr u \<longleftrightarrow> is_one allowed \<and> empty_array loads findings \<and> k () = Inr u"
  by (auto simp: parse_json_array_Nil [symmetric, of _ _ "''verdict findings''"])

lemma one_verdict:
  "(case vs of [(a, f)] \<Rightarrow> g a f | _ \<Rightarrow> Inl e) = Inr u \<longleftrightarrow> (\<exists>a f. vs = [(a, f)] \<and> g a f = Inr u)"
  by (auto split: list.splits)

lemma verify_clean: "verify_smithers_result loads d = Inr () \<longleftrightarrow> clean_panel loads d"
proof -
  have "verify_smithers_result loads d = Inr () \<longleftrightarrow>
     (\<exists>rows. db_review d = Some rows \<and> (set (map fst rows) = set EXPECTED_REVIEWERS \<and> length rows = length EXPECTED_REVIEWERS)
        \<and> (\<exists>us. mapR (check_review loads) rows = Inr us))
     \<and> (\<exists>allowed findings. db_verdict d = Some [(allowed, findings)] \<and> is_one allowed \<and> empty_array loads findings
        \<and> (\<exists>es. db_enforce d = Some es \<and> list_all is_one es \<and> length es = 1))"
    (is "_ = (?reviews \<and> ?verdicts)")
    unfolding verify_smithers_result_def
    by (simp only: bindR_eq_Inr [of "rows_of _"] bindR_eq_Inr [of "guard_that _ _"] bindR_eq_Inr [of "mapR _ _"]
          rows_of_Inr guard_that_eq_Inr one_verdict verdict_ok) blast
  also have "?verdicts \<longleftrightarrow> (\<exists>allowed findings. db_verdict d = Some [(allowed, findings)] \<and> is_one allowed \<and> empty_array loads findings)
      \<and> (\<exists>v. db_enforce d = Some [v] \<and> is_one v)"
    unfolding singleton_all by blast
  finally show ?thesis
    unfolding clean_panel_def reviews_ok same_set_length_mset [OF distinct_reviewers, of "map fst _", unfolded length_map] .
qed


text \<open>The result of a review is accepted exactly when the database holds one clear review without findings from each
  of the three reviewers and nobody else, exactly one allowing verdict without findings, and exactly
  one enforcement row that is 1.\<close>

theorem verify_smithers_exact: "verify_smithers_result loads d = Inr () \<longleftrightarrow> clean_panel loads d"
  by (rule verify_clean)

section \<open>The decision\<close>

lemma run_smithers_sent:
  "run_smithers_review rv snapshot = (r, Some payload) \<Longrightarrow> agent_payload (rv_size_of rv) snapshot = Inr payload
     \<and> (r = Inr () \<longrightarrow> rv_run rv payload = 0 \<and> clean_panel (rv_loads rv) (rv_db rv))"
  unfolding run_smithers_review_def by (auto simp: verify_clean split: sum.splits)

lemma run_smithers_passes:
  "run_smithers_review rv snapshot = (Inr (), sent) \<Longrightarrow> \<exists>payload. sent = Some payload"
  unfolding run_smithers_review_def by (auto split: sum.splits)

text \<open>C23: The hook fails closed. It lets a commit pass in three cases only: nothing is staged; or the local scan of the snapshot
  that was read from the index is empty and there is no added line to review; or the scan is empty, the
  redacted payload of that very snapshot went to the workflow, the workflow ended with 0, the database
  holds a clean panel, and the index is the same tree afterwards.\<close>

theorem guard_fail_closed:
  assumes "guard_main fp gt tree_after rv top_ok = (0, out, sent)"
  shows "top_ok \<and> out = [] \<and> (\<exists>snapshot. collect_staged_snapshot gt = Inr snapshot
     \<and> (ss_files snapshot = [] \<and> sent = None
       \<or> local_findings fp snapshot = []
         \<and> (\<not> has_agent_reviewable_changes snapshot \<and> sent = None
           \<or> (\<exists>payload t. sent = Some payload \<and> agent_payload (rv_size_of rv) snapshot = Inr payload
                \<and> rv_run rv payload = 0 \<and> clean_panel (rv_loads rv) (rv_db rv)
                \<and> tree_after = Inr t \<and> strip t = ss_index_tree snapshot))))"
proof -
  obtain r where g: "guard fp gt tree_after rv = (r, out, sent)" and "top_ok" and r: "r = Inr 0"
    using assms by (auto simp: guard_main_def split: if_splits prod.splits sum.splits)
  then obtain snapshot where s: "collect_staged_snapshot gt = Inr snapshot"
    by (auto simp: guard_def split: sum.splits)
  note u = g [unfolded guard_def s r sum.case Let_def]
  show ?thesis
  proof (cases "ss_files snapshot = [] \<or> local_findings fp snapshot \<noteq> [] \<or> \<not> has_agent_reviewable_changes snapshot")
    case True
    then show ?thesis
      using u s \<open>top_ok\<close> by (auto split: if_splits)
  next
    case False
    then obtain q where q: "run_smithers_review rv snapshot = (Inr (), q)" and q2: "q = sent" "out = []"
        "bindR tree_after (\<lambda>t. bindR (guard_that (strip t = ss_index_tree snapshot)
           (GuardError ''the Git index changed during review; rerun the commit'')) (\<lambda>_. Inr 0)) = Inr 0"
      using u by (auto split: prod.splits sum.splits)
    obtain payload where p: "sent = Some payload"
      using run_smithers_passes [OF q] q2 by blast
    from q2(3) obtain t where "tree_after = Inr t" "strip t = ss_index_tree snapshot"
      by auto
    then show ?thesis
      using run_smithers_sent [OF q [unfolded q2 p]] False s p q2 \<open>top_ok\<close> by blast
  qed
qed


text \<open>The findings that are printed have distinct rule, path and line; each is a finding of the scan, and every finding of
  the scan is printed under its rule, path and line.\<close>

theorem local_findings_exact:
  "distinct (map finding_key (local_findings fp snapshot))
   \<and> set (local_findings fp snapshot) \<subseteq> set (all_findings fp snapshot)
   \<and> finding_key ` set (local_findings fp snapshot) = finding_key ` set (all_findings fp snapshot)"
  unfolding local_findings_fold
  using fd.fold_distinct [of "[]"] fd.fold_subset [of "[]"] fd.fold_keys [of "[]"] by simp

section \<open>The environment of the reviewer\<close>

lemma map_filter_keys:
  "map_of (List.map_filter (\<lambda>k. case f k of Some v \<Rightarrow> if v = [] then None else Some (k, v) | None \<Rightarrow> None) ks) k
     = (if k \<in> set ks then case f k of Some v \<Rightarrow> if v = [] then None else Some v | None \<Rightarrow> None else None)"
  by (induction ks) (auto simp: List.map_filter_simps split: option.splits)

text \<open>The reviewer runs with the three variables of the guard, \<open>PATH\<close>, and otherwise only allowed variables that are set and not
  empty in the environment of the hook, with their values there.\<close>

theorem smithers_environment_exact:
  "map_of (smithers_environment environ defpath temp_dir db_path agent_dir) k =
     (if k = ''SMITHERS_DB_PATH'' then Some db_path
      else if k = ''ATTESTMESH_PRECOMMIT_INPUT_DIR'' then Some temp_dir
      else if k = ''ATTESTMESH_PRECOMMIT_AGENT_CWD'' then Some agent_dir
      else if k \<in> set SAFE_SMITHERS_ENV_KEYS \<and> map_of environ k \<notin> {None, Some []} then map_of environ k
      else if k = ''PATH'' then Some defpath else None)"
proof -
  define kept where "kept = List.map_filter (\<lambda>k. case map_of environ k of Some v \<Rightarrow> if v = [] then None else Some (k, v) | None \<Rightarrow> None)
    SAFE_SMITHERS_ENV_KEYS"
  have kept: "map_of kept k = (if k \<in> set SAFE_SMITHERS_ENV_KEYS \<and> map_of environ k \<notin> {None, Some []} then map_of environ k else None)" for k
    unfolding kept_def map_filter_keys by (auto split: option.splits)
  have "map_of (if map_of kept ''PATH'' = None then kept @ [(''PATH'', defpath)] else kept) k =
      (if map_of kept k \<noteq> None then map_of kept k else if k = ''PATH'' then Some defpath else None)"
    by (auto simp: map_add_def split: option.splits)
  then show ?thesis
    unfolding smithers_environment_def Let_def kept_def [symmetric] update_conv' fun_upd_apply kept by auto
qed

end
