(* ===== verification/Canary_Ledger.thy ===== *)
theory Canary_Ledger
  imports Budget_Settings
begin

text \<open>
  The spending guard of deploy/hindsight-canary/canary.py: the checks of the dedicated key, the class
  \<open>BudgetLedger\<close> and the rolling rate limit. Instants are microseconds; an entry whose time cannot be
  read has none. \<open>fmt n x\<close> is the text of \<open>x\<close> with \<open>n\<close> decimals.
\<close>

section \<open>The key guard\<close>

record canary_guard =
  cg_hard_budget_usd :: pyfloat
  cg_safety_margin_usd :: pyfloat
  cg_effective_local_budget_usd :: pyfloat
  cg_rpm_limit :: int
  cg_tpm_limit :: int
  cg_prices :: "pyfloat dict"

definition env_float :: "env \<Rightarrow> string \<Rightarrow> string \<Rightarrow> pyfloat result" where
  "env_float env name dflt = (case py_float (getenv env name dflt) of
     Some v \<Rightarrow> Inr v | None \<Rightarrow> Inl (ValueError ''could not convert string to float''))"

definition env_int :: "env \<Rightarrow> string \<Rightarrow> string \<Rightarrow> int result" where
  "env_int env name dflt = (case py_int (getenv env name dflt) of
     Some v \<Rightarrow> Inr v | None \<Rightarrow> Inl (ValueError ''invalid literal for int() with base 10''))"

definition price_name :: "string \<Rightarrow> string \<Rightarrow> string" where
  "price_name family direction = ''CANARY_'' @ family @ ''_'' @ direction @ ''_USD_PER_M''"

definition explicit_price :: "env \<Rightarrow> string \<Rightarrow> pyfloat result" where
  "explicit_price env name = (case py_float (strip (getenv env name [])) of
      None \<Rightarrow> Inl (SystemExit (name @ '' must be an explicit numeric price''))
    | Some p \<Rightarrow> if pf_lt p 0 then Inl (SystemExit (name @ '' must not be negative'')) else Inr p)"

definition family_prices :: "env \<Rightarrow> string \<Rightarrow> pyfloat dict result" where
  "family_prices env family =
     bindR (explicit_price env (price_name family ''INPUT'')) (\<lambda>i.
     bindR (explicit_price env (price_name family ''OUTPUT'')) (\<lambda>p.
     bindR (guard_that (\<not> pf_le (0 + i + p) 0) (SystemExit (''CANARY_'' @ family @ '' prices cannot both be zero''))) (\<lambda>_.
     Inr [(price_name family ''INPUT'', i), (price_name family ''OUTPUT'', p)])))"

definition required_env :: "env \<Rightarrow> string \<Rightarrow> unit result" where
  "required_env env name = guard_that (strip (getenv env name []) \<noteq> []) (SystemExit (name @ '' is required''))"

definition key_preflight :: "env \<Rightarrow> string option \<Rightarrow> bool \<Rightarrow> canary_guard result" where
  \<comment> \<open>\<open>normal_key\<close> is the stripped text of the file of the normal key, where it exists\<close>
  "key_preflight env normal_key require_stack =
     (let key = strip (getenv env ''CANARY_REDPILL_API_KEY'' []) in
      bindR (guard_that (key \<noteq> []) (SystemExit ''CANARY_REDPILL_API_KEY is required'')) (\<lambda>_.
      bindR (guard_that (normal_key \<noteq> Some key)
        (SystemExit ''refusing the normal Redpill key; create a dedicated canary virtual key'')) (\<lambda>_.
      bindR (env_float env ''CANARY_HARD_BUDGET_USD'' ''0'') (\<lambda>hard_budget.
      bindR (guard_that (\<not> (pf_le hard_budget 0 \<or> pf_lt (Fin 2) hard_budget))
        (SystemExit ''CANARY_HARD_BUDGET_USD must be >0 and <=2'')) (\<lambda>_.
      bindR (env_float env ''CANARY_SAFETY_MARGIN_USD'' ''0.05'') (\<lambda>safety_margin.
      bindR (guard_that (\<not> (pf_lt safety_margin 0 \<or> pf_le hard_budget safety_margin))
        (SystemExit ''CANARY_SAFETY_MARGIN_USD must be >=0 and below the hard budget'')) (\<lambda>_.
      bindR (env_int env ''CANARY_RPM_LIMIT'' ''0'') (\<lambda>rpm.
      bindR (env_int env ''CANARY_TPM_LIMIT'' ''0'') (\<lambda>tpm.
      bindR (guard_that (\<not> (rpm \<le> 0 \<or> tpm \<le> 0)) (SystemExit ''CANARY_RPM_LIMIT and CANARY_TPM_LIMIT must be positive'')) (\<lambda>_.
      bindR (if require_stack
             then mapR (required_env env) [''CANARY_QWEN_API_KEY'', ''CANARY_POSTGRES_PASSWORD'', ''CANARY_HINDSIGHT_TOKEN'']
             else Inr []) (\<lambda>_.
      bindR (mapR (family_prices env) [''20B'', ''120B'']) (\<lambda>ps.
      Inr \<lparr>cg_hard_budget_usd = hard_budget, cg_safety_margin_usd = safety_margin,
        cg_effective_local_budget_usd = pf_sub hard_budget safety_margin,
        cg_rpm_limit = rpm, cg_tpm_limit = tpm, cg_prices = concat ps\<rparr>))))))))))))"

definition retain_preflight :: "env \<Rightarrow> string option \<Rightarrow> (json \<Rightarrow> string) \<Rightarrow> json result \<Rightarrow> unit result" where
  \<comment> \<open>\<open>health\<close> is the decoded answer of the frontier proxy, or what the request raises\<close>
  "retain_preflight env normal_key pystr health =
     (let mode = lower (strip (getenv env ''CANARY_RETAIN_GUARD'' ''redpill'')) in
      if mode = ''redpill'' then bindR (key_preflight env normal_key True) (\<lambda>_. Inr ())
      else if mode \<noteq> ''frontier'' then Inl (SystemExit ''CANARY_RETAIN_GUARD must be redpill or frontier'')
      else if strip (getenv env ''CANARY_FRONTIER_PROXY_HEALTH_URL'' []) = []
      then Inl (SystemExit ''CANARY_FRONTIER_PROXY_HEALTH_URL is required for the frontier guard'')
      else bindR health (\<lambda>v. case v of
          JObj d \<Rightarrow>
           (if jget d ''status'' \<noteq> JStr ''healthy''
            then Inl (SystemExit (''frontier proxy is not healthy: '' @ pystr (jget d ''status'')))
            else if truthy (jget d ''circuit_open'') \<or> \<not> truthy (jget d ''provider_egress_enabled'')
            then Inl (SystemExit ''frontier proxy circuit/egress guard is closed'') else Inr ())
        | _ \<Rightarrow> Inl (AttributeError ''get'')))"

section \<open>The ledger\<close>

record canary_call =
  cc_at :: instant
  cc_started_at :: "instant option"
  cc_model :: string
  cc_purpose :: string
  cc_input_tokens :: int
  cc_output_tokens :: int
  cc_cost_usd :: pyfloat
  cc_estimated_from_reservation :: bool

record canary_ledger =
  cl_spent_usd :: pyfloat
  cl_calls :: "canary_call list"
  cl_hard_budget_usd :: pyfloat

record canary_reservation =
  cr_input_tokens :: int
  cr_output_tokens :: int
  cr_cost_usd :: pyfloat

definition pf_eq :: "pyfloat \<Rightarrow> pyfloat \<Rightarrow> bool" where
  "pf_eq a b = (a = b \<and> a \<noteq> NaN)"

definition ledger_init :: "canary_guard \<Rightarrow> canary_ledger option \<Rightarrow> canary_ledger result" where
  "ledger_init g file =
     (let data = (case file of Some d \<Rightarrow> d
        | None \<Rightarrow> \<lparr>cl_spent_usd = 0, cl_calls = [], cl_hard_budget_usd = cg_hard_budget_usd g\<rparr>) in
      bindR (guard_that (pf_eq (cl_hard_budget_usd data) (cg_hard_budget_usd g))
        (RuntimeError ''ledger hard budget does not match the current canary guard'')) (\<lambda>_.
      bindR (guard_that (\<not> pf_lt (cg_hard_budget_usd g) (cl_spent_usd data))
        (RuntimeError ''existing ledger already exceeds the canary guard'')) (\<lambda>_.
      Inr data)))"

definition model_family :: "string \<Rightarrow> string result" where
  "model_family model =
     (let normalized = lower model in
      if contains normalized ''20b'' then Inr ''20B''
      else if contains normalized ''120b'' then Inr ''120B''
      else Inl (SystemExit (''unsupported canary model for explicit pricing: '' @ model)))"

definition env_price :: "env \<Rightarrow> string \<Rightarrow> pyfloat result" where
  "env_price env name = (case env name of
      None \<Rightarrow> Inl (SystemExit (''missing explicit canary price: '' @ name))
    | Some t \<Rightarrow> (case py_float t of Some p \<Rightarrow> Inr p | None \<Rightarrow> Inl (ValueError ''could not convert string to float'')))"

definition canary_prices :: "env \<Rightarrow> string \<Rightarrow> (pyfloat \<times> pyfloat) result" where
  "canary_prices env model =
     bindR (model_family model) (\<lambda>family.
     bindR (env_price env (price_name family ''INPUT'')) (\<lambda>i.
     bindR (env_price env (price_name family ''OUTPUT'')) (\<lambda>p.
     Inr (i, p))))"

definition effective_budget :: "canary_guard \<Rightarrow> pyfloat" where
  "effective_budget g = cg_effective_local_budget_usd g"

definition canary_cost :: "pyfloat \<times> pyfloat \<Rightarrow> int \<Rightarrow> int \<Rightarrow> pyfloat" where
  "canary_cost pr input_tokens output_tokens = pf_div_pos (pf_scale input_tokens (fst pr) + pf_scale output_tokens (snd pr)) 1000000"

definition canary_reserve :: "(nat \<Rightarrow> pyfloat \<Rightarrow> string) \<Rightarrow> env \<Rightarrow> canary_guard \<Rightarrow> canary_ledger \<Rightarrow> string \<Rightarrow> int \<Rightarrow> int
    \<Rightarrow> canary_reservation result" where
  "canary_reserve fmt env g data model prompt_bytes max_completion_tokens =
     bindR (canary_prices env model) (\<lambda>pr.
     let input_tokens = max 1 prompt_bytes; estimate = canary_cost pr input_tokens max_completion_tokens in
     if pf_lt (effective_budget g) (cl_spent_usd data + estimate)
     then Inl (RuntimeError (''local worst-case reservation $'' @ fmt 4 estimate @ '' would exceed the $'' @ fmt 2 (effective_budget g)
       @ '' effective guard''))
     else Inr \<lparr>cr_input_tokens = input_tokens, cr_output_tokens = max_completion_tokens, cr_cost_usd = estimate\<rparr>)"

definition reported :: "json dict \<Rightarrow> string \<Rightarrow> string \<Rightarrow> json" where
  "reported usage a b = or_else (jget usage a) (jget usage b)"

definition canary_record :: "env \<Rightarrow> canary_guard \<Rightarrow> string \<Rightarrow> json dict \<Rightarrow> string \<Rightarrow> canary_reservation \<Rightarrow> instant \<Rightarrow> instant \<Rightarrow> canary_ledger
    \<Rightarrow> unit result \<times> canary_ledger \<times> canary_ledger option" where
  \<comment> \<open>the outcome, the ledger in memory and the one that is written to the file\<close>
  "canary_record env g model usage purpose reservation started_at now data =
     (let reported_input = reported usage ''prompt_tokens'' ''input_tokens'';
          reported_output = reported usage ''completion_tokens'' ''output_tokens'' in
      case bindR (if reported_input = JNull then Inr (cr_input_tokens reservation) else int_of_json reported_input) (\<lambda>i.
           bindR (if reported_output = JNull then Inr (cr_output_tokens reservation) else int_of_json reported_output) (\<lambda>p.
           bindR (canary_prices env model) (\<lambda>pr. Inr (i, p, canary_cost pr i p)))) of
        Inl e \<Rightarrow> (Inl e, data, None)
      | Inr (i, p, cost) \<Rightarrow>
         (let data2 = data\<lparr>cl_spent_usd := cl_spent_usd data + cost,
            cl_calls := cl_calls data @ [\<lparr>cc_at = now, cc_started_at = Some started_at, cc_model = model, cc_purpose = purpose,
              cc_input_tokens = i, cc_output_tokens = p, cc_cost_usd = cost,
              cc_estimated_from_reservation = (reported_input = JNull \<or> reported_output = JNull)\<rparr>]\<rparr> in
          if pf_lt (effective_budget g) (cl_spent_usd data2)
          then (Inl (RuntimeError ''local token ledger crossed the hard canary budget''), data2, None)
          else (Inr (), data2, Some data2)))"

section \<open>The rolling rate limit\<close>

definition recent_calls :: "canary_call list \<Rightarrow> instant \<Rightarrow> (instant \<times> int) list" where
  "recent_calls calls now = List.map_filter (\<lambda>c. case cc_started_at c of
      None \<Rightarrow> None
    | Some t \<Rightarrow> if 0 \<le> now - t \<and> now - t < usec 60 then Some (t, cc_input_tokens c + cc_output_tokens c) else None) calls"

definition rate_capacity_delay :: "canary_call list \<Rightarrow> canary_reservation \<Rightarrow> int \<Rightarrow> int \<Rightarrow> instant \<Rightarrow> int result" where
  "rate_capacity_delay calls reservation rpm tpm now =
     (let recent = recent_calls calls now; reserved_tokens = cr_input_tokens reservation + cr_output_tokens reservation in
      if int (length recent) < rpm \<and> sum_list (map snd recent) + reserved_tokens \<le> tpm then Inr 0
      else if recent = [] then Inl (RuntimeError ''one request reservation exceeds CANARY_TPM_LIMIT; reduce the request'')
      else Inr (max 50000 (Min (set (map (\<lambda>(t, _). t + usec 60 - now) recent)))))"

fun wait_for_rate_capacity :: "canary_guard \<Rightarrow> canary_ledger \<Rightarrow> canary_reservation \<Rightarrow> instant list \<Rightarrow> unit result option" where
  \<comment> \<open>the list holds the readings of the clock, one for each round; None: the loop still sleeps after the last\<close>
  "wait_for_rate_capacity g data reservation [] = None"
| "wait_for_rate_capacity g data reservation (now # later) =
     (case rate_capacity_delay (cl_calls data) reservation (cg_rpm_limit g) (cg_tpm_limit g) now of
        Inl e \<Rightarrow> Some (Inl e)
      | Inr delay \<Rightarrow> if delay \<le> 0 then Some (Inr ()) else wait_for_rate_capacity g data reservation later)"

definition sleep_time :: "int \<Rightarrow> int" where
  \<comment> \<open>what the loop sleeps after a round with this delay\<close>
  "sleep_time delay = min (delay + 50000) 1000000"

end
