(* ===== verification/Canary_Proxy.thy ===== *)
theory Canary_Proxy
  imports Canary_Ledger Budget_Proxy Py_Text
begin

text \<open>
  The metered proxy of the canary (deploy/hindsight-canary/budget_proxy.py): the payload check, the
  state that is kept in a file beside the ledger, and both handlers. A handler that holds the lock
  returns the list of its external effects in order, so that a crash is a prefix of that list.
\<close>

section \<open>Payloads\<close>

definition ALLOWED_MODELS :: "string list" where
  \<comment> \<open>in the order of \<open>sorted\<close>\<close>
  "ALLOWED_MODELS = [''openai/gpt-oss-120b'', ''openai/gpt-oss-20b'']"

definition completion_ceiling :: "json \<Rightarrow> int result" where
  "completion_ceiling v = (case int_of_json v of
      Inl (TypeError _) \<Rightarrow> Inl (ValueError ''completion-token ceiling must be an integer'')
    | Inl (ValueError _) \<Rightarrow> Inl (ValueError ''completion-token ceiling must be an integer'')
    | r \<Rightarrow> r)"

definition prepare_payload :: "(json \<Rightarrow> string) \<Rightarrow> (rat \<Rightarrow> string) \<Rightarrow> json \<Rightarrow> (json dict \<times> int \<times> int) result" where
  "prepare_payload pystr frepr value =
     bindR (guard_that (is_obj value) (ValueError ''request body must be a JSON object'')) (\<lambda>_.
     let payload = members value; model = jstr pystr (or_else (jget payload ''model'') (JStr [])) in
     bindR (guard_that (model \<in> set ALLOWED_MODELS) (ValueError (''model is outside the canary allowlist: '' @ model))) (\<lambda>_.
     bindR (guard_that (\<not> truthy (jget payload ''stream'')) (ValueError ''streaming is disabled so usage can be metered'')) (\<lambda>_.
     bindR (completion_ceiling (get_or payload ''max_completion_tokens'' (get_or payload ''max_tokens'' (JInt 8192)))) (\<lambda>max_completion_tokens.
     bindR (guard_that (0 < max_completion_tokens \<and> max_completion_tokens \<le> 8192)
       (ValueError ''completion-token ceiling must be between 1 and 8192'')) (\<lambda>_.
     bindR (guard_that (get_or payload ''reasoning_effort'' (JStr ''low'') = JStr ''low'') (ValueError ''reasoning_effort must be low'')) (\<lambda>_.
     bindR (guard_that (jget payload ''include_reasoning'' = JNull \<or> eq_False (jget payload ''include_reasoning''))
       (ValueError ''include_reasoning must be false'')) (\<lambda>_.
     bindR (guard_that (\<not> strict_schema (jget payload ''response_format''))
       (ValueError ''strict structured output is disabled for this canary'')) (\<lambda>_.
     let p = AList.delete ''max_tokens'' (AList.update ''max_completion_tokens'' (JInt max_completion_tokens)
           (AList.update ''include_reasoning'' (JBool False) (AList.update ''reasoning_effort'' (JStr ''low'') payload))) in
     Inr (p, int (utf8_len (dumps frepr (or_else (jget p ''messages'') (JList [])))), max_completion_tokens)))))))))"

section \<open>State\<close>

record canary_flight =
  cf_request_hash :: string
  cf_model :: string
  cf_started_at :: instant
  cf_reservation :: canary_reservation

record canary_value =
  cv_circuit_open :: bool
  cv_reason :: "string option"
  cv_in_flight :: "canary_flight option"

record canary_state =
  cs_ledger :: canary_ledger
  cs_value :: canary_value

datatype canary_event =
    SaveState canary_value
  | SaveLedger canary_ledger
  | CallProvider canary_reservation

definition proxy_state_init :: "canary_guard \<Rightarrow> canary_ledger option \<Rightarrow> canary_value option \<Rightarrow> (canary_event list \<times> canary_state) result" where
  "proxy_state_init g ledger_file state_file =
     bindR (ledger_init g ledger_file) (\<lambda>l.
     let value = (case state_file of Some v \<Rightarrow> v
         | None \<Rightarrow> \<lparr>cv_circuit_open = False, cv_reason = None, cv_in_flight = None\<rparr>) in
     if cv_in_flight value \<noteq> None
     then (let value2 = value\<lparr>cv_circuit_open := True, cv_reason := Some ''ambiguous request found after proxy restart''\<rparr> in
        Inr ([SaveState value2], \<lparr>cs_ledger = l, cs_value = value2\<rparr>))
     else Inr ([], \<lparr>cs_ledger = l, cs_value = value\<rparr>))"

section \<open>Handlers\<close>

definition canary_authorized :: "string \<Rightarrow> http_request \<Rightarrow> bool result" where
  "canary_authorized api_key q = compare_digest (''Bearer '' @ api_key) (q_authorization q)"

definition canary_GET :: "string \<Rightarrow> canary_state \<Rightarrow> http_request \<Rightarrow> json outcome" where
  \<comment> \<open>a report is the continuation with its JSON\<close>
  "canary_GET api_key st q =
     (if route_path q = ''/health''
      then Continue (JObj [(''status'', JStr (if cv_circuit_open (cs_value st) then ''circuit_open'' else ''healthy'')),
        (''spent_usd'', JFloat (cl_spent_usd (cs_ledger st)))])
      else if route_path q = ''/v1/models'' then
        (case canary_authorized api_key q of
           Inl e \<Rightarrow> Unhandled e
         | Inr False \<Rightarrow> Respond 401 ''invalid canary key''
         | Inr True \<Rightarrow> Continue (JObj [(''object'', JStr ''list''),
             (''data'', JList (map (\<lambda>m. JObj [(''id'', JStr m), (''object'', JStr ''model'')]) ALLOWED_MODELS))]))
      else Respond 404 ''not found'')"

definition canary_admit :: "(json \<Rightarrow> string) \<Rightarrow> (rat \<Rightarrow> string) \<Rightarrow> string \<Rightarrow> http_request \<Rightarrow> (json dict \<times> int \<times> int) outcome" where
  "canary_admit pystr frepr api_key q =
     (if route_path q \<noteq> ''/v1/chat/completions'' then Respond 404 ''not found''
      else case canary_authorized api_key q of
        Inl e \<Rightarrow> Unhandled e
      | Inr False \<Rightarrow> Respond 401 ''invalid canary key''
      | Inr True \<Rightarrow>
         (case bindR (case py_int (case q_content_length q of Some t \<Rightarrow> t | None \<Rightarrow> ''0'') of
                  Some n \<Rightarrow> Inr n | None \<Rightarrow> Inl (ValueError ''invalid literal for int() with base 10'')) (\<lambda>len.
               bindR (guard_that (0 < len \<and> len \<le> 4000000) (ValueError ''request body length is outside the canary limit'')) (\<lambda>_.
               bindR (case q_body q of Some v \<Rightarrow> Inr v | None \<Rightarrow> Inl (ValueError ''invalid JSON'')) (prepare_payload pystr frepr))) of
            Inl (ValueError m) \<Rightarrow> Respond 400 m
          | Inl e \<Rightarrow> Unhandled e
          | Inr r \<Rightarrow> Continue r))"

datatype upstream_answer = Raised exc | Replied int "json result"
  \<comment> \<open>an exception of the client, or a status and what decoding the body gives\<close>

record canary_call_env =
  \<comment> \<open>what one locked section takes from outside\<close>
  ce_fmt :: "nat \<Rightarrow> pyfloat \<Rightarrow> string"
  ce_env :: env
  ce_str :: "json \<Rightarrow> string"
  ce_hash :: "json \<Rightarrow> string"
  ce_clock :: "instant list"
  ce_started_at :: instant
  ce_now :: instant
  ce_answer :: upstream_answer

definition open_canary :: "string \<Rightarrow> canary_value \<Rightarrow> canary_value" where
  "open_canary reason v = v\<lparr>cv_circuit_open := True, cv_reason := Some reason\<rparr>"

definition post_refused :: "canary_state \<Rightarrow> exc \<Rightarrow> canary_event list \<times> canary_state \<times> unit outcome" where
  \<comment> \<open>\<open>except RuntimeError\<close> around the reservation\<close>
  "post_refused st e = (case e of
      RuntimeError m \<Rightarrow> (let v = open_canary m (cs_value st) in ([SaveState v], st\<lparr>cs_value := v\<rparr>, Respond 402 m))
    | _ \<Rightarrow> ([], st, Unhandled e))"

definition post_ambiguous :: "canary_state \<Rightarrow> exc \<Rightarrow> canary_event list \<times> canary_state \<times> unit outcome" where
  \<comment> \<open>the handler of the exceptions around the call\<close>
  "post_ambiguous st e =
     (if is_exit e then ([], st, Unhandled e)
      else let m = ''ambiguous upstream failure: '' @ exc_name e; v = open_canary m (cs_value st) in
        ([SaveState v], st\<lparr>cs_value := v\<rparr>, Respond 502 m))"

definition post_record :: "canary_call_env \<Rightarrow> canary_guard \<Rightarrow> string \<Rightarrow> string \<Rightarrow> canary_reservation \<Rightarrow> json \<Rightarrow> canary_state
    \<Rightarrow> canary_event list \<times> canary_state \<times> unit result" where
  \<comment> \<open>a reply below 400\<close>
  "post_record ce g model request_hash reservation body st = (case body of
      JObj d \<Rightarrow> (case or_else (jget d ''usage'') (JObj []) of
          JObj usage \<Rightarrow>
           (case canary_record (ce_env ce) g model usage (''hindsight:'' @ take 16 request_hash) reservation (ce_started_at ce) (ce_now ce)
                  (cs_ledger st) of (r, l, written) \<Rightarrow>
             (case r of
                Inl e \<Rightarrow> ([], st\<lparr>cs_ledger := l\<rparr>, Inl e)
              | Inr _ \<Rightarrow> (let v = (cs_value st)\<lparr>cv_in_flight := None\<rparr> in
                  (map SaveLedger (case written of Some w \<Rightarrow> [w] | None \<Rightarrow> []) @ [SaveState v],
                   st\<lparr>cs_ledger := l, cs_value := v\<rparr>, Inr ()))))
        | _ \<Rightarrow> ([], st, Inl (AttributeError ''get'')))
    | _ \<Rightarrow> ([], st, Inl (AttributeError ''get'')))"

definition post_settle :: "canary_call_env \<Rightarrow> canary_guard \<Rightarrow> string \<Rightarrow> string \<Rightarrow> canary_reservation \<Rightarrow> canary_state
    \<Rightarrow> canary_event list \<times> canary_state \<times> unit outcome" where
  "post_settle ce g model request_hash reservation st = (case ce_answer ce of
      Raised e \<Rightarrow> post_ambiguous st e
    | Replied status body \<Rightarrow>
       (if status = 401 \<or> status = 402
        then (let v = open_canary (''Redpill returned '' @ int_str status) (cs_value st) in
          ([SaveState v], st\<lparr>cs_value := v\<rparr>, Respond status ''upstream''))
        else if status < 400
        then (case body of
            Inl e \<Rightarrow> post_ambiguous st e
          | Inr b \<Rightarrow> (case post_record ce g model request_hash reservation b st of
              (evs, st2, Inr _) \<Rightarrow> (evs, st2, Respond status ''upstream'')
            | (evs, st2, Inl e) \<Rightarrow> (case post_ambiguous st2 e of (evs2, st3, out) \<Rightarrow> (evs @ evs2, st3, out))))
        else (let v = (cs_value st)\<lparr>cv_in_flight := None\<rparr> in
          ([SaveState v], st\<lparr>cs_value := v\<rparr>, Respond status ''upstream''))))"

definition canary_post :: "canary_call_env \<Rightarrow> canary_guard \<Rightarrow> json dict \<times> int \<times> int \<Rightarrow> canary_state
    \<Rightarrow> canary_event list \<times> canary_state \<times> unit outcome" where
  \<comment> \<open>the section of \<open>do_POST\<close> under the lock; \<open>Continue\<close>: it still waits for rate capacity\<close>
  "canary_post ce g prepared st = (case prepared of (payload, prompt_bytes, max_tokens) \<Rightarrow>
     (let model = jstr (ce_str ce) (jget payload ''model''); request_hash = ce_hash ce (JObj payload) in
      if cv_circuit_open (cs_value st)
      then ([], st, Respond 402 (case cv_reason (cs_value st) of Some r \<Rightarrow> if r = [] then ''circuit open'' else r | None \<Rightarrow> ''circuit open''))
      else case canary_reserve (ce_fmt ce) (ce_env ce) g (cs_ledger st) model prompt_bytes max_tokens of
        Inl e \<Rightarrow> post_refused st e
      | Inr reservation \<Rightarrow>
         (case wait_for_rate_capacity g (cs_ledger st) reservation (ce_clock ce) of
            None \<Rightarrow> ([], st, Continue ())
          | Some (Inl e) \<Rightarrow> post_refused st e
          | Some (Inr _) \<Rightarrow>
             (let v = (cs_value st)\<lparr>cv_in_flight := Some \<lparr>cf_request_hash = request_hash, cf_model = model, cf_started_at = ce_started_at ce,
                  cf_reservation = reservation\<rparr>\<rparr> in
              case post_settle ce g model request_hash reservation (st\<lparr>cs_value := v\<rparr>) of (evs, st2, out) \<Rightarrow>
                (SaveState v # CallProvider reservation # evs, st2, out)))))"

end
