(* ===== verification/Canary_Props.thy ===== *)
theory Canary_Props
  imports Canary_Proxy
begin

text \<open>
  Correctness of the canary's spending guard: the checked configuration, the rate limiter, and the
  proxy as a system whose process may be killed between any two external effects.
\<close>

section \<open>Reservations and records\<close>

definition finite_prices :: "env \<Rightarrow> bool" where
  "finite_prices env = (\<forall>model i p. canary_prices env model = Inr (i, p) \<longrightarrow> is_fin i \<and> is_fin p)"

lemma is_fin_cost: "is_fin (fst pr) \<Longrightarrow> is_fin (snd pr) \<Longrightarrow> is_fin (canary_cost pr i p)"
  unfolding canary_cost_def by (cases "fst pr"; cases "snd pr") simp_all

lemma reserve_within:
  assumes "canary_reserve fmt env g l model n m = Inr r" "finite_prices env" "is_fin (cl_spent_usd l)" "is_fin (effective_budget g)"
  shows "is_fin (cr_cost_usd r) \<and> fin_val (cl_spent_usd l) + fin_val (cr_cost_usd r) \<le> fin_val (effective_budget g)
     \<and> (\<exists>pr. canary_prices env model = Inr pr)"
proof -
  obtain pr where pr: "canary_prices env model = Inr pr" and r: "\<not> pf_lt (effective_budget g) (cl_spent_usd l + cr_cost_usd r)"
      "cr_cost_usd r = canary_cost pr (max 1 n) m"
    using assms(1) by (auto simp: canary_reserve_def Let_def split: if_splits)
  have "is_fin (cr_cost_usd r)"
    unfolding r(2) using assms(2) pr by (intro is_fin_cost) (cases pr, auto simp: finite_prices_def)+
  then show ?thesis
    using r(1) assms(3,4) pr not_pf_lt_fin [of "cl_spent_usd l + cr_cost_usd r" "effective_budget g"] by (simp add: fin_val_plus)
qed

definition ledger_ok :: "canary_guard \<Rightarrow> canary_ledger \<Rightarrow> bool" where
  "ledger_ok g l = (is_fin (cl_spent_usd l) \<and> cl_spent_usd l = sum_list (map cc_cost_usd (cl_calls l))
     \<and> fin_val (cl_spent_usd l) \<le> fin_val (effective_budget g) \<and> cl_hard_budget_usd l = cg_hard_budget_usd g)"

lemma record_writes:
  assumes "canary_record env g model usage purpose r started now l = (Inr (), l2, w)"
    "finite_prices env" "is_fin (effective_budget g)" "ledger_ok g l"
  shows "w = Some l2 \<and> ledger_ok g l2 \<and> length (cl_calls l2) = Suc (length (cl_calls l))"
proof -
  obtain i p cost pr where c: "canary_prices env model = Inr pr" "cost = canary_cost pr i p" and
      l2: "l2 = l\<lparr>cl_spent_usd := cl_spent_usd l + cost,
            cl_calls := cl_calls l @ [\<lparr>cc_at = now, cc_started_at = Some started, cc_model = model, cc_purpose = purpose,
              cc_input_tokens = i, cc_output_tokens = p, cc_cost_usd = cost,
              cc_estimated_from_reservation = (reported usage ''prompt_tokens'' ''input_tokens'' = JNull
                \<or> reported usage ''completion_tokens'' ''output_tokens'' = JNull)\<rparr>]\<rparr>" and
      w: "w = Some l2" "\<not> pf_lt (effective_budget g) (cl_spent_usd l + cost)"
    using assms(1) by (auto simp: canary_record_def Let_def split: sum.splits if_splits)
  have "is_fin cost"
    unfolding c(2) using assms(2) c(1) by (intro is_fin_cost) (cases pr, auto simp: finite_prices_def)+
  moreover have "fin_val (cl_spent_usd l + cost) \<le> fin_val (effective_budget g)"
    using not_pf_lt_fin [of "cl_spent_usd l + cost" "effective_budget g"] w assms(3,4) \<open>is_fin cost\<close> by (auto simp: ledger_ok_def)
  ultimately show ?thesis
    using assms(4) w(1) unfolding l2 ledger_ok_def by auto
qed

lemma record_no_exit:
  assumes "canary_prices env model = Inr pr" "canary_record env g model usage purpose r started now l = (Inl e, l2, w)"
  shows "\<not> is_exit e"
proof -
  have "\<not> is_exit e'" if "int_of_json v = Inl e'" for v e'
    using that by (cases v rule: int_of_json.cases) (auto simp: is_exit_def split: option.splits)
  then show ?thesis
    using assms by (auto simp: canary_record_def Let_def is_exit_def bindR_eq_Inl split: sum.splits if_splits)
qed

section \<open>One request\<close>

definition chargeable :: "upstream_answer \<Rightarrow> bool" where
  \<comment> \<open>anything but an error status that says the provider did nothing\<close>
  "chargeable a = (case a of Raised _ \<Rightarrow> True | Replied status _ \<Rightarrow> status < 400 \<or> status = 401 \<or> status = 402)"

definition raises_no_exit :: "upstream_answer \<Rightarrow> bool" where
  "raises_no_exit a = (case a of Raised e \<Rightarrow> \<not> is_exit e | Replied _ (Inl e) \<Rightarrow> \<not> is_exit e | Replied _ (Inr _) \<Rightarrow> True)"

inductive settled :: "canary_guard \<Rightarrow> canary_state \<Rightarrow> bool \<Rightarrow> canary_event list \<Rightarrow> canary_state \<Rightarrow> bool" for g st where
  failed: "v = open_canary m (cs_value st) \<Longrightarrow> cs_value st2 = v \<Longrightarrow> settled g st True [SaveState v] st2"
| recorded: "ledger_ok g l \<Longrightarrow> length (cl_calls l) = Suc (length (cl_calls (cs_ledger st))) \<Longrightarrow>
    v = (cs_value st)\<lparr>cv_in_flight := None\<rparr> \<Longrightarrow> cs_ledger st2 = l \<Longrightarrow> cs_value st2 = v \<Longrightarrow>
    settled g st True [SaveLedger l, SaveState v] st2"
| refused: "v = (cs_value st)\<lparr>cv_in_flight := None\<rparr> \<Longrightarrow> cs_value st2 = v \<Longrightarrow> cs_ledger st2 = cs_ledger st \<Longrightarrow>
    settled g st False [SaveState v] st2"

lemma ambiguous_settled:
  "\<not> is_exit e \<Longrightarrow> post_ambiguous st2 e = (evs, st3, out) \<Longrightarrow> cs_value st2 = cs_value st \<Longrightarrow> settled g st True evs st3"
  unfolding post_ambiguous_def Let_def by (auto intro: failed simp del: append.simps)

lemma post_record_settled:
  assumes "post_record ce g model h r b st = (evs, st2, res)" "canary_prices (ce_env ce) model = Inr pr"
    "finite_prices (ce_env ce)" "is_fin (effective_budget g)" "ledger_ok g (cs_ledger st)"
  shows "case res of Inr _ \<Rightarrow> settled g st True evs st2 | Inl e \<Rightarrow> evs = [] \<and> cs_value st2 = cs_value st \<and> \<not> is_exit e"
proof (cases "\<exists>d usage. b = JObj d \<and> or_else (jget d ''usage'') (JObj []) = JObj usage")
  case True
  then obtain d usage where b: "b = JObj d" "or_else (jget d ''usage'') (JObj []) = JObj usage"
    by blast
  obtain x l w where rec: "canary_record (ce_env ce) g model usage (''hindsight:'' @ take 16 h) r (ce_started_at ce) (ce_now ce) (cs_ledger st) = (x, l, w)"
    by (metis prod_cases3)
  show ?thesis
  proof (cases x)
    case (Inl e)
    then show ?thesis
      using assms(1) b rec record_no_exit [OF assms(2) rec [unfolded Inl]] by (auto simp: post_record_def)
  next
    case (Inr u)
    then have w: "w = Some l \<and> ledger_ok g l \<and> length (cl_calls l) = Suc (length (cl_calls (cs_ledger st)))"
      using record_writes [OF _ assms(3-5)] rec by simp
    have "evs = [SaveLedger l, SaveState ((cs_value st)\<lparr>cv_in_flight := None\<rparr>)]" "res = Inr ()"
      "cs_ledger st2 = l" "cs_value st2 = (cs_value st)\<lparr>cv_in_flight := None\<rparr>"
      using assms(1) b rec Inr w by (auto simp: post_record_def Let_def)
    then show ?thesis
      using w by (auto intro: recorded)
  qed
next
  case False
  then have "evs = [] \<and> st2 = st \<and> res = Inl (AttributeError ''get'')"
    using assms(1) by (auto simp: post_record_def split: json.splits)
  then show ?thesis
    by (simp add: is_exit_def)
qed

lemma post_settle_settled:
  assumes "post_settle ce g model h r st = (evs, st2, out)" "canary_prices (ce_env ce) model = Inr pr" "raises_no_exit (ce_answer ce)"
    "finite_prices (ce_env ce)" "is_fin (effective_budget g)" "ledger_ok g (cs_ledger st)"
  shows "settled g st (chargeable (ce_answer ce)) evs st2"
proof (cases "ce_answer ce")
  case (Raised e)
  then show ?thesis
    using assms(1,3) ambiguous_settled [of e st evs st2 out st g] by (simp add: post_settle_def raises_no_exit_def chargeable_def)
next
  case (Replied status body)
  note a = assms(1) [unfolded post_settle_def Replied upstream_answer.case Let_def]
  consider "status = 401 \<or> status = 402" | "status \<noteq> 401" "status \<noteq> 402" "\<not> status < 400"
    | e where "status < 400" "body = Inl e" | b where "status < 400" "body = Inr b"
    by (cases body) auto
  then show ?thesis
  proof cases
    case 1
    then show ?thesis
      using a Replied by (auto simp: chargeable_def intro: failed simp del: append.simps)
  next
    case 2
    then show ?thesis
      using a Replied by (auto simp: chargeable_def intro: refused)
  next
    case (3 e)
    then show ?thesis
      using a Replied assms(3) ambiguous_settled [of e st evs st2 out st g] by (simp add: raises_no_exit_def chargeable_def)
  next
    case (4 b)
    obtain evs1 st1 res where p: "post_record ce g model h r b st = (evs1, st1, res)"
      by (metis prod_cases3)
    note s = post_record_settled [OF p assms(2,4-6)]
    show ?thesis
    proof (cases res)
      case (Inr u)
      then show ?thesis
        using a 4 p s Replied by (simp add: chargeable_def)
    next
      case (Inl e)
      obtain evs2 st3 out3 where q: "post_ambiguous st1 e = (evs2, st3, out3)"
        by (metis prod_cases3)
      then have "settled g st True evs2 st3"
        using ambiguous_settled [OF _ q, of st g] s Inl by auto
      then show ?thesis
        using a 4 p q s Inl Replied by (simp add: chargeable_def)
    qed
  qed
qed

definition fits :: "canary_guard \<Rightarrow> canary_ledger \<Rightarrow> canary_reservation \<Rightarrow> bool" where
  "fits g l r = (is_fin (cr_cost_usd r) \<and> fin_val (cl_spent_usd l) + fin_val (cr_cost_usd r) \<le> fin_val (effective_budget g))"

lemma refused_or_quiet:
  "post_refused st e = (evs, st2, out) \<Longrightarrow>
     evs = [] \<and> st2 = st \<or> (\<exists>m. evs = [SaveState (open_canary m (cs_value st))] \<and> cs_value st2 = open_canary m (cs_value st))"
  by (cases e) (auto simp: post_refused_def Let_def)

lemma canary_post_cases:
  assumes "canary_post ce g prepared st = (evs, st2, out)" "raises_no_exit (ce_answer ce)"
    "finite_prices (ce_env ce)" "is_fin (effective_budget g)" "cv_circuit_open (cs_value st) \<or> ledger_ok g (cs_ledger st)"
  obtains (quiet) "evs = []" "st2 = st"
  | (refused) m where "evs = [SaveState (open_canary m (cs_value st))]" "cs_value st2 = open_canary m (cs_value st)"
  | (called) v f rest where "\<not> cv_circuit_open (cs_value st)" "v = (cs_value st)\<lparr>cv_in_flight := Some f\<rparr>"
      "evs = SaveState v # CallProvider (cf_reservation f) # rest" "fits g (cs_ledger st) (cf_reservation f)"
      "settled g (st\<lparr>cs_value := v\<rparr>) (chargeable (ce_answer ce)) rest st2"
proof -
  obtain payload pb mt where p: "prepared = (payload, pb, mt)"
    by (cases prepared)
  define model where "model = jstr (ce_str ce) (jget payload ''model'')"
  define h where "h = ce_hash ce (JObj payload)"
  note a = assms(1) [unfolded canary_post_def p prod.case Let_def, folded model_def h_def]
  show thesis
  proof (cases "cv_circuit_open (cs_value st)")
    case True
    then show thesis
      using a quiet by simp
  next
    case False
    then have l: "ledger_ok g (cs_ledger st)"
      using assms(5) by simp
    show thesis
    proof (cases "canary_reserve (ce_fmt ce) (ce_env ce) g (cs_ledger st) model pb mt")
      case (Inl e)
      then show thesis
        using refused_or_quiet [of st e evs st2 out] a False quiet refused by auto
    next
      case (Inr r)
      have r: "fits g (cs_ledger st) r" "\<exists>pr. canary_prices (ce_env ce) model = Inr pr"
        using reserve_within [OF Inr assms(3) _ assms(4)] l by (auto simp: fits_def ledger_ok_def)
      show thesis
      proof (cases "wait_for_rate_capacity g (cs_ledger st) r (ce_clock ce)")
        case None
        then show thesis
          using a False Inr quiet by simp
      next
        case (Some w)
        show thesis
        proof (cases w)
          case (Inl e)
          then show thesis
            using refused_or_quiet [of st e evs st2 out] a False Some quiet refused
              \<open>canary_reserve _ _ _ _ _ _ _ = Inr r\<close> by auto
        next
          case w: (Inr u)
          define f where "f = \<lparr>cf_request_hash = h, cf_model = model, cf_started_at = ce_started_at ce, cf_reservation = r\<rparr>"
          define v where "v = (cs_value st)\<lparr>cv_in_flight := Some f\<rparr>"
          obtain rest st3 out3 where q: "post_settle ce g model h r (st\<lparr>cs_value := v\<rparr>) = (rest, st3, out3)"
            by (metis prod_cases3)
          have "evs = SaveState v # CallProvider (cf_reservation f) # rest" "st2 = st3" "cf_reservation f = r"
            using a False Inr Some w q by (simp_all add: f_def v_def)
          then show thesis
            using called [OF False v_def, of rest] r post_settle_settled [OF q _ assms(2-4)] l by auto
        qed
      qed
    qed
  qed
qed

section \<open>The system\<close>

record canary_sys =
  sy_ledger :: "canary_ledger option"
    \<comment> \<open>the two files\<close>
  sy_value :: "canary_value option"
  sy_mem :: "canary_state option"
    \<comment> \<open>the process, when it runs\<close>
  sy_calls :: nat
    \<comment> \<open>the calls the provider may have charged\<close>

fun apply_event :: "bool \<Rightarrow> canary_sys \<Rightarrow> canary_event \<Rightarrow> canary_sys" where
  "apply_event c s (SaveState v) = s\<lparr>sy_value := Some v\<rparr>"
| "apply_event c s (SaveLedger l) = s\<lparr>sy_ledger := Some l\<rparr>"
| "apply_event c s (CallProvider r) = (if c then s\<lparr>sy_calls := Suc (sy_calls s)\<rparr> else s)"

definition ledger_of :: "canary_guard \<Rightarrow> canary_sys \<Rightarrow> canary_ledger" where
  "ledger_of g s = (case sy_ledger s of Some l \<Rightarrow> l
     | None \<Rightarrow> \<lparr>cl_spent_usd = 0, cl_calls = [], cl_hard_budget_usd = cg_hard_budget_usd g\<rparr>)"

definition value_of :: "canary_sys \<Rightarrow> canary_value" where
  "value_of s = (case sy_value s of Some v \<Rightarrow> v | None \<Rightarrow> \<lparr>cv_circuit_open = False, cv_reason = None, cv_in_flight = None\<rparr>)"

inductive canary_step :: "canary_guard \<Rightarrow> env \<Rightarrow> canary_sys \<Rightarrow> canary_sys \<Rightarrow> bool" for g env where
  start: "sy_mem s = None \<Longrightarrow> proxy_state_init g (sy_ledger s) (sy_value s) = Inr (evs, st) \<Longrightarrow>
    canary_step g env s ((foldl (apply_event False) s evs)\<lparr>sy_mem := Some st\<rparr>)"
| start_killed: "sy_mem s = None \<Longrightarrow> proxy_state_init g (sy_ledger s) (sy_value s) = Inr (evs, st) \<Longrightarrow>
    canary_step g env s (foldl (apply_event False) s (take k evs))"
| post: "sy_mem s = Some st \<Longrightarrow> canary_post ce g prepared st = (evs, st2, out) \<Longrightarrow> ce_env ce = env \<Longrightarrow> raises_no_exit (ce_answer ce) \<Longrightarrow>
    canary_step g env s ((foldl (apply_event (chargeable (ce_answer ce))) s evs)\<lparr>sy_mem := Some st2\<rparr>)"
| post_killed: "sy_mem s = Some st \<Longrightarrow> canary_post ce g prepared st = (evs, st2, out) \<Longrightarrow> ce_env ce = env \<Longrightarrow> raises_no_exit (ce_answer ce) \<Longrightarrow>
    canary_step g env s ((foldl (apply_event (chargeable (ce_answer ce))) s (take k evs))\<lparr>sy_mem := None\<rparr>)"

definition canary_init :: "canary_sys \<Rightarrow> bool" where
  "canary_init s = (s = \<lparr>sy_ledger = None, sy_value = None, sy_mem = None, sy_calls = 0\<rparr>)"

definition books_ok :: "canary_guard \<Rightarrow> canary_sys \<Rightarrow> bool" where
  "books_ok g s = (ledger_ok g (ledger_of g s) \<and> (sy_calls s = length (cl_calls (ledger_of g s))
      \<or> sy_calls s = Suc (length (cl_calls (ledger_of g s)))
        \<and> (\<exists>f. cv_in_flight (value_of s) = Some f \<and> fits g (ledger_of g s) (cf_reservation f))))"

definition mem_ok :: "canary_guard \<Rightarrow> canary_sys \<Rightarrow> bool" where
  "mem_ok g s = (\<forall>st. sy_mem s = Some st \<longrightarrow> cs_value st = value_of s
     \<and> (cv_circuit_open (cs_value st) \<or> cs_ledger st = ledger_of g s \<and> cv_in_flight (cs_value st) = None))"

lemma files_simps [simp]:
  "ledger_of g (s\<lparr>sy_value := v\<rparr>) = ledger_of g s" "ledger_of g (s\<lparr>sy_mem := m\<rparr>) = ledger_of g s"
  "ledger_of g (s\<lparr>sy_calls := n\<rparr>) = ledger_of g s" "ledger_of g (s\<lparr>sy_ledger := Some l\<rparr>) = l"
  "value_of (s\<lparr>sy_value := Some w\<rparr>) = w" "value_of (s\<lparr>sy_mem := m\<rparr>) = value_of s"
  "value_of (s\<lparr>sy_calls := n\<rparr>) = value_of s" "value_of (s\<lparr>sy_ledger := k\<rparr>) = value_of s"
  by (simp_all add: ledger_of_def value_of_def)

lemma open_canary_simps [simp]:
  "cv_circuit_open (open_canary m v)" "cv_in_flight (open_canary m v) = cv_in_flight v"
  by (simp_all add: open_canary_def)

lemma init_events:
  assumes "proxy_state_init g (sy_ledger s) (sy_value s) = Inr (evs, st)"
  shows "(evs = [] \<and> cs_value st = value_of s \<and> cv_in_flight (value_of s) = None
      \<or> (\<exists>m. evs = [SaveState (open_canary m (value_of s))] \<and> cs_value st = open_canary m (value_of s)))
     \<and> cs_ledger st = ledger_of g s"
  using assms unfolding proxy_state_init_def ledger_init_def
  by (auto simp: Let_def value_of_def ledger_of_def open_canary_def split: if_splits option.splits)

lemma books_start:
  assumes "books_ok g s" "proxy_state_init g (sy_ledger s) (sy_value s) = Inr (evs, st)"
  shows "books_ok g (foldl (apply_event False) s (take k evs))"
    and "mem_ok g ((foldl (apply_event False) s evs)\<lparr>sy_mem := Some st\<rparr>)"
proof -
  show "books_ok g (foldl (apply_event False) s (take k evs))"
    using init_events [OF assms(2)] assms(1) by (cases k) (auto simp: books_ok_def)
  show "mem_ok g ((foldl (apply_event False) s evs)\<lparr>sy_mem := Some st\<rparr>)"
    using init_events [OF assms(2)] by (auto simp: mem_ok_def)
qed

lemma prefix_two:
  "P s \<Longrightarrow> P (f s x) \<Longrightarrow> (\<And>j. P (foldl f (f (f s x) y) (take j rest))) \<Longrightarrow> P (foldl f s (take k (x # y # rest)))"
  by (auto simp: take_Cons split: nat.splits)

lemma take_pair: "take k [x, y] = [] \<or> take k [x, y] = [x] \<or> take k [x, y] = [x, y]"
  by (cases k) (auto simp: take_Cons split: nat.splits)

lemma take_single: "take k [x] = [] \<or> take k [x] = [x]"
  by (cases k) auto

lemma books_settled:
  assumes "settled g st c rest st2" "books_ok g s" "cv_in_flight (value_of s) = Some f" "cs_value st = value_of s"
    "cs_ledger st = ledger_of g s" "sy_calls s = (if c then Suc else id) (length (cl_calls (ledger_of g s)))"
  shows "books_ok g (foldl (apply_event c) s (take k rest))"
    and "mem_ok g ((foldl (apply_event c) s rest)\<lparr>sy_mem := Some st2\<rparr>)"
proof -
  show "books_ok g (foldl (apply_event c) s (take k rest))"
    using assms(1)
  proof cases
    case (failed v m)
    then show ?thesis
      using assms(2-5) take_single [of k "SaveState v"] by (auto simp: books_ok_def)
  next
    case (recorded l v)
    then show ?thesis
      using assms(2-6) take_pair [of k "SaveLedger l" "SaveState v"] by (auto simp: books_ok_def)
  next
    case (refused v)
    then show ?thesis
      using assms(2-6) take_single [of k "SaveState v"] by (auto simp: books_ok_def)
  qed
  show "mem_ok g ((foldl (apply_event c) s rest)\<lparr>sy_mem := Some st2\<rparr>)"
    using assms(1) by cases (use assms(4,5) in \<open>auto simp: mem_ok_def\<close>)
qed

lemma books_post:
  assumes "books_ok g s" "mem_ok g s" "sy_mem s = Some st" "canary_post ce g prepared st = (evs, st2, out)"
    "raises_no_exit (ce_answer ce)" "finite_prices (ce_env ce)" "is_fin (effective_budget g)"
  shows "books_ok g (foldl (apply_event (chargeable (ce_answer ce))) s (take k evs))
    \<and> mem_ok g ((foldl (apply_event (chargeable (ce_answer ce))) s evs)\<lparr>sy_mem := Some st2\<rparr>)"
proof -
  have st: "cs_value st = value_of s"
    "cv_circuit_open (cs_value st) \<or> cs_ledger st = ledger_of g s \<and> cv_in_flight (cs_value st) = None"
    using assms(2,3) by (auto simp: mem_ok_def)
  then have "cv_circuit_open (cs_value st) \<or> ledger_ok g (cs_ledger st)"
    using assms(1) by (auto simp: books_ok_def)
  from assms(4-7) this show ?thesis
  proof (cases rule: canary_post_cases)
    case quiet
    then show ?thesis
      using assms(1-3) by (auto simp: mem_ok_def)
  next
    case (refused m)
    then show ?thesis
      using assms(1) st take_single [of k "SaveState (open_canary m (cs_value st))"] by (auto simp: mem_ok_def books_ok_def)
  next
    case (called v f rest)
    define c where "c = chargeable (ce_answer ce)"
    define s1 where "s1 = apply_event c s (SaveState v)"
    define s2 where "s2 = apply_event c s1 (CallProvider (cf_reservation f))"
    have l: "cs_ledger st = ledger_of g s" "cv_in_flight (value_of s) = None" "sy_calls s = length (cl_calls (ledger_of g s))"
      using st called(1) assms(1) by (auto simp: books_ok_def)
    have s1: "books_ok g s1"
      using assms(1) l by (auto simp: s1_def books_ok_def)
    have v: "cv_in_flight v = Some f"
      using called(2) by simp
    have s2: "books_ok g s2" "value_of s2 = v" "ledger_of g s2 = ledger_of g s"
        "sy_calls s2 = (if c then Suc else id) (length (cl_calls (ledger_of g s2)))"
      using assms(1) l called(4) v by (auto simp: s2_def s1_def books_ok_def)
    have set: "settled g (st\<lparr>cs_value := v\<rparr>) c rest st2"
      using called(5) by (simp add: c_def)
    have b: "books_ok g (foldl (apply_event c) s2 (take j rest))" and m: "mem_ok g ((foldl (apply_event c) s2 rest)\<lparr>sy_mem := Some st2\<rparr>)" for j
      using books_settled [OF set s2(1)] s2 v l(1) by auto
    have "books_ok g (foldl (apply_event c) s (take k evs))"
      unfolding called(3) using assms(1) s1 b by (intro prefix_two [where P = "books_ok g"]) (simp_all add: s1_def s2_def)
    then show ?thesis
      using m called(3) by (simp add: c_def s1_def s2_def)
  qed
qed

definition canary_inv :: "canary_guard \<Rightarrow> canary_sys \<Rightarrow> bool" where
  "canary_inv g s = (books_ok g s \<and> mem_ok g s)"

definition sound_guard :: "canary_guard \<Rightarrow> env \<Rightarrow> bool" where
  "sound_guard g env = (finite_prices env \<and> is_fin (effective_budget g) \<and> 0 \<le> fin_val (effective_budget g))"

lemma books_mem [simp]: "books_ok g (s\<lparr>sy_mem := m\<rparr>) = books_ok g s"
  by (simp add: books_ok_def)

lemma mem_None [simp]: "sy_mem s = None \<Longrightarrow> mem_ok g s"
  by (simp add: mem_ok_def)

lemma apply_event_mem: "sy_mem (foldl (apply_event c) s evs) = sy_mem s"
proof (induction evs arbitrary: s)
  case (Cons e evs)
  then show ?case by (cases e) simp_all
qed simp

lemma canary_inv_step:
  assumes "canary_step g env s t" "canary_inv g s" "sound_guard g env"
  shows "canary_inv g t"
  using assms(1)
proof cases
  case (start evs st)
  then show ?thesis
    using books_start(1) [of g s evs st "length evs"] books_start(2) [of g s evs st] assms(2) by (simp add: canary_inv_def)
next
  case (start_killed evs st k)
  then show ?thesis
    using books_start(1) [of g s evs st k] assms(2) by (simp add: canary_inv_def apply_event_mem)
next
  case (post st ce prepared evs st2 out)
  then show ?thesis
    using books_post [of g s st ce prepared evs st2 out "length evs"] assms(2,3) by (simp add: canary_inv_def sound_guard_def)
next
  case (post_killed st ce prepared evs st2 out k)
  then show ?thesis
    using books_post [of g s st ce prepared evs st2 out k] assms(2,3) by (simp add: canary_inv_def sound_guard_def)
qed

lemma canary_inv_init: "canary_init s \<Longrightarrow> sound_guard g env \<Longrightarrow> canary_inv g s"
  by (simp add: canary_init_def canary_inv_def books_ok_def ledger_ok_def ledger_of_def sound_guard_def)

interpretation cs: invariant_system "\<lambda>s. canary_init s \<and> sound_guard g env" "\<lambda>s t. canary_step g env s t \<and> sound_guard g env" "canary_inv g"
  for g env
  by unfold_locales (auto intro: canary_inv_init canary_inv_step)

lemma reach_canary_inv:
  assumes "reach canary_init (canary_step g env) s" "sound_guard g env"
  shows "canary_inv g s"
proof -
  have "reach (\<lambda>s. canary_init s \<and> sound_guard g env) (\<lambda>s t. canary_step g env s t \<and> sound_guard g env) s"
    using assms by (induction rule: reach.induct) (auto intro: reach_init reach_step)
  then show ?thesis
    by (rule cs.reach_invar)
qed

text \<open>C25: In every state that requests, kills between any two file writes and restarts can reach, the ledger file sums its calls and stays
  within the effective budget; at most one call the provider may have charged is missing from it, and the reserved cost
  of that call still fits the budget beside the recorded spend.\<close>

theorem canary_spend_bounded:
  assumes "reach canary_init (canary_step g env) s" "sound_guard g env"
  shows "cl_spent_usd (ledger_of g s) = sum_list (map cc_cost_usd (cl_calls (ledger_of g s)))
    \<and> fin_val (cl_spent_usd (ledger_of g s)) \<le> fin_val (effective_budget g)
    \<and> (sy_calls s \<noteq> length (cl_calls (ledger_of g s)) \<longrightarrow> sy_calls s = Suc (length (cl_calls (ledger_of g s)))
       \<and> (\<exists>f. cv_in_flight (value_of s) = Some f
            \<and> fin_val (cl_spent_usd (ledger_of g s)) + fin_val (cr_cost_usd (cf_reservation f)) \<le> fin_val (effective_budget g)))"
  using reach_canary_inv [OF assms] by (auto simp: canary_inv_def books_ok_def ledger_ok_def fits_def)

text \<open>C26: While a call that may have been charged is missing from the ledger, the proxy calls nobody: a running process answers
  402 without any effect, and a start leaves the circuit open.\<close>

theorem canary_fails_closed:
  assumes "reach canary_init (canary_step g env) s" "sound_guard g env" "sy_calls s \<noteq> length (cl_calls (ledger_of g s))"
  shows "case sy_mem s of
      Some st \<Rightarrow> \<exists>m. canary_post ce g prepared st = ([], st, Respond 402 m)
    | None \<Rightarrow> (\<forall>evs st. proxy_state_init g (sy_ledger s) (sy_value s) = Inr (evs, st) \<longrightarrow> cv_circuit_open (cs_value st))"
proof -
  have i: "books_ok g s" "mem_ok g s"
    using reach_canary_inv [OF assms(1,2)] by (auto simp: canary_inv_def)
  then obtain f where f: "cv_in_flight (value_of s) = Some f"
    using assms(3) by (auto simp: books_ok_def)
  show ?thesis
  proof (cases "sy_mem s")
    case None
    then show ?thesis
      using init_events [of g s] f by auto
  next
    case (Some st)
    then have "cv_circuit_open (cs_value st)"
      using i(2) f by (auto simp: mem_ok_def)
    then show ?thesis
      using Some by (auto simp: canary_post_def Let_def split: prod.splits)
  qed
qed

end
