(* ===== verification/Canary_Checks.thy ===== *)
theory Canary_Checks
  imports Canary_Props
begin

text \<open>
  The canary's guard, one operation at a time: the accepted configuration, the end of the waiting
  loop, payloads, prices, and a call that crosses the budget. Examples for the system theorems.
\<close>

section \<open>Configuration\<close>

lemma explicit_price_ok: "explicit_price env name = Inr p \<Longrightarrow> \<not> pf_lt p 0"
  by (auto simp: explicit_price_def split: option.splits if_splits)

lemma family_prices_ok:
  "family_prices env family = Inr ps \<Longrightarrow> (\<forall>(name, p) \<in> set ps. \<not> pf_lt p 0)
     \<and> map fst ps = [price_name family ''INPUT'', price_name family ''OUTPUT'']"
  unfolding family_prices_def bindR_eq_Inr by (auto dest: explicit_price_ok)

text \<open>A configuration that the key guard accepts uses a key of its own; unless a number is \<open>nan\<close>, the hard budget lies above 0 and
  at most at 2 dollars, the margin is not negative and below it, so that the effective budget is positive; limits are positive,
  and the four prices are there and not negative.\<close>

theorem key_preflight_sound:
  assumes "key_preflight env normal_key require_stack = Inr g" "cg_hard_budget_usd g \<noteq> NaN" "cg_safety_margin_usd g \<noteq> NaN"
  shows "normal_key \<noteq> Some (strip (getenv env ''CANARY_REDPILL_API_KEY'' []))
    \<and> is_fin (effective_budget g) \<and> 0 < fin_val (effective_budget g) \<and> fin_val (effective_budget g) \<le> fin_val (cg_hard_budget_usd g)
    \<and> fin_val (cg_hard_budget_usd g) \<le> 2 \<and> 0 < cg_rpm_limit g \<and> 0 < cg_tpm_limit g
    \<and> map fst (cg_prices g) = [price_name ''20B'' ''INPUT'', price_name ''20B'' ''OUTPUT'', price_name ''120B'' ''INPUT'', price_name ''120B'' ''OUTPUT'']
    \<and> (\<forall>(name, p) \<in> set (cg_prices g). \<not> pf_lt p 0)"
proof -
  obtain hard margin rpm tpm ps where
    h: "\<not> (pf_le hard 0 \<or> pf_lt (Fin 2) hard)" and m: "\<not> (pf_lt margin 0 \<or> pf_le hard margin)" and l: "\<not> (rpm \<le> 0 \<or> tpm \<le> 0)" and
    p: "mapR (family_prices env) [''20B'', ''120B''] = Inr ps" and
    n: "normal_key \<noteq> Some (strip (getenv env ''CANARY_REDPILL_API_KEY'' []))" and
    g: "g = \<lparr>cg_hard_budget_usd = hard, cg_safety_margin_usd = margin, cg_effective_local_budget_usd = pf_sub hard margin,
        cg_rpm_limit = rpm, cg_tpm_limit = tpm, cg_prices = concat ps\<rparr>"
    using assms(1) unfolding key_preflight_def Let_def bindR_eq_Inr guard_that_eq_Inr sum.inject by blast
  obtain a b where ab: "ps = [a, b]" "family_prices env ''20B'' = Inr a" "family_prices env ''120B'' = Inr b"
    using p by auto
  obtain x where x: "hard = Fin x" "0 < x" "x \<le> 2"
    using h assms(2) g by (cases hard) (auto simp: zero_Fin)
  obtain y where y: "margin = Fin y" "0 \<le> y" "y < x"
    using m x assms(3) g by (cases margin) (auto simp: zero_Fin)
  show ?thesis
    using family_prices_ok [OF ab(2)] family_prices_ok [OF ab(3)] ab(1) l n x y
    unfolding g effective_budget_def by (simp add: pf_sub_def ball_Un)
qed

section \<open>The waiting loop\<close>

lemma recent_calls_old:
  assumes "\<forall>c \<in> set calls. \<forall>t. cc_started_at c = Some t \<longrightarrow> t + usec 60 \<le> now"
  shows "recent_calls calls now = []"
  using assms by (induction calls) (auto simp: recent_calls_def List.map_filter_simps split: option.splits)

lemma rate_delay_positive: "rate_capacity_delay calls r rpm tpm now = Inr d \<Longrightarrow> 0 < d \<Longrightarrow> 100000 \<le> sleep_time d"
  by (auto simp: rate_capacity_delay_def Let_def sleep_time_def split: if_splits)

fun clock_ok :: "canary_guard \<Rightarrow> canary_ledger \<Rightarrow> canary_reservation \<Rightarrow> instant list \<Rightarrow> bool" where
  \<comment> \<open>between two readings the loop has slept at least as long as it asked for\<close>
  "clock_ok g l r (now # next # later) =
     ((case rate_capacity_delay (cl_calls l) r (cg_rpm_limit g) (cg_tpm_limit g) now of
         Inr d \<Rightarrow> 0 < d \<longrightarrow> now + sleep_time d \<le> next | Inl _ \<Rightarrow> True) \<and> clock_ok g l r (next # later))"
| "clock_ok g l r _ = True"

lemma wait_after_minute:
  assumes "recent_calls (cl_calls l) now = []"
  shows "wait_for_rate_capacity g l r (now # later) \<noteq> None"
  using assms by (auto simp: rate_capacity_delay_def Let_def)

lemma wait_progress:
  assumes "clock_ok g l r (now # later)" "\<forall>c \<in> set (cl_calls l). \<forall>t. cc_started_at c = Some t \<longrightarrow> t \<le> t0" "t0 + usec 60 \<le> now + 100000 * int n"
    "n \<le> length later"
  shows "wait_for_rate_capacity g l r (now # later) \<noteq> None"
  using assms
proof (induction n arbitrary: now later)
  case 0
  then show ?case
    by (intro wait_after_minute recent_calls_old) fastforce
next
  case (Suc n)
  then obtain later' "next" where later: "later = next # later'"
    by (cases later) auto
  show ?case
  proof (cases "rate_capacity_delay (cl_calls l) r (cg_rpm_limit g) (cg_tpm_limit g) now")
    case (Inr d)
    show ?thesis
    proof (cases "0 < d")
      case True
      then have "now + 100000 \<le> next"
        using Suc.prems(1) Inr rate_delay_positive [OF Inr] later by auto
      then have "wait_for_rate_capacity g l r (next # later') \<noteq> None"
        using Suc.prems later by (intro Suc.IH) auto
      then show ?thesis
        using Inr True later by simp
    qed (simp add: Inr)
  qed simp
qed

text \<open>The waiting loop for rate capacity ends: when no call of the ledger started after the first reading of the clock, and the clock
  advances by the time slept, it returns or refuses within 601 rounds.\<close>

theorem wait_terminates:
  assumes "clock_ok g l r (now # later)" "\<forall>c \<in> set (cl_calls l). \<forall>t. cc_started_at c = Some t \<longrightarrow> t \<le> now" "600 \<le> length later"
  shows "\<exists>res. wait_for_rate_capacity g l r (now # later) = Some res"
  using wait_progress [OF assms(1,2), of 600] assms(3) by auto

section \<open>Payloads and prices\<close>

text \<open>Every model whose name contains 120b is charged with the prices of the 20B family, because the shorter name is looked for first.\<close>

theorem prices_120b_underpriced:
  assumes "contains (lower model) ''120b''"
  shows "canary_prices env model = canary_prices env ''openai/gpt-oss-20b''"
proof -
  obtain a b where "lower model = a @ ''120b'' @ b"
    using assms contains_iff by blast
  then have "lower model = (a @ ''1'') @ ''20b'' @ b"
    by simp
  then have "contains (lower model) ''20b''"
    using contains_iff by blast
  moreover have "contains (lower ''openai/gpt-oss-20b'') ''20b''"
    by code_simp
  ultimately show ?thesis
    by (simp add: canary_prices_def model_family_def)
qed

text \<open>A call whose recorded cost crosses the budget is refused after it was made, and it is not written to the ledger file: a later
  run starts with the spend from before the call.\<close>

theorem crossing_call_not_written:
  assumes "canary_record env g model usage purpose r started now l = (Inl (RuntimeError m), l2, w)"
  shows "w = None \<and> pf_lt (effective_budget g) (cl_spent_usd l2) \<and> length (cl_calls l2) = Suc (length (cl_calls l))"
proof -
  have "int_of_json v \<noteq> Inl (RuntimeError m)" for v
    by (cases v rule: int_of_json.cases) (auto split: option.splits)
  moreover have "canary_prices env model \<noteq> Inl (RuntimeError m)"
    by (auto simp: canary_prices_def model_family_def env_price_def bindR_eq_Inl Let_def split: option.splits if_splits)
  ultimately show ?thesis
    using assms by (auto simp: canary_record_def Let_def bindR_eq_Inl split: sum.splits if_splits)
qed

section \<open>Examples\<close>

definition sample_env :: env where
  "sample_env = map_of [(''CANARY_REDPILL_API_KEY'', ''own''), (''CANARY_HARD_BUDGET_USD'', ''2''), (''CANARY_SAFETY_MARGIN_USD'', ''1''),
     (''CANARY_RPM_LIMIT'', ''10''), (''CANARY_TPM_LIMIT'', ''9999''), (''CANARY_20B_INPUT_USD_PER_M'', ''1''), (''CANARY_20B_OUTPUT_USD_PER_M'', ''2''),
     (''CANARY_120B_INPUT_USD_PER_M'', ''3''), (''CANARY_120B_OUTPUT_USD_PER_M'', ''4'')]"

definition sample_guard :: canary_guard where
  "sample_guard = \<lparr>cg_hard_budget_usd = Fin 2, cg_safety_margin_usd = Fin 1, cg_effective_local_budget_usd = Fin 1, cg_rpm_limit = 10, cg_tpm_limit = 9999,
     cg_prices = [(''CANARY_20B_INPUT_USD_PER_M'', Fin 1), (''CANARY_20B_OUTPUT_USD_PER_M'', Fin 2),
       (''CANARY_120B_INPUT_USD_PER_M'', Fin 3), (''CANARY_120B_OUTPUT_USD_PER_M'', Fin 4)]\<rparr>"

lemma sample_numbers:
  "py_float ''1'' = Some (Fin 1)" "py_float ''2'' = Some (Fin 2)" "py_float ''3'' = Some (Fin 3)" "py_float ''4'' = Some (Fin 4)"
  "py_int ''10'' = Some 10" "py_int ''9999'' = Some 9999"
  by code_simp+

lemma sample_strips: "strip ''own'' = ''own''" "strip ''1'' = ''1''" "strip ''2'' = ''2''" "strip ''3'' = ''3''" "strip ''4'' = ''4''"
  by code_simp+

lemma sample_preflight: "key_preflight sample_env None False = Inr sample_guard"
  by (simp add: key_preflight_def env_float_def env_int_def getenv_def sample_env_def family_prices_def explicit_price_def price_name_def
    sample_numbers sample_strips zero_Fin pf_sub_def sample_guard_def Let_def)

theorem key_preflight_sound_witness: "0 < fin_val (effective_budget sample_guard)"
proof -
  have "cg_hard_budget_usd sample_guard \<noteq> NaN" "cg_safety_margin_usd sample_guard \<noteq> NaN"
    by (simp_all add: sample_guard_def)
  then show ?thesis
    using key_preflight_sound [OF sample_preflight] by blast
qed

theorem prices_120b_underpriced_witness:
  "canary_prices sample_env ''openai/gpt-oss-120b'' = canary_prices sample_env ''openai/gpt-oss-20b''"
  by (rule prices_120b_underpriced) code_simp

lemma sample_20b: "canary_prices sample_env ''openai/gpt-oss-20b'' = Inr (Fin 1, Fin 2)"
proof -
  have "model_family ''openai/gpt-oss-20b'' = Inr ''20B''"
    by code_simp
  then show ?thesis
    by (simp add: canary_prices_def env_price_def price_name_def sample_env_def sample_numbers)
qed

lemma sample_finite: "finite_prices sample_env"
proof -
  have "model_family model = Inr f \<Longrightarrow> f = ''20B'' \<or> f = ''120B''" for model f
    by (auto simp: model_family_def Let_def split: if_splits)
  then show ?thesis
    unfolding finite_prices_def canary_prices_def
    by (auto simp: env_price_def price_name_def sample_env_def sample_numbers split: option.splits if_splits)
qed

lemma sample_sound: "sound_guard sample_guard sample_env"
  using sample_finite by (simp add: sound_guard_def sample_guard_def effective_budget_def)

theorem wait_terminates_witness:
  "\<exists>res. wait_for_rate_capacity sample_guard \<lparr>cl_spent_usd = 0, cl_calls = [], cl_hard_budget_usd = Fin 2\<rparr>
     \<lparr>cr_input_tokens = 1, cr_output_tokens = 1, cr_cost_usd = 0\<rparr> (0 # replicate 600 0) = Some res"
proof (rule wait_terminates)
  have "clock_ok sample_guard \<lparr>cl_spent_usd = 0, cl_calls = [], cl_hard_budget_usd = Fin 2\<rparr>
      \<lparr>cr_input_tokens = 1, cr_output_tokens = 1, cr_cost_usd = 0\<rparr> (0 # replicate n 0)" for n
    by (induction n) (simp_all add: rate_capacity_delay_def recent_calls_def List.map_filter_simps sample_guard_def Let_def)
  then show "clock_ok sample_guard \<lparr>cl_spent_usd = 0, cl_calls = [], cl_hard_budget_usd = Fin 2\<rparr>
      \<lparr>cr_input_tokens = 1, cr_output_tokens = 1, cr_cost_usd = 0\<rparr> (0 # replicate 600 0)" .
qed simp_all

definition sample_call :: canary_call_env where
  "sample_call = \<lparr>ce_fmt = (\<lambda>_ _. []), ce_env = sample_env, ce_str = (\<lambda>_. []), ce_hash = (\<lambda>_. ''h''), ce_clock = [0], ce_started_at = 0, ce_now = 0,
     ce_answer = Raised (RuntimeError ''timeout'')\<rparr>"

definition sample_flight :: canary_flight where
  "sample_flight = \<lparr>cf_request_hash = ''h'', cf_model = ''openai/gpt-oss-20b'', cf_started_at = 0,
     cf_reservation = \<lparr>cr_input_tokens = 3, cr_output_tokens = 100, cr_cost_usd = Fin (203 / 1000000)\<rparr>\<rparr>"

definition sample_fresh :: canary_sys where
  "sample_fresh = \<lparr>sy_ledger = None, sy_value = None, sy_mem = None, sy_calls = 0\<rparr>"

definition sample_mem :: canary_state where
  "sample_mem = \<lparr>cs_ledger = \<lparr>cl_spent_usd = 0, cl_calls = [], cl_hard_budget_usd = Fin 2\<rparr>,
     cs_value = \<lparr>cv_circuit_open = False, cv_reason = None, cv_in_flight = None\<rparr>\<rparr>"

definition sample_busy :: canary_value where
  "sample_busy = \<lparr>cv_circuit_open = False, cv_reason = None, cv_in_flight = Some sample_flight\<rparr>"

lemma sample_reserve:
  "canary_reserve fmt sample_env sample_guard (cs_ledger sample_mem) ''openai/gpt-oss-20b'' 3 100 =
     Inr \<lparr>cr_input_tokens = 3, cr_output_tokens = 100, cr_cost_usd = Fin (203 / 1000000)\<rparr>"
  by (simp add: canary_reserve_def sample_20b canary_cost_def sample_mem_def effective_budget_def sample_guard_def zero_Fin Let_def)

lemma sample_post:
  "\<exists>rest st2 out. canary_post sample_call sample_guard ([(''model'', JStr ''openai/gpt-oss-20b'')], 3, 100) sample_mem =
     (SaveState sample_busy # CallProvider (cf_reservation sample_flight) # rest, st2, out)"
proof -
  have w: "wait_for_rate_capacity sample_guard (cs_ledger sample_mem) \<lparr>cr_input_tokens = 3, cr_output_tokens = 100, cr_cost_usd = Fin (203 / 1000000)\<rparr> [0] = Some (Inr ())"
    by (simp add: rate_capacity_delay_def recent_calls_def List.map_filter_simps sample_guard_def sample_mem_def Let_def)
  have m: "jstr (ce_str sample_call) (jget [(''model'', JStr ''openai/gpt-oss-20b'')] ''model'') = ''openai/gpt-oss-20b''"
    by (simp add: jstr_def get_or_def)
  have c: "ce_env sample_call = sample_env" "ce_clock sample_call = [0]" "ce_hash sample_call j = ''h''" "ce_started_at sample_call = 0" for j
    by (simp_all add: sample_call_def)
  have v: "\<not> cv_circuit_open (cs_value sample_mem)"
      "(cs_value sample_mem)\<lparr>cv_in_flight := Some \<lparr>cf_request_hash = ''h'', cf_model = ''openai/gpt-oss-20b'', cf_started_at = 0,
         cf_reservation = \<lparr>cr_input_tokens = 3, cr_output_tokens = 100, cr_cost_usd = Fin (203 / 1000000)\<rparr>\<rparr>\<rparr> = sample_busy"
      "\<lparr>cr_input_tokens = 3, cr_output_tokens = 100, cr_cost_usd = Fin (203 / 1000000)\<rparr> = cf_reservation sample_flight"
    by (simp_all add: sample_mem_def sample_busy_def sample_flight_def)
  show ?thesis
    unfolding canary_post_def prod.case Let_def m c sample_reserve sum.case w option.case v(2) if_not_P [OF v(1)]
    by (simp add: v(3) split: prod.splits)
qed

lemma sample_reach:
  "reach canary_init (canary_step sample_guard sample_env) (sample_fresh\<lparr>sy_value := Some sample_busy, sy_calls := 1\<rparr>)"
proof -
  obtain rest st2 out where p: "canary_post sample_call sample_guard ([(''model'', JStr ''openai/gpt-oss-20b'')], 3, 100) sample_mem =
     (SaveState sample_busy # CallProvider (cf_reservation sample_flight) # rest, st2, out)"
    using sample_post by blast
  have "reach canary_init (canary_step sample_guard sample_env) sample_fresh"
    by (rule reach_init) (simp add: canary_init_def sample_fresh_def)
  moreover have "canary_step sample_guard sample_env sample_fresh (sample_fresh\<lparr>sy_mem := Some sample_mem\<rparr>)"
    using canary_step.start [of sample_fresh sample_guard "[]" sample_mem sample_env]
    by (simp add: sample_fresh_def proxy_state_init_def ledger_init_def sample_guard_def sample_mem_def pf_eq_def zero_Fin Let_def)
  moreover have "canary_step sample_guard sample_env (sample_fresh\<lparr>sy_mem := Some sample_mem\<rparr>)
      (sample_fresh\<lparr>sy_value := Some sample_busy, sy_calls := 1\<rparr>)"
    using canary_step.post_killed [of "sample_fresh\<lparr>sy_mem := Some sample_mem\<rparr>" sample_mem sample_call sample_guard _ _ _ _ sample_env 2, OF _ p]
    by (simp add: sample_call_def raises_no_exit_def is_exit_def chargeable_def sample_fresh_def numeral_2_eq_2)
  ultimately show ?thesis
    by (blast intro: reach_step)
qed

theorem canary_spend_bounded_witness:
  "fin_val (cl_spent_usd (ledger_of sample_guard (sample_fresh\<lparr>sy_value := Some sample_busy, sy_calls := 1\<rparr>))) \<le> fin_val (effective_budget sample_guard)"
  using canary_spend_bounded [OF sample_reach sample_sound] by blast

theorem canary_fails_closed_witness:
  "\<exists>evs st. proxy_state_init sample_guard None (Some sample_busy) = Inr (evs, st) \<and> cv_circuit_open (cs_value st)"
proof -
  have "\<exists>evs st. proxy_state_init sample_guard None (Some sample_busy) = Inr (evs, st)"
    by (simp add: proxy_state_init_def ledger_init_def sample_guard_def sample_busy_def pf_eq_def zero_Fin Let_def)
  then show ?thesis
    using canary_fails_closed [OF sample_reach sample_sound, of sample_call "([], 0, 0)"]
    by (auto simp: sample_fresh_def ledger_of_def)
qed

end
