(* ===== verification/Canary_Retain.thy ===== *)
theory Canary_Retain
  imports Canary_Proxy Py_Regex
begin

text \<open>
  The resumable retain run of deploy/hindsight-canary/canary.py: the items of a corpus, the client of
  the Hindsight service, and the loop that submits every document, polls it and keeps its state in
  a file. A document is the JSON object of the file. One run returns the list of its external effects,
  the writes of the state file and the submissions, in order; what the service answers is an argument,
  one answer for each call. \<open>ho_str\<close> is \<open>str()\<close> of floats, lists and objects, \<open>ho_hash\<close> is \<open>stable_key\<close>.
\<close>

section \<open>Data\<close>

type_synonym doc = "json dict"
type_synonym docs = "(string \<times> doc) list"

record canary_host =
  ho_str :: "json \<Rightarrow> string"
  ho_hash :: "json \<Rightarrow> string"
  ho_percent :: "rat \<Rightarrow> string"

datatype retain_event = WriteState docs | Submit string

definition MAX_CONTENT_CHARS :: nat where "MAX_CONTENT_CHARS = 3000"

definition MAX_IN_FLIGHT :: int where "MAX_IN_FLIGHT = 8"

definition with_keys :: "doc \<Rightarrow> (string \<times> json) list \<Rightarrow> doc" where
  \<comment> \<open>\<open>d.update(...)\<close>, or \<open>{**d, ...}\<close>\<close>
  "with_keys d kvs = foldl (\<lambda>d (k, v). AList.update k v d) d kvs"

definition doc_at :: "docs \<Rightarrow> string \<Rightarrow> doc" where
  \<comment> \<open>\<open>documents.get(d) or {}\<close>\<close>
  "doc_at documents d = (case map_of documents d of Some v \<Rightarrow> v | None \<Rightarrow> [])"

fun foldR :: "('a \<Rightarrow> 's \<Rightarrow> 's result) \<Rightarrow> 'a list \<Rightarrow> 's \<Rightarrow> 's result" where
  "foldR f [] s = Inr s"
| "foldR f (x # xs) s = bindR (f x s) (foldR f xs)"

section \<open>The service\<close>

datatype answer = NoAnswer exc | Answer int "json result option"
  \<comment> \<open>an exception of the client, or a status with the decoded body, if there is one\<close>

definition request :: "answer \<Rightarrow> json result" where
  "request a = (case a of
      NoAnswer e \<Rightarrow> Inl e
    | Answer status body \<Rightarrow>
       (if status = 401 \<or> status = 402 then Inl (SafetyStop (''Hindsight returned '' @ int_str status @ ''; circuit opened''))
        else if \<not> (200 \<le> status \<and> status < 300) then Inl (HTTPStatusError (int_str status))
        else case body of None \<Rightarrow> Inr (JObj []) | Some r \<Rightarrow> r))"

record retain_api =
  \<comment> \<open>the answers in one round: to the two listings, for the i-th active operation, and per document\<close>
  ap_page :: "string \<Rightarrow> answer"
  ap_payload :: "nat \<Rightarrow> answer"
  ap_parent :: "nat \<Rightarrow> answer"
  ap_status :: "string \<Rightarrow> answer"
  ap_retain :: "string \<Rightarrow> answer"
  ap_now :: "string \<Rightarrow> string \<Rightarrow> string"
    \<comment> \<open>the time that is written under a key of a document\<close>

fun active_pages :: "(string \<Rightarrow> answer) \<Rightarrow> string list \<Rightarrow> json list result" where
  "active_pages page [] = Inr []"
| "active_pages page (status # more_statuses) =
     bindR (bindR (request (page status)) as_obj) (\<lambda>p.
     bindR (int_of_json (or_else (jget p ''total'') (JInt 0))) (\<lambda>total.
     bindR (guard_that (total \<le> MAX_IN_FLIGHT)
       (SafetyStop (''remote queue has '' @ int_str total @ '' '' @ status @ '' retains; cap is 8''))) (\<lambda>_.
     bindR (iter_json (or_else (jget p ''operations'') (JList []))) (\<lambda>ops.
     bindR (active_pages page more_statuses) (\<lambda>rest. Inr (ops @ rest))))))"

definition active :: "(string \<Rightarrow> answer) \<Rightarrow> json list result" where
  "active page =
     bindR (active_pages page [''pending'', ''processing'']) (\<lambda>operations.
     bindR (guard_that (int (length operations) \<le> MAX_IN_FLIGHT)
       (SafetyStop (''remote queue has '' @ nat_str (length operations) @ '' active retains; cap is 8''))) (\<lambda>_.
     Inr operations))"

definition retain :: "(json \<Rightarrow> string) \<Rightarrow> answer \<Rightarrow> string result" where
  "retain S a =
     bindR (bindR (request a) as_obj) (\<lambda>body.
     let operation_id = jstr S (or_else (or_else (jget body ''operation_id'') (jget body ''id'')) (JStr [])) in
     bindR (guard_that (operation_id \<noteq> []) (SafetyStop ''retain response omitted operation_id'')) (\<lambda>_. Inr operation_id))"

section \<open>Operations and their documents\<close>

fun first_found :: "string option list \<Rightarrow> string option" where
  "first_found [] = None"
| "first_found (r # rs) = (case r of Some s \<Rightarrow> if s = [] then first_found rs else Some s | None \<Rightarrow> first_found rs)"

definition only_id :: "json \<Rightarrow> json option" where
  "only_id ids = (case ids of JList [x] \<Rightarrow> Some x | _ \<Rightarrow> None)"

lemma size_jget: "size (jget d k) \<le> size_list (size_prod (\<lambda>_. 0) size) d"
proof (induction d)
  case (Cons kv d)
  then show ?case
    by (cases kv) (auto simp: get_or_def)
qed (simp add: get_or_def)

function operation_document_id :: "(json \<Rightarrow> string) \<Rightarrow> json \<Rightarrow> string option" where
  "operation_document_id S (JObj d) =
     (let direct = or_else (jget d ''document_id'') (jget d ''documentId'') in
      if truthy direct then Some (jstr S direct)
      else case only_id (jget d ''document_ids'') of
        Some x \<Rightarrow> Some (jstr S x)
      | None \<Rightarrow> first_found (map (\<lambda>k. operation_document_id S (jget d k)) [''result_metadata'', ''task_payload'', ''payload'', ''items'', ''contents'']))"
| "operation_document_id S (JList xs) =
     (case remdups (concat (map (\<lambda>x. case operation_document_id S x of Some s \<Rightarrow> [s] | None \<Rightarrow> []) xs)) of [s] \<Rightarrow> Some s | _ \<Rightarrow> None)"
| "operation_document_id S JNull = None"
| "operation_document_id S (JBool b) = None"
| "operation_document_id S (JInt i) = None"
| "operation_document_id S (JFloat f) = None"
| "operation_document_id S (JStr s) = None"
  by pat_completeness auto
termination
  by (relation "measure (size \<circ> snd)") (auto simp: size_jget less_Suc_eq_le intro: size_list_estimation')

definition child_operation_ids :: "(json \<Rightarrow> string) \<Rightarrow> json \<Rightarrow> string list" where
  "child_operation_ids S value = (case jget (members value) ''child_operations'' of
      JList xs \<Rightarrow> List.map_filter (\<lambda>child. case child of
          JObj c \<Rightarrow> (let i = or_else (jget c ''operation_id'') (jget c ''id'') in if truthy i then Some (jstr S i) else None)
        | _ \<Rightarrow> None) xs
    | _ \<Rightarrow> [])"

section \<open>Items\<close>

definition cards_by_id :: "json dict list \<Rightarrow> (json \<times> json dict) list result" where
  \<comment> \<open>the later of two cards of a document counts\<close>
  "cards_by_id cards = foldR (\<lambda>row m. bindR (need_key row ''document_id'') (\<lambda>i. Inr (AList.update i row m)))
     (filter (\<lambda>row. jget row ''status'' = JStr ''ok'') cards) []"

definition item_content :: "(json \<times> json dict) list \<Rightarrow> string \<Rightarrow> json dict \<Rightarrow> json result" where
  "item_content by_id variant record =
     (if variant = ''summary'' then Inr (jget record ''summary'')
      else bindR (need_key record ''document_id'') (\<lambda>i.
        Inr (case map_of by_id i of Some row \<Rightarrow> jget row ''card'' | None \<Rightarrow> JNull)))"

definition canary_item :: "canary_host \<Rightarrow> (json \<times> json dict) list \<Rightarrow> string \<Rightarrow> json dict \<Rightarrow> (string \<times> json) list \<Rightarrow> (string \<times> json) list result" where
  "canary_item ho by_id variant record items =
     bindR (item_content by_id variant record) (\<lambda>content.
     bindR (need_key record ''document_id'') (\<lambda>raw_id.
     let i = jstr (ho_str ho) raw_id in
     bindR (guard_that (truthy content) (SafetyStop (variant @ '' content missing for '' @ i))) (\<lambda>_.
     bindR (need_key record ''source'') (\<lambda>raw_source.
     let source = jstr (ho_str ho) raw_source; document_id = ''canary:'' @ variant @ '':'' @ source @ '':'' @ i in
     bindR (guard_that (map_of items document_id = None) (SafetyStop (''duplicate document_id: '' @ document_id))) (\<lambda>_.
     Inr (items @ [(document_id, JObj [
       (''content'', JStr (take MAX_CONTENT_CHARS (jstr (ho_str ho) content))),
       (''context'', JStr (''source:'' @ source @ '' | source_document:'' @ i)),
       (''document_id'', JStr document_id),
       (''timestamp'', jget record ''started_at''),
       (''tags'', JList [JStr ''hindsight-canary'', JStr (''variant:'' @ variant), JStr (''source:'' @ source)])])]))))))"

definition canary_items :: "canary_host \<Rightarrow> json dict list \<Rightarrow> json dict list \<Rightarrow> string \<Rightarrow> (string \<times> json) list result" where
  "canary_items ho corpus cards variant =
     bindR (cards_by_id cards) (\<lambda>by_id. foldR (canary_item ho by_id variant) corpus [])"

section \<open>The states of a document\<close>

definition doc_state :: "doc \<Rightarrow> string" where
  \<comment> \<open>the text under \<open>state\<close>, if it is a text\<close>
  "doc_state v = (case jget v ''state'' of JStr s \<Rightarrow> s | _ \<Rightarrow> [])"

definition explicit_retries :: "doc \<Rightarrow> int result" where
  "explicit_retries v = int_of_json (or_else (jget v ''explicit_retries'') (JInt 0))"

definition stage_explicit_retry :: "string \<Rightarrow> doc \<Rightarrow> doc result" where
  "stage_explicit_retry failed_at v =
     bindR (explicit_retries v) (\<lambda>retries.
     if 1 \<le> retries then Inr v
     else bindR (iter_json (or_else (jget v ''retry_history'') (JList []))) (\<lambda>history.
       let h = history @ [JObj [(''operation_id'', jget v ''operation_id''), (''error'', jget v ''error''), (''failed_at'', JStr failed_at)]];
           v1 = with_keys v [(''state'', JStr ''retry_pending''), (''explicit_retries'', JInt (retries + 1)), (''retry_history'', JList h)] in
       Inr (foldl (\<lambda>d k. AList.delete k d) v1 [''operation_id'', ''worker_operation_ids'', ''error'', ''completed_at''])))"

definition check_doc :: "canary_host \<Rightarrow> (string \<Rightarrow> string \<Rightarrow> string) \<Rightarrow> bool \<Rightarrow> (string \<times> json) list \<Rightarrow> string \<times> doc \<Rightarrow> (string \<times> doc) result" where
  \<comment> \<open>a document of the file, at the start of a run\<close>
  "check_doc ho now retry_failed items dv = (case dv of (d, v) \<Rightarrow>
     let expected = ho_hash ho (case map_of items d of Some item \<Rightarrow> item | None \<Rightarrow> JNull); prior = jget v ''payload_hash'' in
     bindR (guard_that (\<not> (truthy prior \<and> prior \<noteq> JStr expected)) (SafetyStop (''payload changed for stateful document '' @ d))) (\<lambda>_.
     let v1 = AList.update ''payload_hash'' (JStr expected) v in
     bindR (if retry_failed \<and> doc_state v1 = ''failed'' then stage_explicit_retry (now ''failed_at'' d) v1 else Inr v1) (\<lambda>v2.
     Inr (d, v2))))"

definition check_docs :: "canary_host \<Rightarrow> (string \<Rightarrow> string \<Rightarrow> string) \<Rightarrow> bool \<Rightarrow> (string \<times> json) list \<Rightarrow> docs \<Rightarrow> docs result" where
  "check_docs ho now retry_failed items documents =
     (let unknown = filter (\<lambda>(d, _). map_of items d = None) documents in
      bindR (guard_that (unknown = []) (SafetyStop (''state contains documents outside this corpus: '' @ nat_str (length unknown)))) (\<lambda>_.
      mapR (check_doc ho now retry_failed items) documents))"

section \<open>Adopting active operations\<close>

record adoption =
  ad_docs :: docs
  ad_ids :: "string list"
  ad_by_document :: "string dict"

fun text_list :: "json list \<Rightarrow> string list result" where
  "text_list [] = Inr []"
| "text_list (JStr s # xs) = bindR (text_list xs) (\<lambda>ss. Inr (s # ss))"
| "text_list (_ # xs) = Inl (TypeError ''unorderable'')"

definition adopt_doc :: "canary_host \<Rightarrow> (string \<times> json) list \<Rightarrow> answer \<Rightarrow> string \<Rightarrow> string \<Rightarrow> doc \<Rightarrow> doc result" where
  \<comment> \<open>the document after an operation for it was found active\<close>
  "adopt_doc ho items parent_answer operation_id d existing =
     (let existing_operation = jstr (ho_str ho) (or_else (jget existing ''operation_id'') (JStr []));
          payload_hash = JStr (ho_hash ho (case map_of items d of Some item \<Rightarrow> item | None \<Rightarrow> JNull)) in
      if existing_operation \<noteq> [] \<and> existing_operation \<noteq> operation_id
      then bindR (request parent_answer) (\<lambda>parent.
        bindR (guard_that (operation_id \<in> set (child_operation_ids (ho_str ho) parent))
          (SafetyStop (''operation identity changed for '' @ d))) (\<lambda>_.
        bindR (bindR (iter_json (or_else (jget existing ''worker_operation_ids'') (JList []))) text_list) (\<lambda>worker_ids.
        Inr (with_keys existing [(''state'', JStr ''submitted''), (''payload_hash'', payload_hash),
          (''worker_operation_ids'', JList (map JStr (sorted_list_of_set (insert operation_id (set worker_ids))))), (''adopted'', JBool True)]))))
      else Inr (with_keys existing [(''state'', JStr ''submitted''), (''operation_id'', JStr operation_id), (''payload_hash'', payload_hash),
          (''adopted'', JBool True)]))"

definition adopt_operation :: "canary_host \<Rightarrow> (string \<times> json) list \<Rightarrow> retain_api \<Rightarrow> nat \<times> json \<Rightarrow> adoption \<Rightarrow> adoption result" where
  "adopt_operation ho items api numbered ad = (case numbered of (n, operation) \<Rightarrow>
     bindR (as_obj operation) (\<lambda>op.
     let operation_id = jstr (ho_str ho) (or_else (or_else (jget op ''id'') (jget op ''operation_id'')) (JStr [])) in
     bindR (guard_that (operation_id \<noteq> []) (SafetyStop ''active Hindsight operation omitted its ID'')) (\<lambda>_.
     let ad1 = ad\<lparr>ad_ids := List.insert operation_id (ad_ids ad)\<rparr>; direct = operation_document_id (ho_str ho) operation in
     bindR (if direct = None \<or> direct = Some [] then bindR (request (ap_payload api n)) (\<lambda>v. Inr (operation_document_id (ho_str ho) v))
            else Inr direct) (\<lambda>document_id.
     case document_id of
       None \<Rightarrow> Inr ad1
     | Some d \<Rightarrow>
        (if map_of items d = None then Inr ad1
         else let prior = (case map_of (ad_by_document ad1) d of Some p \<Rightarrow> p | None \<Rightarrow> []);
                  existing = doc_at (ad_docs ad1) d in
           bindR (guard_that (\<not> (prior \<noteq> [] \<and> prior \<noteq> operation_id)) (SafetyStop (''duplicate active operations for '' @ d))) (\<lambda>_.
           bindR (guard_that (doc_state existing \<notin> {''succeeded'', ''failed''})
             (SafetyStop (''active operation reappeared for terminal document '' @ d))) (\<lambda>_.
           bindR (adopt_doc ho items (ap_parent api n) operation_id d existing) (\<lambda>v.
           Inr (ad1\<lparr>ad_docs := AList.update d v (ad_docs ad1), ad_by_document := AList.update d operation_id (ad_by_document ad1)\<rparr>)))))))))"

section \<open>Polling\<close>

definition AUTH_FAILURE :: rx where
  "AUTH_FAILURE = (let nondigit = Cls (\<lambda>c. \<not> is_digit c) in
     cat [Alt Bol nondigit, Cap 1 (Alt (lit ''401'') (lit ''402'')), Alt nondigit Eol])"

definition poll_doc :: "canary_host \<Rightarrow> retain_api \<Rightarrow> bool \<Rightarrow> string \<Rightarrow> doc \<Rightarrow> (doc \<times> string option) result" where
  \<comment> \<open>the document, and the message with which the run stops after writing it\<close>
  "poll_doc ho api retry_failed d v =
     bindR (need_key v ''operation_id'') (\<lambda>_.
     bindR (bindR (request (ap_status api d)) as_obj) (\<lambda>status.
     let remote = lower (jstr (ho_str ho) (or_else (jget status ''status'') (JStr []))) in
     if remote = ''completed''
     then Inr (with_keys v [(''state'', JStr ''succeeded''), (''completed_at'', JStr (ap_now api ''completed_at'' d))], None)
     else if remote \<in> {''failed'', ''cancelled'', ''not_found''}
     then (let error = or_else (jget status ''error_message'') (JStr remote);
               v1 = with_keys v [(''state'', JStr ''failed''), (''error'', error)];
               text = jstr (ho_str ho) error;
               stop = (if search AUTH_FAILURE text \<noteq> None then Some text else None) in
       if retry_failed
       then bindR (explicit_retries v1) (\<lambda>r.
         if r < 1 then bindR (stage_explicit_retry (ap_now api ''failed_at'' d) v1) (\<lambda>v2. Inr (v2, None))
         else Inr (v1, stop))
       else Inr (v1, stop))
     else Inr (v, None)))"

fun poll_docs :: "canary_host \<Rightarrow> retain_api \<Rightarrow> bool \<Rightarrow> string list \<Rightarrow> docs \<Rightarrow> retain_event list \<times> docs result" where
  "poll_docs ho api retry_failed [] documents = ([], Inr documents)"
| "poll_docs ho api retry_failed (d # ds) documents =
     (case poll_doc ho api retry_failed d (doc_at documents d) of
        Inl e \<Rightarrow> ([], Inl e)
      | Inr (v, stop) \<Rightarrow>
         (let documents2 = AList.update d v documents in
          case stop of
            Some m \<Rightarrow> ([WriteState documents2], Inl (SafetyStop m))
          | None \<Rightarrow> poll_docs ho api retry_failed ds documents2))"

section \<open>The decision of a round\<close>

definition count_state :: "string \<Rightarrow> docs \<Rightarrow> nat" where
  "count_state st documents = length (filter (\<lambda>(_, v). doc_state v = st) documents)"

definition retain_report :: "string \<Rightarrow> nat \<Rightarrow> nat \<Rightarrow> nat \<Rightarrow> rat \<Rightarrow> json" where
  "retain_report variant n succeeded failed rate = JObj [(''variant'', JStr variant), (''documents'', JInt (int n)),
     (''succeeded'', JInt (int succeeded)), (''failed'', JInt (int failed)), (''schema_retry_failure_rate'', JFloat (Fin rate))]"

definition round_decision :: "canary_host \<Rightarrow> string \<Rightarrow> nat \<Rightarrow> docs \<Rightarrow> json option result" where
  \<comment> \<open>\<open>n\<close> is the number of items; the report when the run is over\<close>
  "round_decision ho variant n documents =
     (let succeeded = count_state ''succeeded'' documents; failures = count_state ''failed'' documents in
      if n = 0 then Inl (ZeroDivisionError ''division by zero'')
      else let failure_rate = rat_of_nat failures / rat_of_nat n in
        if 1 / 100 < failure_rate
        then Inl (SafetyStop (''terminal failure rate '' @ ho_percent ho failure_rate @ '' exceeds 1%''))
        else if succeeded = n \<or> succeeded + failures = n then Inr (Some (retain_report variant n succeeded failures failure_rate))
        else Inr None)"

section \<open>Submitting\<close>

definition new_doc :: "canary_host \<Rightarrow> retain_api \<Rightarrow> string \<Rightarrow> json \<Rightarrow> doc \<Rightarrow> doc result" where
  "new_doc ho api d item prior =
     bindR (explicit_retries prior) (\<lambda>retries.
     bindR (iter_json (or_else (jget prior ''retry_history'') (JList []))) (\<lambda>history.
     Inr [(''state'', JStr ''submitting''), (''payload_hash'', JStr (ho_hash ho item)), (''started_at'', JStr (ap_now api ''started_at'' d)),
       (''explicit_retries'', JInt retries), (''retry_history'', JList history)]))"

fun submit_items :: "canary_host \<Rightarrow> retain_api \<Rightarrow> (string \<times> json) list \<Rightarrow> docs \<Rightarrow> retain_event list \<times> docs result" where
  "submit_items ho api [] documents = ([], Inr documents)"
| "submit_items ho api ((d, item) # items) documents =
     (case new_doc ho api d item (doc_at documents d) of
        Inl e \<Rightarrow> ([], Inl e)
      | Inr v \<Rightarrow>
         (let documents1 = AList.update d v documents in
          case retain (ho_str ho) (ap_retain api d) of
            Inl e \<Rightarrow>
             (if is_exit e then ([WriteState documents1, Submit d], Inl e)
              else ([WriteState documents1, Submit d,
                WriteState (AList.update d (with_keys v [(''state'', JStr ''failed''),
                  (''error'', JStr (''ambiguous submission: '' @ exc_text e))]) documents1)], Inl (SafetyStop (exc_text e))))
          | Inr operation_id \<Rightarrow>
             (let documents2 = AList.update d (with_keys v [(''state'', JStr ''submitted''), (''operation_id'', JStr operation_id)]) documents1 in
              case submit_items ho api items documents2 of (evs, r) \<Rightarrow>
                (WriteState documents1 # Submit d # WriteState documents2 # evs, r))))"

definition in_flight :: "adoption \<Rightarrow> docs \<Rightarrow> nat" where
  "in_flight ad documents = length (ad_ids ad)
     + length (filter (\<lambda>(d, v). doc_state v = ''submitted'' \<and> map_of (ad_by_document ad) d = None) documents)"

definition available :: "(string \<times> json) list \<Rightarrow> docs \<Rightarrow> (string \<times> json) list" where
  "available items documents =
     filter (\<lambda>(d, _). case map_of documents d of None \<Rightarrow> True | Some v \<Rightarrow> doc_state v = ''retry_pending'') items"

section \<open>Rounds and runs\<close>

definition retain_round :: "canary_host \<Rightarrow> string \<Rightarrow> bool \<Rightarrow> (string \<times> json) list \<Rightarrow> retain_api \<Rightarrow> docs
    \<Rightarrow> retain_event list \<times> (json option \<times> docs) result" where
  "retain_round ho variant retry_failed items api documents =
     (case bindR (active (ap_page api)) (\<lambda>ops.
             foldR (adopt_operation ho items api) (enumerate 0 ops) \<lparr>ad_docs = documents, ad_ids = [], ad_by_document = []\<rparr>) of
        Inl e \<Rightarrow> ([], Inl e)
      | Inr ad \<Rightarrow>
         (let documents1 = ad_docs ad; ambiguous = count_state ''submitting'' documents1 in
          if 0 < ambiguous
          then ([WriteState documents1], Inl (SafetyStop (nat_str ambiguous @ '' ambiguous submission(s) require explicit review'')))
          else case poll_docs ho api retry_failed (map fst (filter (\<lambda>(_, v). doc_state v = ''submitted'') documents1)) documents1 of
            (evs, Inl e) \<Rightarrow> (WriteState documents1 # evs, Inl e)
          | (evs, Inr documents2) \<Rightarrow>
             (let written = WriteState documents1 # evs @ [WriteState documents2] in
              case round_decision ho variant (length items) documents2 of
                Inl e \<Rightarrow> (written, Inl e)
              | Inr (Some report) \<Rightarrow> (written, Inr (Some report, documents2))
              | Inr None \<Rightarrow>
                 (let capacity = nat (MAX_IN_FLIGHT - int (in_flight ad documents2)) in
                  case submit_items ho api (take capacity (available items documents2)) documents2 of (evs2, r) \<Rightarrow>
                    (written @ evs2, bindR r (\<lambda>documents3. Inr (None, documents3)))))))"

fun retain_rounds :: "canary_host \<Rightarrow> string \<Rightarrow> bool \<Rightarrow> (string \<times> json) list \<Rightarrow> retain_api list \<Rightarrow> docs
    \<Rightarrow> retain_event list \<times> json result option" where
  \<comment> \<open>one element of the list for each round; None: the run goes on after the last\<close>
  "retain_rounds ho variant retry_failed items [] documents = ([], None)"
| "retain_rounds ho variant retry_failed items (api # apis) documents =
     (case retain_round ho variant retry_failed items api documents of
        (evs, Inl e) \<Rightarrow> (evs, Some (Inl e))
      | (evs, Inr (Some report, _)) \<Rightarrow> (evs, Some (Inr report))
      | (evs, Inr (None, documents2)) \<Rightarrow>
         (case retain_rounds ho variant retry_failed items apis documents2 of (evs2, r) \<Rightarrow> (evs @ evs2, r)))"

record retain_args =
  \<comment> \<open>the arguments of a run, the content of the files it reads and the answers it meets\<close>
  ra_env :: env
  ra_normal_key :: "string option"
  ra_health :: "json result"
  ra_corpus :: "json dict list result"
  ra_cards :: "json dict list result option"
  ra_variant :: string
  ra_limit :: "int option"
  ra_retry_failed :: bool
  ra_bank :: answer
  ra_now :: "string \<Rightarrow> string \<Rightarrow> string"
  ra_rounds :: "retain_api list"

definition retain_items :: "canary_host \<Rightarrow> retain_args \<Rightarrow> (string \<times> json) list result" where
  "retain_items ho ra =
     bindR (retain_preflight (ra_env ra) (ra_normal_key ra) (ho_str ho) (ra_health ra)) (\<lambda>_.
     bindR (guard_that (strip (getenv (ra_env ra) ''CANARY_HINDSIGHT_TOKEN'' []) \<noteq> []) (SystemExit ''CANARY_HINDSIGHT_TOKEN is required'')) (\<lambda>_.
     bindR (case ra_cards ra of Some cards \<Rightarrow> cards | None \<Rightarrow> Inr []) (\<lambda>cards.
     bindR (guard_that (\<not> (ra_variant ra = ''card'' \<and> cards = [])) (SystemExit ''--cards is required for the card variant'')) (\<lambda>_.
     bindR (bindR (ra_corpus ra) (\<lambda>corpus. canary_items ho corpus cards (ra_variant ra))) (\<lambda>items.
     case ra_limit ra of
       None \<Rightarrow> Inr items
     | Some limit \<Rightarrow> if limit \<le> 0 then Inl (SystemExit ''--limit must be positive'') else Inr (take (nat limit) items))))))"

definition retain_canary :: "canary_host \<Rightarrow> retain_args \<Rightarrow> docs option \<Rightarrow> retain_event list \<times> json result option" where
  "retain_canary ho ra state_file =
     (case bindR (retain_items ho ra) (\<lambda>items.
           bindR (request (ra_bank ra)) (\<lambda>_.
           bindR (check_docs ho (ra_now ra) (ra_retry_failed ra) items (case state_file of Some documents \<Rightarrow> documents | None \<Rightarrow> [])) (\<lambda>documents.
           Inr (items, documents)))) of
        Inl e \<Rightarrow> ([], Some (Inl e))
      | Inr (items, documents) \<Rightarrow>
         (case retain_rounds ho (ra_variant ra) (ra_retry_failed ra) items (ra_rounds ra) documents of (evs, r) \<Rightarrow>
            (WriteState documents # evs, r)))"

end
