(* ===== verification/Canary_Retain_Props.thy ===== *)
theory Canary_Retain_Props
  imports Canary_Retain
begin

text \<open>
  The retain run refines a small specification: every document goes through a life cycle, and a
  submission is allowed only as often as the life cycle grants it. The specification never submits
  a document more than twice, whatever happens; the run inherits that, although the process may be
  killed after any external effect and started again with other arguments.
\<close>

section \<open>The specification\<close>

datatype phase = Fresh | Queued | Sending | Sent | Won | Lost | Unknown

type_synonym life_state = "phase \<times> nat"

inductive life :: "life_state \<Rightarrow> life_state \<Rightarrow> bool" where
  adopt: "p \<in> {Fresh, Queued, Sending, Sent} \<Longrightarrow> life (p, r) (Sent, r)"
| send: "p \<in> {Fresh, Queued} \<Longrightarrow> life (p, r) (Sending, r)"
| win: "life (Sent, r) (Won, r)"
| lose: "p \<in> {Sending, Sent} \<Longrightarrow> life (p, r) (Lost, r)"
| requeue: "life (Lost, 0) (Queued, Suc 0)"

definition tries :: "life_state \<Rightarrow> nat" where
  \<comment> \<open>the submissions that the life so far accounts for\<close>
  "tries x = snd x + (if fst x \<in> {Fresh, Queued} then 0 else 1)"

inductive spec_step :: "(string \<Rightarrow> life_state) \<times> (string \<Rightarrow> nat) \<Rightarrow> (string \<Rightarrow> life_state) \<times> (string \<Rightarrow> nat) \<Rightarrow> bool" where
  move: "(\<And>d. life\<^sup>*\<^sup>* (f d) (f' d)) \<Longrightarrow> spec_step (f, p) (f', p)"
| submit: "fst (f d) = Sending \<Longrightarrow> p d < tries (f d) \<Longrightarrow> spec_step (f, p) (f, p(d := Suc (p d)))"

definition spec_init :: "(string \<Rightarrow> life_state) \<times> (string \<Rightarrow> nat) \<Rightarrow> bool" where
  "spec_init x = (x = (\<lambda>_. (Fresh, 0), \<lambda>_. 0))"

definition spec_inv :: "(string \<Rightarrow> life_state) \<times> (string \<Rightarrow> nat) \<Rightarrow> bool" where
  "spec_inv x = (\<forall>d. snd x d \<le> tries (fst x d) \<and> snd (fst x d) \<le> 1)"

lemma life_mono: "life x y \<Longrightarrow> tries x \<le> tries y \<and> (snd x \<le> 1 \<longrightarrow> snd y \<le> 1)"
  by (induction rule: life.induct) (auto simp: tries_def)

lemma lifes_mono: "life\<^sup>*\<^sup>* x y \<Longrightarrow> tries x \<le> tries y \<and> (snd x \<le> 1 \<longrightarrow> snd y \<le> 1)"
  by (induction rule: rtranclp_induct) (auto dest: life_mono)

lemma spec_inv_step: "spec_step s t \<Longrightarrow> spec_inv s \<Longrightarrow> spec_inv t"
proof (induction rule: spec_step.induct)
  case (move f f' p)
  show ?case
    unfolding spec_inv_def fst_conv snd_conv
  proof
    fix d
    show "p d \<le> tries (f' d) \<and> snd (f' d) \<le> 1"
      using lifes_mono [OF move(1) [of d]] move(2) order_trans by (auto simp: spec_inv_def)
  qed
next
  case (submit f d p)
  then show ?case
    by (auto simp: spec_inv_def)
qed

interpretation sp: invariant_system spec_init spec_step spec_inv
proof
  show "spec_init s \<Longrightarrow> spec_inv s" for s
    by (simp add: spec_init_def spec_inv_def)
qed (rule spec_inv_step)

lemma spec_tries: "spec_inv x \<Longrightarrow> snd x d \<le> 2"
  unfolding spec_inv_def by (drule spec [of _ d]) (auto simp: tries_def split: if_splits)

section \<open>Documents\<close>

definition STATES :: "(string \<times> phase) list" where
  "STATES = [(''retry_pending'', Queued), (''submitting'', Sending), (''submitted'', Sent), (''succeeded'', Won), (''failed'', Lost)]"

definition phase_of :: "doc \<Rightarrow> phase" where
  "phase_of v = (case map_of STATES (doc_state v) of Some p \<Rightarrow> p | None \<Rightarrow> Unknown)"

definition life_of :: "doc option \<Rightarrow> life_state" where
  "life_of x = (case x of None \<Rightarrow> (Fresh, 0)
     | Some v \<Rightarrow> (phase_of v, case explicit_retries v of Inr r \<Rightarrow> nat r | Inl _ \<Rightarrow> 0))"

definition doc_ok :: "doc \<Rightarrow> bool" where
  "doc_ok v = (phase_of v \<noteq> Unknown \<and> (\<exists>r \<in> {0, 1}. explicit_retries v = Inr r))"

definition docs_ok :: "docs \<Rightarrow> bool" where
  "docs_ok D = (dict_ok D \<and> (\<forall>d v. map_of D d = Some v \<longrightarrow> doc_ok v))"

abbreviation lives :: "docs \<Rightarrow> string \<Rightarrow> life_state" where
  "lives D d \<equiv> life_of (map_of D d)"

lemma jget_update [simp]: "jget (AList.update k v d) k' = (if k' = k then v else jget d k')"
  by (simp add: get_or_def update_conv')

lemma jget_delete [simp]: "jget (AList.delete k d) k' = (if k' = k then JNull else jget d k')"
  by (simp add: get_or_def delete_conv')

lemma with_keys_simps [simp]:
  "with_keys d [] = d" "with_keys d ((k, v) # kvs) = with_keys (AList.update k v d) kvs"
  by (simp_all add: with_keys_def)

lemma phase_of_state:
  "jget v ''state'' = JStr ''retry_pending'' \<Longrightarrow> phase_of v = Queued" "jget v ''state'' = JStr ''submitting'' \<Longrightarrow> phase_of v = Sending"
  "jget v ''state'' = JStr ''submitted'' \<Longrightarrow> phase_of v = Sent" "jget v ''state'' = JStr ''succeeded'' \<Longrightarrow> phase_of v = Won"
  "jget v ''state'' = JStr ''failed'' \<Longrightarrow> phase_of v = Lost"
  by (simp_all add: phase_of_def STATES_def doc_state_def)

lemma phase_of_doc_state:
  "doc_state v = ''failed'' \<longleftrightarrow> phase_of v = Lost" "doc_state v = ''succeeded'' \<longleftrightarrow> phase_of v = Won"
  "doc_state v = ''submitted'' \<longleftrightarrow> phase_of v = Sent" "doc_state v = ''retry_pending'' \<longleftrightarrow> phase_of v = Queued"
  "doc_state v = ''submitting'' \<longleftrightarrow> phase_of v = Sending"
  by (auto simp: phase_of_def STATES_def split: option.splits if_splits)

lemma phase_of_cong: "jget v ''state'' = jget w ''state'' \<Longrightarrow> phase_of v = phase_of w"
  by (simp add: phase_of_def doc_state_def)

lemma retries_cong: "jget v ''explicit_retries'' = jget w ''explicit_retries'' \<Longrightarrow> explicit_retries v = explicit_retries w"
  by (simp add: explicit_retries_def)

lemma retries_absent [simp]: "explicit_retries [] = Inr 0"
  by (simp add: explicit_retries_def get_or_def or_else_def)

lemma retries_update [simp]:
  "k \<noteq> ''explicit_retries'' \<Longrightarrow> explicit_retries (AList.update k v d) = explicit_retries d"
  "explicit_retries (AList.update ''explicit_retries'' (JInt r) d) = Inr r"
  "k \<noteq> ''explicit_retries'' \<Longrightarrow> explicit_retries (AList.delete k d) = explicit_retries d"
  by (simp_all add: explicit_retries_def or_else_def)

section \<open>One document\<close>

definition grows :: "doc option \<Rightarrow> doc \<Rightarrow> bool" where
  \<comment> \<open>a document may become this one\<close>
  "grows x v = ((\<forall>w. x = Some w \<longrightarrow> doc_ok w) \<longrightarrow> doc_ok v \<and> life\<^sup>*\<^sup>* (life_of x) (life_of (Some v)))"

lemma grows_same:
  "jget v ''state'' = jget w ''state'' \<Longrightarrow> jget v ''explicit_retries'' = jget w ''explicit_retries'' \<Longrightarrow> grows (Some w) v"
  using phase_of_cong [of v w] retries_cong [of v w] by (simp add: grows_def doc_ok_def life_of_def)

lemma grows_refl [simp]: "grows (Some w) w"
  by (rule grows_same) simp_all

lemma grows_step:
  assumes "phase_of v \<noteq> Unknown" "explicit_retries v = explicit_retries w"
    "\<And>r. life\<^sup>*\<^sup>* (phase_of w, r) (phase_of v, r)"
  shows "grows (Some w) v"
  using assms by (auto simp: grows_def doc_ok_def life_of_def)

lemma stage_grows:
  assumes "stage_explicit_retry t w = Inr v" "phase_of w = Lost"
  shows "grows (Some w) v"
proof -
  obtain r where r: "explicit_retries w = Inr r"
    using assms(1) by (auto simp: stage_explicit_retry_def)
  show ?thesis
  proof (cases "1 \<le> r")
    case True
    then show ?thesis
      using assms(1) r by (auto simp: stage_explicit_retry_def intro: grows_same)
  next
    case False
    then have v: "jget v ''state'' = JStr ''retry_pending''" "explicit_retries v = Inr (r + 1)"
      using assms(1) r by (auto simp: stage_explicit_retry_def Let_def)
    have "doc_ok w \<Longrightarrow> r = 0"
      using False r by (auto simp: doc_ok_def)
    then show ?thesis
      using v phase_of_state(1) [OF v(1)] assms(2) r life.requeue by (auto simp: grows_def doc_ok_def life_of_def)
  qed
qed

lemma grows_trans: "grows x w \<Longrightarrow> grows (Some w) v \<Longrightarrow> grows x v"
  by (auto simp: grows_def)

lemma check_grows:
  assumes "check_doc ho now retry_failed items (d, w) = Inr (d', v)"
  shows "d' = d \<and> grows (Some w) v"
proof -
  obtain h v2 where v2: "v2 = AList.update ''payload_hash'' (JStr h) w" and d: "d' = d" and
    c: "(if retry_failed \<and> doc_state v2 = ''failed'' then stage_explicit_retry (now ''failed_at'' d) v2 else Inr v2) = Inr v"
    using assms by (auto simp: check_doc_def Let_def)
  have "grows (Some w) v2"
    unfolding v2 by (rule grows_same) simp_all
  moreover have "v = v2 \<or> grows (Some v2) v"
    using c stage_grows [of _ v2 v] by (auto simp: phase_of_doc_state split: if_splits)
  ultimately show ?thesis
    using d grows_trans by blast
qed

lemma life_adopt:
  assumes "phase_of w \<notin> {Won, Lost, Unknown}"
  shows "life\<^sup>*\<^sup>* (phase_of w, r) (Sent, r)"
proof -
  have "phase_of w \<in> {Fresh, Queued, Sending, Sent}"
    using assms by (cases "phase_of w") auto
  then show ?thesis
    by (intro r_into_rtranclp life.adopt)
qed

lemma adopt_state:
  assumes "adopt_doc ho items a op d w = Inr v"
  shows "jget v ''state'' = JStr ''submitted'' \<and> explicit_retries v = explicit_retries w"
  using assms unfolding adopt_doc_def Let_def by (auto split: if_splits)

lemma adopt_grows:
  assumes "adopt_doc ho items a op d (doc_at D d) = Inr v" "doc_state (doc_at D d) \<notin> {''succeeded'', ''failed''}"
  shows "grows (map_of D d) v"
proof -
  have v: "phase_of v = Sent" "explicit_retries v = explicit_retries (doc_at D d)"
    using adopt_state [OF assms(1)] phase_of_state(3) by auto
  show ?thesis
  proof (cases "map_of D d")
    case None
    have "life (Fresh, 0) (Sent, 0)"
      by (rule life.adopt) simp
    then show ?thesis
      using v None by (auto simp: grows_def doc_ok_def life_of_def doc_at_def)
  next
    case (Some w)
    have "phase_of w \<noteq> Unknown \<Longrightarrow> life\<^sup>*\<^sup>* (phase_of w, r) (Sent, r)" for r
      using assms(2) Some by (intro life_adopt) (auto simp: phase_of_doc_state doc_at_def)
    then show ?thesis
      using v Some by (auto simp: grows_def doc_ok_def life_of_def doc_at_def)
  qed
qed

lemma poll_grows:
  assumes "poll_doc ho api retry_failed d w = Inr (v, stop)" "phase_of w = Sent"
  shows "grows (Some w) v"
proof -
  have won: "grows (Some w) (with_keys w [(''state'', JStr ''succeeded''), (''completed_at'', t)])" for t
    using assms(2) life.win by (intro grows_step) (auto simp: phase_of_state)
  have lost: "grows (Some w) (with_keys w [(''state'', JStr ''failed''), (''error'', t)])" for t
    using assms(2) life.lose [of Sent] by (intro grows_step) (auto simp: phase_of_state)
  have staged: "grows (Some w) u" if "stage_explicit_retry n (with_keys w [(''state'', JStr ''failed''), (''error'', t)]) = Inr u" for n t u
    using grows_trans [OF lost stage_grows [OF that]] by (simp add: phase_of_state)
  show ?thesis
    using assms(1) unfolding poll_doc_def Let_def bindR_eq_Inr
    by (elim exE conjE) (auto split: if_splits intro: won [simplified] lost [simplified] staged [simplified])
qed

lemma new_doc_sending:
  assumes "new_doc ho api d item w = Inr v"
  shows "phase_of v = Sending \<and> explicit_retries v = explicit_retries w"
  using assms unfolding new_doc_def
  by (auto simp: phase_of_def doc_state_def get_or_def STATES_def explicit_retries_def [of "(_, _) # _"] or_else_def)

section \<open>Written states\<close>

definition evolves :: "docs \<Rightarrow> docs \<Rightarrow> bool" where
  "evolves D E = (docs_ok D \<longrightarrow> docs_ok E \<and> (\<forall>d. life\<^sup>*\<^sup>* (lives D d) (lives E d)))"

lemma evolves_refl [simp]: "evolves D D"
  by (simp add: evolves_def)

lemma evolves_trans: "evolves D E \<Longrightarrow> evolves E F \<Longrightarrow> evolves D F"
  unfolding evolves_def by (meson rtranclp_trans)

lemma evolves_update: "grows (map_of D d) v \<Longrightarrow> evolves D (AList.update d v D)"
  by (auto simp: evolves_def grows_def docs_ok_def update_conv')

lemma docs_ok_update: "docs_ok D \<Longrightarrow> doc_ok v \<Longrightarrow> docs_ok (AList.update d v D)"
  by (auto simp: docs_ok_def update_conv')

lemma foldR_rel:
  assumes "foldR f xs s = Inr t" "\<And>x s t. f x s = Inr t \<Longrightarrow> R s t" "\<And>s. R s s" "\<And>s t u. R s t \<Longrightarrow> R t u \<Longrightarrow> R s u"
  shows "R s t"
  using assms(1)
proof (induction xs arbitrary: s)
  case (Cons x xs)
  then obtain u where "f x s = Inr u" "foldR f xs u = Inr t"
    by auto
  then show ?case
    using Cons.IH assms(2,4) by blast
qed (use assms(3) in simp)

lemma adopt_operation_evolves:
  assumes "adopt_operation ho items api x ad = Inr ad'"
  shows "evolves (ad_docs ad) (ad_docs ad')"
proof -
  obtain n operation where x: "x = (n, operation)"
    by (cases x)
  have upd: "evolves D (AList.update d v D)"
    if "adopt_doc ho items a op_id d (doc_at D d) = Inr v" "doc_state (doc_at D d) \<noteq> ''succeeded''" "doc_state (doc_at D d) \<noteq> ''failed''" for a op_id d v D
    using adopt_grows [OF that(1)] that by (intro evolves_update) simp
  show ?thesis
    using assms unfolding adopt_operation_def x prod.case Let_def bindR_eq_Inr guard_that_eq_Inr
    by (elim exE conjE) (auto split: option.splits if_splits intro: upd)
qed

lemma adopt_all_evolves:
  assumes "foldR (adopt_operation ho items api) ops ad = Inr ad'"
  shows "evolves (ad_docs ad) (ad_docs ad')"
  using assms by (rule foldR_rel [where R = "\<lambda>a b. evolves (ad_docs a) (ad_docs b)"]) (auto intro: adopt_operation_evolves evolves_trans)

lemma check_docs_evolves:
  assumes "check_docs ho now retry_failed items D = Inr E"
  shows "evolves D E"
proof -
  have "list_all2 (\<lambda>x y. check_doc ho now retry_failed items x = Inr y) D E"
    using assms mapR_Inr by (auto simp: check_docs_def Let_def)
  then have keys: "list_all2 (\<lambda>x y. fst y = fst x \<and> grows (Some (snd x)) (snd y)) D E"
    by (rule list_all2_mono) (auto dest: check_grows)
  have *: "map_of D d = None \<and> map_of E d = None \<or> (\<exists>w v. map_of D d = Some w \<and> map_of E d = Some v \<and> grows (Some w) v)" for d
    using keys by (induction D E rule: list_all2_induct) auto
  show ?thesis
    unfolding evolves_def docs_ok_def
  proof (intro impI conjI allI)
    assume ok: "dict_ok D \<and> (\<forall>d v. map_of D d = Some v \<longrightarrow> doc_ok v)"
    have "map fst E = map fst D"
      using keys by (induction D E rule: list_all2_induct) auto
    then show "dict_ok E"
      using ok by (simp add: dict_ok_def)
    fix d
    show "doc_ok v" if "map_of E d = Some v" for v
      using * [of d] ok that by (auto simp: grows_def)
    show "life\<^sup>*\<^sup>* (lives D d) (lives E d)"
      using * [of d] ok by (auto simp: grows_def)
  qed
qed

section \<open>Traces\<close>

definition sends :: "docs \<Rightarrow> string \<Rightarrow> docs \<Rightarrow> bool" where
  \<comment> \<open>the document is written as being submitted\<close>
  "sends D d E = (docs_ok D \<longrightarrow> docs_ok E \<and> fst (lives D d) \<in> {Fresh, Queued} \<and> lives E d = (Sending, snd (lives D d))
     \<and> (\<forall>x. x \<noteq> d \<longrightarrow> lives E x = lives D x))"

inductive trace_ok :: "docs \<Rightarrow> retain_event list \<Rightarrow> docs \<Rightarrow> bool" where
  nothing: "trace_ok D [] D"
| written: "evolves D E \<Longrightarrow> trace_ok E evs F \<Longrightarrow> trace_ok D (WriteState E # evs) F"
| send: "sends D d E \<Longrightarrow> trace_ok E evs F \<Longrightarrow> trace_ok D (WriteState E # Submit d # evs) F"

lemma trace_append: "trace_ok D evs E \<Longrightarrow> trace_ok E evs2 F \<Longrightarrow> trace_ok D (evs @ evs2) F"
  by (induction rule: trace_ok.induct) (auto intro: trace_ok.intros)

lemma trace_write: "evolves D E \<Longrightarrow> trace_ok D [WriteState E] E"
  by (auto intro: trace_ok.intros)

lemma poll_docs_trace:
  assumes "poll_docs ho api retry_failed ds D = (evs, r)" "\<forall>d \<in> set ds. fst (lives D d) = Sent" "distinct ds"
  shows "case r of Inl e \<Rightarrow> evs = [] \<or> (\<exists>E. evs = [WriteState E] \<and> evolves D E) | Inr E \<Rightarrow> evs = [] \<and> evolves D E"
  using assms
proof (induction ds arbitrary: D)
  case (Cons d ds)
  then obtain w where w: "map_of D d = Some w" "phase_of w = Sent"
    by (auto simp: life_of_def split: option.splits)
  show ?case
  proof (cases "poll_doc ho api retry_failed d w")
    case (Inl e)
    then show ?thesis
      using Cons.prems(1) w by (auto simp: doc_at_def)
  next
    case (Inr x)
    then obtain v stop where x: "poll_doc ho api retry_failed d w = Inr (v, stop)"
      by (cases x) auto
    have e: "evolves D (AList.update d v D)"
      using poll_grows [OF x w(2)] w(1) by (intro evolves_update) simp
    show ?thesis
    proof (cases stop)
      case (Some m)
      then show ?thesis
        using Cons.prems(1) w x e by (auto simp: Let_def doc_at_def)
    next
      case None
      then have p: "poll_docs ho api retry_failed ds (AList.update d v D) = (evs, r)"
        using Cons.prems(1) w x by (simp add: Let_def doc_at_def)
      have "\<forall>x \<in> set ds. fst (lives (AList.update d v D) x) = Sent"
        using Cons.prems(2,3) by (auto simp: update_conv')
      then show ?thesis
        using Cons.IH [OF p] Cons.prems(3) e evolves_trans by (auto split: sum.splits)
    qed
  qed
qed auto

lemma trace_docs_ok: "trace_ok D evs E \<Longrightarrow> docs_ok D \<Longrightarrow> docs_ok E"
  by (induction rule: trace_ok.induct) (auto simp: evolves_def sends_def)

lemma new_doc_sends:
  assumes "new_doc ho api d item (doc_at D d) = Inr v" "fst (lives D d) \<in> {Fresh, Queued}"
  shows "sends D d (AList.update d v D)"
proof -
  have v: "phase_of v = Sending" "explicit_retries v = explicit_retries (doc_at D d)"
    using new_doc_sending [OF assms(1)] by auto
  have "doc_ok v" if "docs_ok D"
    using that v by (cases "map_of D d") (auto simp: docs_ok_def doc_ok_def doc_at_def)
  moreover have "life_of (Some v) = (Sending, snd (lives D d))"
    using v by (cases "map_of D d") (auto simp: life_of_def doc_at_def)
  ultimately show ?thesis
    using assms(2) by (auto simp: sends_def docs_ok_update update_conv')
qed

lemma sent_evolves:
  assumes "phase_of v = Sending" "map_of D d = Some v" "st = ''submitted'' \<or> st = ''failed''" "k \<notin> {''state'', ''explicit_retries''}"
  shows "evolves D (AList.update d (with_keys v [(''state'', JStr st), (k, x)]) D)"
proof (rule evolves_update)
  have "life\<^sup>*\<^sup>* (Sending, r) (Sent, r)" "life\<^sup>*\<^sup>* (Sending, r) (Lost, r)" for r
    by (auto intro: life.intros)
  then show "grows (map_of D d) (with_keys v [(''state'', JStr st), (k, x)])"
    unfolding assms(2) using assms(1,3,4) by (intro grows_step) (auto simp: phase_of_state)
qed

lemma submit_trace:
  assumes "submit_items ho api its D = (evs, r)" "distinct (map fst its)" "\<forall>d \<in> fst ` set its. fst (lives D d) \<in> {Fresh, Queued}"
  shows "\<exists>E. trace_ok D evs E \<and> (\<forall>F. r = Inr F \<longrightarrow> E = F)"
  using assms
proof (induction its arbitrary: D evs)
  case Nil
  then show ?case
    by (auto intro: trace_ok.nothing)
next
  case (Cons i its)
  obtain d item where i: "i = (d, item)"
    by (cases i)
  show ?case
  proof (cases "new_doc ho api d item (doc_at D d)")
    case (Inl e)
    then show ?thesis
      using Cons.prems(1) i by (auto intro: trace_ok.nothing)
  next
    case (Inr v)
    define D1 where "D1 = AList.update d v D"
    have s: "sends D d D1"
      unfolding D1_def using Cons.prems(3) i Inr by (intro new_doc_sends) auto
    have v: "phase_of v = Sending" "map_of D1 d = Some v"
      using new_doc_sending [OF Inr] by (auto simp: D1_def update_conv')
    show ?thesis
    proof (cases "retain (ho_str ho) (ap_retain api d)")
      case (Inl e)
      have "evolves D1 (AList.update d (with_keys v [(''state'', JStr ''failed''), (''error'', JStr (''ambiguous submission: '' @ exc_text e))]) D1)"
        using sent_evolves [OF v] by simp
      then have "trace_ok D1 [WriteState (AList.update d (with_keys v [(''state'', JStr ''failed''),
          (''error'', JStr (''ambiguous submission: '' @ exc_text e))]) D1)] (AList.update d (with_keys v [(''state'', JStr ''failed''),
          (''error'', JStr (''ambiguous submission: '' @ exc_text e))]) D1)"
        by (rule trace_write)
      then show ?thesis
        using Cons.prems(1) i Inr Inl s trace_ok.send trace_ok.nothing unfolding D1_def
        by (fastforce simp: Let_def split: if_splits)
    next
      case op: (Inr op)
      define D2 where "D2 = AList.update d (with_keys v [(''state'', JStr ''submitted''), (''operation_id'', JStr op)]) D1"
      obtain evs2 r2 where q: "submit_items ho api its D2 = (evs2, r2)"
        by (cases "submit_items ho api its D2")
      have e: "evs = WriteState D1 # Submit d # WriteState D2 # evs2" "r = r2"
        using Cons.prems(1) i Inr op q by (auto simp: Let_def D1_def D2_def)
      have "\<forall>x \<in> fst ` set its. fst (lives D2 x) \<in> {Fresh, Queued}"
        using Cons.prems(2,3) i by (auto simp: D1_def D2_def update_conv')
      then obtain E where "trace_ok D2 evs2 E" "\<forall>F. r2 = Inr F \<longrightarrow> E = F"
        using Cons.IH [OF q [unfolded e(2) [symmetric]]] Cons.prems(2) e(2) by auto
      moreover have "evolves D1 D2"
        unfolding D2_def using sent_evolves [OF v] by simp
      ultimately show ?thesis
        using s e by (blast intro: trace_ok.intros)
    qed
  qed
qed

lemma polled_sent:
  assumes "dict_ok D" "d \<in> set (map fst (filter (\<lambda>(_, v). doc_state v = ''submitted'') D))"
  shows "fst (lives D d) = Sent"
proof -
  obtain v where "(d, v) \<in> set D" "doc_state v = ''submitted''"
    using assms(2) by auto
  then show ?thesis
    using assms(1) by (auto simp: life_of_def phase_of_doc_state dict_ok_def map_of_eq_Some_iff)
qed

lemma available_fresh:
  "d \<in> fst ` set (take n (available items D)) \<Longrightarrow> fst (lives D d) \<in> {Fresh, Queued}"
  by (auto simp: available_def life_of_def phase_of_doc_state dest!: in_set_takeD split: option.splits)

lemma poll_trace:
  assumes "poll_docs ho api retry_failed (map fst (filter (\<lambda>(_, v). doc_state v = ''submitted'') D)) D = (evs, r)" "docs_ok D"
  shows "\<exists>E. trace_ok D evs E \<and> (\<forall>F. r = Inr F \<longrightarrow> evs = [] \<and> evolves D F)"
proof -
  have d: "dict_ok D"
    using assms(2) by (simp add: docs_ok_def)
  then have "distinct (map fst (filter (\<lambda>(_, v). doc_state v = ''submitted'') D))"
    by (simp add: dict_ok_def distinct_map_filter)
  then have p: "case r of Inl e \<Rightarrow> evs = [] \<or> (\<exists>E. evs = [WriteState E] \<and> evolves D E) | Inr E \<Rightarrow> evs = [] \<and> evolves D E"
    using poll_docs_trace [OF assms(1)] polled_sent [OF d] by blast
  show ?thesis
  proof (cases r)
    case (Inl e)
    then have "evs = [] \<or> (\<exists>E. evs = [WriteState E] \<and> evolves D E)"
      using p by simp
    then show ?thesis
      using Inl trace_write trace_ok.nothing by fastforce
  next
    case (Inr F)
    then show ?thesis
      using p trace_ok.nothing by fastforce
  qed
qed

lemma round_trace:
  assumes "retain_round ho variant retry_failed items api D = (evs, r)" "docs_ok D" "distinct (map fst items)"
  shows "\<exists>E. trace_ok D evs E \<and> (\<forall>x F. r = Inr (x, F) \<longrightarrow> E = F)"
proof (cases "bindR (active (ap_page api)) (\<lambda>ops.
      foldR (adopt_operation ho items api) (enumerate 0 ops) \<lparr>ad_docs = D, ad_ids = [], ad_by_document = []\<rparr>)")
  case (Inl e)
  then show ?thesis
    using assms(1) trace_ok.nothing by (fastforce simp: retain_round_def)
next
  case (Inr ad)
  define D1 where "D1 = ad_docs ad"
  have e1: "evolves D D1"
    using Inr adopt_all_evolves [of ho items api _ _ ad] unfolding D1_def by fastforce
  then have ok1: "docs_ok D1"
    using assms(2) by (simp add: evolves_def)
  note a = assms(1) [unfolded retain_round_def Inr sum.case Let_def, folded D1_def]
  show ?thesis
  proof (cases "0 < count_state ''submitting'' D1")
    case True
    then show ?thesis
      using a trace_write [OF e1] by auto
  next
    case False
    obtain evs1 r1 where p: "poll_docs ho api retry_failed (map fst (filter (\<lambda>(_, v). doc_state v = ''submitted'') D1)) D1 = (evs1, r1)"
      by (metis surj_pair)
    from poll_trace [OF p ok1] obtain E1 where t1: "trace_ok D1 evs1 E1" and r1: "\<forall>F. r1 = Inr F \<longrightarrow> evs1 = [] \<and> evolves D1 F"
      by blast
    show ?thesis
    proof (cases r1)
      case (Inl e)
      then show ?thesis
        using a False p trace_ok.written [OF e1 t1] by auto
    next
      case r1': (Inr D2)
      have t2: "trace_ok D (WriteState D1 # evs1 @ [WriteState D2]) D2"
        using r1 r1' e1 by (auto intro: trace_ok.intros)
      show ?thesis
      proof (cases "round_decision ho variant (length items) D2 = Inr None")
        case False
        then have "evs = WriteState D1 # evs1 @ [WriteState D2] \<and> (\<forall>x F. r = Inr (x, F) \<longrightarrow> F = D2)"
          using a \<open>\<not> 0 < _\<close> p r1' by (auto split: sum.splits option.splits)
        then show ?thesis
          using t2 by auto
      next
        case True
        define n where "n = nat (MAX_IN_FLIGHT - int (in_flight ad D2))"
        obtain evs2 r2 where q: "submit_items ho api (take n (available items D2)) D2 = (evs2, r2)"
          by (metis surj_pair)
        have "distinct (map fst (take n (available items D2)))"
          using assms(3) by (simp add: available_def distinct_map_filter distinct_take take_map [symmetric])
        moreover have "\<forall>d \<in> fst ` set (take n (available items D2)). fst (lives D2 d) \<in> {Fresh, Queued}"
          by (intro ballI available_fresh)
        ultimately obtain E where "trace_ok D2 evs2 E" "\<forall>F. r2 = Inr F \<longrightarrow> E = F"
          using submit_trace [OF q] by blast
        moreover have "evs = (WriteState D1 # evs1 @ [WriteState D2]) @ evs2 \<and> r = bindR r2 (\<lambda>documents3. Inr (None, documents3))"
          using a \<open>\<not> 0 < _\<close> p r1' True q by (simp add: n_def)
        ultimately show ?thesis
          using trace_append [OF t2] by auto
      qed
    qed
  qed
qed

lemma rounds_trace:
  assumes "retain_rounds ho variant retry_failed items apis D = (evs, r)" "docs_ok D" "distinct (map fst items)"
  shows "\<exists>E. trace_ok D evs E"
  using assms
proof (induction apis arbitrary: D evs r)
  case (Cons api apis)
  obtain evs1 r1 where p: "retain_round ho variant retry_failed items api D = (evs1, r1)"
    by (metis surj_pair)
  from round_trace [OF p Cons.prems(2,3)] obtain E where t: "trace_ok D evs1 E" and r1: "\<forall>x F. r1 = Inr (x, F) \<longrightarrow> E = F"
    by blast
  show ?case
  proof (cases "\<exists>F. r1 = Inr (None, F)")
    case True
    then obtain F where F: "r1 = Inr (None, F)"
      by blast
    obtain evs2 r2 where q: "retain_rounds ho variant retry_failed items apis F = (evs2, r2)"
      by (metis surj_pair)
    have "docs_ok F"
      using trace_docs_ok [OF t Cons.prems(2)] r1 F by simp
    then obtain G where "trace_ok F evs2 G"
      using Cons.IH [OF q _ Cons.prems(3)] by blast
    then show ?thesis
      using trace_append [OF t] r1 F p q Cons.prems(1) by auto
  next
    case False
    then have "evs = evs1"
      using Cons.prems(1) p by (auto split: sum.splits prod.splits option.splits)
    then show ?thesis
      using t by blast
  qed
qed (auto intro: trace_ok.nothing)

lemma canary_item_distinct:
  "canary_item ho by_id variant x items = Inr items' \<Longrightarrow> distinct (map fst items) \<longrightarrow> distinct (map fst items')"
  unfolding canary_item_def Let_def bindR_eq_Inr guard_that_eq_Inr
  by (elim exE conjE) (auto simp: map_of_eq_None_iff)

lemma canary_items_distinct:
  assumes "canary_items ho corpus cards variant = Inr items"
  shows "distinct (map fst items)"
proof -
  obtain by_id where fold: "foldR (canary_item ho by_id variant) corpus [] = Inr items"
    using assms by (auto simp: canary_items_def)
  define R :: "(string \<times> json) list \<Rightarrow> (string \<times> json) list \<Rightarrow> bool" where
    "R a b = (distinct (map fst a) \<longrightarrow> distinct (map fst b))" for a b
  have "R [] items"
    using fold by (rule foldR_rel) (auto simp: R_def dest: canary_item_distinct)
  then show ?thesis
    by (simp add: R_def)
qed

lemma retain_items_distinct:
  assumes "retain_items ho ra = Inr items"
  shows "distinct (map fst items)"
proof -
  obtain corpus cards items0 where c: "canary_items ho corpus cards (ra_variant ra) = Inr items0" and
    l: "(case ra_limit ra of None \<Rightarrow> Inr items0
      | Some limit \<Rightarrow> if limit \<le> 0 then Inl (SystemExit ''--limit must be positive'') else Inr (take (nat limit) items0)) = Inr items"
    using assms unfolding retain_items_def bindR_eq_Inr by blast
  have "items = items0 \<or> (\<exists>n. items = take n items0)"
    using l by (auto split: option.splits if_splits)
  then show ?thesis
    using canary_items_distinct [OF c] by (auto simp: take_map [symmetric] distinct_take)
qed

lemma canary_run_trace:
  assumes "docs_ok (case file of Some D \<Rightarrow> D | None \<Rightarrow> [])"
  shows "\<exists>E. trace_ok (case file of Some D \<Rightarrow> D | None \<Rightarrow> []) (fst (retain_canary ho ra file)) E"
proof (cases "bindR (retain_items ho ra) (\<lambda>items. bindR (request (ra_bank ra)) (\<lambda>_.
      bindR (check_docs ho (ra_now ra) (ra_retry_failed ra) items (case file of Some documents \<Rightarrow> documents | None \<Rightarrow> [])) (\<lambda>documents.
      Inr (items, documents))))")
  case (Inl e)
  then show ?thesis
    by (auto simp: retain_canary_def intro: trace_ok.nothing)
next
  case (Inr x)
  obtain items D where x: "x = (items, D)"
    by (cases x)
  have i: "retain_items ho ra = Inr items" and c: "check_docs ho (ra_now ra) (ra_retry_failed ra) items (case file of Some D \<Rightarrow> D | None \<Rightarrow> []) = Inr D"
    using Inr x by auto
  obtain evs r where q: "retain_rounds ho (ra_variant ra) (ra_retry_failed ra) items (ra_rounds ra) D = (evs, r)"
    by (metis surj_pair)
  have e: "evolves (case file of Some D \<Rightarrow> D | None \<Rightarrow> []) D"
    by (rule check_docs_evolves [OF c])
  then obtain E where "trace_ok D evs E"
    using rounds_trace [OF q _ retain_items_distinct [OF i]] assms by (auto simp: evolves_def)
  then have "trace_ok (case file of Some D \<Rightarrow> D | None \<Rightarrow> []) (WriteState D # evs) E"
    using e by (rule trace_ok.written [rotated])
  moreover have "fst (retain_canary ho ra file) = WriteState D # evs"
    unfolding retain_canary_def Inr x by (simp add: q)
  ultimately show ?thesis
    by metis
qed

section \<open>Refinement\<close>

record retain_sys =
  rs_file :: "docs option"
  rs_posts :: "string \<Rightarrow> nat"
    \<comment> \<open>the submissions so far\<close>

definition stored :: "docs \<Rightarrow> docs" where
  \<comment> \<open>what a later run reads: the keys are written in order\<close>
  "stored D = sort_key fst D"

fun apply_retain :: "retain_sys \<Rightarrow> retain_event \<Rightarrow> retain_sys" where
  "apply_retain s (WriteState D) = s\<lparr>rs_file := Some (stored D)\<rparr>"
| "apply_retain s (Submit d) = s\<lparr>rs_posts := (rs_posts s)(d := Suc (rs_posts s d))\<rparr>"

inductive retain_step :: "canary_host \<Rightarrow> retain_sys \<Rightarrow> retain_sys \<Rightarrow> bool" for ho where
  run: "retain_step ho s (foldl apply_retain s (take k (fst (retain_canary ho ra (rs_file s)))))"

definition retain_init :: "retain_sys \<Rightarrow> bool" where
  "retain_init s = (s = \<lparr>rs_file = None, rs_posts = \<lambda>_. 0\<rparr>)"

definition file_docs :: "retain_sys \<Rightarrow> docs" where
  "file_docs s = (case rs_file s of Some D \<Rightarrow> D | None \<Rightarrow> [])"

definition retain_abs :: "retain_sys \<Rightarrow> (string \<Rightarrow> life_state) \<times> (string \<Rightarrow> nat)" where
  "retain_abs s = (lives (file_docs s), rs_posts s)"

lemma stored_ok:
  assumes "docs_ok D"
  shows "map_of (stored D) = map_of D" "docs_ok (stored D)"
proof -
  have d: "distinct (map fst (stored D))" "set (stored D) = set D" "distinct (map fst D)"
    using assms by (auto simp: stored_def docs_ok_def dict_ok_def distinct_map inj_on_def)
  then show m: "map_of (stored D) = map_of D"
    using map_of_inject_set by blast
  show "docs_ok (stored D)"
    using assms d(1) m by (simp add: docs_ok_def dict_ok_def)
qed

lemma apply_simps [simp]:
  "file_docs (s\<lparr>rs_file := Some D\<rparr>) = D" "file_docs (s\<lparr>rs_posts := p\<rparr>) = file_docs s"
  by (simp_all add: file_docs_def)

lemma trace_refines:
  assumes "trace_ok D evs E" "map_of (file_docs s) = map_of D" "docs_ok D" "docs_ok (file_docs s)" "spec_inv (retain_abs s)"
  shows "spec_step\<^sup>*\<^sup>* (retain_abs s) (retain_abs (foldl apply_retain s (take k evs))) \<and> docs_ok (file_docs (foldl apply_retain s (take k evs)))"
  using assms
proof (induction arbitrary: s k rule: trace_ok.induct)
  case (nothing D)
  then show ?case by simp
next
  case (written D E evs F)
  show ?case
  proof (cases k)
    case (Suc j)
    let ?t = "apply_retain s (WriteState E)"
    have ok: "docs_ok E"
      using written(1) written.prems(2) by (simp add: evolves_def)
    then have step: "spec_step (retain_abs s) (retain_abs ?t)"
      using written(1) written.prems(1,2) by (auto simp: retain_abs_def evolves_def stored_ok intro: spec_step.move)
    then have "spec_inv (retain_abs ?t)"
      using written.prems(4) spec_inv_step by blast
    then show ?thesis
      using written.IH [of ?t j] ok step Suc stored_ok [OF ok] by (auto intro: converse_rtranclp_into_rtranclp)
  qed (use written.prems in simp)
next
  case (send D d E evs F)
  let ?t = "apply_retain s (WriteState E)"
  let ?u = "apply_retain ?t (Submit d)"
  have E: "docs_ok E" "fst (lives D d) \<in> {Fresh, Queued}" "lives E d = (Sending, snd (lives D d))" "\<And>x. x \<noteq> d \<Longrightarrow> lives E x = lives D x"
    using send(1) send.prems(2) by (auto simp: sends_def)
  have "life\<^sup>*\<^sup>* (lives D x) (lives E x)" for x
    using E(2-4) life.send [of "fst (lives D d)" "snd (lives D d)"] by (cases "x = d") auto
  then have s1: "spec_step (retain_abs s) (retain_abs ?t)"
    using send.prems(1) stored_ok [OF E(1)] by (auto simp: retain_abs_def intro: spec_step.move)
  have "rs_posts s d \<le> tries (lives D d)"
    using send.prems(1,4) by (auto simp: spec_inv_def retain_abs_def)
  then have "rs_posts s d < tries (lives E d)"
    using E(2,3) by (auto simp: tries_def)
  then have s2: "spec_step (retain_abs ?t) (retain_abs ?u)"
    using E(3) spec_step.submit [of "lives E" d "rs_posts s"] stored_ok [OF E(1)] by (simp add: retain_abs_def)
  have inv: "spec_inv (retain_abs ?u)"
    using s1 s2 send.prems(4) spec_inv_step by blast
  consider "k = 0" | "k = 1" | j where "k = Suc (Suc j)"
    by (metis One_nat_def not0_implies_Suc)
  then show ?case
  proof cases
    case 1
    then show ?thesis using send.prems by simp
  next
    case 2
    then show ?thesis using s1 stored_ok [OF E(1)] by auto
  next
    case (3 j)
    then show ?thesis
      using send.IH [of ?u j] E(1) stored_ok [OF E(1)] inv s1 s2 by (auto intro: converse_rtranclp_into_rtranclp)
  qed
qed

lemma retain_step_refines:
  assumes "retain_step ho s t" "docs_ok (file_docs s)" "spec_inv (retain_abs s)"
  shows "spec_step\<^sup>*\<^sup>* (retain_abs s) (retain_abs t) \<and> docs_ok (file_docs t)"
  using assms(1)
proof cases
  case (run k ra)
  then show ?thesis
    using canary_run_trace [of "rs_file s" ho ra] trace_refines [of "file_docs s" _ _ s k] assms(2,3)
    by (auto simp: file_docs_def)
qed

definition retain_inv :: "retain_sys \<Rightarrow> bool" where
  "retain_inv s = (docs_ok (file_docs s) \<and> spec_inv (retain_abs s))"

interpretation rt: invariant_system retain_init "retain_step ho" retain_inv for ho
proof
  show "retain_init s \<Longrightarrow> retain_inv s" for s
    by (simp add: retain_init_def retain_inv_def file_docs_def docs_ok_def retain_abs_def spec_inv_def life_of_def)
  show "retain_inv s \<Longrightarrow> retain_step ho s t \<Longrightarrow> retain_inv t" for s t
    using retain_step_refines [of ho s t] sp.steps_invar [of "retain_abs s" "retain_abs t"] unfolding retain_inv_def by blast
qed

lemma reach_steps: "reach init step s \<Longrightarrow> step\<^sup>*\<^sup>* s t \<Longrightarrow> reach init step t"
  by (rotate_tac, induction rule: rtranclp_induct) (auto intro: reach_step)

lemma reach_abs:
  assumes "reach retain_init (retain_step ho) s"
  shows "reach spec_init spec_step (retain_abs s)"
  using assms
proof (induction rule: reach.induct)
  case (reach_init s)
  then show ?case
    by (intro reach.reach_init) (auto simp: retain_init_def spec_init_def retain_abs_def file_docs_def life_of_def)
next
  case (reach_step s t)
  then show ?case
    using retain_step_refines [of ho s t] rt.reach_invar [of ho s] reach_steps by (auto simp: retain_inv_def)
qed

text \<open>C27: The retain run refines the life cycle of documents. Whatever the arguments of the runs and the answers of the service, and
  wherever a run is killed, the state file together with the submissions made so far is reachable in the specification, and every run moves
  along steps of it: documents change only along their life cycle, and a submission happens only while the file says that it is being made.\<close>

theorem retain_refines:
  assumes "reach retain_init (retain_step ho) s"
  shows "reach spec_init spec_step (retain_abs s) \<and> (\<forall>t. retain_step ho s t \<longrightarrow> spec_step\<^sup>*\<^sup>* (retain_abs s) (retain_abs t))"
  using reach_abs [OF assms] retain_step_refines [of ho s] rt.reach_invar [OF assms] by (auto simp: retain_inv_def)

text \<open>C28: No document is submitted more than twice over all runs, and only once as long as no explicit retry of it is on record; the retries on
  record are at most one.\<close>

theorem submitted_at_most_twice:
  assumes "reach retain_init (retain_step ho) s"
  shows "rs_posts s d \<le> 2 \<and> (\<forall>v. map_of (file_docs s) d = Some v \<longrightarrow> (\<exists>r \<in> {0, 1}. explicit_retries v = Inr r \<and> int (rs_posts s d) \<le> r + 1))"
proof -
  have i: "docs_ok (file_docs s)" "spec_inv (retain_abs s)"
    using rt.reach_invar [OF assms] by (auto simp: retain_inv_def)
  have "rs_posts s d \<le> tries (lives (file_docs s) d)"
    using i(2) by (auto simp: spec_inv_def retain_abs_def)
  moreover have "rs_posts s d \<le> 2"
    using spec_tries [OF i(2), of d] by (simp add: retain_abs_def)
  moreover have "\<exists>r \<in> {0, 1}. explicit_retries v = Inr r \<and> int (rs_posts s d) \<le> r + 1"
    if v: "map_of (file_docs s) d = Some v" "rs_posts s d \<le> tries (lives (file_docs s) d)" for v
  proof -
    obtain r :: int where r: "r \<in> {0, 1}" "explicit_retries v = Inr r"
      using i(1) v(1) unfolding docs_ok_def doc_ok_def by blast
    then show ?thesis
      using v by (intro bexI [of _ r]) (auto simp: life_of_def tries_def split: if_splits)
  qed
  ultimately show ?thesis
    by blast
qed

definition submissions :: "retain_event list \<Rightarrow> nat" where
  "submissions evs = length (filter (\<lambda>e. case e of Submit _ \<Rightarrow> True | WriteState _ \<Rightarrow> False) evs)"

lemma submissions_simps [simp]:
  "submissions [] = 0" "submissions (WriteState D # evs) = submissions evs" "submissions (Submit d # evs) = Suc (submissions evs)"
  "submissions (evs @ evs2) = submissions evs + submissions evs2"
  by (simp_all add: submissions_def)

lemma submissions_submit: "submissions (fst (submit_items ho api its D)) \<le> length its"
proof (induction its arbitrary: D)
  case (Cons i its)
  obtain d item where i: "i = (d, item)"
    by (cases i)
  show ?case
  proof (cases "new_doc ho api d item (doc_at D d)")
    case (Inr v)
    show ?thesis
    proof (cases "retain (ho_str ho) (ap_retain api d)")
      case (Inl e)
      then show ?thesis
        using i Inr by (simp add: Let_def)
    next
      case op: (Inr op)
      define D2 where "D2 = AList.update d (with_keys v [(''state'', JStr ''submitted''), (''operation_id'', JStr op)]) (AList.update d v D)"
      have "fst (submit_items ho api (i # its) D) = WriteState (AList.update d v D) # Submit d # WriteState D2 # fst (submit_items ho api its D2)"
        using i Inr op by (simp add: Let_def D2_def split: prod.splits)
      then show ?thesis
        using Cons.IH [of D2] by simp
    qed
  qed (simp add: i)
qed simp

lemma submissions_poll: "submissions (fst (poll_docs ho api retry_failed ds D)) = 0"
  by (induction ho api retry_failed ds D rule: poll_docs.induct) (auto simp: Let_def split: sum.splits prod.splits option.splits)

lemma polled_quiet: "poll_docs ho api retry_failed ds D = (evs, Inr E) \<Longrightarrow> evs = []"
  by (induction ho api retry_failed ds D rule: poll_docs.induct) (auto simp: Let_def split: sum.splits prod.splits option.splits)

text \<open>In one round the run submits at most as many documents as the cap of eight leaves beside the active operations of the service and the
  submitted documents that it does not list.\<close>

theorem round_respects_cap:
  assumes "retain_round ho variant retry_failed items api D = (evs, r)" "0 < submissions evs"
  shows "\<exists>ops ad D2. active (ap_page api) = Inr ops
     \<and> foldR (adopt_operation ho items api) (enumerate 0 ops) \<lparr>ad_docs = D, ad_ids = [], ad_by_document = []\<rparr> = Inr ad
     \<and> submissions evs + in_flight ad D2 \<le> 8
     \<and> poll_docs ho api retry_failed (map fst (filter (\<lambda>(_, v). doc_state v = ''submitted'') (ad_docs ad))) (ad_docs ad) = ([], Inr D2)"
proof -
  obtain ops ad where ad: "active (ap_page api) = Inr ops"
      "foldR (adopt_operation ho items api) (enumerate 0 ops) \<lparr>ad_docs = D, ad_ids = [], ad_by_document = []\<rparr> = Inr ad"
    using assms by (auto simp: retain_round_def split: sum.splits)
  define ds where "ds = map fst (filter (\<lambda>(_, v). doc_state v = ''submitted'') (ad_docs ad))"
  obtain evs1 r1 where p: "poll_docs ho api retry_failed ds (ad_docs ad) = (evs1, r1)"
    by (metis surj_pair)
  have z: "submissions evs1 = 0"
    using submissions_poll [of ho api retry_failed ds "ad_docs ad"] p by simp
  note a = assms(1) [unfolded retain_round_def ad bindR_simps sum.case Let_def, folded ds_def, unfolded p prod.case]
  have "count_state ''submitting'' (ad_docs ad) = 0"
    using a assms(2) by (auto split: if_splits)
  then obtain D2 where r1: "r1 = Inr D2" and d: "round_decision ho variant (length items) D2 = Inr None"
    using a assms(2) z by (auto split: sum.splits option.splits)
  define n where "n = nat (MAX_IN_FLIGHT - int (in_flight ad D2))"
  obtain evs2 r2 where q: "submit_items ho api (take n (available items D2)) D2 = (evs2, r2)"
    by (metis surj_pair)
  have "submissions evs = submissions evs2"
    using a \<open>count_state _ _ = 0\<close> r1 d q z by (auto simp: n_def)
  moreover have "submissions evs2 \<le> n"
    using submissions_submit [of ho api "take n (available items D2)" D2] q by simp
  moreover have "evs1 = []"
    using polled_quiet p r1 by simp
  ultimately show ?thesis
    using ad p r1 assms(2) unfolding ds_def n_def MAX_IN_FLIGHT_def by (intro exI conjI) auto
qed

end
