(* ===== verification/Canary_Retain_Checks.thy ===== *)
theory Canary_Retain_Checks
  imports Canary_Retain_Props
begin

text \<open>
  A run of the retain loop on a corpus of one document: the service accepts the submission, and the
  next round finds the operation completed. Examples for the theorems on the retain run, and what
  the run does with a corpus that has no documents.
\<close>

section \<open>A run\<close>

definition ex_host :: canary_host where
  "ex_host = \<lparr>ho_str = \<lambda>_. [], ho_hash = \<lambda>_. ''h'', ho_percent = \<lambda>_. []\<rparr>"

definition ex_api :: retain_api where
  "ex_api = \<lparr>ap_page = \<lambda>_. Answer 200 (Some (Inr (JObj []))), ap_payload = \<lambda>_. Answer 200 None, ap_parent = \<lambda>_. Answer 200 None,
     ap_status = \<lambda>_. Answer 200 (Some (Inr (JObj [(''status'', JStr ''completed'')]))),
     ap_retain = \<lambda>_. Answer 200 (Some (Inr (JObj [(''operation_id'', JStr ''o'')]))), ap_now = \<lambda>_ _. ''t''\<rparr>"

definition ex_run :: retain_args where
  "ex_run = \<lparr>ra_env = map_of [(''CANARY_RETAIN_GUARD'', ''frontier''), (''CANARY_FRONTIER_PROXY_HEALTH_URL'', ''u''), (''CANARY_HINDSIGHT_TOKEN'', ''k'')],
     ra_normal_key = None, ra_health = Inr (JObj [(''status'', JStr ''healthy''), (''provider_egress_enabled'', JBool True)]),
     ra_corpus = Inr [[(''document_id'', JStr ''d''), (''source'', JStr ''s''), (''summary'', JStr ''x'')]], ra_cards = None,
     ra_variant = ''summary'', ra_limit = None, ra_retry_failed = False, ra_bank = Answer 200 None, ra_now = \<lambda>_ _. ''t'',
     ra_rounds = [ex_api, ex_api]\<rparr>"

definition ex_id :: string where "ex_id = ''canary:summary:s:d''"

definition ex_after :: "nat \<Rightarrow> retain_sys" where
  \<comment> \<open>the system when the process is killed after that many effects\<close>
  "ex_after k = foldl apply_retain \<lparr>rs_file = None, rs_posts = \<lambda>_. 0\<rparr> (take k (fst (retain_canary ex_host ex_run None)))"

lemma ex_step: "retain_step ex_host (ex_after 0) (ex_after k)"
  using retain_step.run [of ex_host "ex_after 0" k ex_run] by (simp add: ex_after_def)

lemma ex_reach: "reach retain_init (retain_step ex_host) (ex_after k)"
proof (rule reach.reach_step)
  show "reach retain_init (retain_step ex_host) (ex_after 0)"
    by (rule reach.reach_init) (simp add: retain_init_def ex_after_def)
qed (rule ex_step)

lemma ex_events: "map (\<lambda>e. case e of Submit d \<Rightarrow> Some d | WriteState D \<Rightarrow> None) (fst (retain_canary ex_host ex_run None))
   = [None, None, None, None, Some ex_id, None, None, None]"
  by code_simp

lemma ex_killed: "map_option (map (doc_state \<circ> snd)) (rs_file (ex_after 5)) = Some [''submitting'']" "rs_posts (ex_after 5) ex_id = Suc 0"
  by code_simp+

lemma ex_whole: "map_option (map (doc_state \<circ> snd)) (rs_file (ex_after 8)) = Some [''succeeded'']" "rs_posts (ex_after 8) ex_id = Suc 0"
  by code_simp+

theorem retain_refines_witness:
  "reach spec_init spec_step (retain_abs (ex_after 5)) \<and> spec_step\<^sup>*\<^sup>* (retain_abs (ex_after 0)) (retain_abs (ex_after 5))
     \<and> rs_posts (ex_after 5) ex_id = Suc 0 \<and> map_option (map (doc_state \<circ> snd)) (rs_file (ex_after 5)) = Some [''submitting'']"
  using retain_refines [OF ex_reach, of 5] retain_refines [OF ex_reach, of 0] ex_step [of 5] ex_killed by blast

definition ex_doc :: doc where
  "ex_doc = doc_at (file_docs (ex_after 8)) ex_id"

lemma ex_doc_at: "map_of (file_docs (ex_after 8)) ex_id = Some ex_doc"
  by code_simp

theorem submitted_at_most_twice_witness:
  "rs_posts (ex_after 8) ex_id = Suc 0 \<and> (\<exists>r \<in> {0, 1}. explicit_retries ex_doc = Inr r \<and> int (rs_posts (ex_after 8) ex_id) \<le> r + 1)"
  using submitted_at_most_twice [OF ex_reach, of 8 ex_id] ex_doc_at ex_whole(2) by blast

definition ex_items :: "(string \<times> json) list" where
  "ex_items = [(ex_id, JObj [])]"

lemma ex_round: "submissions (fst (retain_round ex_host ''summary'' False ex_items ex_api [])) = Suc 0"
  by code_simp

theorem round_respects_cap_witness:
  "submissions (fst (retain_round ex_host ''summary'' False ex_items ex_api [])) = Suc 0
     \<and> (\<exists>ops ad D2. active (ap_page ex_api) = Inr ops
     \<and> foldR (adopt_operation ex_host ex_items ex_api) (enumerate 0 ops) \<lparr>ad_docs = [], ad_ids = [], ad_by_document = []\<rparr> = Inr ad
     \<and> Suc 0 + in_flight ad D2 \<le> 8
     \<and> poll_docs ex_host ex_api False (map fst (filter (\<lambda>(_, v). doc_state v = ''submitted'') (ad_docs ad))) (ad_docs ad) = ([], Inr D2))"
  using round_respects_cap [OF surjective_pairing, of ex_host "''summary''" False ex_items ex_api "[]"] ex_round by simp

section \<open>A corpus without documents\<close>

lemma empty_corpus_decision: "round_decision ho variant 0 D = Inl (ZeroDivisionError ''division by zero'')"
  by (simp add: round_decision_def Let_def)

text \<open>With an empty corpus and an empty state file, a round that the service answers always ends with the exception of the division.\<close>

lemma empty_corpus_raises:
  assumes "active (ap_page api) = Inr []"
  shows "snd (retain_round ho variant retry_failed [] api []) = Inl (ZeroDivisionError ''division by zero'')"
  using assms by (simp add: retain_round_def Let_def count_state_def empty_corpus_decision)

text \<open>A submission whose answer is lost is stored as failed, and a later run with \<open>--retry-failed\<close> submits the document once more.\<close>

lemma lost_answer_retried:
  assumes "doc_state v = ''failed''" "explicit_retries v = Inr 0" "jget v ''payload_hash'' = JStr (ho_hash ho item)"
    "map_of items d = Some item" "jget v ''retry_history'' = JList h"
  shows "\<exists>w. check_doc ho now True items (d, v) = Inr (d, w) \<and> doc_state w = ''retry_pending''"
  using assms by (auto simp: check_doc_def Let_def stage_explicit_retry_def doc_state_def iter_json_def or_else_def split: if_splits)

end
