(* ===== verification/Matrix_Format.thy ===== *)
theory Matrix_Format
  imports Py_Regex
begin

text \<open>
  The Markdown renderer of the Matrix agents (formatting.py of deploy/postgres-admin-agent and, with the same
  text, of deploy/telegram-admin-agent), and what the clients may rely on: whatever an agent says, the HTML it
  sends is built from a fixed set of elements, properly nested and without attributes, and escaped text.
\<close>

section \<open>Text and inline markup\<close>

definition escape_html :: "string \<Rightarrow> string" where
  \<comment> \<open>\<open>html.escape(s)\<close>\<close>
  "escape_html s = concat (map (\<lambda>c.
     if c = CHR ''&'' then ''&amp;'' else if c = CHR ''<'' then ''&lt;'' else if c = CHR ''>'' then ''&gt;''
     else if c = CHR 0x22 then ''&quot;'' else if c = CHR 0x27 then ''&#x27;'' else [c]) s)"

definition tick :: char where "tick = CHR 0x60"

definition element :: "string \<Rightarrow> string \<Rightarrow> string" where
  "element name content = ''<'' @ name @ ''>'' @ content @ ''</'' @ name @ ''>''"

function inline_parts :: "string \<Rightarrow> string list" where
  \<comment> \<open>\<open>re.split\<close> at the pairs of backticks, which are kept\<close>
  "inline_parts s = (case split1 tick s of
      None \<Rightarrow> [s]
    | Some (a, r) \<Rightarrow> (case split1 tick r of
        None \<Rightarrow> [s]
      | Some (m, rest) \<Rightarrow> a # (tick # m @ [tick]) # inline_parts rest))"
  by pat_completeness auto
termination
  by (relation "measure length") (auto simp: split1_Some)

declare inline_parts.simps [simp del]

definition BOLD :: rx where
  "BOLD = cat [lit ''**'', Rep (\<lambda>c. c \<noteq> CHR ''*'') 1 None, lit ''**'']"

definition bold :: "string \<Rightarrow> string" where
  "bold s = sub BOLD (\<lambda>m. element ''strong'' (take (length m - 4) (drop 2 m))) s"

definition inline_part :: "string \<Rightarrow> string" where
  "inline_part p = (if 2 \<le> length p \<and> startswith p [tick] \<and> endswith p [tick]
     then element ''code'' (escape_html (butlast (drop 1 p))) else bold (escape_html p))"

definition inline_html :: "string \<Rightarrow> string" where
  "inline_html s = concat (map inline_part (inline_parts s))"

section \<open>Lists and tables\<close>

definition LIST_RE :: rx where
  "LIST_RE = cat [Bol, Rep is_space 0 None, one_of ''-*'', Rep is_space 1 None, Cap 1 (Rep (\<lambda>c. c \<noteq> newline) 0 None), Eol]"

definition list_item :: "string \<Rightarrow> string option" where
  "list_item line = map_option (\<lambda>(j, g). group line g 1) (match_start LIST_RE line)"

definition dash_cell :: rx where
  "dash_cell = cat [Rep is_space 0 None, Opt (lit '':''), Rep (\<lambda>c. c = CHR ''-'') 3 None, Opt (lit '':''), Rep is_space 0 None]"

fun plus :: "nat \<Rightarrow> rx \<Rightarrow> rx" where
  \<comment> \<open>\<open>r+\<close>, up to that many more times\<close>
  "plus 0 r = r"
| "plus (Suc n) r = Cat r (Opt (plus n r))"

definition table_sep :: "string \<Rightarrow> bool" where
  \<comment> \<open>no more repetitions than characters are possible\<close>
  "table_sep line = (match_start (cat [Bol, Rep is_space 0 None, Opt (lit ''|''), dash_cell, plus (length line) (Cat (lit ''|'') dash_cell),
     Opt (lit ''|''), Rep is_space 0 None, Eol]) line \<noteq> None)"

definition split_table_row :: "string \<Rightarrow> string list" where
  "split_table_row line =
     (let s0 = strip line;
          s1 = (if startswith s0 ''|'' then drop 1 s0 else s0);
          s2 = (if endswith s1 ''|'' then butlast s1 else s1) in
      map strip (split_on (CHR ''|'') s2))"

definition looks_like_table_row :: "string \<Rightarrow> bool" where
  "looks_like_table_row line = (CHR ''|'' \<in> set (strip line) \<and> 2 \<le> length (split_table_row (strip line)))"

definition is_table_start :: "string list \<Rightarrow> bool" where
  "is_table_start ls = (case ls of l # l2 # _ \<Rightarrow> looks_like_table_row l \<and> table_sep l2 | _ \<Rightarrow> False)"

definition table :: "string list list \<Rightarrow> string" where
  "table rows = (case rows of
      [] \<Rightarrow> []
    | header # body \<Rightarrow>
       element ''table''
        (element ''thead'' (element ''tr'' (concat (map (\<lambda>c. element ''th'' (inline_html c)) header)))
         @ (if body = [] then [] else element ''tbody''
             (concat (map (\<lambda>row. element ''tr''
                (concat (map (\<lambda>c. element ''td'' (inline_html c))
                  (take (length header) (row @ replicate (length header - length row) []))))) body)))))"

section \<open>Blocks\<close>

definition flush_para :: "string list \<Rightarrow> string list" where
  "flush_para para = (if para = [] then [] else [element ''p'' (join ''<br />'' (map inline_html para))])"

definition is_fence :: "string \<Rightarrow> bool" where
  "is_fence line = startswith (strip line) (replicate 3 tick)"

function blocks :: "string list \<Rightarrow> string list \<Rightarrow> string list" where
  \<comment> \<open>the lines that are left and those of the open paragraph\<close>
  "blocks [] para = flush_para para"
| "blocks (line # ls) para =
     (if strip line = [] then flush_para para @ blocks ls []
      else if is_fence line
      then flush_para para @ element ''pre'' (element ''code'' (escape_html (join [newline] (takeWhile (\<lambda>l. \<not> is_fence l) ls))))
         # blocks (drop 1 (dropWhile (\<lambda>l. \<not> is_fence l) ls)) []
      else if is_table_start (line # ls)
      then flush_para para @ table (split_table_row line # map split_table_row (takeWhile looks_like_table_row (drop 1 ls)))
         # blocks (dropWhile looks_like_table_row (drop 1 ls)) []
      else case list_item line of
        Some item \<Rightarrow> flush_para para @ element ''ul'' (concat (map (\<lambda>i. element ''li'' (inline_html i))
            (item # List.map_filter list_item (takeWhile (\<lambda>l. list_item l \<noteq> None) ls))))
          # blocks (dropWhile (\<lambda>l. list_item l \<noteq> None) ls) []
      | None \<Rightarrow> blocks ls (para @ [line]))"
  by pat_completeness auto
termination
proof (relation "measure (length \<circ> fst)", goal_cases)
  case (3 line ls para)
  then show ?case
    using length_dropWhile_le [of "\<lambda>l. \<not> is_fence l" ls] by simp
next
  case (4 line ls para)
  then show ?case
    using length_dropWhile_le [of looks_like_table_row "drop 1 ls"] by simp
qed (auto simp: le_imp_less_Suc length_dropWhile_le)

definition markdown_to_matrix_html :: "string \<Rightarrow> string" where
  "markdown_to_matrix_html s = join [newline] (blocks (splitlines s) [])"

definition matrix_text_content :: "string \<Rightarrow> json" where
  "matrix_text_content body = JObj [(''msgtype'', JStr ''m.text''), (''body'', JStr body), (''format'', JStr ''org.matrix.custom.html''),
     (''formatted_body'', JStr (markdown_to_matrix_html body))]"

section \<open>Safe markup\<close>

definition ELEMENTS :: "string list" where
  "ELEMENTS = [''p'', ''strong'', ''code'', ''pre'', ''ul'', ''li'', ''table'', ''thead'', ''tbody'', ''tr'', ''th'', ''td'']"

definition plain_char :: "char \<Rightarrow> bool" where
  "plain_char c = (c \<notin> {CHR ''<'', CHR ''>'', CHR 0x22, CHR 0x27})"

inductive markup :: "string \<Rightarrow> bool" where
  nothing: "markup []"
| plain: "plain_char c \<Longrightarrow> markup s \<Longrightarrow> markup (c # s)"
| line_break: "markup s \<Longrightarrow> markup (''<br />'' @ s)"
| elem: "n \<in> set ELEMENTS \<Longrightarrow> markup a \<Longrightarrow> markup s \<Longrightarrow> markup (element n a @ s)"

lemma markup_append: "markup a \<Longrightarrow> markup b \<Longrightarrow> markup (a @ b)"
proof (induction rule: markup.induct)
  case (line_break s)
  then show ?case
    using markup.line_break [of "s @ b"] by simp
next
  case (elem n a s)
  then show ?case
    using markup.elem [of n a "s @ b"] by simp
qed (auto intro: markup.intros)

lemma markup_concat: "(\<And>x. x \<in> set xs \<Longrightarrow> markup (f x)) \<Longrightarrow> markup (concat (map f xs))"
  by (induction xs) (auto intro: markup_append markup.nothing)

lemma markup_plain: "list_all plain_char s \<Longrightarrow> markup s"
  by (induction s) (auto intro: markup.intros)

lemma markup_element: "n \<in> set ELEMENTS \<Longrightarrow> markup a \<Longrightarrow> markup (element n a)"
  using markup.elem [OF _ _ markup.nothing] by simp

lemma markup_join: "markup sep \<Longrightarrow> (\<And>x. x \<in> set xs \<Longrightarrow> markup x) \<Longrightarrow> markup (join sep xs)"
  unfolding join_def by (cases xs) (auto intro!: markup_append markup_concat markup.nothing)

lemma plain_escape: "list_all plain_char (escape_html s)"
  by (induction s) (simp_all add: escape_html_def plain_char_def)

lemma plain_slice: "list_all plain_char s \<Longrightarrow> list_all plain_char (slice s i j)"
  unfolding slice_def list_all_iff by (auto dest: in_set_takeD in_set_dropD)

lemma plain_drop: "list_all plain_char s \<Longrightarrow> list_all plain_char (drop i s)"
  unfolding list_all_iff by (auto dest: in_set_dropD)

lemma markup_sub_from:
  assumes "list_all plain_char s" "\<And>m. list_all plain_char m \<Longrightarrow> markup (f m)"
  shows "markup (sub_from n r f s i)"
proof (induction n arbitrary: i)
  case 0
  then show ?case
    by (simp add: markup_plain plain_drop assms(1))
next
  case (Suc n)
  then show ?case
    using markup_plain [OF plain_drop [OF assms(1)]] markup_plain [OF plain_slice [OF assms(1)]] assms(2) [OF plain_slice [OF assms(1)]]
    by (auto split: option.splits intro!: markup_append)
qed

lemma markup_bold: "list_all plain_char s \<Longrightarrow> markup (bold s)"
  unfolding bold_def sub_def
proof (rule markup_sub_from)
  fix m
  assume "list_all plain_char m"
  then have "list_all plain_char (take (length m - 4) (drop 2 m))"
    unfolding list_all_iff by (auto dest!: in_set_takeD in_set_dropD)
  then show "markup (element ''strong'' (take (length m - 4) (drop 2 m)))"
    by (intro markup_element markup_plain) (simp_all add: ELEMENTS_def)
qed

lemma markup_inline: "markup (inline_html s)"
  unfolding inline_html_def inline_part_def
  using markup_plain [OF plain_escape] markup_bold [OF plain_escape]
  by (intro markup_concat) (auto simp: ELEMENTS_def intro!: markup_element)

lemma markup_table: "markup (table rows)"
  unfolding table_def
  by (cases rows) (auto simp: ELEMENTS_def simp del: map_append map_replicate take_append intro!: markup_element markup_append markup_concat markup_inline markup.nothing)

lemma markup_para: "x \<in> set (flush_para para) \<Longrightarrow> markup x"
  using markup.line_break [OF markup.nothing]
  by (auto simp: flush_para_def ELEMENTS_def split: if_splits intro!: markup_element markup_join markup_inline)

lemma markup_blocks: "x \<in> set (blocks ls para) \<Longrightarrow> markup x"
proof (induction ls para rule: blocks.induct)
  case (2 line ls para)
  have code: "markup (element ''pre'' (element ''code'' (escape_html t)))" for t
    by (intro markup_element markup_plain plain_escape) (simp_all add: ELEMENTS_def)
  have ul: "markup (element ''ul'' (concat (map (\<lambda>i. element ''li'' (inline_html i)) items)))" for items
    by (intro markup_element markup_concat markup_inline) (simp_all add: ELEMENTS_def)
  show ?case
    using 2 code ul markup_table markup_para by (auto simp del: list.map concat.simps split: if_splits option.splits)
qed (simp add: markup_para)

text \<open>C33: Whatever text an agent sends, the HTML of the message consists of escaped text and of elements from a fixed list, properly nested
  and without attributes: no part of a query result or of a model's answer becomes markup of its own.\<close>

theorem rendered_markup_safe: "markup (markdown_to_matrix_html s)"
  unfolding markdown_to_matrix_html_def
proof (rule markup_join)
  show "markup [newline]"
    by (rule markup_plain) (simp add: plain_char_def newline_def)
qed (rule markup_blocks)

lemma render_example:
  "markdown_to_matrix_html ''a <b> **c**'' = ''<p>a &lt;b&gt; <strong>c</strong></p>''"
  by code_simp

end
