(* ===== verification/Py_Program.thy ===== *)
theory Py_Program
  imports Py_Data
begin

text \<open>
  Programs that talk to the outside. A program is a tree: it returns, raises, or performs an operation and
  goes on with the answer. Operations and answers are types of the component that uses them. The theory has
  the monad with exceptions, a calculus for what a program may do depending on what it has done so
  far, and the interleaving of several programs over a shared state.
\<close>

section \<open>Programs\<close>

datatype ('o, 'a, 'r) prog =
    Ret 'r
  | Raise exc
  | Do 'o "'a \<Rightarrow> ('o, 'a, 'r) prog"

primrec bindP :: "('o, 'a, 'r) prog \<Rightarrow> ('r \<Rightarrow> ('o, 'a, 'q) prog) \<Rightarrow> ('o, 'a, 'q) prog" where
  "bindP (Ret r) f = f r"
| "bindP (Raise e) f = Raise e"
| "bindP (Do x k) f = Do x (\<lambda>a. bindP (k a) f)"

primrec catchP :: "('o, 'a, 'r) prog \<Rightarrow> (exc \<Rightarrow> ('o, 'a, 'r) prog) \<Rightarrow> ('o, 'a, 'r) prog" where
  \<comment> \<open>\<open>try: p except ... : h\<close>\<close>
  "catchP (Ret r) h = Ret r"
| "catchP (Raise e) h = h e"
| "catchP (Do x k) h = Do x (\<lambda>a. catchP (k a) h)"

definition liftP :: "'r result \<Rightarrow> ('o, 'a, 'r) prog" where
  "liftP r = (case r of Inl e \<Rightarrow> Raise e | Inr x \<Rightarrow> Ret x)"

fun mapP :: "('x \<Rightarrow> ('o, 'a, 'r) prog) \<Rightarrow> 'x list \<Rightarrow> ('o, 'a, 'r list) prog" where
  "mapP f [] = Ret []"
| "mapP f (x # xs) = bindP (f x) (\<lambda>r. bindP (mapP f xs) (\<lambda>rs. Ret (r # rs)))"

definition attemptP :: "('o, 'a, 'r) prog \<Rightarrow> ('o, 'a, 'r result) prog" where
  "attemptP p = catchP (bindP p (\<lambda>r. Ret (Inr r))) (\<lambda>e. Ret (Inl e))"

definition finallyP :: "('o, 'a, 'r) prog \<Rightarrow> ('o, 'a, unit) prog \<Rightarrow> ('o, 'a, 'r) prog" where
  \<comment> \<open>\<open>try: p finally: q\<close>\<close>
  "finallyP p q = bindP (attemptP p) (\<lambda>r. bindP q (\<lambda>_. liftP r))"

definition suppressP :: "('o, 'a, unit) prog \<Rightarrow> ('o, 'a, unit) prog" where
  \<comment> \<open>\<open>with contextlib.suppress(Exception): p\<close>\<close>
  "suppressP p = catchP p (\<lambda>e. if is_exit e then Raise e else Ret ())"

lemma liftP_simps [simp]: "liftP (Inl e) = Raise e" "liftP (Inr r) = Ret r"
  by (simp_all add: liftP_def)

lemma bindP_assoc: "bindP (bindP p f) g = bindP p (\<lambda>r. bindP (f r) g)"
  by (induction p) simp_all

section \<open>What a program may do\<close>

text \<open>
  \<open>wp fits ok tr p Q E\<close>: the program, after the operations and answers \<open>tr\<close>, performs only operations that
  \<open>ok\<close> allows after what came before, as long as the answers fit; it returns with \<open>Q\<close> and raises with \<open>E\<close>.
\<close>

primrec wp :: "('o \<Rightarrow> 'a \<Rightarrow> bool) \<Rightarrow> (('o \<times> 'a) list \<Rightarrow> 'o \<Rightarrow> bool) \<Rightarrow> ('o, 'a, 'r) prog \<Rightarrow> ('o \<times> 'a) list
    \<Rightarrow> (('o \<times> 'a) list \<Rightarrow> 'r \<Rightarrow> bool) \<Rightarrow> (('o \<times> 'a) list \<Rightarrow> exc \<Rightarrow> bool) \<Rightarrow> bool" where
  "wp fits ok (Ret r) = (\<lambda>tr Q E. Q tr r)"
| "wp fits ok (Raise e) = (\<lambda>tr Q E. E tr e)"
| "wp fits ok (Do x k) = (\<lambda>tr Q E. ok tr x \<and> (\<forall>a. fits x a \<longrightarrow> wp fits ok (k a) (tr @ [(x, a)]) Q E))"

lemma wp_bind [simp]: "wp fits ok (bindP p f) tr Q E = wp fits ok p tr (\<lambda>tr r. wp fits ok (f r) tr Q E) E"
  by (induction p arbitrary: tr) simp_all

lemma wp_catch [simp]: "wp fits ok (catchP p h) tr Q E = wp fits ok p tr Q (\<lambda>tr e. wp fits ok (h e) tr Q E)"
  by (induction p arbitrary: tr) simp_all

lemma wp_lift [simp]: "wp fits ok (liftP r) tr Q E = (case r of Inl e \<Rightarrow> E tr e | Inr x \<Rightarrow> Q tr x)"
  by (cases r) simp_all

lemma wp_attempt [simp]: "wp fits ok (attemptP p) tr Q E = wp fits ok p tr (\<lambda>tr r. Q tr (Inr r)) (\<lambda>tr e. Q tr (Inl e))"
  by (simp add: attemptP_def)

lemma wp_suppress [simp]:
  "wp fits ok (suppressP p) tr Q E = wp fits ok p tr Q (\<lambda>tr e. if is_exit e then E tr e else Q tr ())"
  by (simp add: suppressP_def if_distrib [of "\<lambda>q. wp fits ok q _ _ _"] cong: if_cong)

lemma wp_mono:
  assumes "wp fits ok p tr Q E" "\<And>tr r. Q tr r \<Longrightarrow> Q' tr r" "\<And>tr e. E tr e \<Longrightarrow> E' tr e"
  shows "wp fits ok p tr Q' E'"
  using assms(1) by (induction p arbitrary: tr) (auto intro: assms(2,3))

lemma wp_weaken:
  assumes "wp fits ok p tr Q E" "\<And>tr x. ok tr x \<Longrightarrow> ok' tr x" "\<And>tr r. Q tr r \<Longrightarrow> Q' tr r" "\<And>tr e. E tr e \<Longrightarrow> E' tr e"
  shows "wp fits ok' p tr Q' E'"
  using assms(1) by (induction p arbitrary: tr) (auto intro: assms(2-4))

lemma wp_grows:
  assumes "wp fits ok p (tr @ u) (\<lambda>_ _. True) (\<lambda>_ _. True)"
  shows "wp fits ok p (tr @ u) (\<lambda>tr' r. \<exists>v. tr' = tr @ v) (\<lambda>tr' e. \<exists>v. tr' = tr @ v)"
  using assms by (induction p arbitrary: u) simp_all

lemma wp_seq:
  assumes "wp fits ok p tr (\<lambda>_ _. True) (\<lambda>_ _. True)" "\<And>u r. wp fits ok (f r) (tr @ u) (\<lambda>_ _. True) (\<lambda>_ _. True)"
  shows "wp fits ok (bindP p f) tr (\<lambda>_ _. True) (\<lambda>_ _. True)"
  unfolding wp_bind
proof (rule wp_mono)
  show "wp fits ok p tr (\<lambda>tr' r. \<exists>v. tr' = tr @ v) (\<lambda>tr' e. \<exists>v. tr' = tr @ v)"
    using wp_grows [of fits ok p tr "[]"] assms(1) by simp
qed (use assms(2) in auto)

lemma wp_lift_seq:
  assumes "\<And>x. r = Inr x \<Longrightarrow> wp fits ok (f x) tr (\<lambda>_ _. True) (\<lambda>_ _. True)"
  shows "wp fits ok (bindP (liftP r) f) tr (\<lambda>_ _. True) (\<lambda>_ _. True)"
  using assms by (cases r) simp_all

lemma wp_handle:
  assumes "wp fits ok p tr (\<lambda>_ _. True) (\<lambda>_ _. True)" "\<And>u e. wp fits ok (h e) (tr @ u) (\<lambda>_ _. True) (\<lambda>_ _. True)"
  shows "wp fits ok (catchP p h) tr (\<lambda>_ _. True) (\<lambda>_ _. True)"
  unfolding wp_catch
proof (rule wp_mono)
  show "wp fits ok p tr (\<lambda>tr' r. \<exists>v. tr' = tr @ v) (\<lambda>tr' e. \<exists>v. tr' = tr @ v)"
    using wp_grows [of fits ok p tr "[]"] assms(1) by simp
qed (use assms(2) in auto)

definition only :: "('o \<Rightarrow> 'a \<Rightarrow> bool) \<Rightarrow> ('o \<Rightarrow> bool) \<Rightarrow> ('o, 'a, 'r) prog \<Rightarrow> bool" where
  \<comment> \<open>every operation satisfies the predicate, whatever came before\<close>
  "only fits P p = wp fits (\<lambda>_. P) p [] (\<lambda>_ _. True) (\<lambda>_ _. True)"

lemma wp_only:
  assumes "wp fits (\<lambda>_. P) p tr (\<lambda>_ _. True) (\<lambda>_ _. True)"
  shows "wp fits (\<lambda>_. P) p tr' (\<lambda>_ _. True) (\<lambda>_ _. True)"
  using assms by (induction p arbitrary: tr tr') auto

lemma only_simps [simp]:
  "only fits P (Ret r)" "only fits P (Raise e)" "only fits P (liftP res)"
  "only fits P (Do x k) \<longleftrightarrow> P x \<and> (\<forall>a. fits x a \<longrightarrow> only fits P (k a))"
  by (auto simp: only_def split: sum.splits intro: wp_only)

lemma only_bind: "only fits P p \<Longrightarrow> (\<And>r. only fits P (f r)) \<Longrightarrow> only fits P (bindP p f)"
  by (induction p) auto

lemma only_catch: "only fits P p \<Longrightarrow> (\<And>e. only fits P (h e)) \<Longrightarrow> only fits P (catchP p h)"
  by (induction p) auto

lemma only_mapP: "(\<And>x. x \<in> set xs \<Longrightarrow> only fits P (f x)) \<Longrightarrow> only fits P (mapP f xs)"
  by (induction xs) (auto intro!: only_bind)

lemma only_wp: "only fits P p \<Longrightarrow> wp fits (\<lambda>_. P) p tr (\<lambda>_ _. True) (\<lambda>_ _. True)"
  by (auto simp: only_def intro: wp_only)

lemma only_lift_bind: "(\<And>x. r = Inr x \<Longrightarrow> only fits P (f x)) \<Longrightarrow> only fits P (bindP (liftP r) f)"
  by (cases r) simp_all

lemma only_if: "(c \<Longrightarrow> only fits P p) \<Longrightarrow> (\<not> c \<Longrightarrow> only fits P q) \<Longrightarrow> only fits P (if c then p else q)"
  by simp

lemma only_mono: "only fits P p \<Longrightarrow> (\<And>x. P x \<Longrightarrow> P' x) \<Longrightarrow> only fits P' p"
  by (induction p) auto

section \<open>Paths\<close>

inductive follows :: "('o \<Rightarrow> 'a \<Rightarrow> bool) \<Rightarrow> ('o, 'a, 'r) prog \<Rightarrow> ('o \<times> 'a) list \<Rightarrow> ('o, 'a, 'r) prog \<Rightarrow> bool" for fits where
  start: "follows fits p [] p"
| answer: "follows fits p tr (Do x k) \<Longrightarrow> fits x a \<Longrightarrow> follows fits p (tr @ [(x, a)]) (k a)"

lemma path_wp:
  "follows fits p tr q \<Longrightarrow> wp fits ok p [] Q E \<Longrightarrow> wp fits ok q tr Q E"
  by (induction rule: follows.induct) auto

fun run :: "('o, 'a, 'r) prog \<Rightarrow> 'a list \<Rightarrow> ('o \<times> 'a) list \<times> ('o, 'a, 'r) prog" where
  \<comment> \<open>what a program does with these answers, and what is left of it\<close>
  "run (Do x k) (a # as) = (case run (k a) as of (tr, q) \<Rightarrow> ((x, a) # tr, q))"
| "run p as = ([], p)"

lemma path_Cons:
  assumes "follows fits (k a) tr q" "fits x a"
  shows "follows fits (Do x k) ((x, a) # tr) q"
  using assms
proof (induction "k a" tr q rule: follows.induct)
  case start
  then show ?case
    using follows.answer [OF follows.start, of fits x a k] by simp
next
  case (answer tr y k' b)
  then show ?case
    using follows.answer [of fits "Do x k" "(x, a) # tr" y k' b] by simp
qed

lemma run_path: "run p as = (tr, q) \<Longrightarrow> \<forall>(x, a) \<in> set tr. fits x a \<Longrightarrow> follows fits p tr q"
proof (induction p as arbitrary: tr rule: run.induct)
  case (1 x k a as)
  obtain tr' where tr': "run (k a) as = (tr', q)" "tr = (x, a) # tr'"
    using 1(2) by (cases "run (k a) as") auto
  then show ?case
    using 1(1) [OF tr'(1)] 1(3) by (auto intro: path_Cons)
qed (auto intro: follows.start)

text \<open>What a program has done when it returns or raises is one of its paths.\<close>

lemma wp_follows:
  assumes "wp fits ok p tr (\<lambda>_ _. True) (\<lambda>_ _. True)"
  shows "wp fits ok p tr (\<lambda>tr' r. \<exists>u. tr' = tr @ u \<and> follows fits p u (Ret r)) (\<lambda>tr' e. \<exists>u. tr' = tr @ u \<and> follows fits p u (Raise e))"
  using assms
proof (induction p arbitrary: tr)
  case (Do x k)
  show ?case
    unfolding wp.simps
  proof (intro conjI allI impI)
    show "ok tr x"
      using Do.prems by simp
    fix a
    assume a: "fits x a"
    have go: "\<exists>u. tr' = tr @ u \<and> follows fits (Do x k) u q" if "\<exists>u. tr' = (tr @ [(x, a)]) @ u \<and> follows fits (k a) u q" for tr' q
      using that path_Cons [of fits k a _ q x, OF _ a] by force
    have "wp fits ok (k a) (tr @ [(x, a)]) (\<lambda>tr' r. \<exists>u. tr' = (tr @ [(x, a)]) @ u \<and> follows fits (k a) u (Ret r))
        (\<lambda>tr' e. \<exists>u. tr' = (tr @ [(x, a)]) @ u \<and> follows fits (k a) u (Raise e))"
      by (rule Do.IH) (use Do.prems a in simp_all)
    then show "wp fits ok (k a) (tr @ [(x, a)]) (\<lambda>tr' r. \<exists>u. tr' = tr @ u \<and> follows fits (Do x k) u (Ret r))
        (\<lambda>tr' e. \<exists>u. tr' = tr @ u \<and> follows fits (Do x k) u (Raise e))"
      by (rule wp_mono) (fact go)+
  qed
qed (auto intro: follows.start)

lemma follows_Ret [simp]: "follows fits (Ret r) u q \<longleftrightarrow> u = [] \<and> q = Ret r"
proof
  assume "follows fits (Ret r) u q"
  then show "u = [] \<and> q = Ret r"
    by (induction "Ret r :: ('a, 'b, 'c) prog" u q rule: follows.induct) auto
qed (auto intro: follows.start)

lemma follows_Raise [simp]: "follows fits (Raise e) u q \<longleftrightarrow> u = [] \<and> q = Raise e"
proof
  assume "follows fits (Raise e) u q"
  then show "u = [] \<and> q = Raise e"
    by (induction "Raise e :: ('a, 'b, 'c) prog" u q rule: follows.induct) auto
qed (auto intro: follows.start)

lemma follows_Do:
  "follows fits (Do x k) u q \<longleftrightarrow> (u = [] \<and> q = Do x k) \<or> (\<exists>a u'. u = (x, a) # u' \<and> fits x a \<and> follows fits (k a) u' q)"
proof
  assume "follows fits (Do x k) u q"
  then show "(u = [] \<and> q = Do x k) \<or> (\<exists>a u'. u = (x, a) # u' \<and> fits x a \<and> follows fits (k a) u' q)"
  proof (induction "Do x k" u q rule: follows.induct)
    case (answer tr y k' b)
    then show ?case
      by (auto intro: follows.start follows.answer)
  qed simp
next
  assume "(u = [] \<and> q = Do x k) \<or> (\<exists>a u'. u = (x, a) # u' \<and> fits x a \<and> follows fits (k a) u' q)"
  then show "follows fits (Do x k) u q"
    by (auto intro: follows.start path_Cons)
qed

lemma follows_bind:
  "follows fits (bindP p f) u (Ret r) \<longleftrightarrow> (\<exists>v w x. u = v @ w \<and> follows fits p v (Ret x) \<and> follows fits (f x) w (Ret r))"
proof (induction p arbitrary: u)
  case (Do x k)
  then have k: "follows fits (bindP (k a) f) u' (Ret r) \<longleftrightarrow> (\<exists>v w y. u' = v @ w \<and> follows fits (k a) v (Ret y) \<and> follows fits (f y) w (Ret r))" for a u'
    by simp
  show ?case
    unfolding bindP.simps follows_Do k by (auto simp: append_eq_Cons_conv; (metis append_Cons | blast)?)
qed auto

lemma follows_bind_Raise:
  "follows fits (bindP p f) u (Raise e) \<longleftrightarrow>
     follows fits p u (Raise e) \<or> (\<exists>v w x. u = v @ w \<and> follows fits p v (Ret x) \<and> follows fits (f x) w (Raise e))"
proof (induction p arbitrary: u)
  case (Do x k)
  then have k: "follows fits (bindP (k a) f) u' (Raise e) \<longleftrightarrow>
      follows fits (k a) u' (Raise e) \<or> (\<exists>v w y. u' = v @ w \<and> follows fits (k a) v (Ret y) \<and> follows fits (f y) w (Raise e))" for a u'
    by simp
  show ?case
    unfolding bindP.simps follows_Do k by (auto simp: append_eq_Cons_conv) (metis append_Cons)+
qed auto

lemma follows_catch:
  "follows fits (catchP p h) u (Ret r) \<longleftrightarrow>
     follows fits p u (Ret r) \<or> (\<exists>v w e. u = v @ w \<and> follows fits p v (Raise e) \<and> follows fits (h e) w (Ret r))"
proof (induction p arbitrary: u)
  case (Do x k)
  then have k: "follows fits (catchP (k a) h) u' (Ret r) \<longleftrightarrow>
      follows fits (k a) u' (Ret r) \<or> (\<exists>v w e. u' = v @ w \<and> follows fits (k a) v (Raise e) \<and> follows fits (h e) w (Ret r))" for a u'
    by simp
  show ?case
    unfolding catchP.simps follows_Do k by (auto simp: append_eq_Cons_conv) (metis append_Cons)+
qed auto

lemma follows_lift [simp]:
  "follows fits (liftP x) u (Ret r) \<longleftrightarrow> u = [] \<and> x = Inr r" "follows fits (liftP x) u (Raise e) \<longleftrightarrow> u = [] \<and> x = Inl e"
  by (cases x; auto)+

lemma follows_attempt:
  "follows fits (attemptP p) u (Ret (Inr r)) \<longleftrightarrow> follows fits p u (Ret r)"
  "follows fits (attemptP p) u (Ret (Inl e)) \<longleftrightarrow> follows fits p u (Raise e)"
  by (auto simp: attemptP_def follows_catch follows_bind follows_bind_Raise)

lemma follows_finally:
  "follows fits (finallyP p q) u (Ret r) \<longleftrightarrow> (\<exists>v w. u = v @ w \<and> follows fits p v (Ret r) \<and> follows fits q w (Ret ()))"
proof
  assume "follows fits (finallyP p q) u (Ret r)"
  then obtain v w x where "u = v @ w" "follows fits (attemptP p) v (Ret x)" "follows fits q w (Ret ())" "x = Inr r"
    unfolding finallyP_def by (auto simp: follows_bind)
  then show "\<exists>v w. u = v @ w \<and> follows fits p v (Ret r) \<and> follows fits q w (Ret ())"
    by (auto simp: follows_attempt)
next
  assume "\<exists>v w. u = v @ w \<and> follows fits p v (Ret r) \<and> follows fits q w (Ret ())"
  then obtain v w where u: "u = v @ w" "follows fits (attemptP p) v (Ret (Inr r))" "follows fits q w (Ret ())"
    by (auto simp: follows_attempt)
  have "follows fits (bindP q (\<lambda>_. liftP (Inr r))) w (Ret r)"
    using u(3) by (force simp: follows_bind)
  then show "follows fits (finallyP p q) u (Ret r)"
    using u(1,2) unfolding finallyP_def follows_bind [of _ "attemptP p"] by metis
qed

lemma follows_suppress:
  "follows fits (suppressP p) u (Ret r) \<longleftrightarrow> follows fits p u (Ret r) \<or> (\<exists>e. follows fits p u (Raise e) \<and> \<not> is_exit e)"
  by (auto simp: suppressP_def follows_catch split: if_splits)

text \<open>What comes after a part of a program may rest on how that part ended.\<close>

lemma wp_after:
  assumes "wp fits ok p tr (\<lambda>_ _. True) (\<lambda>_ _. True)" "\<And>u r. follows fits p u (Ret r) \<Longrightarrow> wp fits ok (f r) (tr @ u) Q (\<lambda>_ _. True)"
  shows "wp fits ok (bindP p f) tr Q (\<lambda>_ _. True)"
  unfolding wp_bind by (rule wp_mono [OF wp_follows [OF assms(1)]]) (use assms(2) in auto)

lemma wp_true: "wp fits (\<lambda>_ _. True) p tr (\<lambda>_ _. True) (\<lambda>_ _. True)"
  by (induction p arbitrary: tr) simp_all

lemma wp_if: "(c \<Longrightarrow> wp fits ok p tr Q E) \<Longrightarrow> (\<not> c \<Longrightarrow> wp fits ok q tr Q E) \<Longrightarrow> wp fits ok (if c then p else q) tr Q E"
  by simp

text \<open>A postcondition for all runs holds of a run.\<close>

lemma follows_post: "follows fits p u (Ret r) \<Longrightarrow> wp fits ok p [] Q E \<Longrightarrow> Q u r"
  using path_wp [of fits p u "Ret r"] by fastforce

text \<open>The operations of a complete run determine it.\<close>

lemma follows_unique:
  assumes "follows fits p u (Ret x)" "follows fits p v (Ret y)" "u @ w = v @ w'"
  shows "u = v \<and> x = y"
  using assms
proof (induction p arbitrary: u v)
  case (Do z k)
  then obtain a u' b v' where "u = (z, a) # u'" "follows fits (k a) u' (Ret x)" "v = (z, b) # v'" "follows fits (k b) v' (Ret y)"
    by (auto simp: follows_Do)
  then show ?case
    using Do.IH [of "k a" u' v'] Do.prems(3) by auto
qed simp_all

lemma follows_then: "follows fits p v (Ret x) \<Longrightarrow> follows fits (f x) w (Ret r) \<Longrightarrow> follows fits (bindP p f) (v @ w) (Ret r)"
  by (auto simp: follows_bind)

lemma follows_last: "follows fits p v (Ret x) \<Longrightarrow> f x = Ret r \<Longrightarrow> follows fits (bindP p f) v (Ret r)"
  using follows_then [of fits p v x f "[]" r] by simp

text \<open>A program is unfolded only as far as its answers are known: congruences for runs on given answers.\<close>

lemma lazy_Do: "x = y \<Longrightarrow> Do x k = Do y k"
  by simp

lemma lazy_bind: "p = q \<Longrightarrow> bindP p f = bindP q f"
  by simp

lemma lazy_catch: "p = q \<Longrightarrow> catchP p f = catchP q f"
  by simp

lemmas lazy = lazy_Do lazy_bind lazy_catch

text \<open>A path of a part is a path of the whole.\<close>

lemma path_bind: "follows fits p v q \<Longrightarrow> follows fits (bindP p f) v (bindP q f)"
  by (induction rule: follows.induct) (auto intro: follows.start dest: follows.answer)

lemma path_catch: "follows fits p v q \<Longrightarrow> follows fits (catchP p h) v (catchP q h)"
  by (induction rule: follows.induct) (auto intro: follows.start dest: follows.answer)

lemma path_append: "follows fits q w q' \<Longrightarrow> follows fits p v q \<Longrightarrow> follows fits p (v @ w) q'"
proof (induction rule: follows.induct)
  case (answer q tr x k a)
  then show ?case
    using follows.answer [of fits p "v @ tr" x k a] by simp
qed simp

definition gets :: "('o \<Rightarrow> 'a \<Rightarrow> bool) \<Rightarrow> ('o, 'a, 'r) prog \<Rightarrow> ('o \<times> 'a) list \<Rightarrow> bool" where
  \<comment> \<open>the program can begin with these operations and answers\<close>
  "gets fits p tr = (\<exists>q. follows fits p tr q)"

lemma gets_run: "fst (run p as) = tr \<Longrightarrow> \<forall>(x, a) \<in> set tr. fits x a \<Longrightarrow> gets fits p tr"
  unfolding gets_def using run_path [of p as tr] by (metis prod.collapse)

lemma gets_first: "gets fits p v \<Longrightarrow> gets fits (bindP p f) v"
  unfolding gets_def using path_bind by blast

lemma gets_then: "follows fits p v (Ret x) \<Longrightarrow> gets fits (f x) w \<Longrightarrow> gets fits (bindP p f) (v @ w)"
  unfolding gets_def using path_append path_bind [of fits p v "Ret x" f] by fastforce

lemma gets_finally: "gets fits p v \<Longrightarrow> gets fits (finallyP p q) v"
  unfolding finallyP_def attemptP_def by (intro gets_first) (unfold gets_def, blast intro: path_catch path_bind)

section \<open>Interleaving\<close>

record ('s, 'x, 'o, 'a, 'r) par =
  par_state :: 's
  par_threads :: "('x \<times> ('o, 'a, 'r) prog) list"
    \<comment> \<open>what started a thread, and what it has left to do\<close>
  par_log :: "(nat \<times> 'o \<times> 'a) list"

definition own :: "nat \<Rightarrow> (nat \<times> 'o \<times> 'a) list \<Rightarrow> ('o \<times> 'a) list" where
  "own i lg = map snd (filter (\<lambda>e. fst e = i) lg)"

lemma own_simps [simp]:
  "own i [] = []" "own i (lg @ lg') = own i lg @ own i lg'" "own i ((j, e) # lg) = (if j = i then e # own i lg else own i lg)"
  by (simp_all add: own_def)

lemma own_set: "e \<in> set (own i lg) \<longleftrightarrow> (i, e) \<in> set lg"
  by (force simp: own_def)

inductive par_step :: "('s \<Rightarrow> 'o \<Rightarrow> 'a \<Rightarrow> 's \<Rightarrow> bool) \<Rightarrow> ('x \<Rightarrow> ('o, 'a, 'r) prog \<Rightarrow> bool)
    \<Rightarrow> ('s, 'x, 'o, 'a, 'r) par \<Rightarrow> ('s, 'x, 'o, 'a, 'r) par \<Rightarrow> bool" for sem starts where
  \<comment> \<open>\<open>sem\<close> says how an operation is answered and changes the shared state, \<open>starts\<close> which program an event starts\<close>
  spawn: "starts x p \<Longrightarrow> par_step sem starts c (c\<lparr>par_threads := par_threads c @ [(x, p)]\<rparr>)"
| perform: "i < length (par_threads c) \<Longrightarrow> par_threads c ! i = (x, Do op k) \<Longrightarrow> sem (par_state c) op a s' \<Longrightarrow>
    par_step sem starts c (c\<lparr>par_state := s', par_threads := (par_threads c)[i := (x, k a)], par_log := par_log c @ [(i, op, a)]\<rparr>)"

definition par_init :: "('s \<Rightarrow> bool) \<Rightarrow> ('s, 'x, 'o, 'a, 'r) par \<Rightarrow> bool" where
  "par_init init c = (init (par_state c) \<and> par_threads c = [] \<and> par_log c = [])"

text \<open>A schedule, for examples: events that start threads, and answers to the next operation of a thread.\<close>

datatype ('x, 'a) move = Spawn 'x | Step nat 'a

fun play :: "('s \<Rightarrow> 'o \<Rightarrow> 'a \<Rightarrow> 's option) \<Rightarrow> ('x \<Rightarrow> ('o, 'a, 'r) prog option) \<Rightarrow> ('x, 'a) move list
    \<Rightarrow> ('s, 'x, 'o, 'a, 'r) par \<Rightarrow> ('s, 'x, 'o, 'a, 'r) par option" where
  "play sem start [] c = Some c"
| "play sem start (Spawn x # ms) c = (case start x of None \<Rightarrow> None
     | Some p \<Rightarrow> play sem start ms (c\<lparr>par_threads := par_threads c @ [(x, p)]\<rparr>))"
| "play sem start (Step i a # ms) c = (if i < length (par_threads c) then
     (case par_threads c ! i of
        (x, Do op k) \<Rightarrow> (case sem (par_state c) op a of None \<Rightarrow> None
          | Some s' \<Rightarrow> play sem start ms (c\<lparr>par_state := s', par_threads := (par_threads c)[i := (x, k a)], par_log := par_log c @ [(i, op, a)]\<rparr>))
      | _ \<Rightarrow> None) else None)"

lemma play_reach:
  assumes "play sem start ms c = Some d" "reach I (par_step (\<lambda>s op a s'. sem s op a = Some s') (\<lambda>x p. start x = Some p)) c"
  shows "reach I (par_step (\<lambda>s op a s'. sem s op a = Some s') (\<lambda>x p. start x = Some p)) d"
  using assms
proof (induction sem start ms c rule: play.induct)
  case (2 sem start x ms c)
  then obtain p where p: "start x = Some p"
    by (auto split: option.splits)
  have "par_step (\<lambda>s op a s'. sem s op a = Some s') (\<lambda>x p. start x = Some p) c (c\<lparr>par_threads := par_threads c @ [(x, p)]\<rparr>)"
    by (rule par_step.spawn) (rule p)
  note reach.reach_step [OF "2.prems"(2) this]
  then show ?case
    using 2 p by auto
next
  case (3 sem start i a ms c)
  then obtain x op k s' where t: "i < length (par_threads c)" "par_threads c ! i = (x, Do op k)" "sem (par_state c) op a = Some s'"
    by (auto split: if_splits prod.splits prog.splits option.splits)
  have "par_step (\<lambda>s op a s'. sem s op a = Some s') (\<lambda>x p. start x = Some p) c
      (c\<lparr>par_state := s', par_threads := (par_threads c)[i := (x, k a)], par_log := par_log c @ [(i, op, a)]\<rparr>)"
    by (rule par_step.perform [where sem = "\<lambda>s op a s'. sem s op a = Some s'"]) (use t in auto)
  note reach.reach_step [OF "3.prems"(2) this]
  then show ?case
    using 3 t by auto
qed auto

text \<open>A thread alone, along one of its paths.\<close>

fun walk :: "('s \<Rightarrow> 'o \<Rightarrow> 'a \<Rightarrow> 's option) \<Rightarrow> 's \<Rightarrow> ('o \<times> 'a) list \<Rightarrow> 's option" where
  "walk sem s [] = Some s"
| "walk sem s ((op, a) # tr) = (case sem s op a of None \<Rightarrow> None | Some s' \<Rightarrow> walk sem s' tr)"

lemma walk_append: "walk sem s (tr @ u) = (case walk sem s tr of None \<Rightarrow> None | Some s' \<Rightarrow> walk sem s' u)"
  by (induction tr arbitrary: s) (auto split: option.splits)

lemma walk_reach:
  assumes "follows fits p tr q" "walk sem (par_state c) tr = Some s'" "i < length (par_threads c)" "par_threads c ! i = (x, p)"
    "reach I (par_step (\<lambda>s op a s'. sem s op a = Some s') starts) c"
  shows "reach I (par_step (\<lambda>s op a s'. sem s op a = Some s') starts)
    (c\<lparr>par_state := s', par_threads := (par_threads c)[i := (x, q)], par_log := par_log c @ map (Pair i) tr\<rparr>)"
  using assms
proof (induction arbitrary: s' rule: follows.induct)
  case (start p)
  then have "c\<lparr>par_state := s', par_threads := (par_threads c)[i := (x, p)], par_log := par_log c @ map (Pair i) []\<rparr> = c"
    using list_update_id [of "par_threads c" i] by simp
  then show ?case
    using start by simp
next
  case (answer p tr op k a)
  obtain s1 where s1: "walk sem (par_state c) tr = Some s1" "sem s1 op a = Some s'"
    using answer.prems(1) by (auto simp: walk_append split: option.splits)
  let ?c = "c\<lparr>par_state := s1, par_threads := (par_threads c)[i := (x, Do op k)], par_log := par_log c @ map (Pair i) tr\<rparr>"
  have "par_step (\<lambda>s op a s'. sem s op a = Some s') starts ?c
      (?c\<lparr>par_state := s', par_threads := (par_threads ?c)[i := (x, k a)], par_log := par_log ?c @ [(i, op, a)]\<rparr>)"
    by (rule par_step.perform [where sem = "\<lambda>s op a s'. sem s op a = Some s'"]) (use answer.prems s1 in simp_all)
  with answer.IH [OF s1(1) answer.prems(2-4)] show ?case
    using reach.reach_step by fastforce
qed

lemma walk_alone:
  assumes "gets fits p tr" "walk sem s tr = Some s'" "init s" "starts x p"
  shows "\<exists>c. reach (par_init init) (par_step (\<lambda>s op a s'. sem s op a = Some s') starts) c \<and> par_state c = s' \<and> par_log c = map (Pair 0) tr
    \<and> fst (par_threads c ! 0) = x"
proof -
  let ?c = "\<lparr>par_state = s, par_threads = [], par_log = []\<rparr>"
  obtain q where q: "follows fits p tr q"
    using assms(1) by (auto simp: gets_def)
  have start: "reach (par_init init) (par_step (\<lambda>s op a s'. sem s op a = Some s') starts) (?c\<lparr>par_threads := par_threads ?c @ [(x, p)]\<rparr>)"
  proof (rule reach.reach_step)
    show "reach (par_init init) (par_step (\<lambda>s op a s'. sem s op a = Some s') starts) ?c"
      by (rule reach.reach_init) (simp add: par_init_def assms(3))
  qed (rule par_step.spawn [of starts x p], rule assms(4))
  have "reach (par_init init) (par_step (\<lambda>s op a s'. sem s op a = Some s') starts) \<lparr>par_state = s', par_threads = [(x, q)], par_log = map (Pair 0) tr\<rparr>"
    using walk_reach [OF q _ _ _ start, where i = 0 and x = x and s' = s'] assms(2) by simp
  then show ?thesis
    by (intro exI conjI) (assumption, simp_all)
qed

lemma own_alone: "own i (map (Pair i) tr) = tr"
  by (induction tr) auto

definition threads_follow :: "('x \<Rightarrow> ('o, 'a, 'r) prog \<Rightarrow> bool) \<Rightarrow> ('o \<Rightarrow> 'a \<Rightarrow> bool) \<Rightarrow> ('s, 'x, 'o, 'a, 'r) par \<Rightarrow> bool" where
  \<comment> \<open>every thread has followed the program it was started with\<close>
  "threads_follow starts fits c =
     ((\<forall>i < length (par_threads c). \<exists>p. starts (fst (par_threads c ! i)) p \<and> follows fits p (own i (par_log c)) (snd (par_threads c ! i)))
      \<and> (\<forall>(i, e) \<in> set (par_log c). i < length (par_threads c)))"

definition log_ok :: "('x \<Rightarrow> ('o \<times> 'a) list \<Rightarrow> 'o \<Rightarrow> bool) \<Rightarrow> ('s, 'x, 'o, 'a, 'r) par \<Rightarrow> bool" where
  "log_ok ok c = (\<forall>before i op a rest. par_log c = before @ (i, op, a) # rest \<longrightarrow> ok (fst (par_threads c ! i)) (own i before) op)"

lemma own_absent: "\<forall>(i, e) \<in> set lg. i < n \<Longrightarrow> own n lg = []"
  by (induction lg) auto

text \<open>
  The interface of a component whose programs run in parallel: answers fit their operations, the programs that events
  start do only what is allowed after their own past, and an invariant relates the shared state to the log.
\<close>

locale par_system =
  fixes sem :: "'s \<Rightarrow> 'o \<Rightarrow> 'a \<Rightarrow> 's \<Rightarrow> bool"
    and starts :: "'x \<Rightarrow> ('o, 'a, 'r) prog \<Rightarrow> bool"
    and fits :: "'o \<Rightarrow> 'a \<Rightarrow> bool"
    and init :: "'s \<Rightarrow> bool"
    and ok :: "'x \<Rightarrow> ('o \<times> 'a) list \<Rightarrow> 'o \<Rightarrow> bool"
    and J :: "'s \<Rightarrow> (nat \<times> 'o \<times> 'a) list \<Rightarrow> bool"
  assumes sem_fits: "sem s op a s' \<Longrightarrow> fits op a"
    and starts_ok: "starts x p \<Longrightarrow> wp fits (ok x) p [] (\<lambda>_ _. True) (\<lambda>_ _. True)"
    and J_init: "init s \<Longrightarrow> J s []"
    and J_step: "J s lg \<Longrightarrow> sem s op a s' \<Longrightarrow> J s' (lg @ [(i, op, a)])"
begin

lemma follow_spawn: "threads_follow starts fits c \<Longrightarrow> starts x p \<Longrightarrow> threads_follow starts fits (c\<lparr>par_threads := par_threads c @ [(x, p)]\<rparr>)"
  unfolding threads_follow_def by (auto simp: nth_append less_Suc_eq own_absent intro: follows.start)

lemma follow_perform:
  assumes "threads_follow starts fits c" "i < length (par_threads c)" "par_threads c ! i = (x, Do op k)" "fits op a"
  shows "threads_follow starts fits (c\<lparr>par_state := s', par_threads := (par_threads c)[i := (x, k a)], par_log := par_log c @ [(i, op, a)]\<rparr>)"
proof -
  obtain p where "starts x p" "follows fits p (own i (par_log c)) (Do op k)"
    using assms(1-3) unfolding threads_follow_def by force
  then have "starts x p \<and> follows fits p (own i (par_log c) @ [(op, a)]) (k a)"
    using follows.answer assms(4) by metis
  then show ?thesis
    using assms(1,2) unfolding threads_follow_def by (auto simp: nth_list_update)
qed

lemma perform_ok:
  assumes "threads_follow starts fits c" "i < length (par_threads c)" "par_threads c ! i = (x, Do op k)"
  shows "ok x (own i (par_log c)) op"
proof -
  obtain p where "starts x p" "follows fits p (own i (par_log c)) (Do op k)"
    using assms unfolding threads_follow_def by force
  then show ?thesis
    using path_wp [OF _ starts_ok] by fastforce
qed

definition par_inv :: "('s, 'x, 'o, 'a, 'r) par \<Rightarrow> bool" where
  "par_inv c = (threads_follow starts fits c \<and> log_ok ok c \<and> J (par_state c) (par_log c))"

lemma log_ok_spawn:
  assumes "log_ok ok c" "threads_follow starts fits c"
  shows "log_ok ok (c\<lparr>par_threads := par_threads c @ [(x, p)]\<rparr>)"
  unfolding log_ok_def
proof (intro allI impI)
  fix before i op a rest
  assume lg: "par_log (c\<lparr>par_threads := par_threads c @ [(x, p)]\<rparr>) = before @ (i, op, a) # rest"
  then have "(i, op, a) \<in> set (par_log c)"
    by simp
  then have "i < length (par_threads c)"
    using assms(2) unfolding threads_follow_def by blast
  then show "ok (fst (par_threads (c\<lparr>par_threads := par_threads c @ [(x, p)]\<rparr>) ! i)) (own i before) op"
    using assms(1) lg unfolding log_ok_def by (simp add: nth_append)
qed

lemma log_ok_perform:
  assumes "log_ok ok c" "threads_follow starts fits c" "i < length (par_threads c)" "par_threads c ! i = (x, Do op k)"
  shows "log_ok ok (c\<lparr>par_state := s', par_threads := (par_threads c)[i := (x, k a)], par_log := par_log c @ [(i, op, a)]\<rparr>)"
  unfolding log_ok_def
proof (intro allI impI)
  let ?c = "c\<lparr>par_state := s', par_threads := (par_threads c)[i := (x, k a)], par_log := par_log c @ [(i, op, a)]\<rparr>"
  fix before j op' a' rest
  assume lg: "par_log ?c = before @ (j, op', a') # rest"
  have same: "fst (par_threads ?c ! n) = fst (par_threads c ! n)" for n
    using assms(3,4) by (cases "n = i") auto
  show "ok (fst (par_threads ?c ! j)) (own j before) op'"
  proof (cases rest rule: rev_cases)
    case Nil
    then show ?thesis
      using lg perform_ok [OF assms(2-4)] assms(4) same by simp
  next
    case (snoc rest' e)
    then have "par_log c = before @ (j, op', a') # rest'"
      using lg by simp
    then show ?thesis
      using assms(1) same unfolding log_ok_def by metis
  qed
qed

lemma inv_step:
  assumes "par_inv c" "par_step sem starts c d"
  shows "par_inv d"
  using assms(2)
proof cases
  case (spawn x p)
  then show ?thesis
    using assms(1) follow_spawn [of c x p] log_ok_spawn [of c x p] by (simp add: par_inv_def)
next
  case (perform i x op k a s')
  then show ?thesis
    using assms(1) follow_perform [of c i x op k a s'] log_ok_perform [of c i x op k a s'] sem_fits [of "par_state c" op a s']
      J_step [of "par_state c" "par_log c" op a s' i] by (simp add: par_inv_def)
qed

lemma reach_inv:
  assumes "reach (par_init init) (par_step sem starts) c"
  shows "par_inv c"
  using assms
proof (induction rule: reach.induct)
  case (reach_init c)
  then show ?case
    by (simp add: par_inv_def par_init_def threads_follow_def log_ok_def J_init)
qed (rule inv_step)

lemma reach_log:
  assumes "reach (par_init init) (par_step sem starts) c" "par_log c = before @ (i, op, a) # rest"
  shows "ok (fst (par_threads c ! i)) (own i before) op"
  using reach_inv [OF assms(1)] assms(2) by (simp add: par_inv_def log_ok_def)

end

text \<open>Every state on the way satisfies the invariant as well: the log of a reachable configuration has reachable prefixes.\<close>

lemma reach_prefix:
  assumes "reach (par_init init) (par_step sem starts) c" "par_log c = before @ rest"
  shows "\<exists>d. reach (par_init init) (par_step sem starts) d \<and> par_log d = before"
  using assms
proof (induction arbitrary: before rest rule: reach.induct)
  case (reach_init c)
  then show ?case
    by (intro exI [of _ c]) (simp add: reach.reach_init par_init_def)
next
  case (reach_step c d)
  show ?case
  proof (cases "rest = []")
    case True
    then show ?thesis
      using reach_step.prems reach.reach_step [OF reach_step.hyps] by auto
  next
    case False
    from reach_step.hyps(2) show ?thesis
    proof cases
      case (spawn x p)
      then show ?thesis
        using reach_step.IH reach_step.prems by simp
    next
      case (perform i x op k a s')
      then obtain rest' where "par_log c = before @ rest'"
        using reach_step.prems False by (cases rest rule: rev_cases) auto
      then show ?thesis
        by (rule reach_step.IH)
    qed
  qed
qed

end
