(* ===== verification/Agent_Base.thy ===== *)
theory Agent_Base
  imports Matrix_Format Py_Program Budget_Settings
begin

text \<open>
  What the two Matrix agents (deploy/postgres-admin-agent and deploy/telegram-admin-agent, both __main__.py)
  have in common, word for word: settings from the environment, mentions, confirmation messages, the redaction
  of replies, retry delays, and deadlines of awaited calls. The characters outside Latin-1 that the replies
  contain are written as their nearest ASCII text.
\<close>

section \<open>Environment\<close>

definition env_text_of :: "env \<Rightarrow> string \<Rightarrow> string \<Rightarrow> bool \<Rightarrow> string result" where
  "env_text_of env name dflt required =
     (let v = getenv env name dflt in
      if required \<and> v = [] then Inl (SystemExit (''missing required environment variable: '' @ name)) else Inr v)"

definition bool_env :: "env \<Rightarrow> string \<Rightarrow> bool \<Rightarrow> bool" where
  "bool_env env name dflt = (case env name of
      None \<Rightarrow> dflt | Some v \<Rightarrow> lower (strip v) \<in> set [''1'', ''true'', ''yes'', ''on''])"

definition csv :: "string \<Rightarrow> string list" where
  "csv v = filter (\<lambda>p. p \<noteq> []) (map strip (split_on (CHR '','') v))"

definition int_env_of :: "env \<Rightarrow> string \<Rightarrow> string \<Rightarrow> int result" where
  "int_env_of env name dflt = (case py_int (getenv env name dflt) of
      Some n \<Rightarrow> Inr n | None \<Rightarrow> Inl (ValueError ''invalid literal for int() with base 10''))"

definition strip_slash :: "string \<Rightarrow> string" where
  "strip_slash s = rstrip_on (\<lambda>c. c = CHR ''/'') s"

record agent_settings =
  matrix_homeserver_url :: string
  matrix_user_id :: string
  matrix_password :: string
  matrix_room_id :: string
  matrix_admin_mxids :: "string list"
  llm_base_url :: string
  llm_api_key :: string
  llm_model :: string
  health_http_addr :: string
  response_timeout_seconds :: int
  llm_timeout_seconds :: int
  matrix_ssl_verify :: bool
  announce_on_start :: bool
  require_mention :: bool
  set_mention_aliases :: "string list"

definition llm_enabled :: "('z) agent_settings_scheme \<Rightarrow> bool" where
  "llm_enabled st = (llm_base_url st \<noteq> [] \<and> llm_api_key st \<noteq> [] \<and> llm_model st \<noteq> [])"

section \<open>Mentions\<close>

definition mxid_localpart :: "string \<Rightarrow> string" where
  "mxid_localpart mxid = (if startswith mxid ''@'' \<and> CHR '':'' \<in> set mxid
     then (case split1 (CHR '':'') (drop 1 mxid) of Some (a, _) \<Rightarrow> a | None \<Rightarrow> drop 1 mxid)
     else dropWhile (\<lambda>c. c = CHR ''@'') mxid)"

fun unique_aliases :: "string list \<Rightarrow> string list \<Rightarrow> string list" where
  "unique_aliases seen [] = []"
| "unique_aliases seen (a # as) =
     (let alias = strip a; key = lower alias in
      if alias \<noteq> [] \<and> key \<notin> set seen then alias # unique_aliases (key # seen) as else unique_aliases seen as)"

definition mention_aliases :: "string \<Rightarrow> string list \<Rightarrow> string list" where
  "mention_aliases mxid extra = (let localpart = mxid_localpart mxid in
     unique_aliases [] ([mxid, ''@'' @ localpart, localpart] @ extra))"

definition at_mention :: "string \<Rightarrow> rx" where
  "at_mention alias = cat [Alt Bol (Cls is_space), ilit (lower alias), Ahead (Alt Eol (Cls (\<lambda>c. is_space c \<or> c = CHR '','' \<or> c = CHR '':'')))]"

definition name_mention :: "string \<Rightarrow> rx" where
  "name_mention alias = cat [Bol, Rep is_space 0 None, ilit (lower alias), Rep is_space 0 None, one_of '':,'', Rep is_space 0 None]"

definition or_help :: "string \<Rightarrow> string \<Rightarrow> string" where
  "or_help help s = (if s = [] then help else s)"

fun strip_first_mention :: "string \<Rightarrow> string \<Rightarrow> string list \<Rightarrow> string option" where
  "strip_first_mention help body [] = None"
| "strip_first_mention help body (alias # as) =
     (if startswith alias ''@''
      then (case search (at_mention alias) body of
              Some (i, j, _) \<Rightarrow> Some (or_help help (strip_on (\<lambda>c. c \<in> set [CHR '' '', CHR 0x09, CHR '':'', CHR '','']) (take i body @ '' '' @ drop j body)))
            | None \<Rightarrow> strip_first_mention help body as)
      else (case match_start (name_mention alias) body of
              Some (j, _) \<Rightarrow> Some (or_help help (strip (drop j body)))
            | None \<Rightarrow> strip_first_mention help body as))"

definition strip_mention :: "string \<Rightarrow> string list \<Rightarrow> string \<Rightarrow> string option" where
  \<comment> \<open>the longest aliases first; \<open>help\<close> is the command that an empty message stands for\<close>
  "strip_mention help mentions body = strip_first_mention help body (sort_key (\<lambda>a. - int (length a)) mentions)"

record room_event =
  ev_room_id :: string
  ev_sender :: string
  ev_body :: string
  ev_event_id :: string

definition activated :: "('z) agent_settings_scheme \<Rightarrow> string \<Rightarrow> room_event \<Rightarrow> string option" where
  \<comment> \<open>the end of \<open>_on_message\<close>, once the sender is allowed: the text that is handled\<close>
  "activated st help ev =
     (let body = strip (ev_body ev) in
      if require_mention st then strip_mention help (mention_aliases (matrix_user_id st) (set_mention_aliases st)) body else Some body)"

section \<open>Confirmations\<close>

definition is_hex :: "char \<Rightarrow> bool" where
  "is_hex c = (is_digit c \<or> (97 \<le> code (lower_char c) \<and> code (lower_char c) \<le> 102))"

definition CONFIRM :: rx where
  "CONFIRM = cat [Rep is_space 0 None, ilit ''confirm'', Rep is_space 1 None, Cap 1 (Rep is_hex 6 (Some 12)), Rep is_space 0 None]"

definition confirm_token :: "string \<Rightarrow> string option" where
  "confirm_token body = map_option (\<lambda>(j, g). lower (group body g 1)) (fullmatch CONFIRM body)"

section \<open>Replies\<close>

definition redact_with :: "string list \<Rightarrow> string \<Rightarrow> string" where
  "redact_with secrets t = foldl (\<lambda>t s. if s = [] then t else replace s ''<redacted>'' t) t secrets"

definition matrix_retry_delay :: "int option \<Rightarrow> int \<Rightarrow> int" where
  \<comment> \<open>\<open>retry_after_ms\<close> of the response, if it is an \<open>int\<close>\<close>
  "matrix_retry_delay retry_ms attempt = (case retry_ms of
      Some ms \<Rightarrow> if 0 < ms then max 1 (min 300 ((ms + 999) div 1000)) else min 120 (max 5 (attempt * 5))
    | None \<Rightarrow> min 120 (max 5 (attempt * 5)))"

datatype matrix_reply = Transport exc | Accepted | Refused_by string "int option" | Unexpected string
  \<comment> \<open>an exception of the client, the expected response, an error with its message and delay, another class\<close>

fun retry_loop :: "string \<Rightarrow> string \<Rightarrow> int \<Rightarrow> matrix_reply list \<Rightarrow> (int \<times> string) list \<times> unit result option" where
  \<comment> \<open>\<open>_login_with_retry\<close> and \<open>_join_with_retry\<close>, by the words of their messages: the delays slept with the \<open>last_error\<close> set
    before each, and how the loop ends, if it does with these replies\<close>
  "retry_loop what response attempt [] = ([], None)"
| "retry_loop what response attempt (r # rs) =
     (let again = (\<lambda>delay m. case retry_loop what response (attempt + 1) rs of (ds, out) \<Rightarrow>
             ((delay, ''Matrix '' @ what @ m @ ''; retrying in '' @ int_str delay @ ''s'') # ds, out)) in
      case r of
        Accepted \<Rightarrow> ([], Some (Inr ()))
      | Unexpected c \<Rightarrow> ([], Some (Inl (RuntimeError (''unexpected Matrix '' @ response @ '' response: '' @ c))))
      | Transport e \<Rightarrow> again (min 120 (max 5 (attempt * 5))) ('' transport failed: '' @ exc_name e @ '': '' @ exc_text e)
      | Refused_by m ms \<Rightarrow> again (matrix_retry_delay ms attempt) ('' failed: '' @ m))"

definition login_with_retry :: "matrix_reply list \<Rightarrow> (int \<times> string) list \<times> unit result option" where
  "login_with_retry rs = retry_loop ''login'' ''login'' 1 rs"

definition join_with_retry :: "matrix_reply list \<Rightarrow> (int \<times> string) list \<times> unit result option" where
  "join_with_retry rs = retry_loop ''room join'' ''join'' 1 rs"

record host_texts =
  \<comment> \<open>\<open>str()\<close> of floats, lists and objects, and \<open>repr\<close> of finite floats\<close>
  ht_str :: "json \<Rightarrow> string"
  ht_float :: "rat \<Rightarrow> string"

definition dumps_ascii :: "host_texts \<Rightarrow> json \<Rightarrow> string" where
  \<comment> \<open>\<open>json.dumps(v)\<close>: characters from 127 on are escaped\<close>
  "dumps_ascii h v = concat (map (\<lambda>c. if 127 \<le> code c then chr 92 # ''u00'' @ [hex_digit (code c div 16), hex_digit (code c mod 16)] else [c])
     (dumps (ht_float h) v))"

definition failed_tool :: "exc \<Rightarrow> json" where
  "failed_tool e = JObj [(''ok'', JBool False), (''error'', JStr (exc_text e))]"

definition words_of :: "string \<Rightarrow> string list" where
  \<comment> \<open>\<open>s.split()\<close>\<close>
  "words_of s = filter (\<lambda>w. w \<noteq> []) (split_on (CHR '' '') (map (\<lambda>c. if is_space c then CHR '' '' else c) s))"

definition request_path :: "string \<Rightarrow> string" where
  \<comment> \<open>the second word of the request line\<close>
  "request_path line = (let parts = words_of line in if 2 \<le> length parts then parts ! 1 else ''/'')"

section \<open>Messages for the model\<close>

record tool_call =
  tc_id :: string
  tc_name :: string
  tc_arguments :: string
  tc_decoded :: "json result"
    \<comment> \<open>\<open>json.loads\<close> of the arguments, or of an empty object when there are none\<close>

definition assistant_message :: "string option \<Rightarrow> tool_call list \<Rightarrow> json" where
  "assistant_message content calls = JObj [(''role'', JStr ''assistant''), (''content'', case content of Some c \<Rightarrow> JStr c | None \<Rightarrow> JNull),
     (''tool_calls'', JList (map (\<lambda>tc. JObj [(''id'', JStr (tc_id tc)), (''type'', JStr ''function''),
       (''function'', JObj [(''name'', JStr (tc_name tc)), (''arguments'', JStr (tc_arguments tc))])]) calls))]"

definition tool_message :: "host_texts \<Rightarrow> tool_call \<Rightarrow> json \<Rightarrow> json" where
  "tool_message h tc result = JObj [(''role'', JStr ''tool''), (''tool_call_id'', JStr (tc_id tc)), (''content'', JStr (dumps_ascii h result))]"

section \<open>Deadlines\<close>

text \<open>
  \<open>asyncio.wait_for\<close> cancels an awaiting handler; a call that already runs in a worker thread is finished
  all the same. So a deadline is asked for after every awaited call. Within an inner \<open>wait_for\<close> both deadlines can pass.
\<close>

datatype deadline = InTime | LateInner | LateOuter

definition timeout_error :: exc where "timeout_error = OtherError ''TimeoutError'' []"

definition cancelled_error :: exc where "cancelled_error = OtherError ''CancelledError'' []"

section \<open>What redaction guarantees\<close>

lemma contains_cut:
  assumes "contains (a @ c # b) p" "c \<notin> set p" "p \<noteq> []"
  shows "contains a p \<or> contains b p"
proof -
  obtain x y where xy: "a @ c # b = x @ p @ y"
    using assms(1) by (auto simp: contains_iff)
  then consider u where "x = a @ u" "c # b = u @ p @ y" | u where "a = x @ u" "u @ c # b = p @ y"
    by (auto simp: append_eq_append_conv2)
  then show ?thesis
  proof cases
    case (1 u)
    then obtain v where "b = v @ p @ y"
      using assms(2,3) by (cases u) (auto simp: Cons_eq_append_conv)
    then show ?thesis
      by (auto simp: contains_iff)
  next
    case (2 u)
    then obtain v where "u = p @ v"
      using assms(2) by (auto simp: append_eq_append_conv2 Cons_eq_append_conv)
    then show ?thesis
      using 2(1) by (auto simp: contains_iff)
  qed
qed

definition MARK :: string where "MARK = ''<redacted>''"

definition redactable :: "string \<Rightarrow> bool" where
  \<comment> \<open>the secret is not part of the redaction mark and does not touch its brackets\<close>
  "redactable s = (s \<noteq> [] \<and> CHR ''<'' \<notin> set s \<and> CHR ''>'' \<notin> set s \<and> \<not> contains ''redacted'' s)"

lemma contains_mark:
  assumes "contains (a @ MARK @ b) p" "redactable p"
  shows "contains a p \<or> contains b p"
proof -
  have "a @ MARK @ b = a @ CHR ''<'' # (''redacted'' @ CHR ''>'' # b)"
    by (simp add: MARK_def)
  then have "contains (a @ CHR ''<'' # (''redacted'' @ CHR ''>'' # b)) p"
    using assms(1) by metis
  then show ?thesis
    using assms(2) contains_cut unfolding redactable_def by blast
qed

lemma contains_sub: "contains b p \<Longrightarrow> contains (a @ b @ c) p"
  unfolding contains_iff by (metis append.assoc)

lemma replace_match: "q \<noteq> [] \<Longrightarrow> replace q r (q @ rest) = r @ replace q r rest"
  by (cases q) auto

lemma start_in_prefix:
  assumes "contains a p" "p \<noteq> []"
  shows "\<exists>i < length a. startswith (drop i (a @ s)) p"
proof -
  obtain x y where xy: "a = x @ p @ y"
    using assms(1) unfolding contains_iff by blast
  then show ?thesis
    using assms(2) by (intro exI [of _ "length x"]) (auto simp: startswith_iff)
qed

lemma replace_keeps_clean:
  assumes "redactable p" "\<not> contains (a @ s) p" "q \<noteq> []"
  shows "\<not> contains (a @ replace q MARK s) p"
  using assms(2)
proof (induction s arbitrary: a rule: length_induct)
  case (1 s)
  consider "s = []" | rest where "s = q @ rest" | c s' where "s = c # s'" "\<not> startswith s q"
    by (cases s) (auto simp: startswith_iff)
  then show ?case
  proof cases
    case 1
    then show ?thesis
      using "1.prems" by simp
  next
    case (2 rest)
    have clean: "\<not> contains a p" "\<not> contains rest p"
      using "1.prems" 2 contains_sub [of a p "[]" "q @ rest"] contains_sub [of rest p "a @ q" "[]"] by auto
    then have "\<not> contains (replace q MARK rest) p"
      using "1.IH" [rule_format, of rest "[]"] 2 assms(3) by simp
    then show ?thesis
      using 2 clean contains_mark [OF _ assms(1), of a "replace q MARK rest"] by (auto simp: replace_match assms(3))
  next
    case (3 c s')
    then show ?thesis
      using "1.IH" [rule_format, of s' "a @ [c]"] "1.prems" by simp
  qed
qed

lemma replace_removes:
  assumes "redactable p" "\<forall>i < length a. \<not> startswith (drop i (a @ s)) p"
  shows "\<not> contains (a @ replace p MARK s) p"
  using assms(2)
proof (induction s arbitrary: a rule: length_induct)
  case (1 s)
  have ne: "p \<noteq> []"
    using assms(1) by (simp add: redactable_def)
  have clean: "\<not> contains a p"
    using start_in_prefix [of a p s] ne "1.prems" by blast
  consider "s = []" | rest where "s = p @ rest" | c s' where "s = c # s'" "\<not> startswith s p"
    by (cases s) (auto simp: startswith_iff)
  then show ?case
  proof cases
    case 1
    then show ?thesis
      using clean by simp
  next
    case (2 rest)
    then have "\<not> contains (replace p MARK rest) p"
      using "1.IH" [rule_format, of rest "[]"] ne by simp
    then show ?thesis
      using 2 clean contains_mark [OF _ assms(1), of a "replace p MARK rest"] by (auto simp: replace_match ne)
  next
    case (3 c s')
    have "\<not> startswith (drop i ((a @ [c]) @ s')) p" if "i < length (a @ [c])" for i
      using that "1.prems" 3 by (cases "i = length a") auto
    then show ?thesis
      using "1.IH" [rule_format, of s' "a @ [c]"] 3 by simp
  qed
qed

lemma redact_keeps_clean:
  assumes "redactable s" "\<not> contains t s"
  shows "\<not> contains (redact_with secrets t) s"
  using assms(2) unfolding redact_with_def
proof (induction secrets arbitrary: t)
  case (Cons q secrets)
  then show ?case
    using replace_keeps_clean [OF assms(1), of "[]" t q] by (auto simp: MARK_def)
qed simp

lemma redact_removes:
  assumes "s \<in> set secrets" "redactable s"
  shows "\<not> contains (redact_with secrets t) s"
proof -
  obtain xs ys where secrets: "secrets = xs @ s # ys"
    using assms(1) by (meson split_list)
  define u where "u = redact_with xs t"
  have "\<not> contains (replace s MARK u) s"
    using replace_removes [OF assms(2), of "[]" u] by simp
  then have "\<not> contains (redact_with ys (replace s MARK u)) s"
    by (rule redact_keeps_clean [OF assms(2)])
  moreover have "redact_with secrets t = redact_with ys (replace s MARK u)"
    using assms(2) by (simp add: secrets u_def redact_with_def MARK_def redactable_def)
  ultimately show ?thesis
    by simp
qed

section \<open>Retries\<close>

lemma retry_delay_bounds: "1 \<le> matrix_retry_delay ms attempt \<and> matrix_retry_delay ms attempt \<le> 300"
  by (auto simp: matrix_retry_delay_def split: option.splits)

lemma retry_loop_delays:
  assumes "retry_loop what response attempt rs = (ds, out)"
  shows "\<forall>(d, m) \<in> set ds. 1 \<le> d \<and> d \<le> 300"
  using assms
proof (induction rs arbitrary: attempt ds out)
  case (Cons r rs)
  obtain ds' out' where tail: "retry_loop what response (attempt + 1) rs = (ds', out')"
    by (metis surj_pair)
  show ?case
    using Cons.prems Cons.IH [OF tail] retry_delay_bounds tail by (cases r) (auto simp: Let_def)
qed simp

end
