(* ===== verification/Pg_Agent.thy ===== *)
theory Pg_Agent
  imports Agent_Base
begin

text \<open>
  The Postgres admin agent, deploy/postgres-admin-agent/postgres_admin_agent/__main__.py: the checks of SQL
  statements, metrics and Patroni, staged executions and their confirmation, the tools of the language model, the
  message handler and its replies. The handlers are programs over the operations \<open>pg_op\<close>; what the
  database, the HTTP servers, the model, the clock and the files answer is any value that fits.
\<close>

section \<open>Settings\<close>

record pg_settings = agent_settings +
  pg_dsn :: string
  pg_password_file :: string
  patroni_url :: string
  patroni_username :: string
  patroni_password_file :: string
  prometheus_url :: string
  metrics_window_minutes :: int
  statement_timeout_ms :: int
  row_limit :: int
  confirm_writes :: bool

definition pg_load :: "env \<Rightarrow> pg_settings result" where
  "pg_load env =
     bindR (env_text_of env ''PG_DSN'' [] True) (\<lambda>dsn.
     bindR (env_text_of env ''MATRIX_HOMESERVER_URL'' [] True) (\<lambda>homeserver.
     bindR (env_text_of env ''MATRIX_USER_ID'' [] True) (\<lambda>user.
     bindR (env_text_of env ''MATRIX_PASSWORD'' [] True) (\<lambda>password.
     bindR (env_text_of env ''MATRIX_ROOM_ID'' [] True) (\<lambda>room.
     bindR (int_env_of env ''METRICS_WINDOW_MINUTES'' ''60'') (\<lambda>window.
     bindR (int_env_of env ''RESPONSE_TIMEOUT_SECONDS'' ''60'') (\<lambda>response.
     bindR (int_env_of env ''LLM_TIMEOUT_SECONDS'' ''25'') (\<lambda>llm.
     bindR (int_env_of env ''STATEMENT_TIMEOUT_MS'' ''15000'') (\<lambda>statement.
     bindR (int_env_of env ''ROW_LIMIT'' ''50'') (\<lambda>rows.
     Inr \<lparr>matrix_homeserver_url = strip_slash homeserver, matrix_user_id = user, matrix_password = password, matrix_room_id = room,
       matrix_admin_mxids = csv (getenv env ''MATRIX_ADMIN_MXIDS'' []), llm_base_url = getenv env ''LLM_BASE_URL'' [],
       llm_api_key = getenv env ''LLM_API_KEY'' [], llm_model = getenv env ''LLM_MODEL'' [],
       health_http_addr = getenv env ''HEALTH_HTTP_ADDR'' ''0.0.0.0:9100'', response_timeout_seconds = response,
       llm_timeout_seconds = llm, matrix_ssl_verify = bool_env env ''MATRIX_SSL_VERIFY'' True,
       announce_on_start = bool_env env ''ANNOUNCE_ON_START'' False, require_mention = bool_env env ''MATRIX_REQUIRE_MENTION'' True,
       set_mention_aliases = csv (getenv env ''MATRIX_MENTION_ALIASES'' []),
       pg_dsn = dsn, pg_password_file = getenv env ''PG_PASSWORD_FILE'' [], patroni_url = strip_slash (getenv env ''PATRONI_URL'' []),
       patroni_username = getenv env ''PATRONI_USERNAME'' ''patroni'', patroni_password_file = getenv env ''PATRONI_PASSWORD_FILE'' [],
       prometheus_url = strip_slash (getenv env ''PROMETHEUS_URL'' []), metrics_window_minutes = window,
       statement_timeout_ms = statement, row_limit = rows, confirm_writes = bool_env env ''CONFIRM_WRITES'' True\<rparr>))))))))))"

section \<open>Operations and answers\<close>

datatype pg_value =
    PNone | PStr string | PInt int | PFloat pyfloat | PBool bool
  | PTime string \<comment> \<open>a date or datetime, by its ISO text\<close>
  | PDecimal string \<comment> \<open>a Decimal, by its \<open>str()\<close>\<close>
  | PBytes "nat list"
  | PList "pg_value list"
  | PTuple "pg_value list"
  | PDict "(string \<times> pg_value) list" \<comment> \<open>keys by their \<open>str()\<close>\<close>
  | POther string \<comment> \<open>any other object, by its \<open>str()\<close>\<close>

record pending_execution =
  pe_token :: string
  pe_sql :: string
  pe_created_at :: instant
  pe_kind :: string

datatype pg_op =
    Connect
  | Sql string
  | FetchOne
  | FetchMany int
  | HttpGet string
  | PostSwitchover string json string
  | ReadSecret string
  | ReadClock
  | NewToken
  | SetPending string pending_execution
  | GetPending string
  | PopPending string
  | Ask "json list"
  | CheckDeadline bool
  | ReadMarkers string
  | Typing bool
  | RoomSend json

datatype pg_answer =
    Finished
  | Fails exc
  | Described "string list option" "string option" \<comment> \<open>the columns, if the statement has rows, and the status message\<close>
  | FirstValue "json option"
  | Fetched "pg_value list list"
  | Body json
  | Reply string
  | HttpFailure int string
  | NotReadable string \<comment> \<open>the class of the \<open>OSError\<close>\<close>
  | Clock instant
  | Found "pending_execution option"
  | Said "string option" "tool_call list"
  | Deadline deadline

fun answers :: "pg_op \<Rightarrow> pg_answer \<Rightarrow> bool" where
  "answers Connect a = (a = Finished)"
| "answers (Sql _) a = (case a of Described _ _ \<Rightarrow> True | _ \<Rightarrow> False)"
| "answers FetchOne a = (case a of FirstValue _ \<Rightarrow> True | _ \<Rightarrow> False)"
| "answers (FetchMany n) a = (case a of Fetched rs \<Rightarrow> 0 < n \<longrightarrow> int (length rs) \<le> n | _ \<Rightarrow> False)"
| "answers (HttpGet _) a = (case a of Body _ \<Rightarrow> True | _ \<Rightarrow> False)"
| "answers (PostSwitchover _ _ _) a = (case a of Reply _ \<Rightarrow> True | HttpFailure _ _ \<Rightarrow> True | _ \<Rightarrow> False)"
| "answers (ReadSecret _) a = (case a of Reply _ \<Rightarrow> True | NotReadable _ \<Rightarrow> True | _ \<Rightarrow> False)"
| "answers ReadClock a = (case a of Clock _ \<Rightarrow> True | _ \<Rightarrow> False)"
| "answers NewToken a = (case a of Reply t \<Rightarrow> length t = 6 \<and> list_all (\<lambda>c. is_digit c \<or> (97 \<le> code c \<and> code c \<le> 102)) t | _ \<Rightarrow> False)"
| "answers (SetPending _ _) a = (a = Finished)"
| "answers (GetPending _) a = (case a of Found _ \<Rightarrow> True | _ \<Rightarrow> False)"
| "answers (PopPending _) a = (a = Finished)"
| "answers (Ask _) a = (case a of Said _ _ \<Rightarrow> True | _ \<Rightarrow> False)"
| "answers (CheckDeadline inner) a = (case a of Deadline d \<Rightarrow> inner \<or> d \<noteq> LateInner | _ \<Rightarrow> False)"
| "answers (ReadMarkers _) a = (a = Finished)"
| "answers (Typing _) a = (a = Finished)"
| "answers (RoomSend _) a = (a = Finished)"

definition may_fail :: "pg_op \<Rightarrow> bool" where
  "may_fail op = (case op of SetPending _ _ \<Rightarrow> False | GetPending _ \<Rightarrow> False | PopPending _ \<Rightarrow> False
     | ReadClock \<Rightarrow> False | NewToken \<Rightarrow> False | CheckDeadline _ \<Rightarrow> False | _ \<Rightarrow> True)"

definition pg_fits :: "pg_op \<Rightarrow> pg_answer \<Rightarrow> bool" where
  "pg_fits op a = (case a of Fails e \<Rightarrow> may_fail op \<and> \<not> is_exit e | _ \<Rightarrow> answers op a)"

type_synonym 'r pg_prog = "(pg_op, pg_answer, 'r) prog"

definition misfit :: exc where "misfit = RuntimeError ''answer does not fit''"

definition perform :: "pg_op \<Rightarrow> unit pg_prog" where
  "perform op = Do op (\<lambda>a. case a of Fails e \<Rightarrow> Raise e | _ \<Rightarrow> Ret ())"

definition sql_stmt :: "string \<Rightarrow> (string list option \<times> string option) pg_prog" where
  "sql_stmt q = Do (Sql q) (\<lambda>a. case a of Described cs st \<Rightarrow> Ret (cs, st) | Fails e \<Rightarrow> Raise e | _ \<Rightarrow> Raise misfit)"

definition fetch_many :: "int \<Rightarrow> pg_value list list pg_prog" where
  "fetch_many n = Do (FetchMany n) (\<lambda>a. case a of Fetched rs \<Rightarrow> Ret rs | Fails e \<Rightarrow> Raise e | _ \<Rightarrow> Raise misfit)"

definition http_get :: "string \<Rightarrow> json pg_prog" where
  "http_get url = Do (HttpGet url) (\<lambda>a. case a of Body v \<Rightarrow> Ret v | Fails e \<Rightarrow> Raise e | _ \<Rightarrow> Raise misfit)"

definition read_clock :: "instant pg_prog" where
  "read_clock = Do ReadClock (\<lambda>a. case a of Clock t \<Rightarrow> Ret t | _ \<Rightarrow> Raise misfit)"

definition new_token :: "string pg_prog" where
  "new_token = Do NewToken (\<lambda>a. case a of Reply t \<Rightarrow> Ret t | _ \<Rightarrow> Raise misfit)"

definition get_pending :: "string \<Rightarrow> pending_execution option pg_prog" where
  "get_pending sender = Do (GetPending sender) (\<lambda>a. case a of Found p \<Rightarrow> Ret p | _ \<Rightarrow> Raise misfit)"

definition ask_model :: "json list \<Rightarrow> (string option \<times> tool_call list) pg_prog" where
  "ask_model ms = Do (Ask ms) (\<lambda>a. case a of Said c ts \<Rightarrow> Ret (c, ts) | Fails e \<Rightarrow> Raise e | _ \<Rightarrow> Raise misfit)"

definition check_deadline :: "bool \<Rightarrow> unit pg_prog" where
  "check_deadline inner = Do (CheckDeadline inner) (\<lambda>a. case a of
      Deadline InTime \<Rightarrow> Ret () | Deadline LateInner \<Rightarrow> Raise timeout_error | Deadline LateOuter \<Rightarrow> Raise cancelled_error
    | _ \<Rightarrow> Raise misfit)"

definition awaited :: "bool \<Rightarrow> 'r pg_prog \<Rightarrow> 'r pg_prog" where
  \<comment> \<open>\<open>await asyncio.to_thread(p)\<close>: what \<open>p\<close> returns or raises is lost when the deadline has passed\<close>
  "awaited inner p = bindP (catchP (bindP p (\<lambda>r. Ret (Inr r))) (\<lambda>e. Ret (Inl e)))
     (\<lambda>r. bindP (check_deadline inner) (\<lambda>_. liftP r))"

section \<open>Database\<close>

definition READ_PREFIXES :: "string list" where
  "READ_PREFIXES = [''select'', ''with'', ''show'', ''explain'', ''values'']"

definition words_rx :: "string list \<Rightarrow> rx" where
  "words_rx ws = cat [WordB, Cap 1 (alts (map ilit ws)), WordB]"

definition WRITE_WORDS :: rx where
  "WRITE_WORDS = words_rx [''insert'', ''update'', ''delete'', ''merge'', ''drop'', ''alter'', ''create'', ''grant'', ''revoke'', ''truncate'',
     ''copy'', ''call'', ''do'', ''vacuum'', ''analyze'', ''refresh'', ''reindex'']"

definition SECRET_WORDS :: rx where
  "SECRET_WORDS = words_rx [''pg_authid'', ''pg_shadow'', ''rolpassword'', ''password'', ''passwd'']"

definition clean_sql :: "string \<Rightarrow> string result" where
  "clean_sql sql =
     (let s0 = strip sql; s1 = (if endswith s0 '';'' then strip (butlast s0) else s0) in
      bindR (guard_that (s1 \<noteq> []) (ValueError ''empty SQL'')) (\<lambda>_.
      bindR (guard_that (CHR '';'' \<notin> set s1) (ValueError ''only one SQL statement is allowed'')) (\<lambda>_. Inr s1)))"

definition is_read_only :: "string \<Rightarrow> bool" where
  "is_read_only sql =
     (let lowered = lower (dropWhile (\<lambda>c. c \<in> set [CHR '' '', newline, CHR 0x09, CHR ''('']) sql) in
      list_ex (startswith lowered) READ_PREFIXES \<and> search WRITE_WORDS sql = None)"

fun pg_jsonable :: "pg_value \<Rightarrow> json" where
  "pg_jsonable PNone = JNull"
| "pg_jsonable (PStr s) = JStr s"
| "pg_jsonable (PInt i) = JInt i"
| "pg_jsonable (PFloat f) = JFloat f"
| "pg_jsonable (PBool b) = JBool b"
| "pg_jsonable (PTime t) = JStr t"
| "pg_jsonable (PDecimal t) = JStr t"
| "pg_jsonable (PBytes bs) = JStr (''0x'' @ concat (map (\<lambda>b. [hex_digit (b div 16), hex_digit (b mod 16)]) bs))"
| "pg_jsonable (PList vs) = JList (map pg_jsonable vs)"
| "pg_jsonable (PTuple vs) = JList (map pg_jsonable vs)"
| "pg_jsonable (PDict kvs) = JObj (foldl (\<lambda>d (k, v). AList.update k v d) [] (map (\<lambda>(k, v). (k, pg_jsonable v)) kvs))"
| "pg_jsonable (POther t) = JStr t"

definition read_secret_file :: "string \<Rightarrow> string pg_prog" where
  "read_secret_file file = Do (ReadSecret file) (\<lambda>a. case a of
      Fails e \<Rightarrow> Raise e
    | NotReadable c \<Rightarrow> Raise (ValueError (''secret file not readable yet: '' @ file @ '' ('' @ c @ '')''))
    | Reply t \<Rightarrow> if strip t = [] then Raise (ValueError (''secret file is empty: '' @ file)) else Ret (strip t)
    | _ \<Rightarrow> Raise misfit)"

definition db_connect :: "pg_settings \<Rightarrow> unit pg_prog" where
  "db_connect st =
     bindP (if pg_password_file st = [] then Ret () else bindP (read_secret_file (pg_password_file st)) (\<lambda>_. Ret ())) (\<lambda>_.
     bindP (perform Connect) (\<lambda>_.
     bindP (sql_stmt (''SET statement_timeout = '' @ int_str (max 1 (min 300000 (statement_timeout_ms st))))) (\<lambda>_. Ret ())))"

definition fetch_value :: "json pg_prog" where
  \<comment> \<open>\<open>cur.fetchone()[0]\<close>\<close>
  "fetch_value = Do FetchOne (\<lambda>a. case a of
      Fails e \<Rightarrow> Raise e | FirstValue (Some v) \<Rightarrow> Ret v | FirstValue None \<Rightarrow> Raise (TypeError ''object is not subscriptable'') | _ \<Rightarrow> Raise misfit)"

definition STATUS_SQL :: "(string \<times> string) list" where
  "STATUS_SQL = [
     (''version'', ''SELECT version()''),
     (''current_database'', ''SELECT current_database()''),
     (''database_size'', ''SELECT pg_size_pretty(pg_database_size(current_database()))''),
     (''database_count'', ''SELECT count(*) FROM pg_database WHERE NOT datistemplate''),
     (''connection_count'', ''SELECT count(*) FROM pg_stat_activity''),
     (''databases'', ''SELECT coalesce(array_agg(datname ORDER BY datname), '' @ [CHR 0x27] @ ''{}'' @ [CHR 0x27] @ '') FROM pg_database WHERE NOT datistemplate'')]"

definition ping :: "pg_settings \<Rightarrow> bool pg_prog" where
  "ping st = catchP (bindP (db_connect st) (\<lambda>_. bindP (sql_stmt ''SELECT 1'') (\<lambda>_.
     Do FetchOne (\<lambda>a. case a of Fails e \<Rightarrow> Raise e | FirstValue v \<Rightarrow> Ret (v = Some (JInt 1)) | _ \<Rightarrow> Raise misfit)))) (\<lambda>e. Ret False)"

definition db_status :: "pg_settings \<Rightarrow> json pg_prog" where
  "db_status st =
     bindP (db_connect st) (\<lambda>_.
     bindP (mapP (\<lambda>(key, q). bindP (sql_stmt q) (\<lambda>_. bindP fetch_value (\<lambda>v. Ret (key, v)))) STATUS_SQL) (\<lambda>kvs.
     Ret (JObj ((''ok'', JBool True) # kvs))))"

definition py_take :: "int \<Rightarrow> 'a list \<Rightarrow> 'a list" where
  \<comment> \<open>\<open>xs[:n]\<close>\<close>
  "py_take n xs = (if 0 \<le> n then take (nat n) xs else take (length xs - nat (- n)) xs)"

definition row_members :: "pg_settings \<Rightarrow> string list \<Rightarrow> pg_value list list \<Rightarrow> json dict" where
  "row_members st columns fetched =
     (let rows = py_take (row_limit st) fetched in
      [(''columns'', JList (map JStr columns)), (''rows'', JList (map (\<lambda>row. JList (map pg_jsonable row)) rows)),
       (''row_count'', JInt (int (length rows))), (''truncated'', JBool (row_limit st < int (length fetched)))])"

definition db_query :: "pg_settings \<Rightarrow> string \<Rightarrow> json pg_prog" where
  "db_query st raw =
     bindP (liftP (clean_sql raw)) (\<lambda>sql.
     bindP (liftP (guard_that (is_read_only sql) (ValueError ''read-only query required; use !pg exec for writes/admin SQL''))) (\<lambda>_.
     bindP (liftP (guard_that (search SECRET_WORDS sql = None) (ValueError ''query refused because it targets password/role-secret fields''))) (\<lambda>_.
     bindP (db_connect st) (\<lambda>_.
     bindP (sql_stmt sql) (\<lambda>(described, _).
     let columns = (case described of Some cs \<Rightarrow> cs | None \<Rightarrow> []) in
     bindP (if columns = [] then Ret [] else fetch_many (row_limit st + 1)) (\<lambda>rows.
     Ret (JObj ((''ok'', JBool True) # row_members st columns rows))))))))"

definition db_execute :: "pg_settings \<Rightarrow> string \<Rightarrow> json dict pg_prog" where
  "db_execute st raw =
     bindP (liftP (clean_sql raw)) (\<lambda>sql.
     bindP (liftP (guard_that (search SECRET_WORDS sql = None) (ValueError ''statement refused because it targets password/role-secret fields''))) (\<lambda>_.
     bindP (db_connect st) (\<lambda>_.
     bindP (sql_stmt sql) (\<lambda>(described, status).
     let columns = (case described of Some cs \<Rightarrow> cs | None \<Rightarrow> []) in
     bindP (if columns = [] then Ret [] else fetch_many (row_limit st + 1)) (\<lambda>rows.
     Ret ([(''ok'', JBool True), (''status'', case status of Some m \<Rightarrow> JStr m | None \<Rightarrow> JNull)] @ row_members st columns rows))))))"

end
