(* ===== verification/Pg_Bot.thy ===== *)
theory Pg_Bot
  imports Pg_Agent
begin

text \<open>
  The Postgres admin agent, second part: Prometheus and Patroni clients, formatting of replies, staged executions,
  the model's tools and the message handler.
\<close>

section \<open>Prometheus\<close>

definition quote_char :: "nat \<Rightarrow> string" where
  \<comment> \<open>one byte of \<open>urllib.parse.quote_plus\<close>\<close>
  "quote_char b = (let c = chr b; up = (\<lambda>n. if n < 10 then chr (48 + n) else chr (55 + n)) in
     if is_digit c \<or> is_upper c \<or> is_lower c \<or> c \<in> set ''_.-~'' then [c] else if c = CHR '' '' then ''+''
     else CHR ''%'' # [up (b div 16), up (b mod 16)])"

definition SUMMARY_QUERIES :: "(string \<times> string \<times> string) list" where
  "SUMMARY_QUERIES = (let q = [CHR 0x22] in [
     (''CPU used'', ''100 * (1 - avg(rate(node_cpu_seconds_total{mode='' @ q @ ''idle'' @ q @ ''}[5m])))'', ''%''),
     (''Memory used'', ''100 * (1 - node_memory_MemAvailable_bytes / node_memory_MemTotal_bytes)'', ''%''),
     (''Root disk used'', ''100 * (1 - node_filesystem_avail_bytes{mountpoint='' @ q @ ''/'' @ q @ ''} / node_filesystem_size_bytes{mountpoint='' @ q @ ''/'' @ q @ ''})'', ''%''),
     (''Load 1m'', ''node_load1'', []),
     (''Containers seen'', ''count(container_last_seen)'', [])])"

definition second_of :: "json \<Rightarrow> json result" where
  \<comment> \<open>\<open>v[1]\<close>\<close>
  "second_of v = (case v of JList xs \<Rightarrow> if 2 \<le> length xs then Inr (xs ! 1) else Inl (OtherError ''IndexError'' ''list index out of range'')
     | JStr s \<Rightarrow> if 2 \<le> length s then Inr (JStr [s ! 1]) else Inl (OtherError ''IndexError'' ''string index out of range'')
     | JObj _ \<Rightarrow> Inl (KeyError ''1'') | _ \<Rightarrow> Inl (TypeError ''object is not subscriptable''))"

definition metric_item :: "json \<Rightarrow> json result" where
  "metric_item item =
     bindR (as_obj item) (\<lambda>d.
     bindR (second_of (or_else (jget d ''value'') (JList [JNull, JNull]))) (\<lambda>v.
     Inr (JObj [(''metric'', or_else (jget d ''metric'') (JObj [])), (''value'', v)])))"

definition json_list :: "json \<Rightarrow> json list result" where
  \<comment> \<open>what is sliced and counted: a list; text fails at its first element, anything else at once\<close>
  "json_list v = (case v of JList xs \<Rightarrow> Inr xs | JStr _ \<Rightarrow> Inl (AttributeError ''get'') | _ \<Rightarrow> Inl (TypeError ''unhashable type''))"

definition metrics_query :: "host_texts \<Rightarrow> pg_settings \<Rightarrow> string \<Rightarrow> json dict pg_prog" where
  "metrics_query h st raw =
     bindP (liftP (guard_that (prometheus_url st \<noteq> []) (ValueError ''Prometheus is not configured''))) (\<lambda>_.
     let promql = strip raw in
     bindP (liftP (guard_that (promql \<noteq> []) (ValueError ''empty PromQL''))) (\<lambda>_.
     bindP (liftP (guard_that (length promql \<le> 500) (ValueError ''PromQL is too long''))) (\<lambda>_.
     bindP (http_get (prometheus_url st @ ''/api/v1/query?query='' @ concat (map quote_char (utf8 promql)))) (\<lambda>body.
     bindP (liftP (as_obj body)) (\<lambda>payload.
     bindP (liftP (guard_that (jget payload ''status'' = JStr ''success'')
       (ValueError (jstr (ht_str h) (or_else (jget payload ''error'') (JStr ''Prometheus query failed'')))))) (\<lambda>_.
     bindP (liftP (as_obj (or_else (jget payload ''data'') (JObj [])))) (\<lambda>data.
     bindP (liftP (json_list (or_else (jget data ''result'') (JList [])))) (\<lambda>result.
     bindP (liftP (mapR metric_item (take 10 result))) (\<lambda>items.
     Ret [(''ok'', JBool True), (''result_type'', jget data ''resultType''), (''result'', JList items),
       (''truncated'', JBool (10 < length result))])))))))))"

definition summary_value :: "json dict \<Rightarrow> pyfloat option result" where
  "summary_value r = (case jget r ''result'' of
      JList (JObj d # _) \<Rightarrow> (case jget d ''value'' of JNull \<Rightarrow> Inr None | v \<Rightarrow> bindR (float_of_json v) (\<lambda>f. Inr (Some f)))
    | _ \<Rightarrow> Inr None)"

definition metrics_summary :: "host_texts \<Rightarrow> pg_settings \<Rightarrow> (string \<times> pyfloat option \<times> string) list pg_prog" where
  "metrics_summary h st = mapP (\<lambda>(label, promql, unit).
     catchP (bindP (metrics_query h st promql) (\<lambda>r. bindP (liftP (summary_value r)) (\<lambda>v. Ret (label, v, unit))))
       (\<lambda>e. Ret (label, None, unit))) SUMMARY_QUERIES"

section \<open>Patroni\<close>

definition patroni_cluster :: "pg_settings \<Rightarrow> json pg_prog" where
  "patroni_cluster st =
     bindP (liftP (guard_that (patroni_url st \<noteq> []) (ValueError ''Patroni is not configured on this node''))) (\<lambda>_.
     http_get (patroni_url st @ ''/cluster''))"

definition cluster_members :: "json \<Rightarrow> json dict list result" where
  "cluster_members cluster =
     bindR (as_obj cluster) (\<lambda>d. bindR (iter_json (or_else (jget d ''members'') (JList []))) (mapR as_obj))"

fun first_leader :: "json list \<Rightarrow> json result" where
  \<comment> \<open>the members up to the leader are looked at\<close>
  "first_leader [] = Inr JNull"
| "first_leader (m # ms) = bindR (as_obj m) (\<lambda>d. if jget d ''role'' = JStr ''leader'' then Inr (jget d ''name'') else first_leader ms)"

definition patroni_leader :: "json \<Rightarrow> json result" where
  "patroni_leader cluster = bindR (as_obj cluster) (\<lambda>d. bindR (iter_json (or_else (jget d ''members'') (JList []))) first_leader)"

definition patroni_switchover :: "pg_settings \<Rightarrow> string \<Rightarrow> string pg_prog" where
  "patroni_switchover st candidate =
     bindP (patroni_cluster st) (\<lambda>cluster.
     bindP (liftP (patroni_leader cluster)) (\<lambda>leader.
     bindP (liftP (guard_that (truthy leader) (ValueError ''no current leader -- cannot switch over (failover in progress?)''))) (\<lambda>_.
     bindP (liftP (guard_that (\<not> (candidate \<noteq> [] \<and> JStr candidate = leader)) (ValueError (candidate @ '' is already the leader'')))) (\<lambda>_.
     let payload = JObj ((''leader'', leader) # (if candidate = [] then [] else [(''candidate'', JStr candidate)])) in
     bindP (read_secret_file (patroni_password_file st)) (\<lambda>password.
     Do (PostSwitchover (patroni_url st @ ''/switchover'') payload (''Basic '' @ b64encode (utf8 (patroni_username st @ '':'' @ password)))) (\<lambda>a.
       case a of
         Fails e \<Rightarrow> Raise e
       | Reply t \<Rightarrow> Ret (if strip t = [] then ''Switchover accepted.'' else strip t)
       | HttpFailure status detail \<Rightarrow> Raise (ValueError (''Patroni switchover failed: HTTP '' @ int_str status @ '': '' @ take 300 detail))
       | _ \<Rightarrow> Raise misfit))))))"

section \<open>Formatting\<close>

abbreviation lines_text :: "string list \<Rightarrow> string" where
  "lines_text ls \<equiv> join [newline] ls"

definition get_text :: "host_texts \<Rightarrow> json dict \<Rightarrow> string \<Rightarrow> string \<Rightarrow> string" where
  \<comment> \<open>\<open>f"{d.get(k, dflt)}"\<close>\<close>
  "get_text h d k dflt = jstr (ht_str h) (get_or d k (JStr dflt))"

definition format_status :: "host_texts \<Rightarrow> json \<Rightarrow> string result" where
  "format_status h status =
     (let d = members status; t = (\<lambda>k. jstr (ht_str h) (jget d k)) in
      bindR (case splitlines (t ''version'') of v # _ \<Rightarrow> Inr v | [] \<Rightarrow> Inl (OtherError ''IndexError'' ''list index out of range'')) (\<lambda>version.
      bindR (bindR (iter_json (jget d ''databases'')) (mapR (\<lambda>v. case v of JStr s \<Rightarrow> Inr s | _ \<Rightarrow> Inl (TypeError ''expected str instance'')))) (\<lambda>dbs.
      Inr (lines_text [''Postgres is up.'', ''Version: '' @ version,
        ''Current database: '' @ t ''current_database'' @ '' ('' @ t ''database_size'' @ '')'',
        ''Databases: '' @ join '', '' dbs @ '' ('' @ t ''database_count'' @ '')'',
        ''Connections: '' @ t ''connection_count'']))))"

definition member_line :: "host_texts \<Rightarrow> json dict \<Rightarrow> string" where
  "member_line h m =
     (let role = get_or m ''role'' (JStr ''?''); lag = jget m ''lag'';
          lag_text = (if role = JStr ''leader'' \<or> lag = JNull then [] else '', lag '' @ jstr (ht_str h) lag) in
      (if role = JStr ''leader'' then ''*'' else ''.'') @ '' '' @ get_text h m ''name'' ''?'' @ '': '' @ jstr (ht_str h) role @ '', '' @ get_text h m ''state'' ''?''
      @ '' (tl '' @ get_text h m ''timeline'' ''?'' @ lag_text @ '')'')"

definition format_pgha_cluster :: "host_texts \<Rightarrow> json \<Rightarrow> string result" where
  "format_pgha_cluster h cluster =
     bindR (cluster_members cluster) (\<lambda>ms.
     if ms = [] then Inr ''Patroni reports no cluster members (bootstrap in progress?).''
     else Inr (lines_text ((''HA cluster `'' @ get_text h (members cluster) ''scope'' ''pg-ha'' @ ''`: '' @ nat_str (length ms) @ '' members'')
       # map (member_line h) ms)))"

definition format_pgha_lag :: "host_texts \<Rightarrow> json \<Rightarrow> string result" where
  "format_pgha_lag h cluster =
     bindR (cluster_members cluster) (\<lambda>ms.
     let replicas = filter (\<lambda>m. jget m ''role'' \<noteq> JStr ''leader'') ms in
     if replicas = [] then Inr ''No replicas found.''
     else Inr (lines_text (''Replication lag:'' # map (\<lambda>m.
       ''- '' @ get_text h m ''name'' ''?'' @ '' ('' @ get_text h m ''state'' ''?'' @ ''): ''
       @ (if jget m ''lag'' \<in> {JNull, JStr ''unknown''} then ''unknown'' else jstr (ht_str h) (jget m ''lag'') @ '' bytes'')) replicas)))"

definition round_even :: "rat \<Rightarrow> int" where
  "round_even x = (let f = \<lfloor>x\<rfloor>; r = x - of_int f in
     if r < 1/2 then f else if 1/2 < r then f + 1 else if even f then f else f + 1)"

definition fixed :: "nat \<Rightarrow> pyfloat \<Rightarrow> string" where
  \<comment> \<open>\<open>f"{x:.<n>f}"\<close>\<close>
  "fixed n x = (case x of
      Fin a \<Rightarrow> (let k = round_even (\<bar>a\<bar> * 10 ^ n); w = nat k div 10 ^ n; f = nat k mod 10 ^ n in
        (if a < 0 then ''-'' else []) @ nat_str w @ (if n = 0 then [] else ''.'' @ pad_left n (nat_str f)))
    | PInf \<Rightarrow> ''inf'' | NInf \<Rightarrow> ''-inf'' | NaN \<Rightarrow> ''nan'')"

definition format_metrics :: "(string \<times> pyfloat option \<times> string) list \<Rightarrow> string" where
  "format_metrics rows = lines_text (''Node metrics:'' # map (\<lambda>(label, v, unit). ''- '' @ label @ '': '' @ (case v of
      None \<Rightarrow> ''unavailable''
    | Some x \<Rightarrow> if unit = ''%'' then fixed 1 x @ ''%'' else if pf_le (Fin 10) x then fixed 0 x @ unit else fixed 2 x @ unit)) rows)"

definition cell :: "host_texts \<Rightarrow> json \<Rightarrow> string" where
  "cell h v = take 200 (replace [newline] '' '' (jstr (ht_str h) v))"

definition format_query_result :: "host_texts \<Rightarrow> json dict \<Rightarrow> string" where
  \<comment> \<open>on the results of \<open>query\<close> and \<open>execute\<close>, whose rows are lists\<close>
  "format_query_result h r =
     (let columns = (case jget r ''columns'' of JList cs \<Rightarrow> cs | _ \<Rightarrow> []); rows = (case jget r ''rows'' of JList rs \<Rightarrow> rs | _ \<Rightarrow> []);
          items = (\<lambda>v. case v of JList vs \<Rightarrow> vs | _ \<Rightarrow> []) in
      if truthy (jget r ''status'') \<and> columns = [] then jstr (ht_str h) (jget r ''status'')
      else if columns = [] then ''No row output.''
      else let ls = join '' | '' (map (jstr (ht_str h)) columns) # join '' | '' (map (\<lambda>_. ''---'') columns)
              # map (\<lambda>row. join '' | '' (map (cell h) (items row))) rows
              @ (if truthy (jget r ''truncated'') then [''... truncated at '' @ nat_str (length rows) @ '' rows''] else []) in
        replicate 3 tick @ [newline] @ lines_text (take 80 ls) @ [newline] @ replicate 3 tick)"

definition format_staged :: "host_texts \<Rightarrow> json dict \<Rightarrow> string" where
  "format_staged h r = (if truthy (jget r ''confirmation_required'')
     then lines_text [''SQL staged but not executed.'', ''Reply `'' @ jstr (ht_str h) (jget r ''confirm_with'') @ ''` within 15 minutes to apply it.'',
       ''Statement: `'' @ jstr (ht_str h) (jget r ''sql'') @ ''`'']
     else format_query_result h r)"

section \<open>Staging and confirming\<close>

definition stage_pending :: "string \<Rightarrow> string \<Rightarrow> string \<Rightarrow> string pg_prog" where
  \<comment> \<open>a fresh token, the time, and the entry of the sender\<close>
  "stage_pending sender sql kind =
     bindP new_token (\<lambda>token. bindP read_clock (\<lambda>now.
     bindP (perform (SetPending sender \<lparr>pe_token = token, pe_sql = sql, pe_created_at = now, pe_kind = kind\<rparr>)) (\<lambda>_. Ret token)))"

definition stage_execution :: "pg_settings \<Rightarrow> string \<Rightarrow> string \<Rightarrow> json dict pg_prog" where
  "stage_execution st sender raw =
     (let sql = strip raw in
      bindP (liftP (guard_that (sql \<noteq> []) (ValueError ''empty SQL''))) (\<lambda>_.
      if confirm_writes st
      then bindP (stage_pending sender sql ''sql'') (\<lambda>token.
        Ret [(''ok'', JBool False), (''confirmation_required'', JBool True), (''confirm_with'', JStr (''confirm '' @ token)), (''sql'', JStr sql)])
      else bindP (db_execute st sql) (\<lambda>r. Ret ((''confirmation_required'', JBool False) # r))))"

definition confirm :: "host_texts \<Rightarrow> pg_settings \<Rightarrow> string \<Rightarrow> string \<Rightarrow> string pg_prog" where
  "confirm h st sender token =
     bindP (get_pending sender) (\<lambda>found.
     case found of
       None \<Rightarrow> Ret ''No matching pending action for that confirmation token.''
     | Some p \<Rightarrow>
        (if pe_token p \<noteq> token then Ret ''No matching pending action for that confirmation token.''
         else bindP read_clock (\<lambda>now.
           if usec 900 < now - pe_created_at p
           then bindP (perform (PopPending sender)) (\<lambda>_. Ret ''That pending action expired. Stage it again if still needed.'')
           else bindP (perform (PopPending sender)) (\<lambda>_.
             if pe_kind p = ''switchover''
             then bindP (patroni_switchover st (pe_sql p)) (\<lambda>outcome.
               bindP (patroni_cluster st) (\<lambda>cluster. bindP (liftP (format_pgha_cluster h cluster)) (\<lambda>t.
               Ret (''Switchover requested: '' @ outcome @ [newline] @ t))))
             else bindP (db_execute st (pe_sql p)) (\<lambda>r. Ret (''Executed.'' @ [newline] @ format_query_result h r))))))"

section \<open>The model\<close>

definition function_tool :: "string \<Rightarrow> string \<Rightarrow> string list \<Rightarrow> json" where
  \<comment> \<open>a tool whose parameters are required texts\<close>
  "function_tool name description required = JObj [(''type'', JStr ''function''), (''function'', JObj [(''name'', JStr name),
     (''description'', JStr description), (''parameters'', JObj ([(''type'', JStr ''object''),
       (''properties'', JObj (map (\<lambda>k. (k, JObj [(''type'', JStr ''string'')])) required))]
       @ (if required = [] then [] else [(''required'', JList (map JStr required))])
       @ [(''additionalProperties'', JBool False)]))])]"

definition pg_tools :: "pg_settings \<Rightarrow> json list" where
  "pg_tools st =
     (if patroni_url st = [] then [] else [function_tool ''pgha_cluster''
        ''Return the Patroni HA cluster topology: members, roles (leader/replica), states, timelines, and replication lag.'' []]) @
     [function_tool ''pg_status'' ''Return server version, current database, size, database list, and connection count.'' [],
      function_tool ''pg_query'' ''Run one read-only SQL statement and return up to the configured row limit.'' [''sql''],
      function_tool ''pg_execute'' ''Stage one write/admin SQL statement. The user must confirm the returned token before execution.'' [''sql''],
      function_tool ''query_metrics'' ''Run one instant PromQL query against the node-local Prometheus.'' [''promql'']]"

definition call_tool :: "host_texts \<Rightarrow> pg_settings \<Rightarrow> string \<Rightarrow> tool_call \<Rightarrow> json pg_prog" where
  "call_tool h st sender tc = catchP
     (bindP (liftP (tc_decoded tc)) (\<lambda>args.
      let name = tc_name tc; arg = (\<lambda>k. bindR (as_obj args) (\<lambda>d. Inr (jstr (ht_str h) (get_or d k (JStr []))))) in
      if name = ''pgha_cluster'' then
        (if patroni_url st = [] then Ret (JObj [(''ok'', JBool False), (''error'', JStr ''Patroni is not configured on this node'')])
         else bindP (patroni_cluster st) (\<lambda>c. bindP (liftP (case c of JObj d \<Rightarrow> Inr d | _ \<Rightarrow> Inl (TypeError ''object is not a mapping''))) (\<lambda>d.
           Ret (JObj (merge_obj [(''ok'', JBool True)] d)))))
      else if name = ''pg_status'' then db_status st
      else if name = ''pg_query'' then bindP (liftP (arg ''sql'')) (db_query st)
      else if name = ''pg_execute'' then bindP (liftP (arg ''sql'')) (\<lambda>sql. bindP (stage_execution st sender sql) (\<lambda>r. Ret (JObj r)))
      else if name = ''query_metrics'' then bindP (liftP (arg ''promql'')) (\<lambda>q. bindP (metrics_query h st q) (\<lambda>r. Ret (JObj r)))
      else Ret (JObj [(''ok'', JBool False), (''error'', JStr (''unknown tool: '' @ name))])))
     (\<lambda>e. if is_exit e then Raise e else Ret (failed_tool e))"

fun llm_rounds :: "nat \<Rightarrow> host_texts \<Rightarrow> pg_settings \<Rightarrow> string \<Rightarrow> json list \<Rightarrow> string pg_prog" where
  "llm_rounds 0 h st sender messages = Ret ''I hit the tool-step limit before finishing. Please narrow the request.''"
| "llm_rounds (Suc n) h st sender messages =
     bindP (awaited True (ask_model messages)) (\<lambda>(content, calls).
     if calls = [] then Ret (let t = strip (case content of Some c \<Rightarrow> c | None \<Rightarrow> []) in if t = [] then ''No response.'' else t)
     else bindP (mapP (\<lambda>tc. bindP (awaited True (call_tool h st sender tc)) (\<lambda>r. Ret (tool_message h tc r))) calls) (\<lambda>results.
       llm_rounds n h st sender (messages @ [assistant_message content calls] @ results)))"

definition system_prompt :: "pg_settings \<Rightarrow> string" where
  "system_prompt st =
     (if patroni_url st \<noteq> [] then
        ''You are a PostgreSQL administrative agent for one node of a Patroni-managed HA cluster on the AttestMesh wireguard mesh. '' @
        ''You may inspect database status, the Patroni cluster topology (pgha_cluster), run read-only SQL, and inspect bounded machine metrics. '' @
        ''Failover is automatic; a manual switchover requires the human to run `!pgha switchover` and confirm a token -- you cannot do it. ''
      else ''You are a PostgreSQL administrative agent for one standalone Postgres instance. '' @
        ''You may inspect database status, run read-only SQL, and inspect bounded machine metrics. '') @
     ''For writes or admin SQL, call pg_execute; the runtime will stage the statement and require an explicit confirmation token before it is applied. '' @
     ''Never reveal secrets, passwords, DSNs, tokens, or password hashes. Keep answers concise and include relevant query output.''"

definition llm_handle :: "host_texts \<Rightarrow> pg_settings \<Rightarrow> string \<Rightarrow> string \<Rightarrow> string pg_prog" where
  "llm_handle h st sender body =
     (if \<not> llm_enabled st then Ret ''LLM is not configured. Use `!pg status`, `!pg query <SQL>`, or `!pg exec <SQL>`.''
      else llm_rounds 5 h st sender [JObj [(''role'', JStr ''system''), (''content'', JStr (system_prompt st))],
        JObj [(''role'', JStr ''user''), (''content'', JStr body)]])"

section \<open>Messages\<close>

definition help_text :: "pg_settings \<Rightarrow> string" where
  "help_text st = ''Commands: `!pg status`, `!pg metrics`, `!pg query <read-only SQL>`, `!pg exec <SQL>`, then `confirm <token>` for staged writes/admin SQL.''
     @ (if patroni_url st = [] then [] else [newline] @
        ''HA: `!pgha status` (cluster topology), `!pgha lag` (replication lag), `!pgha switchover [candidate]` (staged; requires `confirm <token>`).'')"

definition switchover_candidate :: "string \<Rightarrow> string" where
  \<comment> \<open>\<open>re.split(r"(?i)switchover", body, maxsplit=1)\<close>\<close>
  "switchover_candidate body = (case search (ilit ''switchover'') body of Some (i, j, _) \<Rightarrow> strip (drop j body) | None \<Rightarrow> [])"

definition stage_switchover :: "pg_settings \<Rightarrow> string \<Rightarrow> string \<Rightarrow> string pg_prog" where
  "stage_switchover st sender body =
     (if patroni_url st = [] then Ret ''Patroni is not configured on this node.''
      else let candidate = switchover_candidate body in
        bindP (stage_pending sender candidate ''switchover'') (\<lambda>token.
        Ret (lines_text [''Switchover '' @ (if candidate = [] then ''to the healthiest replica'' else ''to `'' @ candidate @ ''`'') @ '' staged but not executed.'',
          ''Reply `confirm '' @ token @ ''` within 15 minutes to apply it.''])))"

definition on_timeout :: "string \<Rightarrow> exc \<Rightarrow> string pg_prog" where
  "on_timeout m e = (if exc_name e = ''TimeoutError'' then Ret m else Raise e)"

definition handle_message :: "host_texts \<Rightarrow> pg_settings \<Rightarrow> string \<Rightarrow> string \<Rightarrow> string pg_prog" where
  "handle_message h st sender body =
     (case confirm_token body of
        Some token \<Rightarrow> awaited False (confirm h st sender token)
      | None \<Rightarrow>
         (let lowered = lower body in
          if lowered \<in> set [''!pg help'', ''pg help'', ''!pgha help'', ''pgha help''] then Ret (help_text st)
          else if lowered \<in> set [''!pgha status'', ''pgha status'', ''!pgha cluster'', ''pgha cluster'']
          then bindP (awaited False (patroni_cluster st)) (\<lambda>c. liftP (format_pgha_cluster h c))
          else if lowered \<in> set [''!pgha lag'', ''pgha lag'']
          then bindP (awaited False (patroni_cluster st)) (\<lambda>c. liftP (format_pgha_lag h c))
          else if startswith lowered ''!pgha switchover'' \<or> startswith lowered ''pgha switchover'' then stage_switchover st sender body
          else if lowered \<in> set [''!pg status'', ''pg status''] then bindP (awaited False (db_status st)) (\<lambda>v. liftP (format_status h v))
          else if lowered \<in> set [''!pg metrics'', ''pg metrics'']
          then catchP (bindP (awaited True (metrics_summary h st)) (\<lambda>rows. Ret (format_metrics rows)))
            (on_timeout ''Node metrics are unavailable: Prometheus query timed out.'')
          else if startswith lowered ''!pg query '' then bindP (awaited False (db_query st (drop 10 body))) (\<lambda>r. Ret (format_query_result h (members r)))
          else if startswith lowered ''!pg exec '' then bindP (stage_execution st sender (drop 9 body)) (\<lambda>r. Ret (format_staged h r))
          else catchP (llm_handle h st sender body)
            (on_timeout ''The LLM request timed out. Direct commands like `!pg status` still work.'')))"

definition known_secret :: "string \<Rightarrow> string list pg_prog" where
  "known_secret file = (if file = [] then Ret [] else catchP (bindP (read_secret_file file) (\<lambda>s. Ret [s])) (\<lambda>e. Ret []))"

definition redact :: "pg_settings \<Rightarrow> string \<Rightarrow> string pg_prog" where
  "redact st t =
     bindP (known_secret (pg_password_file st)) (\<lambda>a.
     bindP (known_secret (patroni_password_file st)) (\<lambda>b.
     Ret (redact_with ([pg_dsn st, matrix_password st, llm_api_key st] @ a @ b) t)))"

definition send_reply :: "pg_settings \<Rightarrow> string \<Rightarrow> unit pg_prog" where
  "send_reply st body = bindP (redact st body) (\<lambda>t. perform (RoomSend (matrix_text_content t)))"

definition ignoring :: "unit pg_prog \<Rightarrow> unit pg_prog" where
  "ignoring p = catchP p (\<lambda>e. Ret ())"

definition process_message :: "host_texts \<Rightarrow> pg_settings \<Rightarrow> string \<Rightarrow> string \<Rightarrow> string \<Rightarrow> unit pg_prog" where
  "process_message h st sender body event_id =
     bindP (ignoring (bindP (perform (ReadMarkers event_id)) (\<lambda>_. perform (Typing True)))) (\<lambda>_.
     bindP (catchP (handle_message h st sender body) (\<lambda>e.
        if e = cancelled_error \<or> exc_name e = ''TimeoutError'' then Ret ''Postgres admin error: request timed out.''
        else Ret (''Postgres admin error: '' @ exc_name e @ '': '' @ exc_text e))) (\<lambda>reply.
     bindP (ignoring (perform (Typing False))) (\<lambda>_.
     send_reply st reply)))"

definition on_message :: "host_texts \<Rightarrow> pg_settings \<Rightarrow> room_event \<Rightarrow> unit pg_prog option" where
  \<comment> \<open>the task that the event starts, if it starts one\<close>
  "on_message h st ev =
     (if ev_room_id ev \<noteq> matrix_room_id st then None
      else if ev_sender ev = matrix_user_id st then None
      else if matrix_admin_mxids st \<noteq> [] \<and> ev_sender ev \<notin> set (matrix_admin_mxids st) then None
      else map_option (\<lambda>body. process_message h st (ev_sender ev) body (ev_event_id ev)) (activated st ''!pg help'' ev))"

section \<open>Start and health\<close>

record runtime_state =
  \<comment> \<open>the times of the last message and of the last reply, which nothing reads, are left out\<close>
  rt_started_at :: instant
  rt_matrix_logged_in :: bool
  rt_room_joined :: bool
  rt_last_error :: string

definition note_errors :: "(int \<times> string) list \<Rightarrow> runtime_state \<Rightarrow> runtime_state" where
  "note_errors ds s = (if ds = [] then s else s\<lparr>rt_last_error := snd (last ds)\<rparr>)"

definition bot_run :: "pg_settings \<Rightarrow> matrix_reply list \<Rightarrow> matrix_reply list \<Rightarrow> runtime_state \<Rightarrow> runtime_state \<times> string list result option" where
  \<comment> \<open>until the agent listens: the texts it then announces, an exception, or \<open>None\<close> while it still retries\<close>
  "bot_run st logins joins s0 =
     (case login_with_retry logins of (ds, out) \<Rightarrow>
      let s1 = note_errors ds s0 in
      case out of
        None \<Rightarrow> (s1, None)
      | Some (Inl e) \<Rightarrow> (s1, Some (Inl e))
      | Some (Inr _) \<Rightarrow>
         (let s2 = s1\<lparr>rt_matrix_logged_in := True\<rparr> in
          case join_with_retry joins of (ds', out') \<Rightarrow>
          let s3 = note_errors ds' s2 in
          case out' of
            None \<Rightarrow> (s3, None)
          | Some (Inl e) \<Rightarrow> (s3, Some (Inl e))
          | Some (Inr _) \<Rightarrow> (s3\<lparr>rt_room_joined := True\<rparr>,
              Some (Inr (if announce_on_start st then [''Postgres admin agent online. Use `!pg status` or ask a database question.''] else [])))))"

definition health_reply :: "pg_settings \<Rightarrow> runtime_state \<Rightarrow> string \<Rightarrow> bool \<Rightarrow> instant \<Rightarrow> int \<times> json option" where
  \<comment> \<open>status and payload for a request line; \<open>db_ok\<close> is the result of \<open>ping\<close>\<close>
  "health_reply st s line db_ok now =
     (if request_path line \<noteq> ''/healthz'' then (404, None)
      else let ok = db_ok \<and> rt_matrix_logged_in s \<and> rt_room_joined s; up = now - rt_started_at s in
        (if ok then 200 else 503, Some (JObj [(''status'', JStr (if ok then ''ok'' else ''starting'')), (''db_ok'', JBool db_ok),
          (''matrix_logged_in'', JBool (rt_matrix_logged_in s)), (''room_joined'', JBool (rt_room_joined s)),
          (''llm_configured'', JBool (llm_enabled st)), (''metrics_configured'', JBool (prometheus_url st \<noteq> [])),
          (''patroni_configured'', JBool (patroni_url st \<noteq> [])),
          (''uptime_s'', JInt (if 0 \<le> up then up div usec 1 else - ((- up) div usec 1))),
          (''last_error'', JStr (rt_last_error s))])))"

end
