(* ===== verification/Pg_Props.thy ===== *)
theory Pg_Props
  imports Pg_Bot
begin

text \<open>
  What the Postgres admin agent does to the database and to the cluster, with all messages handled in parallel:
  statements that were not checked as read-only run only after a confirmation that matches a statement staged by the
  same sender, and only within its fifteen minutes. The staged entries are shared by the threads; the threads interleave
  between any two operations.
\<close>

section \<open>Single programs\<close>

named_theorems only_rules \<open>one lemma per program: it performs only operations of a kind\<close>

definition checked_query :: "string \<Rightarrow> bool" where
  "checked_query q = (clean_sql q = Inr q \<and> is_read_only q \<and> search SECRET_WORDS q = None)"

definition fixed_sql :: "pg_settings \<Rightarrow> string \<Rightarrow> bool" where
  "fixed_sql st q = (q \<in> set (map snd STATUS_SQL) \<or> q = ''SET statement_timeout = '' @ int_str (max 1 (min 300000 (statement_timeout_ms st))))"

definition plain_op :: "pg_settings \<Rightarrow> string \<Rightarrow> pg_op \<Rightarrow> bool" where
  \<comment> \<open>what a handler may do without a confirmation\<close>
  "plain_op st sender op = (case op of Sql q \<Rightarrow> fixed_sql st q \<or> checked_query q | PostSwitchover _ _ _ \<Rightarrow> False
     | SetPending s p \<Rightarrow> s = sender | PopPending _ \<Rightarrow> False | GetPending _ \<Rightarrow> False | RoomSend _ \<Rightarrow> False | Ask _ \<Rightarrow> False | _ \<Rightarrow> True)"

lemma plain_simps [simp]:
  "plain_op st sender Connect" "plain_op st sender FetchOne" "plain_op st sender (FetchMany n)" "plain_op st sender (HttpGet u)"
  "plain_op st sender (ReadSecret f)" "plain_op st sender ReadClock" "plain_op st sender NewToken"
  "plain_op st sender (CheckDeadline b)" "plain_op st sender (ReadMarkers e)" "plain_op st sender (Typing b)"
  "plain_op st sender (SetPending s p) = (s = sender)"
  "plain_op st sender (Sql q) = (fixed_sql st q \<or> checked_query q)"
  by (simp_all add: plain_op_def)

lemma only_perform [only_rules]: "P op \<Longrightarrow> only pg_fits P (perform op)"
  by (auto simp: perform_def split: pg_answer.splits)

lemma only_sql [only_rules]: "P (Sql q) \<Longrightarrow> only pg_fits P (sql_stmt q)"
  by (auto simp: sql_stmt_def split: pg_answer.splits)

lemma only_fetch_many [only_rules]: "P (FetchMany n) \<Longrightarrow> only pg_fits P (fetch_many n)"
  by (auto simp: fetch_many_def split: pg_answer.splits)

lemma only_http_get [only_rules]: "P (HttpGet u) \<Longrightarrow> only pg_fits P (http_get u)"
  by (auto simp: http_get_def split: pg_answer.splits)

lemma only_read_clock [only_rules]: "P ReadClock \<Longrightarrow> only pg_fits P read_clock"
  by (auto simp: read_clock_def split: pg_answer.splits)

lemma only_new_token [only_rules]: "P NewToken \<Longrightarrow> only pg_fits P new_token"
  by (auto simp: new_token_def split: pg_answer.splits)

lemma only_ask [only_rules]: "P (Ask ms) \<Longrightarrow> only pg_fits P (ask_model ms)"
  by (auto simp: ask_model_def split: pg_answer.splits)

lemma only_deadline [only_rules]: "P (CheckDeadline b) \<Longrightarrow> only pg_fits P (check_deadline b)"
  by (auto simp: check_deadline_def split: pg_answer.splits deadline.splits)

lemma only_secret [only_rules]: "P (ReadSecret f) \<Longrightarrow> only pg_fits P (read_secret_file f)"
  by (auto simp: read_secret_file_def split: pg_answer.splits)

lemma only_fetch_value [only_rules]: "P FetchOne \<Longrightarrow> only pg_fits P fetch_value"
  by (auto simp: fetch_value_def split: pg_answer.splits option.splits)

lemma only_awaited [only_rules]: "only pg_fits P p \<Longrightarrow> P (CheckDeadline b) \<Longrightarrow> only pg_fits P (awaited b p)"
  unfolding awaited_def by (intro only_bind only_catch only_deadline) simp_all

lemma only_connect [only_rules]: "only pg_fits (plain_op st sender) (db_connect st)"
  unfolding db_connect_def by (auto intro!: only_bind only_rules simp: fixed_sql_def)

lemma fixed_status: "(key, q) \<in> set STATUS_SQL \<Longrightarrow> fixed_sql st q"
  unfolding fixed_sql_def by (simp add: image_iff) force

lemma only_status [only_rules]: "only pg_fits (plain_op st sender) (db_status st)"
  unfolding db_status_def by (intro only_bind only_mapP only_connect) (auto intro!: only_bind only_rules simp: fixed_status)

lemma clean_sql_Inr:
  assumes "clean_sql s = Inr q"
  shows "q \<noteq> [] \<and> CHR '';'' \<notin> set q \<and> stripped q"
  using assms by (auto simp: clean_sql_def Let_def split: if_splits)

lemma clean_sql_stable:
  assumes "clean_sql s = Inr q"
  shows "clean_sql q = Inr q"
proof -
  have q: "q \<noteq> []" "CHR '';'' \<notin> set q" "strip q = q"
    using clean_sql_Inr [OF assms] strip_stripped by auto
  have "set p \<subseteq> set q" if e: "endswith q p" for p
  proof -
    obtain r where "rev q = rev p @ r"
      using e unfolding endswith_def startswith_iff by blast
    then have "set (rev p) \<subseteq> set (rev q)"
      by simp
    then show ?thesis
      by simp
  qed
  then have "\<not> endswith q '';''"
    using q(2) by fastforce
  then show ?thesis
    using q by (simp add: clean_sql_def)
qed

lemma only_query [only_rules]: "only pg_fits (plain_op st sender) (db_query st q)"
  unfolding db_query_def Let_def
  by (intro only_lift_bind only_bind only_connect)
    (auto intro!: only_bind only_rules simp: checked_query_def clean_sql_stable split: prod.splits)

lemma only_metrics [only_rules]: "only pg_fits (plain_op st sender) (metrics_query h st q)"
  unfolding metrics_query_def Let_def by (intro only_bind only_http_get) (auto intro!: only_bind only_rules)

lemma only_summary [only_rules]: "only pg_fits (plain_op st sender) (metrics_summary h st)"
  unfolding metrics_summary_def by (intro only_mapP) (auto intro!: only_bind only_catch only_metrics)

lemma only_cluster [only_rules]: "only pg_fits (plain_op st sender) (patroni_cluster st)"
  unfolding patroni_cluster_def by (intro only_bind only_http_get) auto

lemma only_stage_pending [only_rules]: "only pg_fits (plain_op st sender) (stage_pending sender sql kind)"
  unfolding stage_pending_def by (intro only_bind only_rules) auto

lemma only_stage [only_rules]: "confirm_writes st \<Longrightarrow> only pg_fits (plain_op st sender) (stage_execution st sender sql)"
  unfolding stage_execution_def Let_def by (auto intro!: only_bind only_stage_pending)

lemma only_tool [only_rules]: "confirm_writes st \<Longrightarrow> only pg_fits (plain_op st sender) (call_tool h st sender tc)"
  unfolding call_tool_def Let_def by (intro only_catch only_bind) (auto intro!: only_bind only_rules)

lemma only_timeout [only_rules]: "only pg_fits P (on_timeout m e)"
  by (simp add: on_timeout_def)

lemma only_stage_switchover [only_rules]: "only pg_fits (plain_op st sender) (stage_switchover st sender body)"
  unfolding stage_switchover_def Let_def by (intro only_if only_bind only_rules) simp_all

section \<open>Redacted text\<close>

definition secrets_read :: "(pg_op \<times> pg_answer) list \<Rightarrow> string set" where
  "secrets_read u = {strip a |f a. (ReadSecret f, Reply a) \<in> set u}"

lemma secrets_read_append [simp]: "secrets_read (u @ v) = secrets_read u \<union> secrets_read v"
  by (auto simp: secrets_read_def)

definition files_read :: "string list \<Rightarrow> (pg_op \<times> pg_answer) list \<Rightarrow> bool" where
  "files_read fs u = (\<forall>f \<in> set fs. f \<noteq> [] \<longrightarrow> ReadSecret f \<in> fst ` set u)"

definition clean_of :: "pg_settings \<Rightarrow> (pg_op \<times> pg_answer) list \<Rightarrow> string \<Rightarrow> bool" where
  \<comment> \<open>no secret of the settings, nor any that was read from a file, is in the text\<close>
  "clean_of st u t = (\<forall>s \<in> {pg_dsn st, matrix_password st, llm_api_key st} \<union> secrets_read u. redactable s \<longrightarrow> \<not> contains t s)"

section \<open>Confirmations\<close>

definition confirmed :: "string \<Rightarrow> string \<Rightarrow> (pg_op \<times> pg_answer) list \<Rightarrow> pending_execution \<Rightarrow> bool" where
  \<comment> \<open>the message of the sender confirms this entry, in time\<close>
  "confirmed sender body tr p = (confirm_token body = Some (pe_token p) \<and> (GetPending sender, Found (Some p)) \<in> set tr
     \<and> (\<exists>now. (ReadClock, Clock now) \<in> set tr \<and> now - pe_created_at p \<le> usec 900))"

definition asks :: "(pg_op \<times> pg_answer) list \<Rightarrow> nat" where
  "asks tr = length (filter (\<lambda>e. case fst e of Ask _ \<Rightarrow> True | _ \<Rightarrow> False) tr)"

definition message_ok :: "pg_settings \<Rightarrow> string \<Rightarrow> string \<Rightarrow> (pg_op \<times> pg_answer) list \<Rightarrow> pg_op \<Rightarrow> bool" where
  "message_ok st sender body tr op = (case op of
      Sql q \<Rightarrow> fixed_sql st q \<or> checked_query q
        \<or> (\<exists>p. confirmed sender body tr p \<and> pe_kind p \<noteq> ''switchover'' \<and> clean_sql (pe_sql p) = Inr q \<and> search SECRET_WORDS q = None)
    | PostSwitchover url payload auth \<Rightarrow> (\<exists>p. confirmed sender body tr p \<and> pe_kind p = ''switchover''
        \<and> jget (members payload) ''candidate'' = (if pe_sql p = [] then JNull else JStr (pe_sql p)))
    | SetPending s p \<Rightarrow> s = sender
    | PopPending s \<Rightarrow> s = sender
    | GetPending s \<Rightarrow> s = sender
    | RoomSend c \<Rightarrow> (\<exists>t u v. tr = u @ v \<and> c = matrix_text_content t \<and> clean_of st v t
        \<and> files_read [pg_password_file st, patroni_password_file st] v)
    | Ask ms \<Rightarrow> asks tr < 5
    | _ \<Rightarrow> True)"

lemma plain_message_ok: "plain_op st sender op \<Longrightarrow> message_ok st sender body tr op"
  by (auto simp: plain_op_def message_ok_def split: pg_op.splits)

abbreviation okay :: "pg_settings \<Rightarrow> string \<Rightarrow> string \<Rightarrow> 'r pg_prog \<Rightarrow> (pg_op \<times> pg_answer) list \<Rightarrow> bool" where
  "okay st sender body p tr \<equiv> wp pg_fits (message_ok st sender body) p tr (\<lambda>_ _. True) (\<lambda>_ _. True)"

lemma only_okay:
  assumes "only pg_fits (plain_op st sender) p"
  shows "okay st sender body p tr"
  by (rule wp_weaken [OF only_wp [OF assms]]) (auto intro: plain_message_ok)

lemma confirmed_append [simp]: "confirmed sender body tr p \<Longrightarrow> confirmed sender body (tr @ u) p"
  by (auto simp: confirmed_def)

lemma okay_execute:
  assumes "confirmed sender body tr p" "pe_kind p \<noteq> ''switchover''"
  shows "okay st sender body (db_execute st (pe_sql p)) tr"
proof -
  have q: "okay st sender body (sql_stmt q) tr'" if "clean_sql (pe_sql p) = Inr q" "search SECRET_WORDS q = None" "confirmed sender body tr' p" for q tr'
    using that assms(2) unfolding sql_stmt_def by (auto simp: message_ok_def split: pg_answer.splits)
  have rest: "only pg_fits (plain_op st sender) (case d of (described, status) \<Rightarrow>
      let columns = (case described of Some cs \<Rightarrow> cs | None \<Rightarrow> []) in
      bindP (if columns = [] then Ret [] else fetch_many (row_limit st + 1)) (\<lambda>rows.
      Ret ([(''ok'', JBool True), (''status'', case status of Some m \<Rightarrow> JStr m | None \<Rightarrow> JNull)] @ row_members st columns rows)))" for d
    by (cases d) (auto simp: Let_def intro!: only_bind only_rules)
  show ?thesis
    unfolding db_execute_def
    by (intro wp_lift_seq wp_seq only_okay [OF only_connect] only_okay [OF rest] q) (use assms(1) in auto)
qed

lemma okay_switchover:
  assumes "confirmed sender body tr p" "pe_kind p = ''switchover''"
  shows "okay st sender body (patroni_switchover st (pe_sql p)) tr"
proof -
  have post: "okay st sender body (Do (PostSwitchover u (JObj ((''leader'', l) # (if pe_sql p = [] then [] else [(''candidate'', JStr (pe_sql p))]))) auth) (\<lambda>a.
       case a of
         Fails e \<Rightarrow> Raise e
       | Reply t \<Rightarrow> Ret (if strip t = [] then ''Switchover accepted.'' else strip t)
       | HttpFailure status detail \<Rightarrow> Raise (ValueError (''Patroni switchover failed: HTTP '' @ int_str status @ '': '' @ take 300 detail))
       | _ \<Rightarrow> Raise misfit)) tr'" if "confirmed sender body tr' p" for u l auth tr'
    using that assms(2) by (auto simp: message_ok_def members_def get_or_def split: pg_answer.splits)
  show ?thesis
    unfolding patroni_switchover_def Let_def
    by (intro wp_lift_seq wp_seq only_okay [OF only_cluster] only_okay [OF only_secret] post) (use assms(1) in auto)
qed

lemma okay_confirm:
  assumes "confirm_token body = Some token"
  shows "okay st sender body (confirm h st sender token) tr"
proof -
  define show_result :: "json dict \<Rightarrow> string pg_prog" where
    "show_result r = Ret (''Executed.'' @ [newline] @ format_query_result h r)" for r
  define show_cluster :: "string \<Rightarrow> string pg_prog" where
    "show_cluster outcome = bindP (patroni_cluster st) (\<lambda>cluster. bindP (liftP (format_pgha_cluster h cluster)) (\<lambda>t.
               Ret (''Switchover requested: '' @ outcome @ [newline] @ t)))" for outcome
  have sc: "okay st sender body (show_cluster r) tr" for r tr
    unfolding show_cluster_def by (intro only_okay only_bind only_cluster) auto
  have exec: "okay st sender body (bindP (db_execute st (pe_sql p)) show_result) tr"
    if "confirmed sender body tr p" "pe_kind p \<noteq> ''switchover''" for p tr
    by (intro wp_seq okay_execute that) (simp add: show_result_def)
  have switch: "okay st sender body (bindP (patroni_switchover st (pe_sql p)) show_cluster) tr"
    if "confirmed sender body tr p" "pe_kind p = ''switchover''" for p tr
    by (intro wp_seq okay_switchover that sc)
  have conf: "confirmed sender body (tr @ [(GetPending sender, Found (Some p)), (ReadClock, Clock now), (PopPending sender, Finished)]) p"
    if "token = pe_token p" "\<not> usec 900 < now - pe_created_at p" for p now
    using that assms unfolding confirmed_def by auto
  show ?thesis
    unfolding confirm_def get_pending_def read_clock_def perform_def show_result_def [symmetric] show_cluster_def [symmetric]
    by (auto simp: message_ok_def pg_fits_def simp del: wp_bind split: pg_answer.splits option.splits intro!: exec switch conf)
qed

section \<open>Messages\<close>

lemma okay_awaited: "okay st sender body p tr \<Longrightarrow> okay st sender body (awaited b p) tr"
  unfolding awaited_def
  by (intro wp_seq wp_handle) (auto intro!: only_okay only_bind only_rules)

lemma asks_append [simp]: "asks (tr @ u) = asks tr + asks u" "asks [] = 0"
  by (simp_all add: asks_def)

lemma plain_asks:
  assumes "only pg_fits (plain_op st sender) p"
  shows "wp pg_fits (message_ok st sender body) p tr (\<lambda>tr' _. asks tr' = asks tr) (\<lambda>tr' _. asks tr' = asks tr)"
  using assms
proof (induction p arbitrary: tr)
  case (Do op k)
  have same: "asks (tr @ [(op, a)]) = asks tr" for a
    using Do.prems by (auto simp: asks_def plain_op_def split: pg_op.splits)
  have "wp pg_fits (message_ok st sender body) (k a) (tr @ [(op, a)]) (\<lambda>tr' _. asks tr' = asks tr) (\<lambda>tr' _. asks tr' = asks tr)"
    if "pg_fits op a" for a
    using Do.IH [of "k a" "tr @ [(op, a)]"] Do.prems that unfolding same by simp
  then show ?case
    using Do.prems by (simp add: plain_message_ok)
qed simp_all

lemma okay_rounds:
  assumes "confirm_writes st" "asks tr + n \<le> 5"
  shows "okay st sender body (llm_rounds n h st sender ms) tr"
  using assms(2)
proof (induction n arbitrary: ms tr)
  case (Suc n)
  define tools where "tools calls = mapP (\<lambda>tc. bindP (awaited True (call_tool h st sender tc)) (\<lambda>r. Ret (tool_message h tc r))) calls" for calls
  define next_round where "next_round = (\<lambda>(content, calls).
     if calls = [] then Ret (let t = strip (case content of Some c \<Rightarrow> c | None \<Rightarrow> []) in if t = [] then ''No response.'' else t)
     else bindP (tools calls) (\<lambda>results. llm_rounds n h st sender (ms @ [assistant_message content calls] @ results)))"
  have step: "llm_rounds (Suc n) h st sender ms = bindP (awaited True (ask_model ms)) next_round"
    unfolding llm_rounds.simps(2) next_round_def tools_def by (rule refl)
  have t: "only pg_fits (plain_op st sender) (tools calls)" for calls
    unfolding tools_def by (intro only_mapP only_bind only_awaited only_tool assms(1)) simp_all
  have after: "okay st sender body (next_round x) tr'" if a: "asks tr' = Suc (asks tr)" for x tr'
  proof -
    have "wp pg_fits (message_ok st sender body) (tools calls) tr'
        (\<lambda>tr2 results. okay st sender body (llm_rounds n h st sender (ms @ [assistant_message content calls] @ results)) tr2) (\<lambda>_ _. True)"
      for content calls
      by (rule wp_mono [OF plain_asks [OF t]]) (use a Suc.prems in \<open>simp_all add: Suc.IH\<close>)
    then show ?thesis
      by (cases x) (simp add: next_round_def)
  qed
  have "wp pg_fits (message_ok st sender body) (awaited True (ask_model ms)) tr (\<lambda>tr' _. asks tr' = Suc (asks tr)) (\<lambda>_ _. True)"
    using Suc.prems unfolding awaited_def ask_model_def check_deadline_def
    by (auto simp: message_ok_def asks_def split: pg_answer.splits deadline.splits)
  then have "wp pg_fits (message_ok st sender body) (awaited True (ask_model ms)) tr (\<lambda>tr' x. okay st sender body (next_round x) tr') (\<lambda>_ _. True)"
    by (rule wp_mono) (simp_all add: after)
  then show ?case
    unfolding step wp_bind .
qed simp

lemma okay_llm: "confirm_writes st \<Longrightarrow> asks tr = 0 \<Longrightarrow> okay st sender body (llm_handle h st sender b) tr"
  unfolding llm_handle_def by (auto intro: okay_rounds)

lemma okay_if: "(c \<Longrightarrow> okay st sender body p tr) \<Longrightarrow> (\<not> c \<Longrightarrow> okay st sender body q tr) \<Longrightarrow> okay st sender body (if c then p else q) tr"
  by simp

lemma okay_handle:
  assumes "confirm_writes st" "asks tr = 0"
  shows "okay st sender body (handle_message h st sender body) tr"
proof (cases "confirm_token body")
  case None
  have llm: "okay st sender body (catchP (llm_handle h st sender body) (on_timeout m)) tr" for m
    using okay_llm [OF assms] only_okay [OF only_timeout] by (intro wp_handle)
  show ?thesis
    unfolding handle_message_def None option.case Let_def
    by (intro okay_if llm; rule only_okay; (intro only_bind only_catch only_rules assms(1))?; simp)
next
  case (Some token)
  then show ?thesis
    using okay_awaited [OF okay_confirm] by (simp add: handle_message_def)
qed

lemma known_secret_wp:
  assumes "\<And>tr x. ok tr (ReadSecret x)"
  shows "wp pg_fits ok (known_secret file) tr
    (\<lambda>tr' x. \<exists>u. tr' = tr @ u \<and> files_read [file] u \<and> secrets_read u \<subseteq> insert [] (set x)) (\<lambda>_ _. False)"
  using assms unfolding known_secret_def read_secret_file_def by (auto simp: secrets_read_def files_read_def split: pg_answer.splits)

lemma redact_clean:
  assumes "secrets_read u \<subseteq> insert [] (set a \<union> set b)"
  shows "clean_of st u (redact_with ([pg_dsn st, matrix_password st, llm_api_key st] @ a @ b) t)"
  unfolding clean_of_def
proof (intro ballI impI)
  fix s
  assume s: "s \<in> {pg_dsn st, matrix_password st, llm_api_key st} \<union> secrets_read u" "redactable s"
  then have "s \<in> set ([pg_dsn st, matrix_password st, llm_api_key st] @ a @ b)"
    using assms by (auto simp: redactable_def)
  then show "\<not> contains (redact_with ([pg_dsn st, matrix_password st, llm_api_key st] @ a @ b) t) s"
    using s(2) by (rule redact_removes)
qed

lemma redact_wp:
  assumes "\<And>tr x. ok tr (ReadSecret x)"
  shows "wp pg_fits ok (redact st t) tr
    (\<lambda>tr' t'. \<exists>u. tr' = tr @ u \<and> files_read [pg_password_file st, patroni_password_file st] u \<and> clean_of st u t') (\<lambda>_ _. False)"
proof -
  note known = known_secret_wp [where ok = ok]
  show ?thesis
    unfolding redact_def wp_bind
  proof (rule wp_mono [OF known], rule assms, rule wp_mono [OF known], rule assms, goal_cases)
    case (1 tr1 a tr2 b)
    then obtain u v where "tr1 = tr @ u" "files_read [pg_password_file st] u" "secrets_read u \<subseteq> insert [] (set a)"
      and "tr2 = tr1 @ v" "files_read [patroni_password_file st] v" "secrets_read v \<subseteq> insert [] (set b)"
      by blast
    moreover from this have "clean_of st (u @ v) (redact_with ([pg_dsn st, matrix_password st, llm_api_key st] @ a @ b) t)"
      by (intro redact_clean) auto
    ultimately show ?case
      unfolding wp.simps by (intro exI [of _ "u @ v"]) (auto simp: files_read_def)
  qed simp_all
qed

lemma okay_send: "okay st sender body (send_reply st t) tr"
  unfolding send_reply_def wp_bind
proof (rule wp_mono [OF redact_wp], goal_cases)
  case (2 tr' t')
  then show ?case
    by (auto simp: perform_def message_ok_def split: pg_answer.splits)
qed (auto simp: message_ok_def)

lemma okay_process:
  assumes "confirm_writes st"
  shows "okay st sender body (process_message h st sender body event_id) []"
proof -
  have i: "only pg_fits (plain_op st sender) (ignoring p)" if "only pg_fits (plain_op st sender) p" for p
    using that unfolding ignoring_def by (intro only_catch) simp_all
  have rest: "okay st sender body (bindP (catchP (handle_message h st sender body) (\<lambda>e.
        if e = cancelled_error \<or> exc_name e = ''TimeoutError'' then Ret ''Postgres admin error: request timed out.''
        else Ret (''Postgres admin error: '' @ exc_name e @ '': '' @ exc_text e))) (\<lambda>reply.
     bindP (ignoring (perform (Typing False))) (\<lambda>_. send_reply st reply))) tr" if "asks tr = 0" for tr
    by (intro wp_seq wp_handle only_okay [OF i] okay_send okay_handle [OF assms] only_rules that) simp_all
  have "only pg_fits (plain_op st sender) (ignoring (bindP (perform (ReadMarkers event_id)) (\<lambda>_. perform (Typing True))))"
    by (intro i only_bind only_rules) simp_all
  then show ?thesis
    unfolding process_message_def wp_bind [of _ _ "ignoring (bindP _ _)"]
    by (rule wp_mono [OF plain_asks]) (use rest in auto)
qed

section \<open>All messages in parallel\<close>

type_synonym pending_map = "(string \<times> pending_execution) list"

definition pg_next :: "pending_map \<Rightarrow> pg_op \<Rightarrow> pg_answer \<Rightarrow> pending_map option" where
  \<comment> \<open>the staged entries are the only state that the threads share\<close>
  "pg_next pend op a = (if pg_fits op a then (case op of
      SetPending s p \<Rightarrow> Some (AList.update s p pend)
    | PopPending s \<Rightarrow> Some (AList.delete s pend)
    | GetPending s \<Rightarrow> (if a = Found (map_of pend s) then Some pend else None)
    | _ \<Rightarrow> Some pend) else None)"

abbreviation pg_reach :: "host_texts \<Rightarrow> pg_settings \<Rightarrow> (pending_map, room_event, pg_op, pg_answer, unit) par \<Rightarrow> bool" where
  "pg_reach h st \<equiv> reach (par_init (\<lambda>s. s = [])) (par_step (\<lambda>s op a s'. pg_next s op a = Some s') (\<lambda>ev p. on_message h st ev = Some p))"

definition staged_before :: "pending_map \<Rightarrow> (nat \<times> pg_op \<times> pg_answer) list \<Rightarrow> bool" where
  "staged_before pend lg = ((\<forall>s p. map_of pend s = Some p \<longrightarrow> (\<exists>j. (j, SetPending s p, Finished) \<in> set lg))
     \<and> (\<forall>before i s p rest. lg = before @ (i, GetPending s, Found (Some p)) # rest \<longrightarrow> (\<exists>j. (j, SetPending s p, Finished) \<in> set before)))"

lemma staged_step:
  assumes "staged_before pend lg" "pg_next pend op a = Some pend'"
  shows "staged_before pend' (lg @ [(i, op, a)])"
  unfolding staged_before_def
proof (intro conjI allI impI)
  have fin: "a = Finished" if "op = SetPending s p" for s p
    using assms(2) that by (auto simp: pg_next_def pg_fits_def may_fail_def split: if_splits pg_answer.splits)
  fix s p
  assume "map_of pend' s = Some p"
  then have "map_of pend s = Some p \<or> op = SetPending s p"
    using assms(2) by (auto simp: pg_next_def update_conv' delete_conv' split: if_splits pg_op.splits)
  then show "\<exists>j. (j, SetPending s p, Finished) \<in> set (lg @ [(i, op, a)])"
  proof
    assume "map_of pend s = Some p"
    then obtain j where "(j, SetPending s p, Finished) \<in> set lg"
      using assms(1) unfolding staged_before_def by blast
    then show ?thesis
      by auto
  next
    assume "op = SetPending s p"
    then show ?thesis
      using fin by auto
  qed
next
  fix before j s p rest
  assume lg: "lg @ [(i, op, a)] = before @ (j, GetPending s, Found (Some p)) # rest"
  show "\<exists>k. (k, SetPending s p, Finished) \<in> set before"
  proof (cases rest rule: rev_cases)
    case Nil
    then have "before = lg" "map_of pend s = Some p"
      using lg assms(2) by (auto simp: pg_next_def split: if_splits)
    then show ?thesis
      using assms(1) unfolding staged_before_def by auto
  next
    case (snoc rest' e)
    then have "lg = before @ (j, GetPending s, Found (Some p)) # rest'"
      using lg by simp
    then show ?thesis
      using assms(1) unfolding staged_before_def by blast
  qed
qed

definition ev_text :: "pg_settings \<Rightarrow> room_event \<Rightarrow> string" where
  \<comment> \<open>the text that is handled\<close>
  "ev_text st ev = (case activated st ''!pg help'' ev of Some b \<Rightarrow> b | None \<Rightarrow> [])"

lemma on_message_okay:
  assumes "on_message h st ev = Some p" "confirm_writes st"
  shows "okay st (ev_sender ev) (ev_text st ev) p []"
proof -
  obtain body where "activated st ''!pg help'' ev = Some body" "p = process_message h st (ev_sender ev) body (ev_event_id ev)"
    using assms(1) by (auto simp: on_message_def split: if_splits)
  then show ?thesis
    using okay_process [OF assms(2)] by (simp add: ev_text_def)
qed

interpretation pg: par_system "\<lambda>s op a s'. pg_next s op a = Some s'" "\<lambda>ev p. on_message h st ev = Some p" pg_fits "\<lambda>s. s = []"
  "\<lambda>ev tr op. confirm_writes st \<longrightarrow> message_ok st (ev_sender ev) (ev_text st ev) tr op" staged_before for h st
proof
  show "pg_next s op a = Some s' \<Longrightarrow> pg_fits op a" for s op a s'
    by (simp add: pg_next_def split: if_splits)
  show "on_message h st ev = Some p \<Longrightarrow> wp pg_fits (\<lambda>tr op. confirm_writes st \<longrightarrow> message_ok st (ev_sender ev) (ev_text st ev) tr op) p []
      (\<lambda>_ _. True) (\<lambda>_ _. True)" for ev p
    using on_message_okay wp_true by (cases "confirm_writes st") auto
  show "s = [] \<Longrightarrow> staged_before s []" for s
    by (simp add: staged_before_def)
qed (rule staged_step)

definition confirmed_entry :: "pg_settings \<Rightarrow> room_event \<Rightarrow> nat \<Rightarrow> (nat \<times> pg_op \<times> pg_answer) list \<Rightarrow> pending_execution \<Rightarrow> bool" where
  \<comment> \<open>the thread of this message confirms an entry that its sender has staged before, within fifteen minutes\<close>
  "confirmed_entry st ev i before p = (confirm_token (ev_text st ev) = Some (pe_token p)
     \<and> (\<exists>j. (j, SetPending (ev_sender ev) p, Finished) \<in> set before)
     \<and> (\<exists>now. (i, ReadClock, Clock now) \<in> set before \<and> now - pe_created_at p \<le> usec 900))"

lemma confirmed_staged:
  assumes "pg_reach h st c" "par_log c = before @ rest" "confirmed (ev_sender ev) (ev_text st ev) (own i before) p"
  shows "confirmed_entry st ev i before p"
proof -
  have "(i, GetPending (ev_sender ev), Found (Some p)) \<in> set before"
    using assms(3) by (simp add: confirmed_def own_set)
  then obtain b1 b2 where b: "before = b1 @ (i, GetPending (ev_sender ev), Found (Some p)) # b2"
    by (meson split_list)
  have "staged_before (par_state c) (par_log c)"
    using pg.reach_inv [OF assms(1)] by (simp add: pg.par_inv_def)
  then obtain j where "(j, SetPending (ev_sender ev) p, Finished) \<in> set b1"
    using assms(2) unfolding staged_before_def b append_assoc append_Cons by blast
  then show ?thesis
    using assms(3) b unfolding confirmed_entry_def confirmed_def own_set by auto
qed

lemma heard_event:
  assumes "pg_reach h st c" "(i, e) \<in> set (par_log c)"
  shows "\<exists>p. on_message h st (fst (par_threads c ! i)) = Some p"
  using pg.reach_inv [OF assms(1)] assms(2) unfolding pg.par_inv_def threads_follow_def by fast




section \<open>Health\<close>

lemma flags_kept [simp]:
  "rt_matrix_logged_in (note_errors ds s) = rt_matrix_logged_in s" "rt_room_joined (note_errors ds s) = rt_room_joined s"
  by (simp_all add: note_errors_def)

lemma bot_run_flags:
  assumes "\<not> rt_matrix_logged_in s" "\<not> rt_room_joined s"
  shows "rt_matrix_logged_in (fst (bot_run st logins joins s)) \<and> rt_room_joined (fst (bot_run st logins joins s))
    \<longleftrightarrow> (\<exists>texts. snd (bot_run st logins joins s) = Some (Inr texts))"
  using assms by (auto simp: bot_run_def Let_def split: prod.splits option.splits sum.splits)

text \<open>The health page says 200 exactly when the database answers and the agent has come to the point where it listens.\<close>

lemma healthy_iff_listening:
  assumes "\<not> rt_matrix_logged_in s" "\<not> rt_room_joined s"
  shows "fst (health_reply st (fst (bot_run st logins joins s)) line db_ok now) = 200
    \<longleftrightarrow> request_path line = ''/healthz'' \<and> db_ok \<and> (\<exists>texts. snd (bot_run st logins joins s) = Some (Inr texts))"
  using bot_run_flags [OF assms] by (auto simp: health_reply_def Let_def)

end
