(* ===== verification/Pg_Checks.thy ===== *)
theory Pg_Checks
  imports Pg_Props
begin

text \<open>
  Examples for the theorems on the Postgres admin agent, a race between two confirmations, and what the
  check of read-only statements accepts.
\<close>

section \<open>A schedule\<close>

definition ex_settings :: pg_settings where
  "ex_settings = \<lparr>matrix_homeserver_url = ''h'', matrix_user_id = ''@pg:x'', matrix_password = ''pw'', matrix_room_id = ''!r:x'',
     matrix_admin_mxids = [''@a:x''], llm_base_url = [], llm_api_key = [], llm_model = [], health_http_addr = [],
     response_timeout_seconds = 60, llm_timeout_seconds = 25, matrix_ssl_verify = True, announce_on_start = False,
     require_mention = False, set_mention_aliases = [], pg_dsn = ''dsn'', pg_password_file = [], patroni_url = ''p'',
     patroni_username = ''u'', patroni_password_file = [], prometheus_url = [], metrics_window_minutes = 60,
     statement_timeout_ms = 5, row_limit = 5, confirm_writes = True\<rparr>"

definition ex_texts :: host_texts where
  "ex_texts = \<lparr>ht_str = \<lambda>_. [], ht_float = \<lambda>_. []\<rparr>"

definition says :: "string \<Rightarrow> room_event" where
  "says t = \<lparr>ev_room_id = ''!r:x'', ev_sender = ''@a:x'', ev_body = t, ev_event_id = ''$1''\<rparr>"

definition ex_entry :: pending_execution where
  "ex_entry = \<lparr>pe_token = ''abc123'', pe_sql = ''drop table t'', pe_created_at = 0, pe_kind = ''sql''\<rparr>"

definition ex_stage :: "(room_event, pg_answer) move list" where
  "ex_stage = Spawn (says ''!pg exec drop table t'') #
     map (Step 0) [Finished, Finished, Reply ''abc123'', Clock 0, Finished]"

definition ex_start :: "(pending_map, room_event, pg_op, pg_answer, unit) par" where
  "ex_start = \<lparr>par_state = [], par_threads = [], par_log = []\<rparr>"

definition ex_play :: "(room_event, pg_answer) move list \<Rightarrow> (nat \<times> pg_op \<times> pg_answer) list option" where
  "ex_play ms = map_option par_log (play pg_next (on_message ex_texts ex_settings) ms ex_start)"

definition ex_confirm :: "nat \<Rightarrow> (room_event, pg_answer) move list" where
  \<comment> \<open>from the clock to the statement\<close>
  "ex_confirm i = map (Step i) [Clock 5, Finished, Finished, Described None None, Described None (Some ''DROP TABLE'')]"

definition ex_race :: "(room_event, pg_answer) move list" where
  \<comment> \<open>two messages with the same confirmation: both threads look the entry up before either removes it\<close>
  "ex_race = ex_stage @ [Spawn (says ''confirm abc123''), Spawn (says ''confirm abc123'')]
     @ map (Step 1) [Finished, Finished, Found (Some ex_entry)] @ map (Step 2) [Finished, Finished, Found (Some ex_entry)]
     @ ex_confirm 1 @ ex_confirm 2"

definition staged_log :: "(nat \<times> pg_op \<times> pg_answer) list" where
  "staged_log = [(0, ReadMarkers ''$1'', Finished), (0, Typing True, Finished), (0, NewToken, Reply ''abc123''),
     (0, ReadClock, Clock 0), (0, SetPending ''@a:x'' ex_entry, Finished)]"

definition begun_log :: "nat \<Rightarrow> (nat \<times> pg_op \<times> pg_answer) list" where
  "begun_log i = [(i, ReadMarkers ''$1'', Finished), (i, Typing True, Finished), (i, GetPending ''@a:x'', Found (Some ex_entry))]"

definition confirm_log :: "nat \<Rightarrow> (nat \<times> pg_op \<times> pg_answer) list" where
  "confirm_log i = [(i, ReadClock, Clock 5), (i, PopPending ''@a:x'', Finished), (i, Connect, Finished),
     (i, Sql ''SET statement_timeout = 5'', Described None None)]"

definition drop_entry :: "nat \<Rightarrow> nat \<times> pg_op \<times> pg_answer" where
  "drop_entry i = (i, Sql ''drop table t'', Described None (Some ''DROP TABLE''))"

lemma ex_heard: "on_message ex_texts ex_settings (says t) = Some (process_message ex_texts ex_settings ''@a:x'' (strip t) ''$1'')"
  by (simp add: on_message_def says_def ex_settings_def activated_def)

lemma ex_commands:
  "confirm_token ''!pg exec drop table t'' = None" "confirm_token ''confirm abc123'' = Some ''abc123''"
  "strip ''!pg exec drop table t'' = ''!pg exec drop table t''" "strip ''confirm abc123'' = ''confirm abc123''"
  "strip ''drop table t'' = ''drop table t''" "clean_sql ''drop table t'' = Inr ''drop table t''"
  "search SECRET_WORDS ''drop table t'' = None" "lower ''!pg exec drop table t'' = ''!pg exec drop table t''"
  by code_simp+

lemma ex_fields:
  "confirm_writes ex_settings" "pg_password_file ex_settings = []" "statement_timeout_ms ex_settings = 5"
  by (simp_all add: ex_settings_def)

lemma ex_five: "int_str 5 = ''5''"
  by code_simp

lemma ex_stage_handled:
  "handle_message ex_texts ex_settings s ''!pg exec drop table t'' = bindP (stage_execution ex_settings s ''drop table t'') (\<lambda>r. Ret (format_staged ex_texts r))"
  by (simp add: handle_message_def ex_commands)

lemma ex_confirm_handled:
  "handle_message ex_texts ex_settings s ''confirm abc123'' = awaited False (confirm ex_texts ex_settings s ''abc123'')"
  by (simp add: handle_message_def ex_commands)

lemmas pg_programs = process_message_def ignoring_def perform_def stage_execution_def stage_pending_def new_token_def read_clock_def awaited_def
  confirm_def get_pending_def db_execute_def db_connect_def sql_stmt_def

lemma ex_race_log: "ex_play ex_race = Some (staged_log @ begun_log 1 @ begun_log 2 @ confirm_log 1 @ drop_entry 1 # confirm_log 2 @ [drop_entry 2])"
  unfolding ex_play_def ex_race_def ex_stage_def ex_confirm_def ex_start_def
  by (simp add: ex_heard ex_commands ex_stage_handled ex_confirm_handled pg_programs ex_fields pg_next_def pg_fits_def may_fail_def
    ex_entry_def is_digit_def code_def ex_five staged_log_def begun_log_def confirm_log_def drop_entry_def Let_def cong: lazy)

lemma ex_play_reach:
  assumes "ex_play ms = Some lg"
  shows "\<exists>c. pg_reach ex_texts ex_settings c \<and> par_log c = lg"
proof -
  obtain c where c: "play pg_next (on_message ex_texts ex_settings) ms ex_start = Some c" "par_log c = lg"
    using assms by (auto simp: ex_play_def)
  have "pg_reach ex_texts ex_settings ex_start"
    by (rule reach.reach_init) (simp add: par_init_def ex_start_def)
  then have "pg_reach ex_texts ex_settings c"
    by (rule play_reach [OF c(1)])
  then show ?thesis
    using c(2) by blast
qed


text \<open>C32: An entry that was staged once can be executed twice: two messages with the same confirmation are handled in two threads, and both look
  the entry up before either removes it.\<close>

theorem staged_once_executed_twice:
  "\<exists>c. pg_reach ex_texts ex_settings c
     \<and> length (filter (\<lambda>(i, op, a). case op of SetPending _ _ \<Rightarrow> True | _ \<Rightarrow> False) (par_log c)) = 1
     \<and> length (filter (\<lambda>(i, op, a). op = Sql ''drop table t'' \<and> a = Described None (Some ''DROP TABLE'')) (par_log c)) = 2"
proof -
  obtain c where "pg_reach ex_texts ex_settings c"
    "par_log c = staged_log @ begun_log 1 @ begun_log 2 @ confirm_log 1 @ drop_entry 1 # confirm_log 2 @ [drop_entry 2]"
    using ex_play_reach [OF ex_race_log] by blast
  then show ?thesis
    by (intro exI [of _ c]) (simp add: staged_log_def begun_log_def confirm_log_def drop_entry_def)
qed

section \<open>A switchover and a reply\<close>

definition ex_switch :: "(room_event, pg_answer) move list" where
  "ex_switch = Spawn (says ''!pgha switchover'') # map (Step 0) [Finished, Finished, Reply ''abc123'', Clock 0, Finished]
     @ Spawn (says ''confirm abc123'') # map (Step 1) [Finished, Finished,
        Found (Some \<lparr>pe_token = ''abc123'', pe_sql = [], pe_created_at = 0, pe_kind = ''switchover''\<rparr>), Clock 5, Finished,
        Body (JObj [(''members'', JList [JObj [(''name'', JStr ''n''), (''role'', JStr ''leader'')]])]), Reply ''s'', Reply ''ok'']"

definition switch_log :: "(nat \<times> pg_op \<times> pg_answer) list" where
  "switch_log = (let p = \<lparr>pe_token = ''abc123'', pe_sql = [], pe_created_at = 0, pe_kind = ''switchover''\<rparr> in
     [(0, ReadMarkers ''$1'', Finished), (0, Typing True, Finished), (0, NewToken, Reply ''abc123''), (0, ReadClock, Clock 0),
      (0, SetPending ''@a:x'' p, Finished), (1, ReadMarkers ''$1'', Finished), (1, Typing True, Finished),
      (1, GetPending ''@a:x'', Found (Some p)), (1, ReadClock, Clock 5), (1, PopPending ''@a:x'', Finished),
      (1, HttpGet ''p/cluster'', Body (JObj [(''members'', JList [JObj [(''name'', JStr ''n''), (''role'', JStr ''leader'')]])])),
      (1, ReadSecret [], Reply ''s'')])"

definition switch_auth :: string where
  "switch_auth = ''Basic '' @ b64encode (utf8 ''u:s'')"

lemma ex_switch_commands:
  "confirm_token ''!pgha switchover'' = None" "strip ''!pgha switchover'' = ''!pgha switchover''"
  "lower ''!pgha switchover'' = ''!pgha switchover''" "switchover_candidate ''!pgha switchover'' = []" "strip ''s'' = ''s''"
  by code_simp+

lemma ex_switch_fields: "patroni_url ex_settings = ''p''" "patroni_username ex_settings = ''u''" "patroni_password_file ex_settings = []"
  by (simp_all add: ex_settings_def)

lemma ex_switch_handled: "handle_message ex_texts ex_settings s ''!pgha switchover'' = stage_switchover ex_settings s ''!pgha switchover''"
  by (simp add: handle_message_def ex_switch_commands)

lemma ex_switch_log: "ex_play ex_switch = Some (switch_log @ [(1, PostSwitchover ''p/switchover'' (JObj [(''leader'', JStr ''n'')]) switch_auth, Reply ''ok'')])"
  unfolding ex_play_def ex_switch_def ex_start_def
  by (simp add: ex_heard ex_commands ex_switch_commands ex_switch_handled ex_confirm_handled pg_programs ex_switch_fields pg_next_def pg_fits_def may_fail_def
    stage_switchover_def patroni_switchover_def patroni_cluster_def http_get_def read_secret_file_def patroni_leader_def as_obj_def iter_json_def or_else_def
    get_or_def is_digit_def code_def switch_log_def switch_auth_def Let_def cong: lazy)


definition ex_help :: "(room_event, pg_answer) move list" where
  "ex_help = Spawn (says ''!pg help'') # map (Step 0) [Finished, Finished, Finished, Finished]"

definition help_reply :: json where
  "help_reply = matrix_text_content (redact_with [''dsn'', ''pw'', []] (help_text ex_settings))"

definition help_log :: "(nat \<times> pg_op \<times> pg_answer) list" where
  "help_log = [(0, ReadMarkers ''$1'', Finished), (0, Typing True, Finished), (0, Typing False, Finished)]"

lemma ex_help_commands: "confirm_token ''!pg help'' = None" "lower ''!pg help'' = ''!pg help''" "strip ''!pg help'' = ''!pg help''"
  by code_simp+

lemma ex_help_handled: "handle_message ex_texts ex_settings s ''!pg help'' = Ret (help_text ex_settings)"
  by (simp add: handle_message_def ex_help_commands)

lemma ex_secret_fields: "pg_dsn ex_settings = ''dsn''" "matrix_password ex_settings = ''pw''" "llm_api_key ex_settings = []"
  by (simp_all add: ex_settings_def)

lemma ex_help_log: "ex_play ex_help = Some (help_log @ [(0, RoomSend help_reply, Finished)])"
  unfolding ex_play_def ex_help_def ex_start_def
  by (simp add: ex_heard ex_help_commands ex_help_handled pg_programs pg_next_def pg_fits_def may_fail_def send_reply_def redact_def known_secret_def
    ex_fields ex_switch_fields ex_secret_fields help_log_def help_reply_def cong: lazy)


section \<open>The read-only check\<close>

text \<open>The check takes a statement that creates a table for a query: INTO is not one of its words.\<close>

lemma select_into_words: "search WRITE_WORDS ''select 1 into t'' = None"
  by code_simp

lemma select_into_passes: "is_read_only ''select 1 into t''"
  unfolding is_read_only_def Let_def select_into_words by code_simp

section \<open>The list of administrators\<close>

text \<open>Without a list of administrators the agent handles the messages of everybody in its room.\<close>

lemma empty_list_admits:
  assumes "matrix_admin_mxids st = []" "\<not> require_mention st" "ev_room_id ev = matrix_room_id st" "ev_sender ev \<noteq> matrix_user_id st"
  shows "on_message h st ev = Some (process_message h st (ev_sender ev) (strip (ev_body ev)) (ev_event_id ev))"
  using assms by (simp add: on_message_def activated_def Let_def)

end
