(* ===== verification/Rec_Base.thy ===== *)
theory Rec_Base
  imports Py_Program Py_Text Budget_Settings
begin

text \<open>
  The controller of the staged backfill (deploy/hindsight-recovery/recovery.py), first part: configuration, the phase
  file, what it reads from the databases, and the checks that are pure functions of it. \<open>rec_texts\<close> holds the
  texts of floats and Decimals and the digest, which the standard library computes.
\<close>

section \<open>Constants and configuration\<close>

abbreviation inv_error :: "string \<Rightarrow> exc" where
  "inv_error m \<equiv> OtherError ''InvariantError'' m"

definition BASELINE_FUGU_FAILURES :: "(string \<times> int \<times> string) list" where
  "BASELINE_FUGU_FAILURES = (let m = ''openai/gpt-oss-120b'' in [
     (''2026-07-13T10:17:39.904527+00:00'', 502, m), (''2026-07-13T10:47:44.852290+00:00'', 401, m),
     (''2026-07-13T10:47:47.376422+00:00'', 401, m), (''2026-07-13T12:58:02.360195+00:00'', 401, m),
     (''2026-07-13T14:29:05.181051+00:00'', 401, m), (''2026-07-13T14:29:05.565413+00:00'', 401, m),
     (''2026-07-13T15:10:15.314732+00:00'', 401, m), (''2026-07-14T05:08:06.566399+00:00'', 401, m)])"

definition HELD_DOCUMENT :: string where
  "HELD_DOCUMENT = ''a58b5c6d950f7e0ebd79e6b166639f2b9cb6ff931092ec00cc6dacd9ad2ddea4''"

definition HELD_PARENT :: string where "HELD_PARENT = ''2856afaf-3c10-4f3d-9759-d9add33e1823''"

definition HELD_CHILD :: string where "HELD_CHILD = ''87f56f9b-8b06-4b68-9e8a-91e83313c696''"

definition OPEN_BUDGET_REASON :: string where "OPEN_BUDGET_REASON = ''ambiguous upstream failure: ReadTimeout''"

record auth_proof =
  ap_document :: string
  ap_parent :: string
  ap_child :: string
  ap_payload_hash :: string
  ap_source_id :: int

definition PROVIDER_AUTH_FAILURE_ROWS :: "auth_proof list" where
  "PROVIDER_AUTH_FAILURE_ROWS = [
     \<lparr>ap_document = ''b351931e6c08d4912e84885c45c819761463992a1dc22f38391950ffddedf6ff'', ap_parent = ''d4068c32-d268-4115-bfbb-c9cfd3941582'',
      ap_child = ''24947151-ce00-40a4-9a4c-6a74593f4261'',
      ap_payload_hash = ''0acec449b504c8ed1c043a36f0eedc90b578c06e482ba63d18c45cba7202d339'', ap_source_id = 3867\<rparr>,
     \<lparr>ap_document = ''b35f93dd699cca294d7f90c12a76cb47e934db391409233fff1dc592d331648a'', ap_parent = ''694de3a3-9e9c-41ed-af9c-93e8f635da9d'',
      ap_child = ''3b18b42c-fc1c-44f1-8177-d21d1d88503e'',
      ap_payload_hash = ''fc9ca8e9a53f76d0a0e6dc5aa6f67320c4fafdd61b3127784c1a86c5a34eda78'', ap_source_id = 2279\<rparr>]"

definition ATTEMPTED_STATES :: "string list" where
  "ATTEMPTED_STATES = [''submitting'', ''submitted'', ''succeeded'', ''failed'', ''blocked'']"

definition ACTIVE_STATES :: "string list" where "ACTIVE_STATES = [''submitting'', ''submitted'']"

definition ERROR_STATES :: "string list" where "ERROR_STATES = [''failed'', ''blocked'']"

definition env_line :: "string \<Rightarrow> (string \<times> string) option" where
  "env_line raw = (let line = strip raw in
     if line = [] \<or> startswith line ''#'' then None
     else case split1 (CHR ''='') line of None \<Rightarrow> None
       | Some (k, v) \<Rightarrow> Some (strip k, strip_on (\<lambda>c. c = CHR 0x27) (strip_on (\<lambda>c. c = CHR 0x22) (strip v))))"

definition env_file :: "string \<Rightarrow> (string \<times> string) list" where
  \<comment> \<open>\<open>_env_file\<close>, on the text of the file\<close>
  "env_file t = foldl (\<lambda>d l. case env_line l of None \<Rightarrow> d | Some (k, v) \<Rightarrow> AList.update k v d) [] (splitlines t)"

record rec_config =
  rc_root :: string
  rc_state_dir :: string
  rc_ssh_target :: string
  rc_pg_local_ports :: "int list"
  rc_pg_remote_hosts :: "string list"
  rc_hindsight_port :: int
  rc_budget_port :: int
  rc_fugu_port :: int
  rc_patroni_ports :: "int list"
  rc_approved_total :: int
  rc_stage_cap :: int
  rc_max_agent_active :: int
  rc_max_provider_in_flight :: int
  rc_expected_hindsight_failed :: int
  rc_conservative_remaining_cost :: pyfloat
  rc_hard_budget :: pyfloat
  rc_quick_seconds :: pyfloat
  rc_full_seconds :: pyfloat
  rc_watchdog_seconds :: pyfloat
  rc_heartbeat_max_age :: pyfloat

definition text_int :: "string \<Rightarrow> int result" where
  "text_int s = (case py_int s of Some n \<Rightarrow> Inr n | None \<Rightarrow> Inl (ValueError ''invalid literal for int() with base 10''))"

definition rec_int :: "env \<Rightarrow> string \<Rightarrow> int \<Rightarrow> int result" where
  "rec_int env name dflt = text_int (getenv env name (int_str dflt))"

definition rec_float :: "env \<Rightarrow> string \<Rightarrow> string \<Rightarrow> pyfloat result" where
  "rec_float env name dflt = (case py_float (getenv env name dflt) of Some x \<Rightarrow> Inr x | None \<Rightarrow> Inl (ValueError ''could not convert string to float''))"

definition invalid_operation :: "string \<Rightarrow> exc" where
  "invalid_operation c = OtherError ''InvalidOperation'' (''[<class '' @ [CHR 0x27] @ ''decimal.'' @ c @ [CHR 0x27] @ ''>]'')"

definition text_decimal :: "string \<Rightarrow> pyfloat result" where
  \<comment> \<open>\<open>Decimal(text)\<close>\<close>
  "text_decimal s = (case py_float s of Some x \<Rightarrow> Inr x | None \<Rightarrow> Inl (invalid_operation ''ConversionSyntax''))"

definition rec_from_env :: "env \<Rightarrow> string \<Rightarrow> rec_config result" where
  \<comment> \<open>\<open>Config.from_env\<close>; the second argument is the home directory\<close>
  "rec_from_env env home =
     (let ports = (\<lambda>name dflt. mapR text_int (split_on (CHR '','') (getenv env name dflt))) in
      bindR (ports ''PG_LOCAL_PORTS'' ''55439,55440,55441'') (\<lambda>pg_ports.
      let pg_hosts = split_on (CHR '','') (getenv env ''PG_REMOTE_HOSTS'' ''10.18.147.86,10.18.251.71,10.18.172.186'') in
      bindR (ports ''PATRONI_LOCAL_PORTS'' ''18081,18082,18083'') (\<lambda>patroni.
      bindR (guard_that (length pg_ports = 3 \<and> length pg_hosts = 3 \<and> length patroni = 3)
        (ValueError ''PG and Patroni host/port lists must each contain exactly three entries'')) (\<lambda>_.
      bindR (rec_int env ''HINDSIGHT_LOCAL_PORT'' 18898) (\<lambda>hindsight.
      bindR (rec_int env ''BUDGET_LOCAL_PORT'' 18899) (\<lambda>budget.
      bindR (rec_int env ''FUGU_LOCAL_PORT'' 18419) (\<lambda>fugu.
      bindR (rec_int env ''APPROVED_TOTAL'' 5142) (\<lambda>total.
      bindR (rec_int env ''STAGE_CAP'' 3823) (\<lambda>cap.
      bindR (rec_int env ''MAX_AGENT_ACTIVE'' 2) (\<lambda>active.
      bindR (rec_int env ''MAX_PROVIDER_IN_FLIGHT'' 6) (\<lambda>in_flight.
      bindR (rec_int env ''EXPECTED_HINDSIGHT_FAILED'' 60) (\<lambda>failed.
      bindR (text_decimal (getenv env ''CONSERVATIVE_REMAINING_COST_USD'' ''0.00543'')) (\<lambda>cost.
      bindR (text_decimal (getenv env ''HARD_BUDGET_USD'' ''30'')) (\<lambda>hard.
      bindR (rec_float env ''GUARD_QUICK_SECONDS'' ''2'') (\<lambda>quick.
      bindR (rec_float env ''GUARD_FULL_SECONDS'' ''60'') (\<lambda>full.
      bindR (rec_float env ''WATCHDOG_SECONDS'' ''5'') (\<lambda>watchdog.
      bindR (rec_float env ''HEARTBEAT_MAX_AGE_SECONDS'' ''60'') (\<lambda>age.
      Inr \<lparr>rc_root = getenv env ''RECOVERY_ROOT'' ''/home/ubuntu/teemesh'',
        rc_state_dir = getenv env ''RECOVERY_STATE_DIR'' (home @ ''/.local/state/hindsight-recovery''),
        rc_ssh_target = getenv env ''RECOVERY_SSH_TARGET'' ''attestmesh-mesh-node'', rc_pg_local_ports = pg_ports,
        rc_pg_remote_hosts = pg_hosts, rc_hindsight_port = hindsight, rc_budget_port = budget, rc_fugu_port = fugu,
        rc_patroni_ports = patroni, rc_approved_total = total, rc_stage_cap = cap, rc_max_agent_active = active,
        rc_max_provider_in_flight = in_flight, rc_expected_hindsight_failed = failed, rc_conservative_remaining_cost = cost,
        rc_hard_budget = hard, rc_quick_seconds = quick, rc_full_seconds = full, rc_watchdog_seconds = watchdog,
        rc_heartbeat_max_age = age\<rparr>))))))))))))))))))"

definition DEFAULT_PHASE :: "json dict" where
  "DEFAULT_PHASE = [(''name'', JStr ''maintenance''), (''budget'', JStr ''open''), (''expected_retry'', JInt 17),
     (''expected_succeeded'', JInt 3263), (''watchdog_armed'', JBool False)]"

section \<open>What is read\<close>

record rec_texts =
  tx_str :: "json \<Rightarrow> string" \<comment> \<open>\<open>str()\<close> of floats, lists and objects\<close>
  tx_float :: "rat \<Rightarrow> string" \<comment> \<open>\<open>repr()\<close> of finite floats\<close>
  tx_decimal :: "pyfloat \<Rightarrow> string" \<comment> \<open>\<open>str()\<close> of Decimals\<close>
  tx_sha256 :: "string \<Rightarrow> string" \<comment> \<open>\<open>hashlib.sha256(t.encode()).hexdigest()\<close>\<close>

record circuit_row =
  cr_open :: bool
  cr_reason :: "string option"

type_synonym counts = "(string \<times> int) list"

record quick_snap =
  qs_agent :: counts
  qs_agent_circuit :: "circuit_row option"
  qs_pocket :: counts
  qs_pocket_circuit :: "circuit_row option"
  qs_operations :: counts
  qs_documents :: int
  qs_hindsight_health :: json
  qs_fugu_health :: json
  qs_budget :: json

record outbox_row =
  or_document_id :: string
  or_source_kind :: string
  or_source_id :: int
  or_payload_hash :: string
  or_submitted_hash :: "string option"
  or_item :: json
  or_state :: string
  or_operation_id :: "string option"
  or_source_document :: "string option"
  or_available_at :: "instant option"

record retry_row =
  rh_document_id :: string
  rh_operation_id :: "string option"
  rh_previous_state :: string
  rh_payload_hash :: string
  rh_submitted_hash :: "string option"
  rh_item :: json

record operation_row =
  ao_operation_id :: string
  ao_type :: string
  ao_status :: string
  ao_error_message :: "string option"
  ao_result_metadata :: json
  ao_task_payload :: json
  ao_created_at :: instant
  ao_updated_at :: instant

record rec_audit =
  au_snap :: quick_snap
  au_retry :: int
  au_claim :: int
  au_adoption :: int
  au_remote_documents :: int
  au_patroni :: "json dict list"
  au_failures :: "string list"

section \<open>Pure checks\<close>

definition count_of :: "counts \<Rightarrow> string list \<Rightarrow> int" where
  "count_of c states = sum_list (map (\<lambda>s. case map_of c s of Some n \<Rightarrow> n | None \<Rightarrow> 0) states)"

fun json_decimal :: "json \<Rightarrow> pyfloat result" where
  \<comment> \<open>\<open>Decimal(str(v))\<close>\<close>
  "json_decimal (JInt i) = Inr (Fin (of_int i))"
| "json_decimal (JFloat f) = Inr f"
| "json_decimal (JStr s) = text_decimal s"
| "json_decimal v = Inl (invalid_operation ''ConversionSyntax'')"

definition compute_projection :: "json \<Rightarrow> int \<Rightarrow> rec_config \<Rightarrow> pyfloat result" where
  "compute_projection spent succeeded cfg =
     (let remaining = max (rc_approved_total cfg - succeeded) 0 in
      bindR (json_decimal spent) (\<lambda>s. Inr (s + pf_scale remaining (rc_conservative_remaining_cost cfg))))"

definition decimal_gt :: "pyfloat \<Rightarrow> pyfloat \<Rightarrow> bool result" where
  \<comment> \<open>the order of Decimals signals at NaN\<close>
  "decimal_gt a b = (if a = NaN \<or> b = NaN then Inl (invalid_operation ''InvalidOperation'') else Inr (pf_lt b a))"

datatype stage_action = Violation | OpenStage | Continue

definition stage_action :: "int \<Rightarrow> string \<Rightarrow> int \<Rightarrow> stage_action" where
  "stage_action attempted phase_name cap =
     (if cap < attempted then Violation else if phase_name = ''running'' \<and> attempted = cap then OpenStage else Continue)"

definition precap_resume_failure :: "string \<Rightarrow> bool \<Rightarrow> int \<Rightarrow> int \<Rightarrow> int \<Rightarrow> int \<Rightarrow> int \<Rightarrow> int \<Rightarrow> int \<Rightarrow> int \<Rightarrow> int \<Rightarrow> int \<Rightarrow> string option" where
  "precap_resume_failure phase_name agent_open attempted succeeded submitting submitted errors hindsight_active provider_in_flight
      remote_documents max_agent_active cap =
     (if phase_name \<noteq> ''running'' then Some ''pre-cap resume requires running phase''
      else if \<not> agent_open then Some ''pre-cap resume requires Agent circuit open''
      else if cap \<le> attempted then Some ''pre-cap resume cannot run at or above stage cap''
      else if submitting \<noteq> 0 \<or> \<not> (1 \<le> submitted \<and> submitted \<le> max_agent_active) \<or> errors \<noteq> 0
      then Some ''pre-cap resume requires one to the configured maximum submitted Agent rows and no other active/error row''
      else if attempted \<noteq> succeeded + submitted then Some ''pre-cap attempted count is not exactly succeeded plus submitted''
      else if hindsight_active \<noteq> 0 then Some ''pre-cap resume requires zero Hindsight pending/processing''
      else if provider_in_flight \<noteq> 0 then Some ''pre-cap resume requires zero provider in-flight''
      else if remote_documents \<noteq> succeeded + submitted then Some ''pre-cap remote-document count is not exactly succeeded plus submitted''
      else None)"

definition watchdog_failure :: "bool \<Rightarrow> pyfloat option \<Rightarrow> bool \<Rightarrow> bool \<Rightarrow> bool \<Rightarrow> pyfloat \<Rightarrow> string option" where
  "watchdog_failure armed heartbeat_age tunnel_ports_ready guard_active tunnel_active max_age =
     (if \<not> armed then None
      else if (case heartbeat_age of None \<Rightarrow> True | Some age \<Rightarrow> pf_lt max_age age) then Some ''guard heartbeat missing or stale''
      else if \<not> tunnel_ports_ready then Some ''shared tunnel path unavailable''
      else if \<not> guard_active then Some ''guard service inactive''
      else if \<not> tunnel_active then Some ''tunnel service inactive''
      else None)"

definition circuit_is_open :: "circuit_row option \<Rightarrow> bool result" where
  \<comment> \<open>\<open>bool(row["circuit_open"])\<close>\<close>
  "circuit_is_open c = (case c of Some r \<Rightarrow> Inr (cr_open r) | None \<Rightarrow> Inl (TypeError ''NoneType object is not subscriptable''))"

definition in_texts :: "json \<Rightarrow> string list \<Rightarrow> bool result" where
  \<comment> \<open>\<open>v in {...}\<close>\<close>
  "in_texts v ts = (case v of JStr s \<Rightarrow> Inr (s \<in> set ts) | JList _ \<Rightarrow> Inl (TypeError ''unhashable type: list'')
     | JObj _ \<Rightarrow> Inl (TypeError ''unhashable type: dict'') | _ \<Rightarrow> Inr False)"

definition fail_if :: "bool \<Rightarrow> string \<Rightarrow> string list" where
  "fail_if c m = (if c then [m] else [])"

definition in_flight_of :: "json dict \<Rightarrow> int result" where
  \<comment> \<open>\<open>int(budget.get("in_flight") or 0)\<close>\<close>
  "in_flight_of budget = int_of_json (or_else (jget budget ''in_flight'') (JInt 0))"

definition budget_failures :: "json dict \<Rightarrow> json dict \<Rightarrow> string list result" where
  "budget_failures phase budget =
     (if jget phase ''budget'' = JStr ''open''
      then Inr (fail_if (\<not> truthy (jget budget ''circuit_open'') \<or> jget budget ''circuit_reason'' \<noteq> JStr OPEN_BUDGET_REASON) ''budget open-circuit reason drift'')
      else if jget phase ''budget'' = JStr ''closed''
      then bindR (if truthy (jget budget ''circuit_open'') then Inr False else in_texts (jget budget ''status'') [''healthy'', ''ok'']) (\<lambda>good.
        Inr (fail_if (\<not> good) ''budget circuit is not healthy/closed''))
      else Inr [])"

definition runtime_failures :: "rec_config \<Rightarrow> (string \<times> string) list \<Rightarrow> string list" where
  "runtime_failures cfg runtime =
     fail_if (map_of runtime ''HINDSIGHT_OUTBOX_MAX_IN_FLIGHT'' \<noteq> Some (int_str (rc_max_agent_active cfg)))
       (''Agent persistent max_in_flight is not '' @ int_str (rc_max_agent_active cfg))
     @ fail_if (map_of runtime ''HINDSIGHT_OUTBOX_RUN_LIMIT'' \<noteq> Some (int_str (rc_stage_cap cfg))) ''Agent persistent cap drift''"

definition outbox_failures :: "rec_config \<Rightarrow> quick_snap \<Rightarrow> string \<Rightarrow> string list result" where
  "outbox_failures cfg snap name =
     (let ac = qs_agent snap; pc = qs_pocket snap; attempted = count_of ac ATTEMPTED_STATES in
      bindR (if name \<noteq> ''running'' then circuit_is_open (qs_agent_circuit snap) else Inr True) (\<lambda>held.
      bindR (if name = ''running'' \<and> rc_stage_cap cfg \<le> attempted then circuit_is_open (qs_agent_circuit snap) else Inr True) (\<lambda>capped.
      bindR (circuit_is_open (qs_pocket_circuit snap)) (\<lambda>pocket.
      Inr (fail_if (sum_list (map snd ac) \<noteq> rc_approved_total cfg) ''Agent approved batch total drift''
        @ fail_if (rc_stage_cap cfg < attempted) ''Agent attempted count exceeds stage cap''
        @ fail_if (rc_max_agent_active cfg < count_of ac ACTIVE_STATES) (''Agent active rows exceed configured limit '' @ int_str (rc_max_agent_active cfg))
        @ fail_if (count_of ac ERROR_STATES \<noteq> 0) ''Agent failed/blocked row present''
        @ fail_if (\<not> held) ''Agent circuit is closed outside running phase''
        @ fail_if (\<not> capped) ''Agent circuit remained closed at stage cap''
        @ fail_if (\<not> pocket) ''Pocket circuit is closed''
        @ fail_if (count_of pc (ACTIVE_STATES @ ERROR_STATES) \<noteq> 0) ''Pocket has active/error work'')))))"

definition quick_failures :: "rec_config \<Rightarrow> rec_texts \<Rightarrow> (string \<times> string) list \<Rightarrow> quick_snap \<Rightarrow> json dict \<Rightarrow> string list result" where
  "quick_failures cfg t runtime snap phase =
     bindR (need_key phase ''name'') (\<lambda>n.
     let name = jstr (tx_str t) n; hop = qs_operations snap in
     bindR (outbox_failures cfg snap name) (\<lambda>f1.
     bindR (as_obj (qs_budget snap)) (\<lambda>budget.
     bindR (in_flight_of budget) (\<lambda>in_flight.
     bindR (budget_failures phase budget) (\<lambda>f2.
     bindR (compute_projection (get_or budget ''hindsight_backfill_spent_usd'' (JInt 0)) (count_of (qs_agent snap) [''succeeded'']) cfg) (\<lambda>projection.
     bindR (decimal_gt projection (rc_hard_budget cfg)) (\<lambda>over.
     bindR (as_obj (qs_hindsight_health snap)) (\<lambda>health.
     Inr (f1 @ runtime_failures cfg runtime
       @ fail_if (count_of hop [''failed''] \<noteq> rc_expected_hindsight_failed cfg) ''Hindsight failed-operation count drift''
       @ fail_if (name \<noteq> ''running'' \<and> count_of hop [''pending'', ''processing''] \<noteq> 0) ''Hindsight active work outside running phase''
       @ fail_if (rc_max_provider_in_flight cfg < in_flight) (''provider in_flight exceeds configured limit '' @ int_str (rc_max_provider_in_flight cfg))
       @ f2
       @ fail_if over (''projected full batch '' @ tx_decimal t projection @ '' exceeds hard budget'')
       @ fail_if (jget health ''status'' \<noteq> JStr ''healthy'' \<or> jget health ''database'' \<noteq> JStr ''connected'') ''Hindsight health degraded'')))))))))"

section \<open>Items\<close>

fun canon :: "(rat \<Rightarrow> string) \<Rightarrow> json \<Rightarrow> string"
  and canon_items :: "(rat \<Rightarrow> string) \<Rightarrow> json list \<Rightarrow> string list"
  and canon_members :: "(rat \<Rightarrow> string) \<Rightarrow> (string \<times> json) list \<Rightarrow> (string \<times> string) list" where
  \<comment> \<open>\<open>json.dumps(v, sort_keys=True, separators=(",", ":"), ensure_ascii=False)\<close>\<close>
  "canon f (JList xs) = ''['' @ join '','' (canon_items f xs) @ '']''"
| "canon f (JObj kvs) = ''{'' @ join '','' (map (\<lambda>(k, s). dumps_str k @ '':'' @ s) (sort_key fst (canon_members f kvs))) @ ''}''"
| "canon f v = dumps f v"
| "canon_items f [] = []"
| "canon_items f (x # xs) = canon f x # canon_items f xs"
| "canon_members f [] = []"
| "canon_members f ((k, v) # kvs) = (k, canon f v) # canon_members f kvs"

definition item_hash :: "rec_texts \<Rightarrow> json dict \<Rightarrow> string" where
  "item_hash t item = tx_sha256 t (canon (tx_float t) (JObj item))"

definition dict_of_json :: "json \<Rightarrow> json dict result" where
  \<comment> \<open>\<open>dict(v)\<close> of a JSON column, which holds an object\<close>
  "dict_of_json v = (case v of JObj d \<Rightarrow> Inr d | JList [] \<Rightarrow> Inr [] | JStr [] \<Rightarrow> Inr [] | _ \<Rightarrow> Inl (TypeError ''cannot convert to a dictionary''))"

fun audit_rows :: "rec_texts \<Rightarrow> outbox_row list \<Rightarrow> string list result" where
  \<comment> \<open>the loop ends at the first row that fails\<close>
  "audit_rows t [] = Inr []"
| "audit_rows t (r # rs) =
     bindR (dict_of_json (or_item r)) (\<lambda>item.
     let d = or_document_id r; context = jstr (tx_str t) (or_else (jget item ''context'') (JStr [])) in
     if item_hash t item \<noteq> or_payload_hash r then Inr [''payload hash mismatch for '' @ d]
     else if jget item ''document_id'' \<noteq> JStr d then Inr [''item/document mismatch for '' @ d]
     else if \<not> contains context ''source:agent_sessions'' \<or> \<not> contains context (''document:'' @ d) then Inr [''item source/context mismatch for '' @ d]
     else if or_source_kind r \<noteq> ''agent_session'' \<or> or_source_document r \<noteq> Some d then Inr [''source lineage mismatch for '' @ d]
     else if or_state r \<in> set ACTIVE_STATES \<and> or_submitted_hash r \<noteq> Some (or_payload_hash r) then Inr [''active submitted hash mismatch for '' @ d]
     else audit_rows t rs)"

definition triple_text :: "int \<times> int \<times> int \<Rightarrow> string" where
  "triple_text p = (case p of (a, b, c) \<Rightarrow> ''('' @ int_str a @ '', '' @ int_str b @ '', '' @ int_str c @ '')'')"

definition lineage_failures :: "rec_config \<Rightarrow> outbox_row list \<Rightarrow> string list \<Rightarrow> string list" where
  \<comment> \<open>documents of the batch against the documents of the service\<close>
  "lineage_failures cfg rows remote =
     (let documents = map or_document_id rows; in_state = (\<lambda>ss. map or_document_id (filter (\<lambda>r. or_state r \<in> set ss) rows)) in
      fail_if (\<not> distinct remote) ''duplicate Hindsight document ID''
      @ fail_if (\<not> set remote \<subseteq> set documents) ''Hindsight contains document outside approved batch''
      @ fail_if (\<not> set (in_state [''succeeded'']) \<subseteq> set remote) ''succeeded Agent document missing from Hindsight''
      @ fail_if (\<not> set remote \<subseteq> set (in_state [''succeeded'', ''submitting'', ''submitted''])) ''Hindsight document has invalid Agent state provenance'')"

definition patroni_bad :: "json dict \<Rightarrow> bool result" where
  "patroni_bad body = (if jget body ''state'' \<noteq> JStr ''running'' then Inr True
     else bindR (in_texts (jget body ''role'') [''primary'', ''replica'']) (\<lambda>good. Inr (\<not> good)))"

definition opt_text :: "string option \<Rightarrow> string" where
  \<comment> \<open>\<open>str(v)\<close> of a text column\<close>
  "opt_text v = (case v of Some s \<Rightarrow> s | None \<Rightarrow> ''None'')"

definition same_dict :: "(string \<times> 'v) list \<Rightarrow> (string \<times> 'v) list \<Rightarrow> bool" where
  \<comment> \<open>\<open>==\<close> of dictionaries\<close>
  "same_dict a b = (length a = length b \<and> list_all (\<lambda>(k, v). map_of b k = Some v) a)"

fun anyR :: "('a \<Rightarrow> bool result) \<Rightarrow> 'a list \<Rightarrow> bool result" where
  \<comment> \<open>\<open>any(...)\<close>, which stops at the first hit\<close>
  "anyR f [] = Inr False"
| "anyR f (x # xs) = bindR (f x) (\<lambda>b. if b then Inr True else anyR f xs)"

definition row_pair :: "outbox_row \<Rightarrow> string \<times> string" where
  "row_pair r = (or_document_id r, opt_text (or_operation_id r))"

definition hash_agrees :: "outbox_row \<Rightarrow> bool" where
  "hash_agrees r = (or_submitted_hash r = Some (or_payload_hash r))"

definition has_operation :: "outbox_row \<Rightarrow> bool" where
  "has_operation r = (or_operation_id r \<noteq> None \<and> or_operation_id r \<noteq> Some [])"

end
