(* ===== verification/Rec_Control.thy ===== *)
theory Rec_Control
  imports Rec_Base
begin

text \<open>
  The controller of the staged backfill, second part: its operations on the databases, services, files, the clock and
  the emergency tunnel, and one program per method or command. A transaction is one operation: a failed one has
  changed nothing. The application's own \<open>OutboxWorker._refresh_submitted\<close> and \<open>retry_document\<close> are operations.
\<close>

section \<open>Operations\<close>

datatype rec_db = AgentDb | PocketDb | HindsightDb | FuguDb

datatype rec_op =
    ReadEnvFile string
  | Connect rec_db string "int list" \<comment> \<open>password and local ports\<close>
  | CountStates rec_db
  | SelectCircuit rec_db
  | CountOperations
  | CountDocuments
  | HttpJson string
  | SelectOutbox
  | CountHistory string
  | SelectDocuments
  | SelectFuguFailures
  | SelectRows "string list" \<comment> \<open>the rows of these documents\<close>
  | SelectRetryHistory "string list"
  | SelectOtherActive "string list"
  | SelectSubmitted
  | SelectOperations "string list"
  | SelectPresent "string list" \<comment> \<open>which of these documents the service has\<close>
  | SelectStatus string
  | SelectCalls instant instant
  | MakeWorker string string string int int \<comment> \<open>database, service, token, rows in flight, limit of the run\<close>
  | TryLock
  | Unlock
  | RefreshSubmitted "(string \<times> string) list" \<comment> \<open>the terminal failures it may acknowledge\<close>
  | RetryDocument string string bool
  | CloseAgent
  | OpenAgent string
  | PhaseExists
  | ReadPhase
  | WritePhase "json dict"
  | HeartbeatExists
  | ReadHeartbeat
  | WriteHeartbeat "json dict"
  | WriteWatchdog "json dict"
  | LogEvent "json dict"
  | ReadTime
  | ReadMonotonic
  | Pause pyfloat
  | LockEmergency
  | FreePorts
  | StartTunnel "string list"
  | TunnelExited
  | TunnelError
  | StopTunnel
  | PortReady int
  | ServiceActive string

datatype rec_answer =
    Finished
  | Fails exc
  | Text string
  | Counts counts
  | Circuit "circuit_row option"
  | Number int
  | Http int json
  | Rows "outbox_row list"
  | Texts "string list"
  | FuguRows "(string \<times> int option \<times> string option) list"
  | RetryRows "retry_row list"
  | OperationRows "operation_row list"
  | Status "string option"
  | CallRows "(string \<times> int option) list"
  | Flag bool
  | Refreshed int int
  | JsonText json
  | Clock instant
  | Ports "int list"

fun rec_answers :: "rec_op \<Rightarrow> rec_answer \<Rightarrow> bool" where
  "rec_answers (ReadEnvFile _) a = (case a of Text _ \<Rightarrow> True | _ \<Rightarrow> False)"
| "rec_answers (Connect _ _ _) a = (a = Finished)"
| "rec_answers (CountStates _) a = (case a of Counts _ \<Rightarrow> True | _ \<Rightarrow> False)"
| "rec_answers (SelectCircuit _) a = (case a of Circuit _ \<Rightarrow> True | _ \<Rightarrow> False)"
| "rec_answers CountOperations a = (case a of Counts _ \<Rightarrow> True | _ \<Rightarrow> False)"
| "rec_answers CountDocuments a = (case a of Number _ \<Rightarrow> True | _ \<Rightarrow> False)"
| "rec_answers (HttpJson _) a = (case a of Http _ _ \<Rightarrow> True | _ \<Rightarrow> False)"
| "rec_answers SelectOutbox a = (case a of Rows _ \<Rightarrow> True | _ \<Rightarrow> False)"
| "rec_answers (CountHistory _) a = (case a of Number _ \<Rightarrow> True | _ \<Rightarrow> False)"
| "rec_answers SelectDocuments a = (case a of Texts _ \<Rightarrow> True | _ \<Rightarrow> False)"
| "rec_answers SelectFuguFailures a = (case a of FuguRows _ \<Rightarrow> True | _ \<Rightarrow> False)"
| "rec_answers (SelectRows ds) a = (case a of Rows rs \<Rightarrow> list_all (\<lambda>r. or_document_id r \<in> set ds) rs | _ \<Rightarrow> False)"
| "rec_answers (SelectRetryHistory _) a = (case a of RetryRows _ \<Rightarrow> True | _ \<Rightarrow> False)"
| "rec_answers (SelectOtherActive _) a = (case a of Rows _ \<Rightarrow> True | _ \<Rightarrow> False)"
| "rec_answers SelectSubmitted a = (case a of Rows rs \<Rightarrow> list_all (\<lambda>r. or_state r = ''submitted'') rs | _ \<Rightarrow> False)"
| "rec_answers (SelectOperations _) a = (case a of OperationRows _ \<Rightarrow> True | _ \<Rightarrow> False)"
| "rec_answers (SelectPresent ds) a = (case a of Texts ts \<Rightarrow> set ts \<subseteq> set ds | _ \<Rightarrow> False)"
| "rec_answers (SelectStatus _) a = (case a of Status _ \<Rightarrow> True | _ \<Rightarrow> False)"
| "rec_answers (SelectCalls _ _) a = (case a of CallRows _ \<Rightarrow> True | _ \<Rightarrow> False)"
| "rec_answers (MakeWorker _ _ _ _ _) a = (a = Finished)"
| "rec_answers TryLock a = (case a of Flag _ \<Rightarrow> True | _ \<Rightarrow> False)"
| "rec_answers Unlock a = (a = Finished)"
| "rec_answers (RefreshSubmitted _) a = (case a of Refreshed _ _ \<Rightarrow> True | _ \<Rightarrow> False)"
| "rec_answers (RetryDocument _ _ _) a = (case a of Flag _ \<Rightarrow> True | _ \<Rightarrow> False)"
| "rec_answers CloseAgent a = (case a of Number _ \<Rightarrow> True | _ \<Rightarrow> False)"
| "rec_answers (OpenAgent _) a = (a = Finished)"
| "rec_answers PhaseExists a = (case a of Flag _ \<Rightarrow> True | _ \<Rightarrow> False)"
| "rec_answers ReadPhase a = (case a of JsonText _ \<Rightarrow> True | _ \<Rightarrow> False)"
| "rec_answers (WritePhase _) a = (a = Finished)"
| "rec_answers HeartbeatExists a = (case a of Flag _ \<Rightarrow> True | _ \<Rightarrow> False)"
| "rec_answers ReadHeartbeat a = (case a of JsonText _ \<Rightarrow> True | _ \<Rightarrow> False)"
| "rec_answers (WriteHeartbeat _) a = (a = Finished)"
| "rec_answers (WriteWatchdog _) a = (a = Finished)"
| "rec_answers (LogEvent _) a = (a = Finished)"
| "rec_answers ReadTime a = (case a of Clock _ \<Rightarrow> True | _ \<Rightarrow> False)"
| "rec_answers ReadMonotonic a = (case a of Clock _ \<Rightarrow> True | _ \<Rightarrow> False)"
| "rec_answers (Pause _) a = (a = Finished)"
| "rec_answers LockEmergency a = (a = Finished)"
| "rec_answers FreePorts a = (case a of Ports _ \<Rightarrow> True | _ \<Rightarrow> False)"
| "rec_answers (StartTunnel _) a = (a = Finished)"
| "rec_answers TunnelExited a = (case a of Flag _ \<Rightarrow> True | _ \<Rightarrow> False)"
| "rec_answers TunnelError a = (case a of Text _ \<Rightarrow> True | _ \<Rightarrow> False)"
| "rec_answers StopTunnel a = (a = Finished)"
| "rec_answers (PortReady _) a = (case a of Flag _ \<Rightarrow> True | _ \<Rightarrow> False)"
| "rec_answers (ServiceActive _) a = (case a of Flag _ \<Rightarrow> True | _ \<Rightarrow> False)"

definition rec_may_fail :: "rec_op \<Rightarrow> bool" where
  "rec_may_fail op = (case op of ReadTime \<Rightarrow> False | ReadMonotonic \<Rightarrow> False | PortReady _ \<Rightarrow> False | _ \<Rightarrow> True)"

definition rec_fits :: "rec_op \<Rightarrow> rec_answer \<Rightarrow> bool" where
  "rec_fits op a = (case a of Fails e \<Rightarrow> rec_may_fail op \<and> \<not> is_exit e | _ \<Rightarrow> rec_answers op a)"

type_synonym 'r rec_prog = "(rec_op, rec_answer, 'r) prog"

definition ask_for :: "rec_op \<Rightarrow> (rec_answer \<Rightarrow> 'r option) \<Rightarrow> 'r rec_prog" where
  "ask_for op sel = Do op (\<lambda>a. case a of Fails e \<Rightarrow> Raise e
     | _ \<Rightarrow> (case sel a of Some r \<Rightarrow> Ret r | None \<Rightarrow> Raise (RuntimeError ''answer does not fit'')))"

definition act :: "rec_op \<Rightarrow> unit rec_prog" where
  "act op = ask_for op (\<lambda>_. Some ())"

definition a_text :: "rec_answer \<Rightarrow> string option" where "a_text a = (case a of Text t \<Rightarrow> Some t | _ \<Rightarrow> None)"
definition a_counts :: "rec_answer \<Rightarrow> counts option" where "a_counts a = (case a of Counts c \<Rightarrow> Some c | _ \<Rightarrow> None)"
definition a_circuit :: "rec_answer \<Rightarrow> circuit_row option option" where "a_circuit a = (case a of Circuit c \<Rightarrow> Some c | _ \<Rightarrow> None)"
definition a_number :: "rec_answer \<Rightarrow> int option" where "a_number a = (case a of Number n \<Rightarrow> Some n | _ \<Rightarrow> None)"
definition a_http :: "rec_answer \<Rightarrow> (int \<times> json) option" where "a_http a = (case a of Http n v \<Rightarrow> Some (n, v) | _ \<Rightarrow> None)"
definition a_rows :: "rec_answer \<Rightarrow> outbox_row list option" where "a_rows a = (case a of Rows rs \<Rightarrow> Some rs | _ \<Rightarrow> None)"
definition a_texts :: "rec_answer \<Rightarrow> string list option" where "a_texts a = (case a of Texts ts \<Rightarrow> Some ts | _ \<Rightarrow> None)"
definition a_fugu :: "rec_answer \<Rightarrow> (string \<times> int option \<times> string option) list option" where "a_fugu a = (case a of FuguRows rs \<Rightarrow> Some rs | _ \<Rightarrow> None)"
definition a_retry :: "rec_answer \<Rightarrow> retry_row list option" where "a_retry a = (case a of RetryRows rs \<Rightarrow> Some rs | _ \<Rightarrow> None)"
definition a_operations :: "rec_answer \<Rightarrow> operation_row list option" where "a_operations a = (case a of OperationRows rs \<Rightarrow> Some rs | _ \<Rightarrow> None)"
definition a_status :: "rec_answer \<Rightarrow> string option option" where "a_status a = (case a of Status s \<Rightarrow> Some s | _ \<Rightarrow> None)"
definition a_calls :: "rec_answer \<Rightarrow> (string \<times> int option) list option" where "a_calls a = (case a of CallRows rs \<Rightarrow> Some rs | _ \<Rightarrow> None)"
definition a_flag :: "rec_answer \<Rightarrow> bool option" where "a_flag a = (case a of Flag b \<Rightarrow> Some b | _ \<Rightarrow> None)"
definition a_refreshed :: "rec_answer \<Rightarrow> (int \<times> int) option" where "a_refreshed a = (case a of Refreshed c f \<Rightarrow> Some (c, f) | _ \<Rightarrow> None)"
definition a_json :: "rec_answer \<Rightarrow> json option" where "a_json a = (case a of JsonText v \<Rightarrow> Some v | _ \<Rightarrow> None)"
definition a_clock :: "rec_answer \<Rightarrow> instant option" where "a_clock a = (case a of Clock t \<Rightarrow> Some t | _ \<Rightarrow> None)"
definition a_ports :: "rec_answer \<Rightarrow> int list option" where "a_ports a = (case a of Ports ps \<Rightarrow> Some ps | _ \<Rightarrow> None)"

definition secs :: "instant \<Rightarrow> pyfloat" where
  "secs t = Fin (of_int t / 1000000)"

abbreviation check :: "bool \<Rightarrow> string \<Rightarrow> unit rec_prog" where
  \<comment> \<open>\<open>if not c: raise InvariantError(m)\<close>\<close>
  "check c m \<equiv> liftP (guard_that c (inv_error m))"

section \<open>Files and events\<close>

definition load_phase :: "json dict rec_prog" where
  "load_phase =
     bindP (ask_for PhaseExists a_flag) (\<lambda>exists.
     bindP (if exists then Ret () else act (WritePhase DEFAULT_PHASE)) (\<lambda>_.
     bindP (ask_for ReadPhase a_json) (\<lambda>v.
     case v of JObj d \<Rightarrow> Ret (merge_obj DEFAULT_PHASE d) | _ \<Rightarrow> Raise (TypeError ''object is not a mapping''))))"

definition save_phase :: "json dict \<Rightarrow> unit rec_prog" where
  "save_phase phase = bindP (ask_for ReadTime a_clock) (\<lambda>now. act (WritePhase (AList.update ''updated_at'' (JFloat (secs now)) phase)))"

definition log_event :: "string \<Rightarrow> json dict \<Rightarrow> unit rec_prog" where
  "log_event kind fs = bindP (ask_for ReadTime a_clock) (\<lambda>now. act (LogEvent (merge_obj [(''at'', JFloat (secs now)), (''kind'', JStr kind)] fs)))"

record rec_env =
  re_agent :: "(string \<times> string) list"
  re_pocket :: "(string \<times> string) list"
  re_runtime :: "(string \<times> string) list"
  re_hindsight :: "(string \<times> string) list"
  re_fugu :: "(string \<times> string) list"

definition read_env_file :: "string \<Rightarrow> (string \<times> string) list rec_prog" where
  "read_env_file file = bindP (ask_for (ReadEnvFile file) a_text) (\<lambda>t. Ret (env_file t))"

definition recovery_init :: "rec_config \<Rightarrow> rec_env rec_prog" where
  \<comment> \<open>paths below the home directory start with a tilde\<close>
  "recovery_init cfg =
     bindP (read_env_file ''~/.attestmesh/agent-session-mcp.env'') (\<lambda>agent.
     bindP (read_env_file ''~/.attestmesh/pocket-mcp.env'') (\<lambda>pocket.
     bindP (read_env_file ''~/.attestmesh/agent-session-hindsight.env'') (\<lambda>runtime.
     bindP (read_env_file (rc_root cfg @ ''/deploy/logs/hindsight-node-hindsight-node.state'')) (\<lambda>hindsight.
     bindP (read_env_file ''~/.attestmesh/fugu-router.env'') (\<lambda>fugu.
     Ret \<lparr>re_agent = agent, re_pocket = pocket, re_runtime = runtime, re_hindsight = hindsight, re_fugu = fugu\<rparr>)))))"

section \<open>Databases and services\<close>

definition need_var :: "(string \<times> string) list \<Rightarrow> string \<Rightarrow> string result" where
  "need_var d k = (case map_of d k of Some v \<Rightarrow> Inr v | None \<Rightarrow> Inl (KeyError k))"

definition db_password :: "rec_env \<Rightarrow> rec_db \<Rightarrow> string result" where
  "db_password re db = (case db of
      AgentDb \<Rightarrow> need_var (re_agent re) ''APP_DB_PASSWORD''
    | PocketDb \<Rightarrow> need_var (re_pocket re) ''APP_DB_PASSWORD''
    | HindsightDb \<Rightarrow> need_var (re_hindsight re) ''DB_PASSWORD''
    | FuguDb \<Rightarrow> need_var (re_fugu re) ''LITELLM_DB_PASSWORD'')"

definition open_db :: "rec_config \<Rightarrow> rec_env \<Rightarrow> rec_db \<Rightarrow> int list \<Rightarrow> unit rec_prog" where
  "open_db cfg re db ports = bindP (liftP (db_password re db)) (\<lambda>pw.
     act (Connect db pw (if ports = [] then rc_pg_local_ports cfg else ports)))"

definition agent_circuit_is_open :: "rec_config \<Rightarrow> rec_env \<Rightarrow> bool rec_prog" where
  "agent_circuit_is_open cfg re =
     bindP (open_db cfg re AgentDb []) (\<lambda>_. bindP (ask_for (SelectCircuit AgentDb) a_circuit) (\<lambda>row.
     Ret (case row of Some r \<Rightarrow> cr_open r | None \<Rightarrow> False)))"

definition local_url :: "int \<Rightarrow> string \<Rightarrow> string" where
  "local_url port rest = ''http://127.0.0.1:'' @ int_str port @ rest"

definition http_json :: "string \<Rightarrow> json rec_prog" where
  "http_json url = bindP (ask_for (HttpJson url) a_http) (\<lambda>(status, v).
     bindP (check (status = 200) (url @ '' returned HTTP '' @ int_str status)) (\<lambda>_. Ret v))"

definition quick_snapshot :: "rec_config \<Rightarrow> rec_env \<Rightarrow> quick_snap rec_prog" where
  "quick_snapshot cfg re =
     bindP (open_db cfg re AgentDb []) (\<lambda>_.
     bindP (ask_for (CountStates AgentDb) a_counts) (\<lambda>agent.
     bindP (ask_for (SelectCircuit AgentDb) a_circuit) (\<lambda>agent_circuit.
     bindP (open_db cfg re PocketDb []) (\<lambda>_.
     bindP (ask_for (CountStates PocketDb) a_counts) (\<lambda>pocket.
     bindP (ask_for (SelectCircuit PocketDb) a_circuit) (\<lambda>pocket_circuit.
     bindP (open_db cfg re HindsightDb []) (\<lambda>_.
     bindP (ask_for CountOperations a_counts) (\<lambda>operations.
     bindP (ask_for CountDocuments a_number) (\<lambda>documents.
     bindP (http_json (local_url (rc_hindsight_port cfg) ''/health'')) (\<lambda>hindsight.
     bindP (http_json (local_url (rc_fugu_port cfg) ''/health/process'')) (\<lambda>fugu.
     bindP (http_json (local_url (rc_budget_port cfg) ''/health'')) (\<lambda>budget.
     Ret \<lparr>qs_agent = agent, qs_agent_circuit = agent_circuit, qs_pocket = pocket, qs_pocket_circuit = pocket_circuit,
       qs_operations = operations, qs_documents = documents, qs_hindsight_health = hindsight, qs_fugu_health = fugu, qs_budget = budget\<rparr>))))))))))))"

definition fugu_row :: "string \<times> int option \<times> string option \<Rightarrow> (string \<times> int \<times> string) result" where
  "fugu_row r = (case r of (start, status, model) \<Rightarrow> (case status of
      Some n \<Rightarrow> Inr (start, n, opt_text model) | None \<Rightarrow> Inl (TypeError ''int() argument must not be NoneType'')))"

definition patroni_node :: "int \<Rightarrow> (json dict \<times> string list) rec_prog" where
  "patroni_node port = bindP (http_json (local_url port ''/patroni'')) (\<lambda>v.
     bindP (liftP (as_obj v)) (\<lambda>body. bindP (liftP (patroni_bad body)) (\<lambda>bad.
     Ret (body, fail_if bad (''Patroni degradation on local forward '' @ int_str port)))))"

definition full_audit :: "rec_config \<Rightarrow> rec_texts \<Rightarrow> rec_env \<Rightarrow> json dict \<Rightarrow> rec_audit rec_prog" where
  "full_audit cfg t re phase =
     bindP (quick_snapshot cfg re) (\<lambda>snap.
     bindP (liftP (quick_failures cfg t (re_runtime re) snap phase)) (\<lambda>f0.
     bindP (open_db cfg re AgentDb []) (\<lambda>_.
     bindP (ask_for SelectOutbox a_rows) (\<lambda>rows.
     bindP (ask_for (CountHistory ''hindsight_outbox_retry_history'') a_number) (\<lambda>retry.
     bindP (ask_for (CountHistory ''hindsight_outbox_claim_recovery_history'') a_number) (\<lambda>claim.
     bindP (ask_for (CountHistory ''hindsight_outbox_operation_adoption_history'') a_number) (\<lambda>adoption.
     let documents = map or_document_id rows; operations = map (\<lambda>r. opt_text (or_operation_id r)) (filter has_operation rows) in
     bindP (liftP (audit_rows t rows)) (\<lambda>f2.
     bindP (liftP (bindR (need_key phase ''expected_retry'') int_of_json)) (\<lambda>expected.
     bindP (open_db cfg re HindsightDb []) (\<lambda>_.
     bindP (ask_for SelectDocuments a_texts) (\<lambda>remote.
     bindP (open_db cfg re FuguDb []) (\<lambda>_.
     bindP (ask_for SelectFuguFailures a_fugu) (\<lambda>fugu.
     bindP (liftP (mapR fugu_row fugu)) (\<lambda>actual.
     bindP (mapP patroni_node (rc_patroni_ports cfg)) (\<lambda>nodes.
     Ret \<lparr>au_snap = snap, au_retry = retry, au_claim = claim, au_adoption = adoption, au_remote_documents = int (length remote),
       au_patroni = map (\<lambda>n. map (\<lambda>k. (k, jget (fst n) k)) [''role'', ''state'', ''timeline'']) nodes,
       au_failures = f0
         @ fail_if (\<not> distinct documents \<or> int (length documents) \<noteq> rc_approved_total cfg) ''Agent duplicate/missing document ID''
         @ fail_if (\<not> distinct operations) ''duplicate Agent operation ID''
         @ f2
         @ fail_if ((retry, claim, adoption) \<noteq> (expected, 12, 1))
             (''history drift: '' @ triple_text (retry, claim, adoption) @ '' != '' @ triple_text (expected, 12, 1))
         @ lineage_failures cfg rows remote
         @ fail_if (actual \<noteq> BASELINE_FUGU_FAILURES) ''authenticated Fugu failure ledger drift''
         @ concat (map snd nodes)
         @ fail_if (length (filter (\<lambda>n. jget (fst n) ''role'' = JStr ''primary'') nodes) \<noteq> 1) ''Patroni does not have exactly one primary''\<rparr>)))))))))))))))"

end
