(* ===== verification/Rec_Actions.thy ===== *)
theory Rec_Actions
  imports Rec_Control
begin

text \<open>
  The controller of the staged backfill, third part: the commands of the operator, the guard, the watchdog and the emergency
  tunnel. A loop that runs forever (guard, watchdog) is given the number of its rounds. The loops with a deadline have the
  number of rounds that their pauses allow: 45 rounds of two seconds fill 90 seconds, 80 rounds of a tenth fill 8.
\<close>

section \<open>Emergency\<close>

fun all_ready :: "int list \<Rightarrow> bool rec_prog" where
  "all_ready [] = Ret True"
| "all_ready (p # ps) = bindP (ask_for (PortReady p) a_flag) (\<lambda>b. if b then all_ready ps else Ret False)"

fun wait_ports :: "nat \<Rightarrow> instant \<Rightarrow> int list \<Rightarrow> bool rec_prog" where
  "wait_ports 0 limit ports = Ret False"
| "wait_ports (Suc n) limit ports =
     bindP (ask_for ReadMonotonic a_clock) (\<lambda>now.
     if now < limit
     then bindP (all_ready ports) (\<lambda>b. if b then Ret True else bindP (act (Pause (Fin (1/10)))) (\<lambda>_. wait_ports n limit ports))
     else Ret False)"

definition tunnel_command :: "rec_config \<Rightarrow> int list \<Rightarrow> string list" where
  "tunnel_command cfg ports =
     [''ssh'', ''-o'', ''BatchMode=yes'', ''-o'', ''ConnectTimeout=8'', ''-o'', ''ExitOnForwardFailure=yes'', ''-o'', ''ServerAliveInterval=5'',
      ''-o'', ''ServerAliveCountMax=2'', ''-N'']
     @ concat (map (\<lambda>(port, host). [''-L'', ''127.0.0.1:'' @ int_str port @ '':'' @ host @ '':5432'']) (zip ports (rc_pg_remote_hosts cfg)))
     @ [rc_ssh_target cfg]"

definition emergency_through :: "rec_config \<Rightarrow> string \<Rightarrow> int list \<Rightarrow> unit rec_prog" where
  \<comment> \<open>the part of \<open>emergency_open\<close> that runs while the tunnel is up\<close>
  "emergency_through cfg reason ports =
     bindP (ask_for ReadMonotonic a_clock) (\<lambda>start.
     bindP (wait_ports 80 (start + usec 8) ports) (\<lambda>ready.
     bindP (if ready then ask_for TunnelExited a_flag else Ret True) (\<lambda>broken.
     if broken then bindP (ask_for TunnelError a_text) (\<lambda>detail. Raise (RuntimeError (''emergency PG tunnel failed: '' @ take 500 detail)))
     else bindP (recovery_init cfg) (\<lambda>re.
       bindP (open_db cfg re AgentDb ports) (\<lambda>_.
       bindP (act (OpenAgent (take 1000 reason))) (\<lambda>_.
       log_event ''emergency_open'' [(''reason'', JStr (take 1000 reason))]))))))"

definition emergency_open :: "rec_config \<Rightarrow> string \<Rightarrow> unit rec_prog" where
  "emergency_open cfg reason =
     bindP (act LockEmergency) (\<lambda>_.
     bindP (ask_for FreePorts a_ports) (\<lambda>ports.
     bindP (act (StartTunnel (tunnel_command cfg ports))) (\<lambda>_.
     finallyP (emergency_through cfg reason ports) (act StopTunnel))))"

section \<open>Application\<close>

definition agent_dsn :: "rec_config \<Rightarrow> rec_env \<Rightarrow> int list \<Rightarrow> string result" where
  "agent_dsn cfg re ports =
     (let selected = (if ports = [] then rc_pg_local_ports cfg else ports) in
      bindR (need_var (re_agent re) ''APP_DB_PASSWORD'') (\<lambda>password.
      Inr (''postgresql://agent_sessions:'' @ password @ ''@/agent_sessions?host='' @ join '','' (map (\<lambda>_. ''127.0.0.1'') selected)
        @ ''&port='' @ join '','' (map int_str selected) @ ''&target_session_attrs=read-write&connect_timeout=2'')))"

definition app_worker :: "rec_config \<Rightarrow> rec_env \<Rightarrow> unit rec_prog" where
  "app_worker cfg re =
     bindP (liftP (agent_dsn cfg re [])) (\<lambda>dsn.
     bindP (liftP (need_var (re_hindsight re) ''TAK'')) (\<lambda>token.
     act (MakeWorker dsn (local_url (rc_hindsight_port cfg) []) token (rc_max_agent_active cfg) (rc_stage_cap cfg))))"

definition bank_lock :: "rec_config \<Rightarrow> rec_env \<Rightarrow> 'r rec_prog \<Rightarrow> 'r rec_prog" where
  \<comment> \<open>\<open>with self.bank_lock() as conn: p\<close>\<close>
  "bank_lock cfg re p =
     bindP (open_db cfg re AgentDb []) (\<lambda>_.
     bindP (ask_for TryLock a_flag) (\<lambda>locked.
     bindP (check locked ''could not acquire Agent bank advisory lock'') (\<lambda>_.
     finallyP p (suppressP (act Unlock)))))"

definition audited :: "rec_config \<Rightarrow> rec_texts \<Rightarrow> rec_env \<Rightarrow> json dict \<Rightarrow> rec_audit rec_prog" where
  \<comment> \<open>a full audit that must be clean\<close>
  "audited cfg t re phase = bindP (full_audit cfg t re phase) (\<lambda>audit.
     bindP (check (au_failures audit = []) (join ''; '' (au_failures audit))) (\<lambda>_. Ret audit))"

definition audit_in_flight :: "rec_audit \<Rightarrow> int result" where
  "audit_in_flight audit = bindR (as_obj (qs_budget (au_snap audit))) in_flight_of"

definition update_phase :: "json dict \<Rightarrow> json dict \<Rightarrow> json dict" where
  "update_phase phase changes = merge_obj phase changes"

definition counts_text :: "rec_texts \<Rightarrow> counts \<Rightarrow> string" where
  "counts_text t c = tx_str t (JObj (map (\<lambda>(k, n). (k, JInt n)) c))"

definition histories_text :: "rec_texts \<Rightarrow> rec_audit \<Rightarrow> string" where
  "histories_text t audit = counts_text t [(''retry'', au_retry audit), (''claim'', au_claim audit), (''adoption'', au_adoption audit)]"

definition failures_text :: "rec_texts \<Rightarrow> string list \<Rightarrow> string" where
  "failures_text t fs = tx_str t (JList (map JStr fs))"

definition pair_text :: "int \<times> int \<Rightarrow> string" where
  "pair_text p = ''('' @ int_str (fst p) @ '', '' @ int_str (snd p) @ '')''"

section \<open>The held document\<close>

definition operation_of :: "operation_row list \<Rightarrow> string \<Rightarrow> operation_row option" where
  \<comment> \<open>the last row of an id, as the dictionary keeps it\<close>
  "operation_of ops i = find (\<lambda>r. ao_operation_id r = i) (rev ops)"

definition held_row_ok :: "outbox_row \<Rightarrow> bool result" where
  "held_row_ok r = (if or_submitted_hash r \<noteq> Some (or_payload_hash r) then Inr False
     else bindR (as_obj (or_item r)) (\<lambda>item. Inr (jget item ''document_id'' = JStr HELD_DOCUMENT)))"

definition held_operations_ok :: "operation_row option \<Rightarrow> operation_row option \<Rightarrow> bool \<Rightarrow> unit result" where
  "held_operations_ok parent child present = (case (parent, child) of
      (Some p, Some c) \<Rightarrow>
        bindR (guard_that (ao_type p = ''batch_retain'' \<and> ao_type c = ''retain'') (inv_error ''preserved parent/child operation types are not exact'')) (\<lambda>_.
        bindR (guard_that (ao_status p = ''failed'' \<and> ao_status c = ''failed'' \<and> \<not> present) (inv_error ''preserved parent/child must be failed and document absent'')) (\<lambda>_.
        bindR (guard_that (contains (opt_text (ao_error_message p)) ''APITimeoutError'' \<and> contains (opt_text (ao_error_message c)) ''APITimeoutError'')
          (inv_error ''preserved parent/child failure class drift'')) (\<lambda>_.
        bindR (dict_of_json (or_else (ao_result_metadata c) (JObj []))) (\<lambda>metadata.
        guard_that (jget metadata ''parent_operation_id'' = JStr HELD_PARENT \<and> jget metadata ''document_ids'' = JList [JStr HELD_DOCUMENT])
          (inv_error ''preserved child lineage drift'')))))
    | _ \<Rightarrow> Inl (inv_error ''preserved parent/child operation types are not exact''))"

definition call_ok :: "string \<times> int option \<Rightarrow> bool" where
  "call_ok c = (fst c = ''success'' \<and> snd c = Some 200)"

definition prove_held_failure :: "rec_config \<Rightarrow> rec_texts \<Rightarrow> rec_env \<Rightarrow> unit rec_prog" where
  "prove_held_failure cfg t re =
     bindP load_phase (\<lambda>phase.
     bindP (audited cfg t re phase) (\<lambda>audit.
     bindP (if jget phase ''budget'' \<noteq> JStr ''closed'' then Ret 1 else liftP (audit_in_flight audit)) (\<lambda>in_flight.
     bindP (check (in_flight = 0) ''budget must be healthy/closed with zero in-flight before retry'') (\<lambda>_.
     bindP (open_db cfg re AgentDb []) (\<lambda>_.
     bindP (ask_for (SelectRows [HELD_DOCUMENT]) a_rows) (\<lambda>rows.
     bindP (case rows of r # _ \<Rightarrow> Ret r | [] \<Rightarrow> Raise (inv_error ''preserved Agent row is not the exact submitted parent'')) (\<lambda>row.
     bindP (check (or_state row = ''submitted'' \<and> or_operation_id row = Some HELD_PARENT) ''preserved Agent row is not the exact submitted parent'') (\<lambda>_.
     bindP (liftP (held_row_ok row)) (\<lambda>good.
     bindP (check good ''preserved Agent row hash/item proof failed'') (\<lambda>_.
     bindP (open_db cfg re HindsightDb []) (\<lambda>_.
     bindP (ask_for (SelectOperations [HELD_PARENT, HELD_CHILD]) a_operations) (\<lambda>ops.
     bindP (ask_for (SelectPresent [HELD_DOCUMENT]) a_texts) (\<lambda>present.
     bindP (liftP (held_operations_ok (operation_of ops HELD_PARENT) (operation_of ops HELD_CHILD) (present \<noteq> []))) (\<lambda>_.
     bindP (open_db cfg re FuguDb []) (\<lambda>_.
     bindP (ask_for (SelectCalls (ao_created_at (the (operation_of ops HELD_PARENT))) (ao_updated_at (the (operation_of ops HELD_CHILD)))) a_calls) (\<lambda>calls.
     check (calls \<noteq> [] \<and> list_all call_ok calls) ''upstream calls in the failed-operation window are not terminal HTTP200 successes''))))))))))))))))"

definition refresh_retry :: "rec_config \<Rightarrow> rec_texts \<Rightarrow> rec_env \<Rightarrow> rec_audit rec_prog" where
  "refresh_retry cfg t re =
     bindP (prove_held_failure cfg t re) (\<lambda>_.
     bindP (app_worker cfg re) (\<lambda>_.
     bindP (bank_lock cfg re (
        bindP (ask_for (RefreshSubmitted []) a_refreshed) (\<lambda>(completed, failed).
        bindP (check ((completed, failed) = (0, 1)) (''refresh-only result '' @ pair_text (completed, failed) @ '' != (0, 1)'')) (\<lambda>_.
        bindP (ask_for (RetryDocument HELD_DOCUMENT ''authorized one-shot retry after max-charge ReadTimeout reconciliation'' False) a_flag) (\<lambda>retried.
        check retried ''exact failed document was not requeued''))))) (\<lambda>_.
     bindP load_phase (\<lambda>loaded.
     let phase = update_phase loaded [(''name'', JStr ''ready''), (''budget'', JStr ''closed''), (''expected_retry'', JInt 18), (''expected_succeeded'', JInt 3263)] in
     bindP (save_phase phase) (\<lambda>_.
     bindP (full_audit cfg t re phase) (\<lambda>audit.
     bindP (check (same_dict (qs_agent (au_snap audit)) [(''queued'', 1879), (''succeeded'', 3263)]
         \<and> au_retry audit = 18 \<and> au_claim audit = 12 \<and> au_adoption audit = 1 \<and> au_remote_documents audit = 3263)
       (''post-retry baseline mismatch: counts='' @ counts_text t (qs_agent (au_snap audit)) @ '' histories='' @ histories_text t audit
        @ '' docs='' @ int_str (au_remote_documents audit))) (\<lambda>_.
     bindP (check (au_failures audit = []) (join ''; '' (au_failures audit))) (\<lambda>_.
     bindP (log_event ''refresh_retry_complete'' [(''document_id'', JStr HELD_DOCUMENT)]) (\<lambda>_.
     Ret audit)))))))))"

section \<open>Closing and resuming\<close>

definition close_agent :: "rec_config \<Rightarrow> rec_env \<Rightarrow> unit rec_prog" where
  "close_agent cfg re =
     bindP (bank_lock cfg re (bindP (ask_for CloseAgent a_number) (\<lambda>n. check (n = 1) ''Agent circuit was not exactly one open row''))) (\<lambda>_.
     log_event ''agent_closed'' [(''reason'', JStr ''authorized staged recovery release'')])"

fun completed_rows :: "(outbox_row \<Rightarrow> bool) \<Rightarrow> outbox_row list \<Rightarrow> bool rec_prog" where
  \<comment> \<open>every row passes the test, its operation is completed and its document is present; the loop ends at the first that is not\<close>
  "completed_rows test [] = Ret True"
| "completed_rows test (r # rs) =
     (if \<not> test r then Ret False
      else bindP (ask_for (SelectStatus (opt_text (or_operation_id r))) a_status) (\<lambda>status.
        bindP (ask_for (SelectPresent [or_document_id r]) a_texts) (\<lambda>present.
        if status \<noteq> Some ''completed'' \<or> present = [] then Ret False else completed_rows test rs)))"

definition resume_gate :: "rec_config \<Rightarrow> rec_texts \<Rightarrow> json dict \<Rightarrow> rec_audit \<Rightarrow> unit result" where
  "resume_gate cfg t phase audit =
     (let c = qs_agent (au_snap audit) in
      bindR (need_key phase ''name'') (\<lambda>n.
      bindR (circuit_is_open (qs_agent_circuit (au_snap audit))) (\<lambda>agent_open.
      bindR (audit_in_flight audit) (\<lambda>in_flight.
      case precap_resume_failure (jstr (tx_str t) n) agent_open (count_of c ATTEMPTED_STATES) (count_of c [''succeeded'']) (count_of c [''submitting''])
          (count_of c [''submitted'']) (count_of c ERROR_STATES) (count_of (qs_operations (au_snap audit)) [''pending'', ''processing'']) in_flight
          (au_remote_documents audit) (rc_max_agent_active cfg) (rc_stage_cap cfg) of
        Some m \<Rightarrow> Inl (inv_error m) | None \<Rightarrow> Inr ()))))"

definition settled_audit :: "rec_config \<Rightarrow> rec_texts \<Rightarrow> rec_env \<Rightarrow> json dict \<Rightarrow> int \<Rightarrow> string \<Rightarrow> bool \<Rightarrow> rec_audit rec_prog" where
  \<comment> \<open>the audit after a reconciliation: all other documents are queued; \<open>both\<close> says whether the message has the expected counts\<close>
  "settled_audit cfg t re phase succeeded what both =
     (let expected = [(''queued'', rc_approved_total cfg - succeeded), (''succeeded'', succeeded)] in
      bindP (full_audit cfg t re phase) (\<lambda>settled.
      bindP (check (same_dict (qs_agent (au_snap settled)) expected)
        (what @ '' counts mismatch: '' @ counts_text t (qs_agent (au_snap settled)) @ (if both then '' != '' @ counts_text t expected else []))) (\<lambda>_.
      bindP (check (au_remote_documents settled = succeeded \<and> au_failures settled = [])
        (what @ '' audit failed: '' @ failures_text t (au_failures settled))) (\<lambda>_.
      Ret settled))))"

definition resume_refresh :: "outbox_row list \<Rightarrow> unit rec_prog" where
  \<comment> \<open>under the advisory lock\<close>
  "resume_refresh rows =
     bindP (ask_for (SelectCircuit AgentDb) a_circuit) (\<lambda>circuit.
     bindP (ask_for SelectSubmitted a_rows) (\<lambda>locked.
     bindP (check (case circuit of Some c \<Rightarrow> cr_open c | None \<Rightarrow> False) ''Agent circuit closed before pre-cap refresh'') (\<lambda>_.
     bindP (check (length locked = length rows) ''submitted-row count changed before pre-cap refresh'') (\<lambda>_.
     bindP (check (set (map row_pair (filter hash_agrees locked)) = set (map row_pair rows)) ''submitted row changed before pre-cap refresh'') (\<lambda>_.
     bindP (ask_for (RefreshSubmitted []) a_refreshed) (\<lambda>(completed, failed).
     check ((completed, failed) = (int (length rows), 0))
       (''pre-cap refresh-only result '' @ pair_text (completed, failed) @ '' != '' @ pair_text (int (length rows), 0))))))))"

definition prepare_resume :: "rec_config \<Rightarrow> rec_texts \<Rightarrow> rec_env \<Rightarrow> rec_audit rec_prog" where
  "prepare_resume cfg t re =
     bindP load_phase (\<lambda>phase.
     bindP (audited cfg t re phase) (\<lambda>audit.
     bindP (liftP (resume_gate cfg t phase audit)) (\<lambda>_.
     bindP (open_db cfg re AgentDb []) (\<lambda>_.
     bindP (ask_for SelectSubmitted a_rows) (\<lambda>rows.
     bindP (check (rows \<noteq> [] \<and> list_all (\<lambda>r. has_operation r \<and> hash_agrees r) rows) ''pre-cap submitted-row operation/hash proof failed'') (\<lambda>_.
     bindP (open_db cfg re HindsightDb []) (\<lambda>_.
     bindP (completed_rows (\<lambda>_. True) rows) (\<lambda>good.
     bindP (check good ''pre-cap submitted operation is not completed with its document present'') (\<lambda>_.
     bindP (app_worker cfg re) (\<lambda>_.
     bindP (bank_lock cfg re (resume_refresh rows)) (\<lambda>_.
     let succeeded = count_of (qs_agent (au_snap audit)) [''succeeded''] + int (length rows);
         phase' = update_phase phase [(''name'', JStr ''ready''), (''budget'', JStr ''closed''), (''expected_succeeded'', JInt succeeded)] in
     bindP (save_phase phase') (\<lambda>_.
     bindP (settled_audit cfg t re phase' succeeded ''pre-cap reconciliation'' True) (\<lambda>settled.
     bindP (log_event ''precap_hold_reconciled'' [(''document_ids'', JList (map (\<lambda>r. JStr (or_document_id r)) rows)),
       (''operation_ids'', JList (map (\<lambda>r. JStr (opt_text (or_operation_id r))) rows)), (''succeeded'', JInt succeeded)]) (\<lambda>_.
     Ret settled))))))))))))))"

section \<open>Release\<close>

definition release_check :: "rec_config \<Rightarrow> rec_texts \<Rightarrow> rec_env \<Rightarrow> json dict \<Rightarrow> nat \<Rightarrow> json \<Rightarrow> (quick_snap \<times> json) rec_prog" where
  \<comment> \<open>one round, with the spend of the round before: the snapshot and its spend\<close>
  "release_check cfg t re phase index prior =
     bindP (quick_snapshot cfg re) (\<lambda>snap.
     bindP (liftP (quick_failures cfg t (re_runtime re) snap phase)) (\<lambda>failures.
     bindP (check (failures = []) (''release check '' @ nat_str (index + 1) @ '': '' @ join ''; '' failures)) (\<lambda>_.
     bindP (liftP (as_obj (qs_budget snap))) (\<lambda>budget.
     let spend = jget budget ''hindsight_backfill_spent_usd'' in
     bindP (check (prior = JNull \<or> py_eq spend prior) ''spend changed during release stability window'') (\<lambda>_.
     bindP (if index = 0 \<or> index = 9 then bindP (audited cfg t re phase) (\<lambda>_. Ret ()) else Ret ()) (\<lambda>_.
     bindP (if index < 9 then act (Pause (Fin 2)) else Ret ()) (\<lambda>_.
     Ret (snap, spend))))))))"

fun release_checks :: "rec_config \<Rightarrow> rec_texts \<Rightarrow> rec_env \<Rightarrow> json dict \<Rightarrow> nat \<Rightarrow> nat \<Rightarrow> json \<Rightarrow> quick_snap option \<Rightarrow> quick_snap rec_prog" where
  \<comment> \<open>the rounds that are left, the number of this round, the spend and the snapshot of the round before\<close>
  "release_checks cfg t re phase 0 index prior snap = (case snap of Some s \<Rightarrow> Ret s | None \<Rightarrow> Raise (OtherError ''UnboundLocalError'' ''snap''))"
| "release_checks cfg t re phase (Suc n) index prior _ =
     bindP (release_check cfg t re phase index prior) (\<lambda>(snap, spend). release_checks cfg t re phase n (index + 1) spend (Some snap))"

fun first_claim :: "nat \<Rightarrow> rec_config \<Rightarrow> rec_env \<Rightarrow> int \<Rightarrow> instant \<Rightarrow> quick_snap rec_prog" where
  "first_claim 0 cfg re baseline limit =
     bindP (emergency_open cfg ''first claim did not appear within 90 seconds'') (\<lambda>_. Raise (inv_error ''first post-release claim timed out''))"
| "first_claim (Suc n) cfg re baseline limit =
     bindP (ask_for ReadMonotonic a_clock) (\<lambda>now.
     if now < limit then
       bindP (quick_snapshot cfg re) (\<lambda>current.
       let attempted = count_of (qs_agent current) ATTEMPTED_STATES; active = count_of (qs_agent current) ACTIVE_STATES; target = rc_max_agent_active cfg in
       bindP (liftP (bindR (as_obj (qs_budget current)) in_flight_of)) (\<lambda>provider.
       if attempted = baseline + target then
         (if active \<noteq> target \<or> rc_max_provider_in_flight cfg < provider then
            bindP (emergency_open cfg (''first-claim bound failed: active='' @ int_str active @ '' provider='' @ int_str provider)) (\<lambda>_.
            Raise (inv_error ''first post-release wave did not reach the configured Agent/provider bounds''))
          else bindP (log_event ''first_claim_verified'' [(''attempted'', JInt attempted), (''active'', JInt active), (''provider_in_flight'', JInt provider)]) (\<lambda>_.
            Ret current))
       else if baseline + target < attempted \<or> target < active \<or> rc_max_provider_in_flight cfg < provider then
         bindP (emergency_open cfg ''first-claim count/fan-out exceeded'') (\<lambda>_. Raise (inv_error ''post-release work exceeded first-claim bound''))
       else bindP (act (Pause (Fin 2))) (\<lambda>_. first_claim n cfg re baseline limit)))
     else bindP (emergency_open cfg ''first claim did not appear within 90 seconds'') (\<lambda>_. Raise (inv_error ''first post-release claim timed out'')))"

definition release :: "rec_config \<Rightarrow> rec_texts \<Rightarrow> rec_env \<Rightarrow> quick_snap rec_prog" where
  "release cfg t re =
     bindP load_phase (\<lambda>phase.
     bindP (check (jget phase ''name'' = JStr ''ready'' \<and> jget phase ''budget'' = JStr ''closed'') ''release requires ready phase and closed budget'') (\<lambda>_.
     bindP (release_checks cfg t re phase 10 0 JNull None) (\<lambda>snap.
     bindP (close_agent cfg re) (\<lambda>_.
     bindP (ask_for ReadTime a_clock) (\<lambda>now.
     bindP (save_phase (update_phase phase [(''name'', JStr ''running''), (''watchdog_armed'', JBool True), (''released_at'', JFloat (secs now))])) (\<lambda>_.
     bindP (ask_for ReadMonotonic a_clock) (\<lambda>start.
     first_claim 45 cfg re (count_of (qs_agent snap) [''succeeded'']) (start + usec 90))))))))"

section \<open>The stage cap\<close>

definition preprove_cap_refresh :: "rec_config \<Rightarrow> rec_env \<Rightarrow> bool rec_prog" where
  "preprove_cap_refresh cfg re =
     bindP (quick_snapshot cfg re) (\<lambda>snap.
     if count_of (qs_agent snap) ATTEMPTED_STATES \<noteq> rc_stage_cap cfg then Ret False
     else if count_of (qs_operations snap) [''pending'', ''processing''] \<noteq> 0 then Ret False
     else bindP (liftP (bindR (as_obj (qs_budget snap)) in_flight_of)) (\<lambda>in_flight.
       if in_flight \<noteq> 0 then Ret False
       else bindP (open_db cfg re AgentDb []) (\<lambda>_.
         bindP (ask_for SelectSubmitted a_rows) (\<lambda>rows.
         if rows = [] then Ret (count_of (qs_agent snap) [''succeeded''] = rc_stage_cap cfg)
         else bindP (open_db cfg re HindsightDb []) (\<lambda>_. completed_rows (\<lambda>r. has_operation r \<and> hash_agrees r) rows)))))"

definition settle_cap :: "rec_config \<Rightarrow> rec_texts \<Rightarrow> rec_env \<Rightarrow> rec_audit option rec_prog" where
  "settle_cap cfg t re =
     bindP load_phase (\<lambda>phase.
     if jget phase ''name'' \<noteq> JStr ''cap_hold'' then Ret None
     else bindP (preprove_cap_refresh cfg re) (\<lambda>proved.
       if \<not> proved then Ret None
       else bindP (app_worker cfg re) (\<lambda>_.
         bindP (bank_lock cfg re (
            bindP (ask_for (RefreshSubmitted []) a_refreshed) (\<lambda>(completed, failed).
            bindP (check (failed = 0) ''cap refresh encountered a failed remote operation'') (\<lambda>_. Ret completed)))) (\<lambda>completed.
         let phase' = update_phase phase [(''name'', JStr ''settled''), (''expected_succeeded'', JInt (rc_stage_cap cfg))] in
         bindP (save_phase phase') (\<lambda>_.
         bindP (settled_audit cfg t re phase' (rc_stage_cap cfg) ''cap settlement'' False) (\<lambda>audit.
         bindP (log_event ''stage_settled'' [(''completed'', JInt completed), (''succeeded'', JInt (rc_stage_cap cfg))]) (\<lambda>_.
         Ret (Some audit))))))))"

section \<open>The two documents refused by the provider\<close>

definition auth_gate :: "json dict \<Rightarrow> rec_audit \<Rightarrow> unit result" where
  "auth_gate phase audit =
     (let unexpected = filter (\<lambda>f. f \<noteq> ''Agent failed/blocked row present'' \<and> \<not> startswith f ''history drift:'') (au_failures audit) in
      bindR (guard_that (unexpected = []) (inv_error (join ''; '' unexpected))) (\<lambda>_.
      bindR (guard_that (jget phase ''budget'' = JStr ''closed'') (inv_error ''provider failure recovery requires closed budget phase'')) (\<lambda>_.
      bindR (circuit_is_open (qs_agent_circuit (au_snap audit))) (\<lambda>agent_open.
      bindR (guard_that agent_open (inv_error ''provider failure recovery requires Agent circuit open'')) (\<lambda>_.
      bindR (as_obj (qs_budget (au_snap audit))) (\<lambda>budget.
      bindR (in_flight_of budget) (\<lambda>in_flight.
      bindR (guard_that (in_flight = 0) (inv_error ''provider failure recovery requires zero provider in-flight'')) (\<lambda>_.
      bindR (if truthy (jget budget ''circuit_open'') then Inr False else in_texts (jget budget ''status'') [''healthy'', ''ok'']) (\<lambda>good.
      bindR (guard_that good (inv_error ''provider failure recovery requires healthy budget circuit'')) (\<lambda>_.
      guard_that (count_of (qs_operations (au_snap audit)) [''pending'', ''processing''] = 0)
        (inv_error ''provider failure recovery requires zero Hindsight activity'')))))))))))"

definition auth_documents :: "string list" where
  "auth_documents = sort (map ap_document PROVIDER_AUTH_FAILURE_ROWS)"

definition auth_proof_of :: "string \<Rightarrow> auth_proof option" where
  "auth_proof_of d = find (\<lambda>p. ap_document p = d) PROVIDER_AUTH_FAILURE_ROWS"

definition auth_history_ok :: "auth_proof \<Rightarrow> outbox_row \<Rightarrow> retry_row \<Rightarrow> bool" where
  "auth_history_ok p r h = (rh_operation_id h = Some (ap_parent p) \<and> rh_previous_state h = ''failed'' \<and> rh_payload_hash h = ap_payload_hash p
     \<and> rh_submitted_hash h = Some (ap_payload_hash p) \<and> py_eq (rh_item h) (or_item r))"

definition auth_row_check :: "retry_row list \<Rightarrow> outbox_row \<Rightarrow> unit result" where
  "auth_row_check histories r =
     (let d = or_document_id r; hs = filter (\<lambda>h. rh_document_id h = d) histories in
      bindR (case auth_proof_of d of Some p \<Rightarrow> Inr p | None \<Rightarrow> Inl (KeyError d)) (\<lambda>p.
      bindR (guard_that (or_state r \<in> set [''submitted'', ''failed'', ''queued'']) (inv_error (''provider recovery state drift for '' @ d))) (\<lambda>_.
      bindR (if or_operation_id r \<notin> {Some (ap_parent p), None} \<or> or_payload_hash r \<noteq> ap_payload_hash p \<or> or_source_kind r \<noteq> ''agent_session''
          \<or> or_source_id r \<noteq> ap_source_id p \<or> or_source_document r \<noteq> Some d then Inr False
        else bindR (as_obj (or_item r)) (\<lambda>item. Inr (jget item ''document_id'' = JStr d))) (\<lambda>good.
      bindR (guard_that good (inv_error (''provider recovery Agent provenance drift for '' @ d))) (\<lambda>_.
      if or_state r \<in> set [''submitted'', ''failed'']
      then bindR (guard_that (or_operation_id r = Some (ap_parent p) \<and> or_submitted_hash r = Some (ap_payload_hash p))
          (inv_error (''provider recovery submitted hash/operation drift for '' @ d))) (\<lambda>_.
        guard_that (hs = []) (inv_error (''provider recovery premature history for '' @ d)))
      else bindR (guard_that (length hs = 1) (inv_error (''provider recovery history count drift for '' @ d))) (\<lambda>_.
        guard_that (auth_history_ok p r (hd hs)) (inv_error (''provider recovery history provenance drift for '' @ d))))))))"

definition canonical_item :: "json list \<Rightarrow> json dict result" where
  \<comment> \<open>the only content, with \<open>event_date\<close> under its public name\<close>
  "canonical_item contents =
     bindR (case contents of [c] \<Rightarrow> dict_of_json c | _ \<Rightarrow> Inr []) (\<lambda>item.
     Inr (case map_of item ''event_date'' of
        Some v \<Rightarrow> if map_of item ''timestamp'' = None then AList.delete ''event_date'' item @ [(''timestamp'', v)] else item
      | None \<Rightarrow> item))"

definition list_of :: "json \<Rightarrow> json list result" where
  \<comment> \<open>\<open>list(v)\<close>\<close>
  "list_of v = iter_json v"

definition auth_remote_check :: "rec_texts \<Rightarrow> operation_row list \<Rightarrow> outbox_row \<Rightarrow> unit result" where
  "auth_remote_check t ops r =
     (let d = or_document_id r in
      bindR (case auth_proof_of d of Some p \<Rightarrow> Inr p | None \<Rightarrow> Inl (KeyError d)) (\<lambda>p.
      bindR (case operation_of ops (ap_parent p) of Some a \<Rightarrow> Inr a | None \<Rightarrow> Inl (KeyError (ap_parent p))) (\<lambda>parent.
      bindR (case operation_of ops (ap_child p) of Some a \<Rightarrow> Inr a | None \<Rightarrow> Inl (KeyError (ap_child p))) (\<lambda>child.
      bindR (guard_that (ao_type parent = ''batch_retain'' \<and> ao_type child = ''retain'' \<and> ao_status parent = ''failed'' \<and> ao_status child = ''failed''
          \<and> contains (opt_text (ao_error_message parent)) ''provider returned 401'' \<and> contains (opt_text (ao_error_message child)) ''provider returned 401'')
        (inv_error (''provider recovery terminal failure drift for '' @ d))) (\<lambda>_.
      bindR (dict_of_json (or_else (ao_result_metadata child) (JObj []))) (\<lambda>metadata.
      bindR (dict_of_json (or_else (ao_task_payload child) (JObj []))) (\<lambda>payload.
      bindR (list_of (or_else (jget payload ''contents'') (JList []))) (\<lambda>contents.
      bindR (canonical_item contents) (\<lambda>item.
      bindR (guard_that (jget metadata ''parent_operation_id'' = JStr (ap_parent p) \<and> jget metadata ''document_ids'' = JList [JStr d]
          \<and> jget payload ''bank_id'' = JStr ''agent-sessions'' \<and> jget payload ''operation_id'' = JStr (ap_child p)
          \<and> length contents = 1 \<and> py_eq (JObj item) (or_item r)) (inv_error (''provider recovery remote lineage drift for '' @ d))) (\<lambda>_.
      guard_that (item_hash t item = ap_payload_hash p) (inv_error (''provider recovery canonical hash drift for '' @ d))))))))))))"

definition retry_if_failed :: "string \<Rightarrow> unit rec_prog" where
  "retry_if_failed d =
     bindP (ask_for (SelectRows [d]) a_rows) (\<lambda>rows.
     if rows \<noteq> [] \<and> or_state (hd rows) = ''failed''
     then bindP (ask_for (RetryDocument d ''authorized retry after terminal provider-401 recovery'' True) a_flag) (\<lambda>retried.
       check retried (''provider recovery retry failed for '' @ d))
     else Ret ())"

definition auth_requeue :: "(outbox_row list \<times> retry_row list) rec_prog" where
  \<comment> \<open>under the advisory lock\<close>
  "auth_requeue =
     bindP (ask_for (SelectCircuit AgentDb) a_circuit) (\<lambda>circuit.
     bindP (ask_for (SelectRows auth_documents) a_rows) (\<lambda>locked.
     bindP (ask_for SelectSubmitted a_rows) (\<lambda>submitted.
     bindP (check (case circuit of Some c \<Rightarrow> cr_open c | None \<Rightarrow> False) ''Agent circuit closed before provider recovery'') (\<lambda>_.
     let pairs = remdups (map row_pair (filter (\<lambda>r. or_state r = ''submitted'') locked)) in
     bindP (check (set pairs = set (map row_pair submitted)) ''submitted row set changed before provider recovery'') (\<lambda>_.
     bindP (if pairs = [] then Ret () else
        bindP (ask_for (RefreshSubmitted pairs) a_refreshed) (\<lambda>(completed, failed).
        check ((completed, failed) = (0, int (length pairs))) (''provider recovery refresh result '' @ pair_text (completed, failed)))) (\<lambda>_.
     bindP (mapP retry_if_failed auth_documents) (\<lambda>_.
     bindP (ask_for (SelectRows auth_documents) a_rows) (\<lambda>final.
     bindP (ask_for (SelectRetryHistory auth_documents) a_retry) (\<lambda>histories.
     Ret (final, histories))))))))))"

definition position_drift :: "outbox_row list \<Rightarrow> outbox_row \<Rightarrow> bool result" where
  "position_drift rows r = (if or_state r \<noteq> ''queued'' then Inr True
     else case find (\<lambda>x. or_document_id x = or_document_id r) (rev rows) of
       None \<Rightarrow> Inl (KeyError (or_document_id r)) | Some x \<Rightarrow> Inr (or_available_at r \<noteq> or_available_at x))"

definition recover_provider_auth_failures :: "rec_config \<Rightarrow> rec_texts \<Rightarrow> rec_env \<Rightarrow> rec_audit rec_prog" where
  "recover_provider_auth_failures cfg t re =
     bindP load_phase (\<lambda>phase.
     bindP (full_audit cfg t re phase) (\<lambda>audit.
     bindP (liftP (auth_gate phase audit)) (\<lambda>_.
     let operation_ids = concat (map (\<lambda>p. [ap_parent p, ap_child p]) PROVIDER_AUTH_FAILURE_ROWS) in
     bindP (open_db cfg re AgentDb []) (\<lambda>_.
     bindP (ask_for (SelectRows auth_documents) a_rows) (\<lambda>rows.
     bindP (ask_for (SelectRetryHistory auth_documents) a_retry) (\<lambda>histories.
     bindP (ask_for (SelectOtherActive auth_documents) a_rows) (\<lambda>others.
     bindP (check (others = []) ''unexpected active Agent row during provider recovery'') (\<lambda>_.
     bindP (check (set (map or_document_id rows) = set auth_documents) ''provider recovery document set drift'') (\<lambda>_.
     bindP (liftP (mapR (\<lambda>h. guard_that (rh_document_id h \<in> set auth_documents) (KeyError (rh_document_id h))) histories)) (\<lambda>_.
     bindP (liftP (mapR (auth_row_check histories) rows)) (\<lambda>_.
     bindP (open_db cfg re HindsightDb []) (\<lambda>_.
     bindP (ask_for (SelectOperations operation_ids) a_operations) (\<lambda>ops.
     bindP (ask_for (SelectPresent auth_documents) a_texts) (\<lambda>present.
     bindP (check (set (map ao_operation_id ops) = set operation_ids \<and> present = []) ''provider recovery remote operation/document set drift'') (\<lambda>_.
     bindP (liftP (mapR (auth_remote_check t ops) rows)) (\<lambda>_.
     bindP (app_worker cfg re) (\<lambda>_.
     bindP (bank_lock cfg re auth_requeue) (\<lambda>(final, final_histories).
     bindP (liftP (anyR (position_drift rows) final)) (\<lambda>drift.
     bindP (check (\<not> drift) ''provider recovery queue position/state drift'') (\<lambda>_.
     bindP (check (set (map (\<lambda>h. (rh_document_id h, opt_text (rh_operation_id h))) final_histories)
         = set (map (\<lambda>p. (ap_document p, ap_parent p)) PROVIDER_AUTH_FAILURE_ROWS)) ''provider recovery final history drift'') (\<lambda>_.
     let succeeded = count_of (qs_agent (au_snap audit)) [''succeeded''];
         phase' = update_phase phase [(''name'', JStr ''ready''), (''budget'', JStr ''closed''), (''expected_retry'', JInt 20), (''expected_succeeded'', JInt succeeded)];
         expected = [(''queued'', rc_approved_total cfg - succeeded), (''succeeded'', succeeded)] in
     bindP (save_phase phase') (\<lambda>_.
     bindP (full_audit cfg t re phase') (\<lambda>settled.
     bindP (check (same_dict (qs_agent (au_snap settled)) expected)
       (''provider recovery counts mismatch: '' @ counts_text t (qs_agent (au_snap settled)) @ '' != '' @ counts_text t expected)) (\<lambda>_.
     bindP (check (au_retry settled = 20 \<and> au_claim settled = 12 \<and> au_adoption settled = 1 \<and> au_remote_documents settled = succeeded \<and> au_failures settled = [])
       (''provider recovery audit failed: '' @ failures_text t (au_failures settled))) (\<lambda>_.
     bindP (log_event ''provider_auth_failures_requeued'' [(''document_ids'', JList (map JStr auth_documents)),
       (''operation_ids'', JList (map (\<lambda>p. JStr (ap_parent p)) PROVIDER_AUTH_FAILURE_ROWS))]) (\<lambda>_.
     Ret settled)))))))))))))))))))))))))) "

section \<open>Guard and watchdog\<close>

definition guard_reading :: "rec_config \<Rightarrow> rec_texts \<Rightarrow> rec_env \<Rightarrow> instant \<Rightarrow> json dict \<Rightarrow> (instant \<times> int \<times> string list) rec_prog" where
  \<comment> \<open>a round up to the full audit: the time of the last full audit, the attempted rows and all failures\<close>
  "guard_reading cfg t re last_full phase =
     bindP (quick_snapshot cfg re) (\<lambda>snap.
     bindP (liftP (quick_failures cfg t (re_runtime re) snap phase)) (\<lambda>failures.
     let attempted = count_of (qs_agent snap) ATTEMPTED_STATES in
     bindP (liftP (need_key phase ''name'')) (\<lambda>n.
     let action = stage_action attempted (jstr (tx_str t) n) (rc_stage_cap cfg);
         phase' = (if action = OpenStage then update_phase phase [(''name'', JStr ''cap_hold''), (''expected_succeeded'', JInt (count_of (qs_agent snap) [''succeeded'']))] else phase) in
     bindP (if action = Continue then Ret () else
        bindP (emergency_open cfg (''stage cap guard: attempted='' @ int_str attempted @ '' cap='' @ int_str (rc_stage_cap cfg))) (\<lambda>_.
        if action = OpenStage then save_phase phase' else Ret ())) (\<lambda>_.
     bindP (ask_for ReadMonotonic a_clock) (\<lambda>now.
     if pf_le (rc_full_seconds cfg) (secs (now - last_full)) then
       bindP (ask_for ReadTime a_clock) (\<lambda>wall.
       bindP (act (WriteHeartbeat [(''at'', JFloat (secs wall)), (''healthy'', JBool True), (''phase'', jget phase' ''name''),
         (''attempted'', JInt attempted), (''full_audit'', JStr ''running'')])) (\<lambda>_.
       bindP load_phase (\<lambda>current.
       bindP (full_audit cfg t re current) (\<lambda>full.
       Ret (now, attempted, failures @ au_failures full)))))
     else Ret (last_full, attempted, failures))))))"

definition guard_settle :: "rec_config \<Rightarrow> rec_texts \<Rightarrow> rec_env \<Rightarrow> int \<Rightarrow> string list \<Rightarrow> unit rec_prog" where
  "guard_settle cfg t re attempted failures =
     bindP (check (failures = []) (join ''; '' (sort (remdups failures)))) (\<lambda>_.
     bindP load_phase (\<lambda>phase.
     bindP (if jget phase ''name'' = JStr ''cap_hold'' then bindP (settle_cap cfg t re) (\<lambda>_. Ret ()) else Ret ()) (\<lambda>_.
     bindP (ask_for ReadTime a_clock) (\<lambda>wall.
     bindP load_phase (\<lambda>current.
     act (WriteHeartbeat [(''at'', JFloat (secs wall)), (''healthy'', JBool True), (''phase'', jget current ''name''), (''attempted'', JInt attempted)]))))))"

definition guard_failure :: "rec_config \<Rightarrow> rec_env \<Rightarrow> string option \<Rightarrow> exc \<Rightarrow> string rec_prog" where
  \<comment> \<open>the handler: the reason that is remembered\<close>
  "guard_failure cfg re last_reason e =
     (let reason = ''guard failure: '' @ exc_name e @ '': '' @ exc_text e in
      if is_exit e then Raise e
      else bindP (attemptP (agent_circuit_is_open cfg re)) (\<lambda>seen.
        bindP (if seen = Inr True then Ret () else suppressP (emergency_open cfg reason)) (\<lambda>_.
        bindP (ask_for ReadTime a_clock) (\<lambda>wall.
        bindP (act (WriteHeartbeat [(''at'', JFloat (secs wall)), (''healthy'', JBool False), (''reason'', JStr reason)])) (\<lambda>_.
        bindP (if last_reason = Some reason then Ret () else log_event ''guard_failure'' [(''reason'', JStr reason)]) (\<lambda>_.
        Ret reason))))))"

definition guard_round :: "rec_config \<Rightarrow> rec_texts \<Rightarrow> rec_env \<Rightarrow> instant \<Rightarrow> string option \<Rightarrow> (instant \<times> string option) rec_prog" where
  "guard_round cfg t re last_full last_reason =
     bindP load_phase (\<lambda>phase.
     bindP (attemptP (guard_reading cfg t re last_full phase)) (\<lambda>r.
     bindP (case r of
        Inl e \<Rightarrow> bindP (guard_failure cfg re last_reason e) (\<lambda>reason. Ret (last_full, Some reason))
      | Inr (full, attempted, failures) \<Rightarrow>
          bindP (attemptP (guard_settle cfg t re attempted failures)) (\<lambda>s. case s of
             Inl e \<Rightarrow> bindP (guard_failure cfg re last_reason e) (\<lambda>reason. Ret (full, Some reason))
           | Inr _ \<Rightarrow> Ret (full, None))) (\<lambda>out.
     bindP (act (Pause (rc_quick_seconds cfg))) (\<lambda>_. Ret out))))"

fun guard_rounds :: "nat \<Rightarrow> rec_config \<Rightarrow> rec_texts \<Rightarrow> rec_env \<Rightarrow> instant \<Rightarrow> string option \<Rightarrow> unit rec_prog" where
  "guard_rounds 0 cfg t re last_full last_reason = Ret ()"
| "guard_rounds (Suc n) cfg t re last_full last_reason =
     bindP (guard_round cfg t re last_full last_reason) (\<lambda>(full, reason). guard_rounds n cfg t re full reason)"

definition run_guard :: "nat \<Rightarrow> rec_config \<Rightarrow> rec_texts \<Rightarrow> unit rec_prog" where
  "run_guard n cfg t = bindP (recovery_init cfg) (\<lambda>re. guard_rounds n cfg t re 0 None)"

definition heartbeat_age :: "pyfloat option rec_prog" where
  "heartbeat_age =
     bindP (ask_for HeartbeatExists a_flag) (\<lambda>exists.
     if \<not> exists then Ret None
     else bindP (attemptP (bindP (ask_for ReadTime a_clock) (\<lambda>now.
        bindP (ask_for ReadHeartbeat a_json) (\<lambda>v.
        bindP (liftP (bindR (case v of JObj d \<Rightarrow> need_key d ''at'' | _ \<Rightarrow> Inl (TypeError ''object is not subscriptable'')) float_of_json)) (\<lambda>beat.
        Ret (pf_sub (secs now) beat)))))) (\<lambda>r. case r of Inr age \<Rightarrow> Ret (Some age) | Inl e \<Rightarrow> if is_exit e then Raise e else Ret None))"

definition watchdog_round :: "rec_config \<Rightarrow> unit rec_prog" where
  "watchdog_round cfg =
     bindP load_phase (\<lambda>phase.
     bindP heartbeat_age (\<lambda>age.
     let armed = truthy (jget phase ''watchdog_armed'') in
     bindP (all_ready (rc_pg_local_ports cfg @ [rc_hindsight_port cfg, rc_budget_port cfg, rc_fugu_port cfg] @ rc_patroni_ports cfg)) (\<lambda>ready.
     bindP (ask_for (ServiceActive ''hindsight-recovery-guard.service'') a_flag) (\<lambda>guard.
     bindP (ask_for (ServiceActive ''hindsight-recovery-tunnel.service'') a_flag) (\<lambda>tunnel.
     let failure = watchdog_failure armed age ready guard tunnel (rc_heartbeat_max_age cfg) in
     bindP (case failure of None \<Rightarrow> Ret () | Some m \<Rightarrow>
        bindP (suppressP (emergency_open cfg (''watchdog failure: '' @ m))) (\<lambda>_. log_event ''watchdog_failure'' [(''reason'', JStr m)])) (\<lambda>_.
     bindP (ask_for ReadTime a_clock) (\<lambda>wall.
     bindP (act (WriteWatchdog [(''at'', JFloat (secs wall)), (''healthy'', JBool (failure = None)),
       (''reason'', case failure of Some m \<Rightarrow> JStr m | None \<Rightarrow> JNull), (''armed'', JBool armed)])) (\<lambda>_.
     act (Pause (rc_watchdog_seconds cfg))))))))))"

fun watchdog_rounds :: "nat \<Rightarrow> rec_config \<Rightarrow> unit rec_prog" where
  "watchdog_rounds 0 cfg = Ret ()"
| "watchdog_rounds (Suc n) cfg = bindP (watchdog_round cfg) (\<lambda>_. watchdog_rounds n cfg)"

definition run_watchdog :: "nat \<Rightarrow> rec_config \<Rightarrow> unit rec_prog" where
  "run_watchdog n cfg = bindP (emergency_open cfg ''restart-safe watchdog startup hold'') (\<lambda>_. watchdog_rounds n cfg)"

section \<open>Commands\<close>

datatype rec_command =
    CmdAudit bool
  | CmdEmergencyOpen string
  | CmdPhase "string option" "string option" "int option" "int option" bool bool
  | CmdRefreshRetry
  | CmdRecoverProviderFailures
  | CmdPrepareResume
  | CmdRelease
  | CmdSettleCap
  | CmdGuard nat
  | CmdWatchdog nat

definition set_if :: "string \<Rightarrow> json option \<Rightarrow> json dict \<Rightarrow> json dict" where
  "set_if k v d = (case v of Some x \<Rightarrow> AList.update k x d | None \<Rightarrow> d)"

definition edit_phase :: "string option \<Rightarrow> string option \<Rightarrow> int option \<Rightarrow> int option \<Rightarrow> bool \<Rightarrow> bool \<Rightarrow> unit rec_prog" where
  "edit_phase name budget retry succeeded arm disarm =
     bindP load_phase (\<lambda>phase.
     bindP (liftP (guard_that (\<not> (arm \<and> disarm)) (SystemExit ''--arm and --disarm are mutually exclusive''))) (\<lambda>_.
     save_phase (set_if ''watchdog_armed'' (if disarm then Some (JBool False) else if arm then Some (JBool True) else None)
       (set_if ''expected_succeeded'' (map_option JInt succeeded) (set_if ''expected_retry'' (map_option JInt retry)
       (set_if ''budget'' (map_option JStr budget) (set_if ''name'' (map_option JStr name) phase)))))))"

definition main_command :: "rec_config \<Rightarrow> rec_texts \<Rightarrow> rec_command \<Rightarrow> unit rec_prog" where
  "main_command cfg t c = (case c of
      CmdEmergencyOpen reason \<Rightarrow> emergency_open cfg reason
    | CmdPhase name budget retry succeeded arm disarm \<Rightarrow> edit_phase name budget retry succeeded arm disarm
    | CmdGuard n \<Rightarrow> run_guard n cfg t
    | CmdWatchdog n \<Rightarrow> run_watchdog n cfg
    | CmdAudit full \<Rightarrow> bindP (recovery_init cfg) (\<lambda>re. bindP load_phase (\<lambda>phase.
        if full then bindP (full_audit cfg t re phase) (\<lambda>a. liftP (guard_that (au_failures a = []) (SystemExit ''2'')))
        else bindP (quick_snapshot cfg re) (\<lambda>_. Ret ())))
    | CmdRefreshRetry \<Rightarrow> bindP (recovery_init cfg) (\<lambda>re. bindP (refresh_retry cfg t re) (\<lambda>_. Ret ()))
    | CmdRecoverProviderFailures \<Rightarrow> bindP (recovery_init cfg) (\<lambda>re. bindP (recover_provider_auth_failures cfg t re) (\<lambda>_. Ret ()))
    | CmdPrepareResume \<Rightarrow> bindP (recovery_init cfg) (\<lambda>re. bindP (prepare_resume cfg t re) (\<lambda>_. Ret ()))
    | CmdRelease \<Rightarrow> bindP (recovery_init cfg) (\<lambda>re. bindP (release cfg t re) (\<lambda>_. Ret ()))
    | CmdSettleCap \<Rightarrow> bindP (recovery_init cfg) (\<lambda>re. bindP (settle_cap cfg t re) (\<lambda>_. Ret ())))"

end
