(* ===== verification/Rec_Props.thy ===== *)
theory Rec_Props
  imports Rec_Actions
begin

text \<open>
  The controller of the staged backfill: which program may close the circuit, acknowledge finished operations or queue a document again,
  and what it has proved before. All commands, guards and watchdogs run in parallel.
\<close>

section \<open>Quiet programs\<close>

fun quiet :: "rec_op \<Rightarrow> bool" where
  "quiet CloseAgent = False"
| "quiet (RefreshSubmitted _) = False"
| "quiet (RetryDocument _ _ _) = False"
| "quiet _ = True"

abbreviation still :: "'r rec_prog \<Rightarrow> bool" where
  "still p \<equiv> only rec_fits quiet p"

lemma only_ask_for: "P op \<Longrightarrow> only fits P (ask_for op sel)"
  by (auto simp: ask_for_def split: rec_answer.splits option.splits)

lemma only_act: "P op \<Longrightarrow> only fits P (act op)"
  by (simp add: act_def only_ask_for)

lemma only_finally: "only fits P p \<Longrightarrow> only fits P q \<Longrightarrow> only fits P (finallyP p q)"
  by (auto simp: finallyP_def attemptP_def intro!: only_bind only_catch)

lemma only_attempt: "only fits P p \<Longrightarrow> only fits P (attemptP p)"
  by (auto simp: attemptP_def intro!: only_bind only_catch)

lemma only_suppress: "only fits P p \<Longrightarrow> only fits P (suppressP p)"
  by (auto simp: suppressP_def intro!: only_catch)

lemma only_prod: "(\<And>a b. only fits P (f a b)) \<Longrightarrow> only fits P (case x of (a, b) \<Rightarrow> f a b)"
  by (cases x) simp

lemma only_let: "(\<And>y. only fits P (f y)) \<Longrightarrow> only fits P (let y = x in f y)"
  by simp

lemmas only_rules = only_bind only_ask_for only_act only_finally only_attempt only_suppress only_prod only_if only_let only_mapP only_simps(1-3)

lemma still_load: "still load_phase"
  unfolding load_phase_def by (intro only_rules; simp split: json.splits)

lemma still_save: "still (save_phase d)"
  unfolding save_phase_def by (intro only_rules; simp)

lemma still_event: "still (log_event k fs)"
  unfolding log_event_def by (intro only_rules; simp)

lemma still_init: "still (recovery_init cfg)"
  unfolding recovery_init_def read_env_file_def by (intro only_rules; simp)

lemma still_db: "still (open_db cfg re db ps)"
  unfolding open_db_def by (intro only_rules; simp)

lemma still_http: "still (http_json url)"
  unfolding http_json_def by (intro only_rules; simp)

lemma still_snapshot: "still (quick_snapshot cfg re)"
  unfolding quick_snapshot_def by (intro only_rules still_db still_http; simp)

lemma still_audit: "still (full_audit cfg t re phase)"
  unfolding full_audit_def patroni_node_def by (intro only_rules still_db still_http still_snapshot; simp)

lemma still_audited: "still (audited cfg t re phase)"
  unfolding audited_def by (intro only_rules still_audit)

lemma still_ready: "still (all_ready ps)"
  by (induction ps) (auto intro!: only_rules)

lemma still_wait: "still (wait_ports n limit ps)"
  by (induction n) (auto intro!: only_rules still_ready)

lemma still_emergency: "still (emergency_open cfg reason)"
  unfolding emergency_open_def emergency_through_def
  by (intro only_rules still_wait still_init still_db still_event; simp)

lemma still_worker: "still (app_worker cfg re)"
  unfolding app_worker_def by (intro only_rules; simp)

lemma still_circuit: "still (agent_circuit_is_open cfg re)"
  unfolding agent_circuit_is_open_def by (intro only_rules still_db; simp)

lemma still_completed: "still (completed_rows test rows)"
  by (induction rows) (auto intro!: only_rules)

lemma still_preprove: "still (preprove_cap_refresh cfg re)"
  unfolding preprove_cap_refresh_def by (intro only_rules still_snapshot still_db still_completed; simp)

lemma still_settled: "still (settled_audit cfg t re phase n what b)"
  unfolding settled_audit_def by (intro only_rules still_audit)

lemma still_checks: "still (release_checks cfg t re phase n index prior snap)"
proof -
  have "still (release_check cfg t re phase index prior)" for index prior
    unfolding release_check_def by (intro only_rules still_snapshot still_audited; simp)
  then show ?thesis
    by (induction n arbitrary: index prior snap) (auto intro!: only_rules split: option.splits)
qed

lemma still_claim: "still (first_claim n cfg re baseline limit)"
  by (induction n) (auto intro!: only_rules still_snapshot still_emergency still_event simp: Let_def)

lemma still_held: "still (prove_held_failure cfg t re)"
  unfolding prove_held_failure_def
  by (intro only_rules still_load still_audited still_db; simp split: list.splits)

lemma still_failure: "still (guard_failure cfg re last_reason e)"
  unfolding guard_failure_def by (intro only_rules still_circuit still_emergency still_event; simp)

lemma still_reading: "still (guard_reading cfg t re last_full phase)"
  unfolding guard_reading_def
  by (intro only_rules still_snapshot still_emergency still_save still_load still_audit; simp)

lemma still_age: "still heartbeat_age"
  unfolding heartbeat_age_def by (intro only_rules; simp split: sum.splits)

lemma still_watchdog: "still (run_watchdog n cfg)"
proof -
  have "still (watchdog_round cfg)"
    unfolding watchdog_round_def
    by (intro only_rules still_load still_age still_ready; (simp split: option.splits)?)
      (auto intro!: only_rules still_emergency still_event)
  then have "still (watchdog_rounds n cfg)"
    by (induction n) (auto intro!: only_rules)
  then show ?thesis
    unfolding run_watchdog_def by (intro only_rules still_emergency)
qed

lemma still_edit: "still (edit_phase name budget retry succeeded arm disarm)"
  unfolding edit_phase_def by (intro only_rules still_load still_save)

section \<open>What has been proved before\<close>

abbreviation done_by :: "'r rec_prog \<Rightarrow> (rec_op \<times> rec_answer) list \<Rightarrow> 'r \<Rightarrow> bool" where
  \<comment> \<open>these operations and answers are a complete run of the program, with this result\<close>
  "done_by p u r \<equiv> follows rec_fits p u (Ret r)"

definition clean_snap :: "rec_config \<Rightarrow> rec_texts \<Rightarrow> rec_env \<Rightarrow> json dict \<Rightarrow> (rec_op \<times> rec_answer) list \<Rightarrow> quick_snap \<Rightarrow> bool" where
  "clean_snap cfg t re phase u snap = (done_by (quick_snapshot cfg re) u snap \<and> quick_failures cfg t (re_runtime re) snap phase = Inr [])"

definition clean_audit :: "rec_config \<Rightarrow> rec_texts \<Rightarrow> rec_env \<Rightarrow> json dict \<Rightarrow> (rec_op \<times> rec_answer) list \<Rightarrow> bool" where
  "clean_audit cfg t re phase v = (\<exists>u w audit. v = u @ w \<and> done_by (full_audit cfg t re phase) u audit \<and> au_failures audit = [])"

definition snap_spend :: "quick_snap \<Rightarrow> json" where
  "snap_spend snap = jget (members (qs_budget snap)) ''hindsight_backfill_spent_usd''"

fun clean_checks :: "rec_config \<Rightarrow> rec_texts \<Rightarrow> rec_env \<Rightarrow> json dict \<Rightarrow> nat \<Rightarrow> nat \<Rightarrow> json \<Rightarrow> (rec_op \<times> rec_answer) list \<Rightarrow> bool" where
  \<comment> \<open>clean snapshots one after the other, with the same spend, the first and the tenth with a clean full audit\<close>
  "clean_checks cfg t re phase 0 index prior tr = (tr = [])"
| "clean_checks cfg t re phase (Suc n) index prior tr =
     (\<exists>u v w snap. tr = u @ v @ w \<and> clean_snap cfg t re phase u snap \<and> (prior = JNull \<or> py_eq (snap_spend snap) prior)
       \<and> (index = 0 \<or> index = 9 \<longrightarrow> clean_audit cfg t re phase v) \<and> clean_checks cfg t re phase n (index + 1) (snap_spend snap) w)"

definition released :: "rec_config \<Rightarrow> rec_texts \<Rightarrow> (rec_op \<times> rec_answer) list \<Rightarrow> bool" where
  \<comment> \<open>ten clean checks against a ready phase; then nothing but the connection and the lock\<close>
  "released cfg t tr = (\<exists>u v w re phase. tr = u @ v @ w \<and> length w = 2 \<and> jget phase ''name'' = JStr ''ready'' \<and> jget phase ''budget'' = JStr ''closed''
     \<and> clean_checks cfg t re phase 10 0 JNull v)"

definition finished_row :: "(rec_op \<times> rec_answer) list \<Rightarrow> outbox_row \<Rightarrow> bool" where
  "finished_row v r = ((SelectStatus (opt_text (or_operation_id r)), Status (Some ''completed'')) \<in> set v
     \<and> (\<exists>ds. ds \<noteq> [] \<and> (SelectPresent [or_document_id r], Texts ds) \<in> set v))"

definition proved_rows :: "nat \<Rightarrow> (rec_op \<times> rec_answer) list \<Rightarrow> outbox_row list \<Rightarrow> bool" where
  \<comment> \<open>the submitted rows were read, each with its own hash, a completed operation and a present document, and at most \<open>n\<close> operations follow\<close>
  "proved_rows n tr rows = (\<exists>u v w. tr = u @ v @ w \<and> length w \<le> n \<and> (SelectSubmitted, Rows rows) \<in> set (u @ v)
     \<and> (\<forall>r \<in> set rows. has_operation r \<and> hash_agrees r \<and> finished_row v r))"

definition still_submitted :: "(rec_op \<times> rec_answer) list \<Rightarrow> outbox_row list \<Rightarrow> bool" where
  \<comment> \<open>under the lock: the circuit is open and the same rows are submitted\<close>
  "still_submitted tr rows = (\<exists>u c locked. tr = u @ [(SelectCircuit AgentDb, Circuit (Some c)), (SelectSubmitted, Rows locked)] \<and> cr_open c
     \<and> length locked = length rows \<and> row_pair ` set (filter hash_agrees locked) = row_pair ` set rows)"

definition held_proved :: "rec_config \<Rightarrow> rec_texts \<Rightarrow> nat \<Rightarrow> (rec_op \<times> rec_answer) list \<Rightarrow> bool" where
  "held_proved cfg t n tr = (\<exists>u v w re. tr = u @ v @ w \<and> length w \<le> n \<and> done_by (prove_held_failure cfg t re) v ())"

definition auth_proved :: "rec_config \<Rightarrow> rec_texts \<Rightarrow> (rec_op \<times> rec_answer) list \<Rightarrow> bool" where
  \<comment> \<open>the gate was passed, both documents and their operations were checked, and the circuit was seen open under the lock\<close>
  "auth_proved cfg t tr = (\<exists>phase audit rows histories ops c. auth_gate phase audit = Inr () \<and> set (map or_document_id rows) = set auth_documents
     \<and> (\<forall>r \<in> set rows. auth_row_check histories r = Inr () \<and> auth_remote_check t ops r = Inr ())
     \<and> (SelectRows auth_documents, Rows rows) \<in> set tr \<and> (SelectPresent auth_documents, Texts []) \<in> set tr
     \<and> (SelectCircuit AgentDb, Circuit (Some c)) \<in> set tr \<and> cr_open c)"

definition refresh_allowed :: "rec_config \<Rightarrow> rec_texts \<Rightarrow> rec_command \<Rightarrow> (rec_op \<times> rec_answer) list \<Rightarrow> (string \<times> string) list \<Rightarrow> bool" where
  "refresh_allowed cfg t cmd tr pairs = (case cmd of
      CmdGuard _ \<Rightarrow> pairs = [] \<and> (\<exists>rows. proved_rows 3 tr rows)
    | CmdSettleCap \<Rightarrow> pairs = [] \<and> (\<exists>rows. proved_rows 3 tr rows)
    | CmdPrepareResume \<Rightarrow> pairs = [] \<and> (\<exists>rows. rows \<noteq> [] \<and> proved_rows 5 tr rows \<and> still_submitted tr rows)
    | CmdRefreshRetry \<Rightarrow> pairs = [] \<and> held_proved cfg t 3 tr
    | CmdRecoverProviderFailures \<Rightarrow> auth_proved cfg t tr \<and> set (map fst pairs) \<subseteq> set auth_documents
    | _ \<Rightarrow> False)"

definition retry_allowed :: "rec_config \<Rightarrow> rec_texts \<Rightarrow> rec_command \<Rightarrow> (rec_op \<times> rec_answer) list \<Rightarrow> string \<Rightarrow> bool" where
  "retry_allowed cfg t cmd tr d = (case cmd of
      CmdRefreshRetry \<Rightarrow> d = HELD_DOCUMENT \<and> held_proved cfg t 4 tr
    | CmdRecoverProviderFailures \<Rightarrow> d \<in> set auth_documents \<and> auth_proved cfg t tr
        \<and> (\<exists>r rs. (SelectRows [d], Rows (r # rs)) \<in> set tr \<and> or_state r = ''failed'')
    | _ \<Rightarrow> False)"

definition rec_ok :: "rec_config \<Rightarrow> rec_texts \<Rightarrow> rec_command \<Rightarrow> (rec_op \<times> rec_answer) list \<Rightarrow> rec_op \<Rightarrow> bool" where
  "rec_ok cfg t cmd tr op = (case op of
      CloseAgent \<Rightarrow> cmd = CmdRelease \<and> released cfg t tr
    | RefreshSubmitted pairs \<Rightarrow> refresh_allowed cfg t cmd tr pairs
    | RetryDocument d _ _ \<Rightarrow> retry_allowed cfg t cmd tr d
    | _ \<Rightarrow> True)"

lemma quiet_ok: "quiet op \<Longrightarrow> rec_ok cfg t cmd tr op"
  by (cases op) (simp_all add: rec_ok_def)

abbreviation okay :: "rec_config \<Rightarrow> rec_texts \<Rightarrow> rec_command \<Rightarrow> 'r rec_prog \<Rightarrow> (rec_op \<times> rec_answer) list \<Rightarrow> bool" where
  "okay cfg t cmd p tr \<equiv> wp rec_fits (rec_ok cfg t cmd) p tr (\<lambda>_ _. True) (\<lambda>_ _. True)"

lemma still_okay: "still p \<Longrightarrow> okay cfg t cmd p tr"
  by (rule wp_weaken [where ok = "\<lambda>_. quiet" and Q = "\<lambda>_ _. True" and E = "\<lambda>_ _. True"]) (auto intro: only_wp quiet_ok)

lemma okay_ask: "rec_ok cfg t cmd tr op \<Longrightarrow> okay cfg t cmd (ask_for op sel) tr"
proof -
  have "okay cfg t cmd (case a of Fails e \<Rightarrow> Raise e | _ \<Rightarrow> (case sel a of Some r \<Rightarrow> Ret r | None \<Rightarrow> Raise (RuntimeError ''answer does not fit''))) tr'" for a tr'
    by (cases a; cases "sel a") simp_all
  then show "rec_ok cfg t cmd tr op \<Longrightarrow> okay cfg t cmd (ask_for op sel) tr"
    by (simp add: ask_for_def)
qed

lemma okay_finally:
  assumes "okay cfg t cmd p tr" "still q"
  shows "okay cfg t cmd (finallyP p q) tr"
  unfolding finallyP_def
proof (rule wp_seq)
  show "okay cfg t cmd (attemptP p) tr"
    using assms(1) by simp
qed (intro still_okay only_rules assms(2))

section \<open>Runs of small programs\<close>

lemma follows_ask:
  "follows fits (ask_for op sel) u (Ret r) \<longleftrightarrow> (\<exists>a. u = [(op, a)] \<and> fits op a \<and> (\<forall>e. a \<noteq> Fails e) \<and> sel a = Some r)"
proof -
  have "follows fits (case a of Fails e \<Rightarrow> Raise e | _ \<Rightarrow> (case sel a of Some r \<Rightarrow> Ret r | None \<Rightarrow> Raise (RuntimeError ''answer does not fit''))) v (Ret r)
      \<longleftrightarrow> v = [] \<and> (\<forall>e. a \<noteq> Fails e) \<and> sel a = Some r" for a v
    by (cases a; cases "sel a") auto
  then show ?thesis
    unfolding ask_for_def follows_Do by auto
qed

lemma done_act: "done_by (act op) u () \<longleftrightarrow> (\<exists>a. u = [(op, a)] \<and> rec_fits op a \<and> (\<forall>e. a \<noteq> Fails e))"
  by (simp add: act_def follows_ask)

lemma selects [simp]:
  "a_rows a = Some rs \<longleftrightarrow> a = Rows rs" "a_status a = Some s \<longleftrightarrow> a = Status s" "a_texts a = Some ts \<longleftrightarrow> a = Texts ts"
  "a_circuit a = Some c \<longleftrightarrow> a = Circuit c" "a_flag a = Some b \<longleftrightarrow> a = Flag b" "a_clock a = Some n \<longleftrightarrow> a = Clock n"
  by (auto simp: a_rows_def a_status_def a_texts_def a_circuit_def a_flag_def a_clock_def split: rec_answer.splits)

lemma done_db: "done_by (open_db cfg re db ps) u x \<Longrightarrow> length u = 1"
  by (auto simp: open_db_def follows_bind done_act)

lemma done_worker: "done_by (app_worker cfg re) u x \<Longrightarrow> length u = 1"
  by (auto simp: app_worker_def follows_bind done_act)

lemma okay_bank:
  assumes "\<And>w. length w = 2 \<Longrightarrow> okay cfg t cmd p (tr @ w)"
  shows "okay cfg t cmd (bank_lock cfg re p) tr"
  unfolding bank_lock_def
proof (intro wp_after, goal_cases)
  case 1
  then show ?case
    by (rule still_okay [OF still_db])
next
  case (2 u x)
  then show ?case
    by (intro still_okay only_rules) simp
next
  case (3 u x v y)
  then show ?case
    by (intro still_okay only_rules)
next
  case (4 u x v y w z)
  have "okay cfg t cmd p (tr @ u @ v)"
    using 4 done_db [of cfg re AgentDb "[]" u x] by (intro assms) (auto simp: follows_ask)
  then show ?case
    using 4(3) by (intro okay_finally only_rules) simp_all
qed

section \<open>The cap\<close>

lemma finished_mono: "finished_row v r \<Longrightarrow> set v \<subseteq> set v' \<Longrightarrow> finished_row v' r"
  unfolding finished_row_def by blast

lemma done_completed:
  assumes "done_by (completed_rows test rows) v True"
  shows "\<forall>r \<in> set rows. test r \<and> finished_row v r"
  using assms
proof (induction rows arbitrary: v)
  case (Cons r rows)
  then obtain ds w where v: "v = [(SelectStatus (opt_text (or_operation_id r)), Status (Some ''completed'')), (SelectPresent [or_document_id r], Texts ds)] @ w"
    and "test r" "ds \<noteq> []" "done_by (completed_rows test rows) w True"
    by (auto simp: follows_bind follows_ask split: if_splits)
  then have "\<forall>r' \<in> set rows. test r' \<and> finished_row w r'" "finished_row v r"
    using Cons.IH by (auto simp: finished_row_def)
  then show ?case
    using \<open>test r\<close> finished_mono [of w _ v] v by auto
qed simp

lemma done_preprove:
  assumes "done_by (preprove_cap_refresh cfg re) v True"
  shows "\<exists>rows. (SelectSubmitted, Rows rows) \<in> set v \<and> (\<forall>r \<in> set rows. has_operation r \<and> hash_agrees r \<and> finished_row v r)"
proof -
  let ?Q = "\<lambda>v b. b \<longrightarrow> (\<exists>rows. (SelectSubmitted, Rows rows) \<in> set v \<and> (\<forall>r \<in> set rows. has_operation r \<and> hash_agrees r \<and> finished_row v r))"
  have "wp rec_fits (\<lambda>_ _. True) (preprove_cap_refresh cfg re) [] ?Q (\<lambda>_ _. True)"
    unfolding preprove_cap_refresh_def
  proof (intro wp_after [OF wp_true] wp_if, goal_cases)
    case (4 u snap w n x d y rows)
    then show ?case
      by (auto simp: follows_ask)
  next
    case (5 u snap w n x d y rows z c)
    let ?p = "completed_rows (\<lambda>r. has_operation r \<and> hash_agrees r) rows"
    show ?case
    proof (rule wp_mono [OF wp_follows [OF wp_true]], goal_cases)
      case (1 tr' b)
      then obtain w' where w': "tr' = ((((([] @ u) @ w) @ x) @ y) @ z) @ w'" "done_by ?p w' b"
        by blast
      then have sub: "set w' \<subseteq> set tr'"
        by auto
      have "\<forall>r \<in> set rows. has_operation r \<and> hash_agrees r \<and> finished_row tr' r" if b
      proof -
        have "done_by ?p w' True"
          using w'(2) that by simp
        from done_completed [OF this] show ?thesis
          using finished_mono [OF _ sub] by blast
      qed
      moreover have "(SelectSubmitted, Rows rows) \<in> set tr'"
        using 1 5 by (auto simp: follows_ask)
      ultimately show ?case
        by blast
    qed simp
  qed simp_all
  then show ?thesis
    using follows_post [OF assms] by blast
qed

lemma proved_after:
  assumes "done_by (preprove_cap_refresh cfg re) v True" "length w \<le> 3"
  shows "\<exists>rows. proved_rows 3 (u @ v @ w) rows"
  using done_preprove [OF assms(1)] assms(2) unfolding proved_rows_def by fastforce

lemma okay_settle:
  assumes "\<And>tr. \<exists>rows. proved_rows 3 tr rows \<Longrightarrow> rec_ok cfg t cmd tr (RefreshSubmitted [])"
  shows "okay cfg t cmd (settle_cap cfg t re) tr"
  unfolding settle_cap_def
proof (intro wp_seq still_okay [OF still_load], goal_cases)
  case (1 l phase)
  have rest: "okay cfg t cmd (bindP (app_worker cfg re) (\<lambda>_. bindP (bank_lock cfg re (
            bindP (ask_for (RefreshSubmitted []) a_refreshed) (\<lambda>(completed, failed).
            bindP (check (failed = 0) ''cap refresh encountered a failed remote operation'') (\<lambda>_. Ret completed)))) f)) ((tr @ l) @ v)"
    if v: "done_by (preprove_cap_refresh cfg re) v True" and f: "\<And>x. still (f x)" for v f
  proof (intro wp_after [OF still_okay [OF still_worker]] wp_seq okay_bank still_okay [OF f], goal_cases)
    case (1 u x w)
    then have "\<exists>rows. proved_rows 3 ((tr @ l) @ v @ u @ w) rows"
      using done_worker [OF 1(1)] by (intro proved_after [OF v]) simp
    from assms [OF this] show ?case
      by (intro okay_ask) simp
  qed (auto intro!: still_okay only_rules)
  show ?case
  proof (intro wp_if wp_after [OF still_okay [OF still_preprove]], goal_cases)
    case (3 v proved)
    then show ?case
      by (intro rest) (simp, intro only_rules still_save still_settled still_event)
  qed simp_all
qed

section \<open>Release and resume\<close>

lemma done_audited:
  assumes "done_by (audited cfg t re phase) v audit"
  shows "done_by (full_audit cfg t re phase) v audit \<and> au_failures audit = []"
  using assms unfolding audited_def by (auto simp: follows_bind)

lemma spend_json: "as_obj (qs_budget snap) = Inr budget \<Longrightarrow> jget budget ''hindsight_backfill_spent_usd'' = snap_spend snap"
  by (simp add: snap_spend_def as_obj_def members_def split: json.splits)

lemma done_check:
  assumes "done_by (release_check cfg t re phase index prior) tr (snap, spend)"
  shows "\<exists>u v. tr = u @ v \<and> clean_snap cfg t re phase u snap \<and> spend = snap_spend snap \<and> (prior = JNull \<or> py_eq spend prior)
    \<and> (index = 0 \<or> index = 9 \<longrightarrow> clean_audit cfg t re phase v)"
proof -
  let ?Q = "\<lambda>tr (snap, spend). \<exists>u v. tr = u @ v \<and> clean_snap cfg t re phase u snap \<and> spend = snap_spend snap \<and> (prior = JNull \<or> py_eq spend prior)
    \<and> (index = 0 \<or> index = 9 \<longrightarrow> clean_audit cfg t re phase v)"
  have "wp rec_fits (\<lambda>_ _. True) (release_check cfg t re phase index prior) [] ?Q (\<lambda>_ _. True)"
    unfolding release_check_def Let_def
  proof (intro wp_after [OF wp_true], goal_cases)
    case (1 u snap w1 f w2 x w3 budget w4 y v z p q)
    have "clean_snap cfg t re phase u snap" "w1 = []" "w2 = []" "w3 = []" "w4 = []"
      using 1 by (auto simp: clean_snap_def)
    moreover have "clean_audit cfg t re phase (v @ p)" if "index = 0 \<or> index = 9"
      using 1(6) that done_audited [of cfg t re phase v] unfolding clean_audit_def by (auto simp: follows_bind)
    ultimately show ?case
      using 1(4,5) spend_json [of snap budget] by auto
  qed
  then show ?thesis
    using follows_post [OF assms] by fastforce
qed

lemma done_checks:
  assumes "done_by (release_checks cfg t re phase n index prior s0) tr s"
  shows "clean_checks cfg t re phase n index prior tr"
  using assms
proof (induction n arbitrary: index prior s0 tr)
  case 0
  then show ?case
    by (auto split: option.splits)
next
  case (Suc n)
  then obtain x w snap spend where tr: "tr = x @ w" "done_by (release_check cfg t re phase index prior) x (snap, spend)"
    and rest: "done_by (release_checks cfg t re phase n (index + 1) spend (Some snap)) w s"
    by (auto simp: follows_bind)
  obtain u v where "x = u @ v" "clean_snap cfg t re phase u snap" "spend = snap_spend snap" "prior = JNull \<or> py_eq spend prior"
    "index = 0 \<or> index = 9 \<longrightarrow> clean_audit cfg t re phase v"
    using done_check [OF tr(2)] by blast
  then show ?case
    using tr(1) Suc.IH [OF rest] unfolding clean_checks.simps by (metis append.assoc)
qed

lemma okay_release: "okay cfg t CmdRelease (release cfg t re) tr"
  unfolding release_def
proof (intro wp_seq [OF still_okay [OF still_load]] wp_lift_seq wp_after [OF still_okay [OF still_checks]], goal_cases)
  case (1 l phase x v snap)
  have "okay cfg t CmdRelease (bindP (ask_for CloseAgent a_number) (\<lambda>n. check (n = 1) ''Agent circuit was not exactly one open row'')) (((tr @ l) @ v) @ w)"
    if "length w = 2" for w
  proof (intro wp_seq okay_ask still_okay only_rules)
    have "released cfg t ((tr @ l) @ v @ w)"
      unfolding released_def using that 1 done_checks [OF 1(2)] by (intro exI [of _ "tr @ l"] exI [of _ v] exI [of _ w]) auto
    then show "rec_ok cfg t CmdRelease (((tr @ l) @ v) @ w) CloseAgent"
      by (simp add: rec_ok_def)
  qed
  then have "okay cfg t CmdRelease (close_agent cfg re) ((tr @ l) @ v)"
    unfolding close_agent_def by (rule wp_seq [OF okay_bank]) (assumption, rule still_okay [OF still_event])
  then show ?case
    by (rule wp_seq) (intro still_okay only_rules still_save still_claim; simp)
qed

lemma proved_more:
  assumes "proved_rows n tr rows" "length u \<le> k"
  shows "proved_rows (n + k) (tr @ u) rows"
proof -
  obtain x v w where "tr = x @ v @ w" "length w \<le> n" "(SelectSubmitted, Rows rows) \<in> set (x @ v)"
    "\<forall>r \<in> set rows. has_operation r \<and> hash_agrees r \<and> finished_row v r"
    using assms(1) unfolding proved_rows_def by blast
  then show ?thesis
    using assms(2) unfolding proved_rows_def by (intro exI [of _ x] exI [of _ v] exI [of _ "w @ u"]) auto
qed

lemma okay_resume_refresh:
  assumes "proved_rows 3 tr rows" "rows \<noteq> []"
  shows "okay cfg t CmdPrepareResume (resume_refresh rows) tr"
  unfolding resume_refresh_def
proof (rule wp_after [OF still_okay [OF only_ask_for]], simp, rule wp_after [OF still_okay [OF only_ask_for]], simp,
    intro wp_lift_seq wp_seq [OF okay_ask] still_okay only_rules, goal_cases)
  case (1 u c v locked x y z)
  then have uv: "u = [(SelectCircuit AgentDb, Circuit c)]" "v = [(SelectSubmitted, Rows locked)]"
    by (auto simp: follows_ask)
  have "proved_rows 5 ((tr @ u) @ v) rows"
    using proved_more [OF assms(1), of "u @ v" 2] uv by simp
  moreover have "still_submitted ((tr @ u) @ v) rows"
    using 1 uv unfolding still_submitted_def by (auto split: option.splits)
  ultimately show ?case
    using assms(2) by (auto simp: rec_ok_def refresh_allowed_def)
qed

lemma okay_prepare: "okay cfg t CmdPrepareResume (prepare_resume cfg t re) tr"
  unfolding prepare_resume_def
proof (rule wp_seq [OF still_okay [OF still_load]], rule wp_seq [OF still_okay [OF still_audited]], rule wp_lift_seq,
    rule wp_seq [OF still_okay [OF still_db]], rule wp_after [OF still_okay [OF only_ask_for]], simp, rule wp_lift_seq,
    rule wp_after [OF still_okay [OF still_db]], rule wp_after [OF still_okay [OF still_completed]], rule wp_lift_seq,
    rule wp_after [OF still_okay [OF still_worker]], rule wp_seq [OF okay_bank [OF okay_resume_refresh]], goal_cases)
  case (1 l phase l1 audit x l2 y s rows z d q v b g k h w)
  then have r: "s = [(SelectSubmitted, Rows rows)]" "\<forall>r \<in> set rows. has_operation r \<and> hash_agrees r" "done_by (completed_rows (\<lambda>_. True) rows) v True"
    "length (k @ w) = 3"
    using done_worker [of cfg re k h] by (auto simp: follows_ask list_all_iff)
  have "proved_rows 3 ((((tr @ l) @ l1) @ l2 @ s @ d) @ v @ (k @ w)) rows"
    using r done_completed [OF r(3)] unfolding proved_rows_def
    by (intro exI [of _ "((tr @ l) @ l1) @ l2 @ s @ d"] exI [of _ v] exI [of _ "k @ w"]) auto
  then show ?case
    by simp
next
  case (2 l phase l1 audit x l2 y s rows z d q v b g k h w)
  then show ?case
    by simp
next
  case (3 l phase l1 audit x l2 y s rows z d q v b g k h w r)
  then show ?case
    by (intro still_okay only_rules still_save still_settled still_event)
qed

section \<open>Retries\<close>

lemma held_after: "done_by (prove_held_failure cfg t re) v () \<Longrightarrow> length w \<le> n \<Longrightarrow> held_proved cfg t n (u @ v @ w)"
  unfolding held_proved_def by blast

lemma okay_held: "okay cfg t CmdRefreshRetry (refresh_retry cfg t re) tr"
  unfolding refresh_retry_def
proof (rule wp_after [OF still_okay [OF still_held]], rule wp_after [OF still_okay [OF still_worker]], rule wp_seq [OF okay_bank],
    rule wp_after [OF okay_ask], goal_cases)
  case (1 v x k h w)
  then have "held_proved cfg t 3 (tr @ v @ (k @ w))"
    using done_worker [of cfg re k h] by (intro held_after) auto
  then show ?case
    by (simp add: rec_ok_def refresh_allowed_def)
next
  case (2 v x k h w u r)
  then have "held_proved cfg t 4 (tr @ v @ (k @ w @ u))"
    using done_worker [of cfg re k h] by (intro held_after) (auto simp: follows_ask)
  then have "rec_ok cfg t CmdRefreshRetry ((((tr @ v) @ k) @ w) @ u) (RetryDocument HELD_DOCUMENT why keep)" for why keep
    by (simp add: rec_ok_def retry_allowed_def)
  note ok = this
  show ?case
    unfolding split_beta
  proof (rule wp_lift_seq, rule wp_seq [OF okay_ask [OF ok]])
  qed (intro still_okay only_rules)
next
  case (3 v x k h u r)
  then show ?case
    by (intro still_okay only_rules still_load still_save still_audit still_event)
qed

lemma auth_proved_mono: "auth_proved cfg t tr \<Longrightarrow> set tr \<subseteq> set tr' \<Longrightarrow> auth_proved cfg t tr'"
  unfolding auth_proved_def by (elim exE conjE) blast

lemma okay_mapP:
  assumes "\<And>x u. x \<in> set xs \<Longrightarrow> okay cfg t cmd (f x) (tr @ u)"
  shows "okay cfg t cmd (mapP f xs) tr"
  using assms
proof (induction xs arbitrary: tr)
  case (Cons x xs)
  have "okay cfg t cmd (mapP f xs) (tr @ u)" for u
    using Cons.prems by (intro Cons.IH) (metis append.assoc list.set_intros(2))
  then show ?case
    using Cons.prems [of x "[]"] by (auto simp del: wp_bind intro!: wp_seq)
qed simp

lemma okay_retry:
  assumes "auth_proved cfg t tr" "d \<in> set auth_documents"
  shows "okay cfg t CmdRecoverProviderFailures (retry_if_failed d) tr"
  unfolding retry_if_failed_def
proof (rule wp_after [OF still_okay [OF only_ask_for]], simp, intro wp_if wp_seq [OF okay_ask] still_okay only_rules, goal_cases)
  case (1 u rows)
  then have "u = [(SelectRows [d], Rows (hd rows # tl rows))]" "auth_proved cfg t (tr @ u)"
    using auth_proved_mono [OF assms(1), of "tr @ u"] by (auto simp: follows_ask)
  then show ?case
    using 1 assms(2) by (cases rows) (auto simp: rec_ok_def retry_allowed_def)
qed

lemma row_pair_documents:
  assumes "rec_fits (SelectRows ds) (Rows locked)"
  shows "set (map fst (remdups (map row_pair (filter P locked)))) \<subseteq> set ds"
  using assms by (auto simp: rec_fits_def list_all_iff row_pair_def)

lemma okay_requeue:
  assumes "auth_gate phase audit = Inr ()" "set (map or_document_id rows) = set auth_documents"
    "\<forall>r \<in> set rows. auth_row_check histories r = Inr () \<and> auth_remote_check t ops r = Inr ()"
    "(SelectRows auth_documents, Rows rows) \<in> set tr" "(SelectPresent auth_documents, Texts []) \<in> set tr"
  shows "okay cfg t CmdRecoverProviderFailures auth_requeue tr"
  unfolding auth_requeue_def Let_def
proof (rule wp_after [OF still_okay [OF only_ask_for]], simp, rule wp_after [OF still_okay [OF only_ask_for]], simp,
    rule wp_seq [OF still_okay [OF only_ask_for]], simp, rule wp_lift_seq, rule wp_lift_seq, goal_cases)
  case (1 u c v locked w submitted x y)
  let ?pairs = "remdups (map row_pair (filter (\<lambda>r. or_state r = ''submitted'') locked))"
  obtain c' where c: "u = [(SelectCircuit AgentDb, Circuit (Some c'))]" "cr_open c'"
    using 1 by (auto simp: follows_ask split: option.splits)
  have proved: "auth_proved cfg t (((tr @ u) @ v) @ w)"
    unfolding auth_proved_def using assms c by (intro exI [of _ phase] exI [of _ audit] exI [of _ rows] exI [of _ histories] exI [of _ ops] exI [of _ c']) auto
  have "set (map fst ?pairs) \<subseteq> set auth_documents"
    using 1 by (intro row_pair_documents) (auto simp: follows_ask)
  then have refresh: "rec_ok cfg t CmdRecoverProviderFailures (((tr @ u) @ v) @ w) (RefreshSubmitted ?pairs)"
    using proved by (simp add: rec_ok_def refresh_allowed_def)
  have retry: "okay cfg t CmdRecoverProviderFailures (mapP retry_if_failed auth_documents) ((((tr @ u) @ v) @ w) @ z)" for z
    by (intro okay_mapP okay_retry auth_proved_mono [OF proved]) auto
  show ?case
  proof (rule wp_seq, intro wp_if)
    show "okay cfg t CmdRecoverProviderFailures (bindP (ask_for (RefreshSubmitted ?pairs) a_refreshed) (\<lambda>(completed, failed).
        check ((completed, failed) = (0, int (length ?pairs))) (''provider recovery refresh result '' @ pair_text (completed, failed))))
        (((tr @ u) @ v) @ w)"
      by (rule wp_seq [OF okay_ask [OF refresh]]) (intro still_okay only_rules)
  qed (simp, rule wp_seq [OF retry], intro still_okay only_rules, simp_all)
qed

lemma mapR_checks: "mapR f xs = Inr ys \<Longrightarrow> \<forall>x \<in> set xs. f x = Inr (() :: unit)"
  by (induction xs arbitrary: ys) auto

lemma okay_provider: "okay cfg t CmdRecoverProviderFailures (recover_provider_auth_failures cfg t re) tr"
  unfolding recover_provider_auth_failures_def Let_def
proof (rule wp_seq [OF still_okay [OF still_load]], rule wp_seq [OF still_okay [OF still_audit]], rule wp_lift_seq, rule wp_seq [OF still_okay [OF still_db]],
    rule wp_after [OF still_okay [OF only_ask_for]], simp, rule wp_after [OF still_okay [OF only_ask_for]], simp, rule wp_after [OF still_okay [OF only_ask_for]], simp,
    rule wp_lift_seq, rule wp_lift_seq, rule wp_lift_seq, rule wp_lift_seq, rule wp_seq [OF still_okay [OF still_db]],
    rule wp_after [OF still_okay [OF only_ask_for]], simp, rule wp_after [OF still_okay [OF only_ask_for]], simp, rule wp_lift_seq, rule wp_lift_seq,
    rule wp_seq [OF still_okay [OF still_worker]], rule wp_seq [OF okay_bank], goal_cases)
  case (1 l phase l1 audit x l2 y s rows h histories o1 others z1 z2 z3 z4 l3 z5 p ops q present z6 z7 l4 z8 w)
  then have "\<forall>r \<in> set rows. auth_row_check histories r = Inr () \<and> auth_remote_check t ops r = Inr ()"
    using mapR_checks [of "auth_row_check histories" rows z4] mapR_checks [of "auth_remote_check t ops" rows z7] by blast
  then show ?case
    using 1 by (intro okay_requeue [where phase = phase and audit = audit and rows = rows and histories = histories and ops = ops])
      (auto simp: follows_ask)
next
  case (2 l phase l1 audit x l2 y s rows h histories o1 others z1 z2 z3 z4 l3 z5 p ops q present z6 z7 l4 z8 w r)
  then show ?case
    by (intro still_okay only_rules still_save still_audit still_event)
qed

section \<open>The guard and all commands\<close>

lemma okay_guard_settle: "okay cfg t (CmdGuard n) (guard_settle cfg t re attempted failures) tr"
  unfolding guard_settle_def
proof (rule wp_lift_seq, rule wp_seq [OF still_okay [OF still_load]], rule wp_seq, intro wp_if, goal_cases)
  case (1 x u phase)
  have "okay cfg t (CmdGuard n) (settle_cap cfg t re) tr'" for tr'
    by (rule okay_settle) (simp add: rec_ok_def refresh_allowed_def)
  then show ?case
    by (rule wp_seq) simp
next
  case 2
  then show ?case
    by simp
next
  case (3 x u phase v y)
  then show ?case
    by (intro still_okay only_rules still_load; simp)
qed

lemma okay_round: "okay cfg t (CmdGuard n) (guard_round cfg t re last_full last_reason) tr"
  unfolding guard_round_def
proof (rule wp_seq [OF still_okay [OF still_load]], rule wp_seq [OF still_okay [OF only_attempt [OF still_reading]]], rule wp_seq, goal_cases)
  case (1 u phase v r)
  have failed: "okay cfg t (CmdGuard n) (bindP (guard_failure cfg re last_reason e) (\<lambda>reason. Ret (full, Some reason))) tr'" for e full tr'
    by (intro still_okay only_rules still_failure)
  have settle: "okay cfg t (CmdGuard n) (attemptP (guard_settle cfg t re attempted failures)) tr'" for attempted failures tr'
    using okay_guard_settle by simp
  show ?case
    using failed by (auto simp del: wp_bind intro!: wp_seq [OF settle] split: sum.splits)
next
  case (2 u phase v r w out)
  then show ?case
    by (intro still_okay only_rules; simp)
qed

lemma okay_guard: "okay cfg t (CmdGuard n) (run_guard n cfg t) tr"
proof -
  have "okay cfg t (CmdGuard n) (guard_rounds m cfg t re last_full last_reason) tr'" for m re last_full last_reason tr'
  proof (induction m arbitrary: last_full last_reason tr')
    case (Suc m)
    then show ?case
      by (auto simp del: wp_bind split: prod.splits intro!: wp_seq [OF okay_round])
  qed simp
  then show ?thesis
    unfolding run_guard_def by (intro wp_seq [OF still_okay [OF still_init]])
qed

lemma okay_started:
  assumes "\<And>re tr. okay cfg t cmd (p re) tr"
  shows "okay cfg t cmd (bindP (recovery_init cfg) (\<lambda>re. bindP (p re) (\<lambda>_. Ret ()))) []"
  by (rule wp_seq [OF still_okay [OF still_init]], rule wp_seq [OF assms]) simp

lemma okay_command: "okay cfg t cmd (main_command cfg t cmd) []"
proof -
  have settle: "okay cfg t CmdSettleCap (settle_cap cfg t re) tr" for re tr
    by (rule okay_settle) (simp add: rec_ok_def refresh_allowed_def)
  show ?thesis
  proof (cases cmd)
    case (CmdAudit full)
    show ?thesis
      unfolding main_command_def CmdAudit rec_command.case by (intro still_okay only_rules still_init still_load still_audit still_snapshot)
  next
    case (CmdGuard n)
    then show ?thesis
      using okay_guard by (simp add: main_command_def)
  qed (auto simp: main_command_def simp del: wp_bind intro!: okay_started okay_held okay_provider okay_prepare okay_release settle
    intro: still_okay still_emergency still_edit still_watchdog)
qed

record rec_world =
  w_phase :: "json option"
  w_open :: bool
    \<comment> \<open>the circuit of the agent, which has its row\<close>

definition rec_next :: "rec_world \<Rightarrow> rec_op \<Rightarrow> rec_answer \<Rightarrow> rec_world option" where
  \<comment> \<open>the phase file and the circuit are what the processes of the controller share\<close>
  "rec_next w op a = (if \<not> rec_fits op a then None
     else if (case a of Fails _ \<Rightarrow> True | _ \<Rightarrow> False) then Some w
     else case op of
       PhaseExists \<Rightarrow> if a = Flag (w_phase w \<noteq> None) then Some w else None
     | ReadPhase \<Rightarrow> if map_option JsonText (w_phase w) = Some a then Some w else None
     | WritePhase d \<Rightarrow> Some (w\<lparr>w_phase := Some (JObj d)\<rparr>)
     | SelectCircuit AgentDb \<Rightarrow> (case a of Circuit (Some r) \<Rightarrow> if cr_open r = w_open w then Some w else None | _ \<Rightarrow> None)
     | CloseAgent \<Rightarrow> if a = Number (if w_open w then 1 else 0) then Some (w\<lparr>w_open := False\<rparr>) else None
     | OpenAgent _ \<Rightarrow> Some (w\<lparr>w_open := True\<rparr>)
     | _ \<Rightarrow> Some w)"

abbreviation rec_reach :: "rec_config \<Rightarrow> rec_texts \<Rightarrow> (rec_world, rec_command, rec_op, rec_answer, unit) par \<Rightarrow> bool" where
  "rec_reach cfg t \<equiv> reach (par_init w_open) (par_step (\<lambda>s op a s'. rec_next s op a = Some s') (\<lambda>cmd p. p = main_command cfg t cmd))"

definition opens :: "nat \<times> rec_op \<times> rec_answer \<Rightarrow> bool" where
  "opens e = (case e of (i, OpenAgent m, Finished) \<Rightarrow> True | _ \<Rightarrow> False)"

definition closed_by :: "rec_world \<Rightarrow> (nat \<times> rec_op \<times> rec_answer) list \<Rightarrow> bool" where
  \<comment> \<open>a closed circuit was closed by an entry of the log after which nothing opened it\<close>
  "closed_by w lg = (w_open w \<or> (\<exists>before i rest. lg = before @ (i, CloseAgent, Number 1) # rest \<and> \<not> list_ex opens rest))"

lemma closed_keep: "closed_by w lg \<Longrightarrow> w_open w' = w_open w \<Longrightarrow> \<not> opens e \<Longrightarrow> closed_by w' (lg @ [e])"
  unfolding closed_by_def
proof (elim disjE exE conjE, goal_cases)
  case (2 before i rest)
  then show ?case
    by (intro disjI2 exI [of _ before] exI [of _ i] exI [of _ "rest @ [e]"]) simp
qed simp

lemma opens_next: "opens (i, op, a) \<Longrightarrow> rec_next w op a = Some w' \<Longrightarrow> w_open w'"
  by (auto simp: opens_def rec_next_def split: rec_op.splits rec_answer.splits if_splits)

lemma open_changes:
  assumes "rec_next w op a = Some w'" "w_open w' \<noteq> w_open w"
  shows "w_open w' \<or> (op = CloseAgent \<and> a = Number 1)"
  using assms by (cases op) (auto simp: rec_next_def split: if_splits rec_answer.splits rec_db.splits option.splits)

lemma closed_step:
  assumes "closed_by w lg" "rec_next w op a = Some w'"
  shows "closed_by w' (lg @ [(i, op, a)])"
proof (cases "w_open w'")
  case False
  then have "\<not> opens (i, op, a)"
    using opens_next [OF _ assms(2)] by blast
  then show ?thesis
    using closed_keep [OF assms(1)] open_changes [OF assms(2)] False unfolding closed_by_def
    by (cases "w_open w' = w_open w") (blast, force)
qed (simp add: closed_by_def)

interpretation rec: par_system "\<lambda>s op a s'. rec_next s op a = Some s'" "\<lambda>cmd p. p = main_command cfg t cmd" rec_fits w_open "rec_ok cfg t" closed_by for cfg t
proof
  show "rec_next s op a = Some s' \<Longrightarrow> rec_fits op a" for s op a s'
    by (simp add: rec_next_def split: if_splits)
  show "p = main_command cfg t cmd \<Longrightarrow> okay cfg t cmd p []" for cmd p
    by (simp add: okay_command)
  show "w_open s \<Longrightarrow> closed_by s []" for s
    by (simp add: closed_by_def)
qed (rule closed_step)

text \<open>C34: Whatever commands, guards and watchdogs run, and however they interleave: when the circuit of the agent is closed, it was
  closed by a release, after ten consecutive clean checks with an unchanged spend, the first and the last of them with a clean full
  audit, against a phase that is ready with a closed budget, and nothing has opened it since.\<close>

theorem closed_only_by_release:
  assumes "rec_reach cfg t c" "\<not> w_open (par_state c)"
  shows "\<exists>before i rest. par_log c = before @ (i, CloseAgent, Number 1) # rest \<and> \<not> list_ex opens rest
    \<and> fst (par_threads c ! i) = CmdRelease \<and> released cfg t (own i before)"
proof -
  have "closed_by (par_state c) (par_log c)"
    using rec.reach_inv [OF assms(1)] by (simp add: rec.par_inv_def)
  then obtain before i rest where log: "par_log c = before @ (i, CloseAgent, Number 1) # rest" "\<not> list_ex opens rest"
    using assms(2) unfolding closed_by_def by blast
  have "rec_ok cfg t (fst (par_threads c ! i)) (own i before) CloseAgent"
    by (rule rec.reach_log [OF assms(1) log(1)])
  then show ?thesis
    using log by (auto simp: rec_ok_def)
qed



end
