(* ===== verification/Rec_Guard.thy ===== *)
theory Rec_Guard
  imports Rec_Props
begin

text \<open>
  The controller of the staged backfill: what a clean snapshot and a clean audit say about the batch, and what one round of the guard does.
\<close>

section \<open>Clean snapshots\<close>

lemma fail_if_Nil [simp]: "fail_if c m = [] \<longleftrightarrow> \<not> c"
  by (simp add: fail_if_def)

definition outbox_clean :: "rec_config \<Rightarrow> quick_snap \<Rightarrow> string \<Rightarrow> bool" where
  \<comment> \<open>the bounds on the rows of the two outboxes\<close>
  "outbox_clean cfg snap name =
     (let ac = qs_agent snap; held = (\<exists>c. qs_agent_circuit snap = Some c \<and> cr_open c) in
      sum_list (map snd ac) = rc_approved_total cfg \<and> count_of ac ATTEMPTED_STATES \<le> rc_stage_cap cfg
      \<and> count_of ac ACTIVE_STATES \<le> rc_max_agent_active cfg \<and> count_of ac ERROR_STATES = 0
      \<and> (name = ''running'' \<and> count_of ac ATTEMPTED_STATES < rc_stage_cap cfg \<or> held)
      \<and> (\<exists>c. qs_pocket_circuit snap = Some c \<and> cr_open c) \<and> count_of (qs_pocket snap) (ACTIVE_STATES @ ERROR_STATES) = 0)"

lemma circuit_open_iff: "circuit_is_open c = Inr b \<longleftrightarrow> (\<exists>r. c = Some r \<and> cr_open r = b)"
  by (auto simp: circuit_is_open_def split: option.splits)

lemma outbox_clean_iff: "outbox_failures cfg snap name = Inr [] \<longleftrightarrow> outbox_clean cfg snap name"
proof -
  let ?at = "count_of (qs_agent snap) ATTEMPTED_STATES"
  let ?held = "\<exists>c. qs_agent_circuit snap = Some c \<and> cr_open c"
  have held: "(\<exists>b. (if c then circuit_is_open (qs_agent_circuit snap) else Inr True) = Inr b \<and> b) \<longleftrightarrow> \<not> c \<or> ?held" for c
    by (auto simp: circuit_open_iff)
  have pocket: "(\<exists>b. circuit_is_open (qs_pocket_circuit snap) = Inr b \<and> b) \<longleftrightarrow> (\<exists>c. qs_pocket_circuit snap = Some c \<and> cr_open c)"
    by (auto simp: circuit_open_iff)
  have "outbox_failures cfg snap name = Inr [] \<longleftrightarrow> sum_list (map snd (qs_agent snap)) = rc_approved_total cfg \<and> \<not> rc_stage_cap cfg < ?at
      \<and> \<not> rc_max_agent_active cfg < count_of (qs_agent snap) ACTIVE_STATES \<and> count_of (qs_agent snap) ERROR_STATES = 0
      \<and> (\<exists>b. (if name \<noteq> ''running'' then circuit_is_open (qs_agent_circuit snap) else Inr True) = Inr b \<and> b)
      \<and> (\<exists>b. (if name = ''running'' \<and> rc_stage_cap cfg \<le> ?at then circuit_is_open (qs_agent_circuit snap) else Inr True) = Inr b \<and> b)
      \<and> (\<exists>b. circuit_is_open (qs_pocket_circuit snap) = Inr b \<and> b) \<and> count_of (qs_pocket snap) (ACTIVE_STATES @ ERROR_STATES) = 0"
    unfolding outbox_failures_def Let_def bindR_eq_Inr sum.inject append_is_Nil_conv fail_if_Nil by blast
  then show ?thesis
    unfolding held pocket outbox_clean_def Let_def not_less using not_le [of "rc_stage_cap cfg" ?at] by blast
qed

lemma quick_clean:
  assumes "quick_failures cfg t runtime snap phase = Inr []"
  obtains n budget projection where "need_key phase ''name'' = Inr n" "outbox_clean cfg snap (jstr (tx_str t) n)" "as_obj (qs_budget snap) = Inr budget"
    "\<exists>k. in_flight_of budget = Inr k \<and> k \<le> rc_max_provider_in_flight cfg"
    "compute_projection (get_or budget ''hindsight_backfill_spent_usd'' (JInt 0)) (count_of (qs_agent snap) [''succeeded'']) cfg = Inr projection"
    "decimal_gt projection (rc_hard_budget cfg) = Inr False" "runtime_failures cfg runtime = []" "budget_failures phase budget = Inr []"
    "jstr (tx_str t) n = ''running'' \<or> count_of (qs_operations snap) [''pending'', ''processing''] = 0"
  using assms unfolding quick_failures_def Let_def bindR_eq_Inr by (auto simp: outbox_clean_iff)

text \<open>C38: A snapshot without failures bounds the run: no more rows were attempted than the stage cap allows and no more are active than configured,
  none failed, the approved batch is complete, the circuit of the agent is open unless the phase is running below the cap, the other outbox
  is held and idle, the provider has no more requests in flight than configured, and what was spent plus the conservative cost of every document
  that has not succeeded is a number within the hard budget.\<close>

theorem clean_snapshot_bounded:
  assumes "quick_failures cfg t runtime snap phase = Inr []"
  shows "\<exists>name budget k projection. jget phase ''name'' = name \<and> outbox_clean cfg snap (jstr (tx_str t) name) \<and> qs_budget snap = JObj budget
    \<and> in_flight_of budget = Inr k \<and> k \<le> rc_max_provider_in_flight cfg
    \<and> compute_projection (get_or budget ''hindsight_backfill_spent_usd'' (JInt 0)) (count_of (qs_agent snap) [''succeeded'']) cfg = Inr projection
    \<and> projection \<noteq> NaN \<and> \<not> pf_lt (rc_hard_budget cfg) projection"
proof -
  obtain n budget projection where c: "need_key phase ''name'' = Inr n" "outbox_clean cfg snap (jstr (tx_str t) n)" "as_obj (qs_budget snap) = Inr budget"
    "\<exists>k. in_flight_of budget = Inr k \<and> k \<le> rc_max_provider_in_flight cfg"
    "compute_projection (get_or budget ''hindsight_backfill_spent_usd'' (JInt 0)) (count_of (qs_agent snap) [''succeeded'']) cfg = Inr projection"
    "decimal_gt projection (rc_hard_budget cfg) = Inr False"
    using quick_clean [OF assms] by metis
  have "jget phase ''name'' = n" "qs_budget snap = JObj budget" "projection \<noteq> NaN \<and> \<not> pf_lt (rc_hard_budget cfg) projection"
    using c(1,3,6) by (auto simp: need_key_def get_or_def as_obj_def decimal_gt_def split: option.splits json.splits if_splits)
  then show ?thesis
    using c by blast
qed

section \<open>Clean audits\<close>

definition row_sound :: "rec_texts \<Rightarrow> outbox_row \<Rightarrow> bool" where
  "row_sound t r = (\<exists>item. dict_of_json (or_item r) = Inr item \<and> item_hash t item = or_payload_hash r \<and> jget item ''document_id'' = JStr (or_document_id r)
     \<and> or_source_kind r = ''agent_session'' \<and> or_source_document r = Some (or_document_id r)
     \<and> (or_state r \<in> set ACTIVE_STATES \<longrightarrow> or_submitted_hash r = Some (or_payload_hash r)))"

lemma audit_rows_clean: "audit_rows t rows = Inr [] \<Longrightarrow> \<forall>r \<in> set rows. row_sound t r"
proof (induction rows)
  case (Cons r rows)
  then show ?case
    unfolding audit_rows.simps bindR_eq_Inr Let_def row_sound_def by (auto split: if_splits)
qed simp

definition documents_in :: "string list \<Rightarrow> outbox_row list \<Rightarrow> string set" where
  "documents_in states rows = or_document_id ` {r \<in> set rows. or_state r \<in> set states}"

lemma lineage_clean:
  assumes "lineage_failures cfg rows remote = []"
  shows "distinct remote \<and> documents_in [''succeeded''] rows \<subseteq> set remote \<and> set remote \<subseteq> documents_in [''succeeded'', ''submitting'', ''submitted''] rows"
  using assms unfolding lineage_failures_def Let_def append_is_Nil_conv fail_if_Nil documents_in_def by auto

text \<open>C39: A full audit without failures has read the whole batch and proved it: every document once, as many as approved, each row with the hash
  of its own item and its own lineage, active rows submitted with that hash; and the service holds every document that succeeded
  and no document that is not succeeded or on its way.\<close>

theorem clean_audit_proves_batch:
  assumes "done_by (full_audit cfg t re phase) tr audit" "au_failures audit = []"
  shows "\<exists>rows remote. (SelectOutbox, Rows rows) \<in> set tr \<and> (SelectDocuments, Texts remote) \<in> set tr
    \<and> distinct (map or_document_id rows) \<and> int (length rows) = rc_approved_total cfg \<and> (\<forall>r \<in> set rows. row_sound t r)
    \<and> distinct remote \<and> documents_in [''succeeded''] rows \<subseteq> set remote
    \<and> set remote \<subseteq> documents_in [''succeeded'', ''submitting'', ''submitted''] rows"
proof -
  let ?Q = "\<lambda>tr audit. au_failures audit = [] \<longrightarrow> (\<exists>rows remote. (SelectOutbox, Rows rows) \<in> set tr \<and> (SelectDocuments, Texts remote) \<in> set tr
    \<and> distinct (map or_document_id rows) \<and> int (length rows) = rc_approved_total cfg \<and> audit_rows t rows = Inr [] \<and> lineage_failures cfg rows remote = [])"
  have "wp rec_fits (\<lambda>_ _. True) (full_audit cfg t re phase) [] ?Q (\<lambda>_ _. True)"
    unfolding full_audit_def Let_def
  proof (intro wp_after [OF wp_true], goal_cases)
    case (1 u1 snap u2 f0 u3 x u4 rows u5 retry u6 claim u7 adoption u8 f2 u9 expected u10 y u11 remote u12 z u13 fugu u14 actual u15 nodes)
    then have "u4 = [(SelectOutbox, Rows rows)]" "u11 = [(SelectDocuments, Texts remote)]" "audit_rows t rows = Inr f2"
      by (auto simp: follows_ask)
    then show ?case
      unfolding wp.simps by (intro impI exI [of _ rows] exI [of _ remote]) simp
  qed
  from follows_post [OF assms(1) this] assms(2) obtain rows remote where rows: "(SelectOutbox, Rows rows) \<in> set tr" "(SelectDocuments, Texts remote) \<in> set tr"
    "distinct (map or_document_id rows)" "int (length rows) = rc_approved_total cfg" "audit_rows t rows = Inr []" "lineage_failures cfg rows remote = []"
    by blast
  show ?thesis
    using rows(1-4) audit_rows_clean [OF rows(5)] lineage_clean [OF rows(6)] by blast
qed

section \<open>A round of the guard\<close>

definition unhealthy :: "string \<Rightarrow> (rec_op \<times> rec_answer) list \<Rightarrow> bool" where
  \<comment> \<open>an unhealthy heartbeat with this reason was written\<close>
  "unhealthy m tr = (\<exists>wall a. (WriteHeartbeat [(''at'', wall), (''healthy'', JBool False), (''reason'', JStr m)], a) \<in> set tr)"

definition held_or_tried :: "rec_config \<Rightarrow> string \<Rightarrow> (rec_op \<times> rec_answer) list \<Rightarrow> bool" where
  \<comment> \<open>the circuit was read as open, or the emergency tunnel was run: it opened the circuit, or raised\<close>
  "held_or_tried cfg m tr = ((\<exists>c. cr_open c \<and> (SelectCircuit AgentDb, Circuit (Some c)) \<in> set tr)
     \<or> (\<exists>u v w. tr = u @ v @ w \<and> ((done_by (emergency_open cfg m) v () \<and> (\<exists>why. (OpenAgent why, Finished) \<in> set v))
         \<or> (\<exists>e. follows rec_fits (emergency_open cfg m) v (Raise e)))))"

lemma held_or_tried_append: "held_or_tried cfg m tr \<Longrightarrow> held_or_tried cfg m (u @ tr @ w)"
  unfolding held_or_tried_def
proof (elim disjE exE conjE, goal_cases)
  case (2 x v y why)
  then show ?case
    by (intro disjI2 exI [of _ "u @ x"] exI [of _ v] exI [of _ "y @ w"]) auto
next
  case (3 x v y e)
  then show ?case
    by (intro disjI2 exI [of _ "u @ x"] exI [of _ v] exI [of _ "y @ w"]) auto
qed auto

lemma done_opened: "done_by (act (OpenAgent why)) u x \<Longrightarrow> (OpenAgent why, Finished) \<in> set u"
proof -
  have "rec_fits (OpenAgent why) a \<Longrightarrow> \<forall>e. a \<noteq> Fails e \<Longrightarrow> a = Finished" for a
    by (cases a) (simp_all add: rec_fits_def)
  then show "done_by (act (OpenAgent why)) u x \<Longrightarrow> (OpenAgent why, Finished) \<in> set u"
    using done_act [of "OpenAgent why" u] by fastforce
qed

lemma through_opens:
  assumes "done_by (emergency_through cfg reason ports) v x"
  shows "(OpenAgent (take 1000 reason), Finished) \<in> set v"
proof -
  have "wp rec_fits (\<lambda>_ _. True) (emergency_through cfg reason ports) [] (\<lambda>tr _. (OpenAgent (take 1000 reason), Finished) \<in> set tr) (\<lambda>_ _. True)"
    unfolding emergency_through_def
  proof (intro wp_after [OF wp_true] wp_if, goal_cases)
    case (2 a b c d e f g re h k l m)
    then have "(OpenAgent (take 1000 reason), Finished) \<in> set l"
      by (intro done_opened)
    then show ?case
      by (intro wp_mono [OF wp_follows [OF wp_true]]) auto
  qed simp
  then show ?thesis
    using follows_post [OF assms] by blast
qed

lemma emergency_opens:
  assumes "done_by (emergency_open cfg reason) v ()"
  shows "\<exists>why. (OpenAgent why, Finished) \<in> set v"
proof -
  obtain ports u where "done_by (emergency_through cfg reason ports) u ()" "set u \<subseteq> set v"
    using assms unfolding emergency_open_def follows_bind follows_finally by force
  then show ?thesis
    using through_opens [of cfg reason ports u "()"] by blast
qed

lemma failure_holds:
  assumes "done_by (guard_failure cfg re last_reason e) tr m"
  shows "unhealthy m tr \<and> held_or_tried cfg m tr"
proof -
  define why where "why = ''guard failure: '' @ exc_name e @ '': '' @ exc_text e"
  have "wp rec_fits (\<lambda>_ _. True) (guard_failure cfg re last_reason e) [] (\<lambda>tr m. unhealthy m tr \<and> held_or_tried cfg m tr) (\<lambda>_ _. True)"
    unfolding guard_failure_def Let_def why_def [symmetric]
  proof (intro wp_if wp_after [OF wp_true], goal_cases)
    case (2 u seen v x w wall y z p q)
    have held: "held_or_tried cfg why (u @ v)"
    proof (cases "seen = Inr True")
      case True
      then have "done_by (agent_circuit_is_open cfg re) u True"
        using 2(2) by (simp add: follows_attempt)
      then show ?thesis
        unfolding agent_circuit_is_open_def held_or_tried_def by (auto simp: follows_bind follows_ask split: option.splits)
    next
      case False
      then have "done_by (emergency_open cfg why) v () \<or> (\<exists>e. follows rec_fits (emergency_open cfg why) v (Raise e))"
        using 2(3) by (auto simp: follows_suppress)
      then show ?thesis
        unfolding held_or_tried_def using emergency_opens [of cfg why v] by (intro disjI2 exI [of _ u] exI [of _ v] exI [of _ "[]"]) auto
    qed
    obtain a where "y = [(WriteHeartbeat [(''at'', JFloat (secs wall)), (''healthy'', JBool False), (''reason'', JStr why)], a)]"
      using 2(5) by (auto simp: done_act)
    then have "unhealthy why ((((([] @ u) @ v) @ w) @ y) @ p)"
      unfolding unhealthy_def by (intro exI [of _ "JFloat (secs wall)"] exI [of _ a]) simp
    then show ?case
      using held_or_tried_append [OF held, of "[]" "w @ y @ p"] by simp
  qed simp
  then show ?thesis
    using follows_post [OF assms] by blast
qed

lemma done_reading:
  assumes "done_by (guard_reading cfg t re last_full phase) tr (full, attempted, failures)"
  shows "\<exists>v w snap f. tr = v @ w \<and> done_by (quick_snapshot cfg re) v snap \<and> quick_failures cfg t (re_runtime re) snap phase = Inr f \<and> set f \<subseteq> set failures"
proof -
  have "wp rec_fits (\<lambda>_ _. True) (guard_reading cfg t re last_full phase) []
    (\<lambda>tr (lf, attempted, failures). \<exists>v w snap f. tr = v @ w \<and> done_by (quick_snapshot cfg re) v snap \<and> quick_failures cfg t (re_runtime re) snap phase = Inr f \<and> set f \<subseteq> set failures)
    (\<lambda>_ _. True)"
    unfolding guard_reading_def Let_def by (intro wp_after [OF wp_true] wp_if) auto
  then show ?thesis
    using follows_post [OF assms] by fastforce
qed

lemma done_settle: "done_by (guard_settle cfg t re attempted failures) a z \<Longrightarrow> failures = []"
  by (auto simp: guard_settle_def follows_bind)

lemma failed_round:
  assumes "done_by (bindP (guard_failure cfg re last_reason e) (\<lambda>reason. Ret (full, Some reason))) u out"
  shows "\<exists>m. snd out = Some m \<and> unhealthy m (tr @ u @ w) \<and> held_or_tried cfg m (tr @ u @ w)"
proof -
  obtain m where m: "done_by (guard_failure cfg re last_reason e) u m" "out = (full, Some m)"
    using assms by (auto simp: follows_bind)
  then show ?thesis
    using failure_holds [OF m(1)] held_or_tried_append [of cfg m u tr w] by (auto simp: unhealthy_def)
qed

lemma round_ends:
  assumes "done_by (guard_round cfg t re last_full last_reason) tr out"
  shows "(snd out = None \<and> (\<exists>u v w phase snap. tr = u @ v @ w \<and> done_by load_phase u phase \<and> clean_snap cfg t re phase v snap))
    \<or> (\<exists>m. snd out = Some m \<and> unhealthy m tr \<and> held_or_tried cfg m tr)"
proof -
  obtain u v w x phase r where tr: "tr = u @ v @ w @ x" and load: "done_by load_phase u phase"
    and read: "done_by (attemptP (guard_reading cfg t re last_full phase)) v r"
    and rest: "done_by (case r of Inl e \<Rightarrow> bindP (guard_failure cfg re last_reason e) (\<lambda>reason. Ret (last_full, Some reason))
      | Inr (full, attempted, failures) \<Rightarrow> bindP (attemptP (guard_settle cfg t re attempted failures)) (\<lambda>s. case s of
             Inl e \<Rightarrow> bindP (guard_failure cfg re last_reason e) (\<lambda>reason. Ret (full, Some reason))
           | Inr _ \<Rightarrow> Ret (full, None))) w out"
    using assms unfolding guard_round_def follows_bind by auto
  show ?thesis
  proof (cases r)
    case (Inl e)
    then show ?thesis
      using rest failed_round [of cfg re last_reason e last_full w out "u @ v" x] tr by simp
  next
    case (Inr res)
    obtain full attempted failures where res: "res = (full, attempted, failures)"
      by (cases res) auto
    obtain a b s where w: "w = a @ b" "done_by (attemptP (guard_settle cfg t re attempted failures)) a s"
      "done_by (case s of Inl e \<Rightarrow> bindP (guard_failure cfg re last_reason e) (\<lambda>reason. Ret (full, Some reason)) | Inr _ \<Rightarrow> Ret (full, None)) b out"
      using rest Inr res by (auto simp: follows_bind)
    show ?thesis
    proof (cases s)
      case (Inl e)
      then show ?thesis
        using w failed_round [of cfg re last_reason e full b out "u @ v @ a" x] tr by simp
    next
      case (Inr z)
      then have "failures = []" "snd out = None"
        using w(2,3) done_settle [of cfg t re attempted failures a z] by (auto simp: follows_attempt)
      moreover obtain p q snap where "v = p @ q" "clean_snap cfg t re phase p snap"
        using read \<open>r = Inr res\<close> res done_reading [of cfg t re last_full phase v full attempted failures] \<open>failures = []\<close>
        unfolding clean_snap_def by (auto simp: follows_attempt)
      ultimately show ?thesis
        using load tr by (metis append.assoc)
    qed
  qed
qed

text \<open>C37: One round of the guard fails closed. When it ends without a failure, the snapshot it began with had none against the phase it
  had read. Otherwise an unhealthy heartbeat with the reason was written, and the circuit was read as open, or the emergency
  tunnel was run and either opened the circuit or raised.\<close>

theorem guard_fails_closed:
  assumes "done_by (guard_round cfg t re last_full last_reason) tr (full, reason)"
  shows "case reason of
      None \<Rightarrow> \<exists>u v w phase snap. tr = u @ v @ w \<and> done_by load_phase u phase \<and> clean_snap cfg t re phase v snap
    | Some m \<Rightarrow> unhealthy m tr \<and> held_or_tried cfg m tr"
  using round_ends [OF assms] by (cases reason) simp_all


end
