(* ===== verification/Rec_Checks.thy ===== *)
theory Rec_Checks
  imports Rec_Guard
begin

text \<open>
  Examples for the theorems on the controller of the staged backfill: a batch of one document, and the runs in which the
  operator releases it, retries it and settles it.
\<close>

section \<open>A batch of one document\<close>

definition rx_cfg :: rec_config where
  "rx_cfg = \<lparr>rc_root = [], rc_state_dir = [], rc_ssh_target = ''n'', rc_pg_local_ports = [1, 2, 3], rc_pg_remote_hosts = [''a'', ''b'', ''c''],
     rc_hindsight_port = 4, rc_budget_port = 5, rc_fugu_port = 6, rc_patroni_ports = [7, 8, 9], rc_approved_total = 1, rc_stage_cap = 1,
     rc_max_agent_active = 1, rc_max_provider_in_flight = 1, rc_expected_hindsight_failed = 0, rc_conservative_remaining_cost = Fin 0,
     rc_hard_budget = Fin 30, rc_quick_seconds = Fin 2, rc_full_seconds = Fin 60, rc_watchdog_seconds = Fin 5, rc_heartbeat_max_age = Fin 60\<rparr>"

definition rx_texts :: rec_texts where
  "rx_texts = \<lparr>tx_str = \<lambda>_. [], tx_float = \<lambda>_. [], tx_decimal = \<lambda>_. [], tx_sha256 = \<lambda>_. ''h''\<rparr>"

definition rx_file :: string where
  "rx_file = join [CHR 0x0A] [''APP_DB_PASSWORD=p'', ''DB_PASSWORD=p'', ''LITELLM_DB_PASSWORD=p'', ''TAK=k'',
     ''HINDSIGHT_OUTBOX_MAX_IN_FLIGHT=1'', ''HINDSIGHT_OUTBOX_RUN_LIMIT=1'']"

definition rx_vars :: "(string \<times> string) list" where
  "rx_vars = [(''APP_DB_PASSWORD'', ''p''), (''DB_PASSWORD'', ''p''), (''LITELLM_DB_PASSWORD'', ''p''), (''TAK'', ''k''),
     (''HINDSIGHT_OUTBOX_MAX_IN_FLIGHT'', ''1''), (''HINDSIGHT_OUTBOX_RUN_LIMIT'', ''1'')]"

definition rx_env :: rec_env where
  "rx_env = \<lparr>re_agent = rx_vars, re_pocket = rx_vars, re_runtime = rx_vars, re_hindsight = rx_vars, re_fugu = rx_vars\<rparr>"

definition rx_row :: "string \<Rightarrow> outbox_row" where
  "rx_row state = \<lparr>or_document_id = ''d'', or_source_kind = ''agent_session'', or_source_id = 1, or_payload_hash = ''h'', or_submitted_hash = Some ''h'',
     or_item = JObj [(''document_id'', JStr ''d''), (''context'', JStr ''source:agent_sessions document:d'')], or_state = state,
     or_operation_id = Some ''op'', or_source_document = Some ''d'', or_available_at = None\<rparr>"

definition rx_snap :: "string \<Rightarrow> quick_snap" where
  \<comment> \<open>the document is in this state, and everything else is as it should be\<close>
  "rx_snap state = \<lparr>qs_agent = [(state, 1)], qs_agent_circuit = Some \<lparr>cr_open = True, cr_reason = None\<rparr>, qs_pocket = [],
     qs_pocket_circuit = Some \<lparr>cr_open = True, cr_reason = None\<rparr>, qs_operations = [], qs_documents = 0,
     qs_hindsight_health = JObj [(''status'', JStr ''healthy''), (''database'', JStr ''connected'')], qs_fugu_health = JObj [],
     qs_budget = JObj [(''status'', JStr ''ok''), (''hindsight_backfill_spent_usd'', JInt 1)]\<rparr>"

definition snap_answers :: "quick_snap \<Rightarrow> rec_answer list" where
  "snap_answers s = [Finished, Counts (qs_agent s), Circuit (qs_agent_circuit s), Finished, Counts (qs_pocket s), Circuit (qs_pocket_circuit s),
     Finished, Counts (qs_operations s), Number (qs_documents s), Http 200 (qs_hindsight_health s), Http 200 (qs_fugu_health s), Http 200 (qs_budget s)]"

definition rx_connect :: "rec_db \<Rightarrow> rec_op \<times> rec_answer" where
  "rx_connect db = (Connect db ''p'' [1, 2, 3], Finished)"

definition snap_ops :: "rec_op list" where
  "snap_ops = [Connect AgentDb ''p'' [1, 2, 3], CountStates AgentDb, SelectCircuit AgentDb, Connect PocketDb ''p'' [1, 2, 3], CountStates PocketDb,
     SelectCircuit PocketDb, Connect HindsightDb ''p'' [1, 2, 3], CountOperations, CountDocuments, HttpJson ''http://127.0.0.1:4/health'',
     HttpJson ''http://127.0.0.1:6/health/process'', HttpJson ''http://127.0.0.1:5/health'']"

definition snap_trace :: "quick_snap \<Rightarrow> (rec_op \<times> rec_answer) list" where
  "snap_trace s = zip snap_ops (snap_answers s)"

lemma rx_parsed: "env_file rx_file = rx_vars"
  by code_simp

lemma rx_secrets:
  "need_var rx_vars ''APP_DB_PASSWORD'' = Inr ''p''" "need_var rx_vars ''DB_PASSWORD'' = Inr ''p''"
  "need_var rx_vars ''LITELLM_DB_PASSWORD'' = Inr ''p''" "need_var rx_vars ''TAK'' = Inr ''k''"
  by code_simp+

lemma rx_cfg_simps [simp]:
  "rc_pg_local_ports rx_cfg = [1, 2, 3]" "rc_hindsight_port rx_cfg = 4" "rc_budget_port rx_cfg = 5" "rc_fugu_port rx_cfg = 6"
  "rc_patroni_ports rx_cfg = [7, 8, 9]" "rc_approved_total rx_cfg = 1" "rc_stage_cap rx_cfg = 1" "rc_max_agent_active rx_cfg = 1"
  "rc_max_provider_in_flight rx_cfg = 1" "rc_expected_hindsight_failed rx_cfg = 0" "rc_conservative_remaining_cost rx_cfg = Fin 0"
  "rc_hard_budget rx_cfg = Fin 30" "rc_full_seconds rx_cfg = Fin 60" "rc_root rx_cfg = []"
  by (simp_all add: rx_cfg_def)

lemma rx_env_simps [simp]:
  "re_agent rx_env = rx_vars" "re_pocket rx_env = rx_vars" "re_runtime rx_env = rx_vars" "re_hindsight rx_env = rx_vars" "re_fugu rx_env = rx_vars"
  by (simp_all add: rx_env_def)

lemma rx_db: "db_password rx_env db = Inr ''p''"
  by (cases db) (simp_all add: db_password_def rx_secrets)

lemma rx_urls:
  "local_url 4 ''/health'' = ''http://127.0.0.1:4/health''" "local_url 6 ''/health/process'' = ''http://127.0.0.1:6/health/process''"
  "local_url 5 ''/health'' = ''http://127.0.0.1:5/health''" "local_url 7 ''/patroni'' = ''http://127.0.0.1:7/patroni''"
  "local_url 8 ''/patroni'' = ''http://127.0.0.1:8/patroni''" "local_url 9 ''/patroni'' = ''http://127.0.0.1:9/patroni''"
  by code_simp+

lemmas rx_parts = open_db_def act_def ask_for_def http_json_def rx_db rx_urls guard_that_def
  a_text_def a_counts_def a_circuit_def a_number_def a_http_def a_rows_def a_texts_def a_fugu_def a_retry_def a_operations_def a_status_def a_calls_def
  a_flag_def a_refreshed_def a_json_def a_clock_def a_ports_def

lemma snap_run: "run (quick_snapshot rx_cfg rx_env) (snap_answers s) = (snap_trace s, Ret s)"
  by (simp add: quick_snapshot_def rx_parts snap_answers_def snap_trace_def snap_ops_def cong: lazy)

lemma done_snap: "done_by (quick_snapshot rx_cfg rx_env) (snap_trace s) s"
  by (rule run_path [OF snap_run]) (simp add: snap_trace_def snap_ops_def snap_answers_def rec_fits_def)

definition init_trace :: "(rec_op \<times> rec_answer) list" where
  "init_trace = map (\<lambda>f. (ReadEnvFile f, Text rx_file)) [''~/.attestmesh/agent-session-mcp.env'', ''~/.attestmesh/pocket-mcp.env'',
     ''~/.attestmesh/agent-session-hindsight.env'', ''/deploy/logs/hindsight-node-hindsight-node.state'', ''~/.attestmesh/fugu-router.env'']"

lemma init_run: "run (recovery_init rx_cfg) (replicate 5 (Text rx_file)) = (init_trace, Ret rx_env)"
  by (simp add: recovery_init_def read_env_file_def rx_parts rx_parsed init_trace_def numeral_eq_Suc rx_env_def cong: lazy)

lemma done_init: "done_by (recovery_init rx_cfg) init_trace rx_env"
  by (rule run_path [OF init_run]) (simp add: init_trace_def rec_fits_def)

definition load_trace :: "json dict \<Rightarrow> (rec_op \<times> rec_answer) list" where
  "load_trace d = [(PhaseExists, Flag True), (ReadPhase, JsonText (JObj d))]"

lemma done_load: "done_by load_phase (load_trace d) (merge_obj DEFAULT_PHASE d)"
proof (rule run_path)
  show "run load_phase [Flag True, JsonText (JObj d)] = (load_trace d, Ret (merge_obj DEFAULT_PHASE d))"
    by (simp add: load_phase_def rx_parts load_trace_def cong: lazy)
qed (simp add: load_trace_def rec_fits_def)

section \<open>A release\<close>

definition rx_ready :: "json dict" where
  "rx_ready = [(''name'', JStr ''ready''), (''budget'', JStr ''closed'')]"

definition rx_phase :: "json dict" where
  "rx_phase = [(''name'', JStr ''ready''), (''budget'', JStr ''closed''), (''expected_retry'', JInt 17), (''expected_succeeded'', JInt 3263), (''watchdog_armed'', JBool False)]"

lemma rx_loaded: "merge_obj DEFAULT_PHASE rx_ready = rx_phase"
  by code_simp

lemma rx_clean: "quick_failures rx_cfg rx_texts rx_vars (rx_snap ''queued'') rx_phase = Inr []"
  by code_simp

definition rx_nodes :: "json dict list" where
  "rx_nodes = [[(''state'', JStr ''running''), (''role'', JStr ''primary'')], [(''state'', JStr ''running''), (''role'', JStr ''replica'')],
     [(''state'', JStr ''running''), (''role'', JStr ''replica'')]]"

definition rx_fugu :: "(string \<times> int option \<times> string option) list" where
  "rx_fugu = map (\<lambda>(start, n, m). (start, Some n, Some m)) BASELINE_FUGU_FAILURES"

definition audit_answers :: "rec_answer list" where
  "audit_answers = [Finished, Rows [rx_row ''queued''], Number 17, Number 12, Number 1, Finished, Texts [], Finished, FuguRows rx_fugu]
     @ map (\<lambda>d. Http 200 (JObj d)) rx_nodes"

definition audit_ops :: "rec_op list" where
  "audit_ops = [Connect AgentDb ''p'' [1, 2, 3], SelectOutbox, CountHistory ''hindsight_outbox_retry_history'',
     CountHistory ''hindsight_outbox_claim_recovery_history'', CountHistory ''hindsight_outbox_operation_adoption_history'',
     Connect HindsightDb ''p'' [1, 2, 3], SelectDocuments, Connect FuguDb ''p'' [1, 2, 3], SelectFuguFailures,
     HttpJson ''http://127.0.0.1:7/patroni'', HttpJson ''http://127.0.0.1:8/patroni'', HttpJson ''http://127.0.0.1:9/patroni'']"

definition audit_trace :: "(rec_op \<times> rec_answer) list" where
  "audit_trace = snap_trace (rx_snap ''queued'') @ zip audit_ops audit_answers"

definition rx_audit :: rec_audit where
  "rx_audit = \<lparr>au_snap = rx_snap ''queued'', au_retry = 17, au_claim = 12, au_adoption = 1, au_remote_documents = 0, au_patroni = map (\<lambda>n. map (\<lambda>k. (k, jget n k)) [''role'', ''state'', ''timeline'']) rx_nodes, au_failures = []\<rparr>"

lemma rx_audit_values:
  "audit_rows rx_texts [rx_row ''queued''] = Inr []" "lineage_failures rx_cfg [rx_row ''queued''] [] = []" "mapR fugu_row rx_fugu = Inr BASELINE_FUGU_FAILURES"
  "bindR (need_key rx_phase ''expected_retry'') int_of_json = Inr 17"
  "has_operation (rx_row ''queued'')" "or_document_id (rx_row ''queued'') = ''d''"
  by code_simp+

lemma rx_patroni: "r \<in> set [''primary'', ''replica''] \<Longrightarrow> patroni_bad [(''state'', JStr ''running''), (''role'', JStr r)] = Inr False"
  by (simp add: patroni_bad_def in_texts_def get_or_def)

lemma done_audit: "done_by (full_audit rx_cfg rx_texts rx_env rx_phase) audit_trace rx_audit"
  unfolding full_audit_def audit_trace_def
  by (rule follows_then [OF done_snap], rule run_path [where as = audit_answers])
    (simp_all add: rx_clean audit_ops_def audit_answers_def rx_parts Let_def rx_audit_values rx_patroni rx_audit_def patroni_node_def rx_nodes_def as_obj_def get_or_def
      fail_if_def rec_fits_def del: audit_rows.simps cong: lazy)

definition rx_pause :: "rec_op \<times> rec_answer" where
  "rx_pause = (Pause (Fin 2), Finished)"

definition check_trace :: "nat \<Rightarrow> (rec_op \<times> rec_answer) list" where
  "check_trace index = snap_trace (rx_snap ''queued'') @ (if index = 0 \<or> index = 9 then audit_trace else []) @ (if index < 9 then [rx_pause] else [])"

lemma rx_budget: "as_obj (qs_budget (rx_snap s)) = Inr [(''status'', JStr ''ok''), (''hindsight_backfill_spent_usd'', JInt 1)]"
  by (simp add: rx_snap_def as_obj_def)

lemma done_audited_rx: "done_by (audited rx_cfg rx_texts rx_env rx_phase) audit_trace rx_audit"
  unfolding audited_def by (rule follows_last [OF done_audit]) (simp add: rx_audit_def guard_that_def)

lemma done_pause: "done_by (act (Pause (Fin 2))) [rx_pause] ()"
  by (simp add: done_act rx_pause_def rec_fits_def)

lemma done_check_rx:
  assumes "prior = JNull \<or> prior = JInt 1"
  shows "done_by (release_check rx_cfg rx_texts rx_env rx_phase index prior) (check_trace index) (rx_snap ''queued'', JInt 1)"
proof -
  have "py_eq (JInt 1) (JInt 1)"
    by code_simp
  then have same: "prior = JNull \<or> py_eq (JInt 1) prior"
    using assms by auto
  have audit: "done_by (if index = 0 \<or> index = 9 then bindP (audited rx_cfg rx_texts rx_env rx_phase) (\<lambda>_. Ret ()) else Ret ())
      (if index = 0 \<or> index = 9 then audit_trace else []) ()"
    using follows_last [OF done_audited_rx, of "\<lambda>_. Ret ()"] by simp
  have pause: "done_by (if index < 9 then act (Pause (Fin 2)) else Ret ()) (if index < 9 then [rx_pause] else []) ()"
    using done_pause by simp
  show ?thesis
    unfolding release_check_def check_trace_def using same
    by (intro follows_then [OF done_snap]) (simp add: rx_clean rx_budget guard_that_def get_or_def Let_def split del: if_split, intro follows_then [OF audit] follows_last [OF pause] refl)
qed

lemma done_checks_rx:
  assumes "prior = JNull \<or> prior = JInt 1" "n > 0 \<or> s0 = Some (rx_snap ''queued'')"
  shows "done_by (release_checks rx_cfg rx_texts rx_env rx_phase n index prior s0) (concat (map check_trace [index..<index + n])) (rx_snap ''queued'')"
  using assms
proof (induction n arbitrary: index prior s0)
  case (Suc n)
  have split: "[index..<index + Suc n] = index # [index + 1..<(index + 1) + n]"
    by (simp add: upt_conv_Cons)
  have rest: "done_by (release_checks rx_cfg rx_texts rx_env rx_phase n (index + 1) (JInt 1) (Some (rx_snap ''queued'')))
      (concat (map check_trace [index + 1..<(index + 1) + n])) (rx_snap ''queued'')"
    by (rule Suc.IH) simp_all
  show ?case
    unfolding split release_checks.simps list.map concat.simps
    by (rule follows_then [OF done_check_rx [OF Suc.prems(1)]]) (use rest in simp)
qed simp

definition close_trace :: "(rec_op \<times> rec_answer) list" where
  "close_trace = [rx_connect AgentDb, (TryLock, Flag True), (CloseAgent, Number 1)]"

definition release_trace :: "(rec_op \<times> rec_answer) list" where
  "release_trace = init_trace @ load_trace rx_ready @ concat (map check_trace [0..<10]) @ close_trace"

lemma gets_close: "gets rec_fits (close_agent rx_cfg rx_env) close_trace"
proof (rule gets_run)
  show "fst (run (close_agent rx_cfg rx_env) [Finished, Flag True, Number 1]) = close_trace"
    by (simp add: close_agent_def bank_lock_def rx_parts close_trace_def rx_connect_def finallyP_def attemptP_def cong: lazy)
qed (simp add: close_trace_def rx_connect_def rec_fits_def)

lemma rx_phase_ready: "jget rx_phase ''name'' = JStr ''ready''" "jget rx_phase ''budget'' = JStr ''closed''"
  by code_simp+

lemma gets_release: "gets rec_fits (main_command rx_cfg rx_texts CmdRelease) release_trace"
proof -
  have checks: "done_by (release_checks rx_cfg rx_texts rx_env rx_phase 10 0 JNull None) (concat (map check_trace [0..<10])) (rx_snap ''queued'')"
    using done_checks_rx [of JNull 10 None 0] by simp
  have "gets rec_fits (release rx_cfg rx_texts rx_env) (load_trace rx_ready @ concat (map check_trace [0..<10]) @ close_trace)"
    unfolding release_def
  proof (rule gets_then [OF done_load], unfold rx_loaded rx_phase_ready)
  qed (simp add: guard_that_def, intro gets_then [OF checks] gets_first gets_close)
  then show ?thesis
    unfolding main_command_def rec_command.case release_trace_def by (intro gets_then [OF done_init] gets_first)
qed

abbreviation rx_world :: rec_world where
  "rx_world \<equiv> \<lparr>w_phase = Some (JObj rx_ready), w_open = True\<rparr>"

definition unmoved :: "rec_world \<Rightarrow> (rec_op \<times> rec_answer) list \<Rightarrow> bool" where
  "unmoved w tr = (walk rec_next w tr = Some w)"

lemma unmoved_append: "unmoved w u \<Longrightarrow> unmoved w v \<Longrightarrow> unmoved w (u @ v)"
  by (simp add: unmoved_def walk_append)

lemma unmoved_walk: "unmoved w u \<Longrightarrow> walk rec_next w (u @ v) = walk rec_next w v"
  by (simp add: unmoved_def walk_append)

lemma unmoved_concat: "\<forall>u \<in> set us. unmoved w u \<Longrightarrow> unmoved w (concat us)"
  by (induction us) (auto simp: unmoved_append, simp add: unmoved_def)

lemma unmoved_parts:
  "unmoved rx_world init_trace" "unmoved rx_world (load_trace rx_ready)" "unmoved rx_world (snap_trace (rx_snap state))"
  "unmoved rx_world (zip audit_ops audit_answers)" "unmoved rx_world [rx_pause]" "unmoved rx_world []"
  by (simp_all add: unmoved_def rec_next_def rec_fits_def init_trace_def load_trace_def snap_trace_def snap_ops_def snap_answers_def rx_snap_def audit_ops_def
    audit_answers_def rx_nodes_def rx_pause_def)

lemma walk_release: "walk rec_next rx_world release_trace = Some (rx_world\<lparr>w_open := False\<rparr>)"
proof -
  have "unmoved rx_world (check_trace i)" for i
    unfolding check_trace_def audit_trace_def by (intro unmoved_append) (auto intro!: unmoved_append unmoved_parts)
  then have "unmoved rx_world (init_trace @ load_trace rx_ready @ concat (map check_trace [0..<10]))"
    by (intro unmoved_append unmoved_parts unmoved_concat) simp
  from unmoved_walk [OF this, of close_trace] have "walk rec_next rx_world release_trace = walk rec_next rx_world close_trace"
    by (simp add: release_trace_def)
  then show ?thesis
    by (simp add: close_trace_def rx_connect_def rec_next_def rec_fits_def)
qed

theorem closed_only_by_release_witness:
  "\<exists>c. rec_reach rx_cfg rx_texts c \<and> \<not> w_open (par_state c)
     \<and> (\<exists>before i rest. par_log c = before @ (i, CloseAgent, Number 1) # rest \<and> \<not> list_ex opens rest
       \<and> fst (par_threads c ! i) = CmdRelease \<and> released rx_cfg rx_texts (own i before))"
proof -
  obtain c where c: "rec_reach rx_cfg rx_texts c" "\<not> w_open (par_state c)"
    using walk_alone [OF gets_release walk_release, of w_open "\<lambda>cmd p. p = main_command rx_cfg rx_texts cmd" CmdRelease] by auto
  show ?thesis
    using closed_only_by_release [OF c] c by blast
qed

section \<open>A settlement\<close>

definition rx_hold :: "json dict" where
  "rx_hold = [(''name'', JStr ''cap_hold''), (''budget'', JStr ''closed'')]"

definition rx_worker :: "rec_op \<times> rec_answer" where
  "rx_worker = (MakeWorker ''postgresql://agent_sessions:p@/agent_sessions?host=127.0.0.1,127.0.0.1,127.0.0.1&port=1,2,3&target_session_attrs=read-write&connect_timeout=2''
     ''http://127.0.0.1:4'' ''k'' 1 1, Finished)"

definition proof_trace :: "(rec_op \<times> rec_answer) list" where
  \<comment> \<open>the submitted row, its operation and its document\<close>
  "proof_trace = [rx_connect AgentDb, (SelectSubmitted, Rows [rx_row ''submitted'']), rx_connect HindsightDb, (SelectStatus ''op'', Status (Some ''completed'')),
     (SelectPresent [''d''], Texts [''d''])]"

definition lock_trace :: "(rec_op \<times> rec_answer) list" where
  "lock_trace = [rx_worker, rx_connect AgentDb, (TryLock, Flag True)]"

lemma rx_settle_values:
  "count_of (qs_agent (rx_snap ''submitted'')) ATTEMPTED_STATES = 1" "count_of (qs_operations (rx_snap ''submitted'')) [''pending'', ''processing''] = 0"
  "bindR (as_obj (qs_budget (rx_snap ''submitted''))) in_flight_of = Inr 0" "has_operation (rx_row ''submitted'')" "hash_agrees (rx_row ''submitted'')"
  "opt_text (or_operation_id (rx_row ''submitted'')) = ''op''" "or_document_id (rx_row ''submitted'') = ''d''" "jget (merge_obj DEFAULT_PHASE rx_hold) ''name'' = JStr ''cap_hold''"
  "agent_dsn rx_cfg rx_env [] = Inr ''postgresql://agent_sessions:p@/agent_sessions?host=127.0.0.1,127.0.0.1,127.0.0.1&port=1,2,3&target_session_attrs=read-write&connect_timeout=2''"
  "local_url 4 [] = ''http://127.0.0.1:4''"
  by code_simp+

lemma done_preprove_rx: "done_by (preprove_cap_refresh rx_cfg rx_env) (snap_trace (rx_snap ''submitted'') @ proof_trace) True"
  unfolding preprove_cap_refresh_def proof_trace_def
  by (rule follows_then [OF done_snap], rule run_path [where as = "[Finished, Rows [rx_row ''submitted''], Finished, Status (Some ''completed''), Texts [''d'']]"])
    (simp_all add: rx_settle_values rx_parts rx_connect_def rec_fits_def, simp add: rx_row_def)

lemma gets_locked:
  assumes "gets rec_fits p u"
  shows "gets rec_fits (bindP (app_worker rx_cfg rx_env) (\<lambda>_. bindP (bank_lock rx_cfg rx_env p) f)) (lock_trace @ u)"
proof -
  have split: "lock_trace @ u = [rx_worker] @ [rx_connect AgentDb] @ [(TryLock, Flag True)] @ u"
    by (simp add: lock_trace_def)
  have worker: "done_by (app_worker rx_cfg rx_env) [rx_worker] ()" and db: "done_by (open_db rx_cfg rx_env AgentDb []) [rx_connect AgentDb] ()"
    by (simp_all add: app_worker_def rx_settle_values rx_secrets open_db_def rx_db done_act rx_worker_def rx_connect_def rec_fits_def)
  have lock: "done_by (ask_for TryLock a_flag) [(TryLock, Flag True)] True"
    by (simp add: follows_ask rec_fits_def)
  show ?thesis
    unfolding bank_lock_def split
  proof (rule gets_then [OF worker], rule gets_first, rule gets_then [OF db], rule gets_then [OF lock])
  qed (simp add: guard_that_def gets_finally assms)
qed

definition settle_trace :: "(rec_op \<times> rec_answer) list" where
  "settle_trace = init_trace @ load_trace rx_hold @ (snap_trace (rx_snap ''submitted'') @ proof_trace) @ lock_trace"

lemma gets_settle: "gets rec_fits (main_command rx_cfg rx_texts CmdSettleCap) (settle_trace @ [(RefreshSubmitted [], Refreshed 1 0)])"
proof -
  have "gets rec_fits (bindP (ask_for (RefreshSubmitted []) a_refreshed) f) [(RefreshSubmitted [], Refreshed 1 0)]" for f :: "int \<times> int \<Rightarrow> int rec_prog"
    by (rule gets_run [where as = "[Refreshed 1 0]"]) (simp_all add: rx_parts rec_fits_def cong: lazy)
  then have "gets rec_fits (settle_cap rx_cfg rx_texts rx_env) (load_trace rx_hold @ (snap_trace (rx_snap ''submitted'') @ proof_trace) @ lock_trace @ [(RefreshSubmitted [], Refreshed 1 0)])"
    unfolding settle_cap_def
    by (intro gets_then [OF done_load]) (simp add: rx_settle_values, intro gets_then [OF done_preprove_rx, unfolded append_assoc], simp, intro gets_locked)
  then show ?thesis
    unfolding main_command_def rec_command.case settle_trace_def append_assoc by (intro gets_then [OF done_init] gets_first)
qed

lemma walk_settle: "walk rec_next (rx_world\<lparr>w_phase := Some (JObj rx_hold)\<rparr>) (settle_trace @ [(RefreshSubmitted [], Refreshed 1 0)]) = Some (rx_world\<lparr>w_phase := Some (JObj rx_hold)\<rparr>)"
  by (simp add: walk_append settle_trace_def rec_next_def rec_fits_def init_trace_def load_trace_def snap_trace_def snap_ops_def snap_answers_def rx_snap_def
    proof_trace_def lock_trace_def rx_worker_def rx_connect_def rx_row_def)


section \<open>A retry\<close>

definition rx_held :: outbox_row where
  "rx_held = (rx_row ''submitted'')\<lparr>or_document_id := HELD_DOCUMENT, or_operation_id := Some HELD_PARENT, or_item := JObj [(''document_id'', JStr HELD_DOCUMENT)]\<rparr>"

definition rx_operation :: "string \<Rightarrow> string \<Rightarrow> operation_row" where
  "rx_operation i kind = \<lparr>ao_operation_id = i, ao_type = kind, ao_status = ''failed'', ao_error_message = Some ''APITimeoutError'',
     ao_result_metadata = JObj [(''parent_operation_id'', JStr HELD_PARENT), (''document_ids'', JList [JStr HELD_DOCUMENT])], ao_task_payload = JNull,
     ao_created_at = 1, ao_updated_at = 2\<rparr>"

definition rx_operations :: "operation_row list" where
  "rx_operations = [rx_operation HELD_PARENT ''batch_retain'', rx_operation HELD_CHILD ''retain'']"

definition held_trace :: "(rec_op \<times> rec_answer) list" where
  "held_trace = [rx_connect AgentDb, (SelectRows [HELD_DOCUMENT], Rows [rx_held]), rx_connect HindsightDb,
     (SelectOperations [HELD_PARENT, HELD_CHILD], OperationRows rx_operations), (SelectPresent [HELD_DOCUMENT], Texts []),
     rx_connect FuguDb, (SelectCalls 1 2, CallRows [(''success'', Some 200)])]"

lemma rx_held_values:
  "jget rx_phase ''budget'' = JStr ''closed''" "audit_in_flight rx_audit = Inr 0" "or_state rx_held = ''submitted''" "or_operation_id rx_held = Some HELD_PARENT"
  "held_row_ok rx_held = Inr True" "held_operations_ok (operation_of rx_operations HELD_PARENT) (operation_of rx_operations HELD_CHILD) False = Inr ()"
  "ao_created_at (the (operation_of rx_operations HELD_PARENT)) = 1" "ao_updated_at (the (operation_of rx_operations HELD_CHILD)) = 2"
  "or_document_id rx_held = HELD_DOCUMENT"
  by code_simp+

lemma done_held: "done_by (prove_held_failure rx_cfg rx_texts rx_env) (load_trace rx_ready @ audit_trace @ held_trace) ()"
  unfolding prove_held_failure_def
proof (rule follows_then [OF done_load], unfold rx_loaded, rule follows_then [OF done_audited_rx],
    rule run_path [where as = "[Finished, Rows [rx_held], Finished, OperationRows rx_operations, Texts [], Finished, CallRows [(''success'', Some 200)]]"])
qed (simp_all add: rx_held_values rx_parts held_trace_def rx_connect_def rec_fits_def call_ok_def cong: lazy)

definition retry_trace :: "(rec_op \<times> rec_answer) list" where
  "retry_trace = init_trace @ (load_trace rx_ready @ audit_trace @ held_trace) @ lock_trace @ [(RefreshSubmitted [], Refreshed 0 1)]"

abbreviation retry_reason :: string where
  "retry_reason \<equiv> ''authorized one-shot retry after max-charge ReadTimeout reconciliation''"

lemma gets_retry: "gets rec_fits (main_command rx_cfg rx_texts CmdRefreshRetry) (retry_trace @ [(RetryDocument HELD_DOCUMENT retry_reason False, Flag True)])"
proof -
  have "gets rec_fits (bindP (ask_for (RefreshSubmitted []) a_refreshed) (\<lambda>(completed, failed).
        bindP (check ((completed, failed) = (0, 1)) (m completed failed)) (\<lambda>_.
        bindP (ask_for (RetryDocument HELD_DOCUMENT retry_reason False) a_flag) f)))
      [(RefreshSubmitted [], Refreshed 0 1), (RetryDocument HELD_DOCUMENT retry_reason False, Flag True)]" for m and f :: "bool \<Rightarrow> unit rec_prog"
    by (rule gets_run [where as = "[Refreshed 0 1, Flag True]"]) (simp_all add: rx_parts rec_fits_def cong: lazy)
  note locked = gets_locked [OF this]
  have held: "gets rec_fits (f ()) w \<Longrightarrow> gets rec_fits (bindP (prove_held_failure rx_cfg rx_texts rx_env) f) (load_trace rx_ready @ audit_trace @ held_trace @ w)"
    for w and f :: "unit \<Rightarrow> rec_audit rec_prog"
    using gets_then [OF done_held, of f w] by simp
  show ?thesis
    unfolding main_command_def rec_command.case refresh_retry_def retry_trace_def append_assoc append_Cons append_Nil
    by (rule gets_then [OF done_init], rule gets_first, rule held, rule locked)
qed

lemma walk_retry: "walk rec_next rx_world (retry_trace @ [(RetryDocument HELD_DOCUMENT retry_reason False, Flag True)]) = Some rx_world"
proof -
  have "unmoved rx_world held_trace" "unmoved rx_world lock_trace" "unmoved rx_world [(RefreshSubmitted [], Refreshed 0 1)]"
    "unmoved rx_world [(RetryDocument HELD_DOCUMENT retry_reason False, Flag True)]"
    by (simp_all add: unmoved_def rec_next_def rec_fits_def held_trace_def lock_trace_def rx_worker_def rx_connect_def rx_held_values)
  then have "unmoved rx_world (retry_trace @ [(RetryDocument HELD_DOCUMENT retry_reason False, Flag True)])"
    unfolding retry_trace_def audit_trace_def by (intro unmoved_append unmoved_parts)
  then show ?thesis
    by (simp add: unmoved_def)
qed


section \<open>Snapshots, audits and rounds\<close>

theorem clean_snapshot_bounded_witness:
  "quick_failures rx_cfg rx_texts rx_vars (rx_snap ''queued'') rx_phase = Inr []
   \<and> (\<exists>name budget k projection. jget rx_phase ''name'' = name \<and> outbox_clean rx_cfg (rx_snap ''queued'') (jstr (tx_str rx_texts) name) \<and> qs_budget (rx_snap ''queued'') = JObj budget
    \<and> in_flight_of budget = Inr k \<and> k \<le> rc_max_provider_in_flight rx_cfg
    \<and> compute_projection (get_or budget ''hindsight_backfill_spent_usd'' (JInt 0)) (count_of (qs_agent (rx_snap ''queued'')) [''succeeded'']) rx_cfg = Inr projection
    \<and> projection \<noteq> NaN \<and> \<not> pf_lt (rc_hard_budget rx_cfg) projection)"
  using clean_snapshot_bounded [OF rx_clean] rx_clean by blast

theorem clean_audit_proves_batch_witness:
  "done_by (full_audit rx_cfg rx_texts rx_env rx_phase) audit_trace rx_audit \<and> au_failures rx_audit = []
   \<and> (\<exists>rows remote. (SelectOutbox, Rows rows) \<in> set audit_trace \<and> (SelectDocuments, Texts remote) \<in> set audit_trace
    \<and> distinct (map or_document_id rows) \<and> int (length rows) = rc_approved_total rx_cfg \<and> (\<forall>r \<in> set rows. row_sound rx_texts r)
    \<and> distinct remote \<and> documents_in [''succeeded''] rows \<subseteq> set remote
    \<and> set remote \<subseteq> documents_in [''succeeded'', ''submitting'', ''submitted''] rows)"
proof -
  have "au_failures rx_audit = []"
    by (simp add: rx_audit_def)
  then show ?thesis
    using clean_audit_proves_batch [OF done_audit] done_audit by blast
qed

definition settle_ok_trace :: "(rec_op \<times> rec_answer) list" where
  "settle_ok_trace = load_trace rx_ready @ [(ReadTime, Clock 0)] @ load_trace rx_ready
     @ [(WriteHeartbeat [(''at'', JFloat (secs 0)), (''healthy'', JBool True), (''phase'', JStr ''ready''), (''attempted'', JInt 0)], Finished)]"

definition quiet_round_trace :: "(rec_op \<times> rec_answer) list" where
  "quiet_round_trace = load_trace rx_ready @ (snap_trace (rx_snap ''queued'') @ [(ReadMonotonic, Clock 0)]) @ settle_ok_trace @ [(Pause (Fin 2), Finished)]"

lemma done_quiet_reading:
  "done_by (guard_reading rx_cfg rx_texts rx_env 0 rx_phase) (snap_trace (rx_snap ''queued'') @ [(ReadMonotonic, Clock 0)]) (0, 0, [])"
proof -
  have "stage_action 0 (jstr (tx_str rx_texts) (JStr ''ready'')) 1 = Continue" "count_of (qs_agent (rx_snap ''queued'')) ATTEMPTED_STATES = 0"
    "need_key rx_phase ''name'' = Inr (JStr ''ready'')"
    by code_simp+
  then show ?thesis
    unfolding guard_reading_def Let_def
    by (intro follows_then [OF done_snap] run_path [where as = "[Clock 0]"]) (simp_all add: rx_clean rx_parts secs_def rec_fits_def cong: lazy)
qed

lemma done_quiet_settle: "done_by (guard_settle rx_cfg rx_texts rx_env 0 []) settle_ok_trace ()"
  by (rule run_path [where as = "[Flag True, JsonText (JObj rx_ready), Clock 0, Flag True, JsonText (JObj rx_ready), Finished]"])
    (simp_all add: guard_settle_def settle_ok_trace_def load_phase_def load_trace_def rx_parts rx_loaded rx_phase_ready rec_fits_def cong: lazy)

lemma done_quiet_round: "done_by (guard_round rx_cfg rx_texts rx_env 0 None) quiet_round_trace (0, None)"
  unfolding guard_round_def quiet_round_trace_def
proof (rule follows_then [OF done_load], unfold rx_loaded, rule follows_then [where x = "Inr (0, 0, [])"], goal_cases)
  case 2
  have "done_by (act (Pause (rc_quick_seconds rx_cfg))) [(Pause (Fin 2), Finished)] ()"
    by (simp add: done_act rec_fits_def rx_cfg_def)
  moreover have "done_by (bindP (attemptP (guard_settle rx_cfg rx_texts rx_env 0 [])) (\<lambda>s. case s of
             Inl e \<Rightarrow> bindP (guard_failure rx_cfg rx_env None e) (\<lambda>reason. Ret (0, Some reason))
           | Inr _ \<Rightarrow> Ret (0, None))) settle_ok_trace (0, None)"
    using done_quiet_settle by (intro follows_last [where x = "Inr ()"]) (simp_all add: follows_attempt)
  ultimately show ?case
    by (intro follows_then [where v = settle_ok_trace]) (simp, rule follows_last, auto)
qed (use done_quiet_reading in \<open>simp add: follows_attempt\<close>)

theorem guard_fails_closed_witness:
  "done_by (guard_round rx_cfg rx_texts rx_env 0 None) quiet_round_trace (0, None)
   \<and> (\<exists>u v w phase snap. quiet_round_trace = u @ v @ w \<and> done_by load_phase u phase \<and> clean_snap rx_cfg rx_texts rx_env phase v snap)"
  using guard_fails_closed [OF done_quiet_round] done_quiet_round by simp

section \<open>The cap\<close>

definition rx_running :: "json dict" where
  "rx_running = [(''name'', JStr ''running''), (''budget'', JStr ''closed''), (''expected_retry'', JInt 17), (''expected_succeeded'', JInt 0), (''watchdog_armed'', JBool True)]"

definition rx_capped :: quick_snap where
  \<comment> \<open>the last row of the stage was submitted, and the circuit is closed\<close>
  "rx_capped = (rx_snap ''submitted'')\<lparr>qs_agent_circuit := Some \<lparr>cr_open = False, cr_reason = None\<rparr>\<rparr>"

abbreviation rx_why :: string where
  "rx_why \<equiv> ''guard failure: InvariantError: Agent circuit remained closed at stage cap''"

definition tunnel_trace :: "string \<Rightarrow> (rec_op \<times> rec_answer) list" where
  "tunnel_trace m = [(LockEmergency, Finished), (FreePorts, Ports [11, 12, 13]), (StartTunnel (tunnel_command rx_cfg [11, 12, 13]), Finished),
     (ReadMonotonic, Clock 0), (ReadMonotonic, Clock 0), (PortReady 11, Flag True), (PortReady 12, Flag True), (PortReady 13, Flag True), (TunnelExited, Flag False)]
     @ init_trace @ [(Connect AgentDb ''p'' [11, 12, 13], Finished), (OpenAgent m, Finished), (ReadTime, Clock 0),
     (LogEvent [(''at'', JFloat (secs 0)), (''kind'', JStr ''emergency_open''), (''reason'', JStr m)], Finished), (StopTunnel, Finished)]"

definition cap_trace :: "(rec_op \<times> rec_answer) list" where
  \<comment> \<open>after the snapshot: the circuit is opened, the phase moves to the hold, and the round fails\<close>
  "cap_trace = tunnel_trace ''stage cap guard: attempted=1 cap=1''
     @ [(ReadTime, Clock 0), (WritePhase [(''name'', JStr ''cap_hold''), (''budget'', JStr ''closed''), (''expected_retry'', JInt 17), (''expected_succeeded'', JInt 0),
         (''watchdog_armed'', JBool True), (''updated_at'', JFloat (secs 0))], Finished), (ReadMonotonic, Clock 0)]"

definition cap_failed_trace :: "(rec_op \<times> rec_answer) list" where
  "cap_failed_trace = [rx_connect AgentDb, (SelectCircuit AgentDb, Circuit (Some \<lparr>cr_open = True, cr_reason = None\<rparr>)), (ReadTime, Clock 0),
     (WriteHeartbeat [(''at'', JFloat (secs 0)), (''healthy'', JBool False), (''reason'', JStr rx_why)], Finished), (ReadTime, Clock 0),
     (LogEvent [(''at'', JFloat (secs 0)), (''kind'', JStr ''guard_failure''), (''reason'', JStr rx_why)], Finished)]"

lemma rx_cap_values:
  "merge_obj DEFAULT_PHASE rx_running = rx_running" "need_key rx_running ''name'' = Inr (JStr ''running'')" "jget rx_running ''name'' = JStr ''running''"
  "quick_failures rx_cfg rx_texts rx_vars rx_capped rx_running = Inr [''Agent circuit remained closed at stage cap'']"
  "count_of (qs_agent rx_capped) ATTEMPTED_STATES = 1" "count_of (qs_agent rx_capped) [''succeeded''] = 0"
  "stage_action 1 (jstr (tx_str rx_texts) (JStr ''running'')) 1 = OpenStage"
  "int_str 1 = ''1''"
  "AList.update ''updated_at'' (JFloat (secs 0)) (update_phase rx_running [(''name'', JStr ''cap_hold''), (''expected_succeeded'', JInt 0)])
     = [(''name'', JStr ''cap_hold''), (''budget'', JStr ''closed''), (''expected_retry'', JInt 17), (''expected_succeeded'', JInt 0),
        (''watchdog_armed'', JBool True), (''updated_at'', JFloat (secs 0))]"
  "merge_obj [(''at'', JFloat (secs 0)), (''kind'', JStr ''emergency_open'')] [(''reason'', JStr ''stage cap guard: attempted=1 cap=1'')]
     = [(''at'', JFloat (secs 0)), (''kind'', JStr ''emergency_open''), (''reason'', JStr ''stage cap guard: attempted=1 cap=1'')]"
  "take 1000 ''stage cap guard: attempted=1 cap=1'' = ''stage cap guard: attempted=1 cap=1''"
  by code_simp+

lemma wait_once: "wait_ports 80 limit ports = bindP (ask_for ReadMonotonic a_clock) (\<lambda>now.
     if now < limit then bindP (all_ready ports) (\<lambda>b. if b then Ret True else bindP (act (Pause (Fin (1/10)))) (\<lambda>_. wait_ports 79 limit ports)) else Ret False)"
  using wait_ports.simps(2) [of 79 limit ports] by simp

lemma done_tunnel: "done_by (emergency_open rx_cfg ''stage cap guard: attempted=1 cap=1'') (tunnel_trace ''stage cap guard: attempted=1 cap=1'') ()"
  by (rule run_path [where as = "[Finished, Ports [11, 12, 13], Finished, Clock 0, Clock 0, Flag True, Flag True, Flag True, Flag False]
       @ replicate 5 (Text rx_file) @ [Finished, Finished, Clock 0, Finished, Finished]"])
    (simp_all add: emergency_open_def emergency_through_def finallyP_def attemptP_def wait_once recovery_init_def read_env_file_def rx_parsed rx_env_def [symmetric] log_event_def rx_cap_values
      rx_parts numeral_eq_Suc tunnel_trace_def init_trace_def rec_fits_def cong: lazy)

lemma done_cap_reading:
  "done_by (guard_reading rx_cfg rx_texts rx_env 0 rx_running) (snap_trace rx_capped @ cap_trace) (0, 1, [''Agent circuit remained closed at stage cap''])"
proof -
  have save: "done_by (save_phase d) [(ReadTime, Clock 0), (WritePhase (AList.update ''updated_at'' (JFloat (secs 0)) d), Finished)] ()" for d
    by (rule run_path [where as = "[Clock 0, Finished]"]) (simp_all add: save_phase_def rx_parts rec_fits_def cong: lazy)
  let ?opened = "bindP (emergency_open rx_cfg ''stage cap guard: attempted=1 cap=1'')
    (\<lambda>_. save_phase (update_phase rx_running [(''name'', JStr ''cap_hold''), (''expected_succeeded'', JInt 0)]))"
  have opened: "done_by ?opened (tunnel_trace ''stage cap guard: attempted=1 cap=1'' @ [(ReadTime, Clock 0), (WritePhase [(''name'', JStr ''cap_hold''), (''budget'', JStr ''closed''),
      (''expected_retry'', JInt 17), (''expected_succeeded'', JInt 0), (''watchdog_armed'', JBool True), (''updated_at'', JFloat (secs 0))], Finished)]) ()"
    by (rule follows_then [OF done_tunnel]) (use save [of "update_phase rx_running [(''name'', JStr ''cap_hold''), (''expected_succeeded'', JInt 0)]"] in \<open>simp only: rx_cap_values\<close>)
  have clock: "done_by (ask_for ReadMonotonic a_clock) [(ReadMonotonic, Clock 0)] 0"
    by (simp add: follows_ask rec_fits_def)
  have cap_split: "cap_trace = (tunnel_trace ''stage cap guard: attempted=1 cap=1'' @ [(ReadTime, Clock 0), (WritePhase [(''name'', JStr ''cap_hold''), (''budget'', JStr ''closed''),
      (''expected_retry'', JInt 17), (''expected_succeeded'', JInt 0), (''watchdog_armed'', JBool True), (''updated_at'', JFloat (secs 0))], Finished)]) @ [(ReadMonotonic, Clock 0)]"
    by (simp add: cap_trace_def)
  have late: "\<not> pf_le (rc_full_seconds rx_cfg) (secs (0 - 0))"
    by (simp add: secs_def)
  have "done_by (bindP ?opened (\<lambda>_. bindP (ask_for ReadMonotonic a_clock) (\<lambda>now. if pf_le (rc_full_seconds rx_cfg) (secs (now - 0)) then q now
      else Ret (0, count_of (qs_agent rx_capped) ATTEMPTED_STATES, [''Agent circuit remained closed at stage cap''])))) cap_trace (0, 1, [''Agent circuit remained closed at stage cap''])" for q
    unfolding cap_split
    by (rule follows_then [OF opened], rule follows_last [OF clock]) (use late in \<open>simp add: rx_cap_values\<close>)
  then show ?thesis
    unfolding guard_reading_def Let_def by (intro follows_then [OF done_snap]) (simp add: rx_cap_values)
qed

lemma rx_cap_text:
  "exc_name (inv_error m) = ''InvariantError''" "exc_text (inv_error m) = m"
  "join ''; '' (sort (remdups [''Agent circuit remained closed at stage cap''])) = ''Agent circuit remained closed at stage cap''"
  "is_exit (inv_error m) = False"
  by (simp, simp, code_simp, simp add: is_exit_def)

lemma done_cap_failure:
  "done_by (guard_failure rx_cfg rx_env None (inv_error ''Agent circuit remained closed at stage cap'')) cap_failed_trace rx_why"
  by (rule run_path [where as = "[Finished, Circuit (Some \<lparr>cr_open = True, cr_reason = None\<rparr>), Clock 0, Finished, Clock 0, Finished]"])
    (simp_all add: guard_failure_def Let_def rx_cap_text agent_circuit_is_open_def attemptP_def log_event_def merge_obj_def rx_parts cap_failed_trace_def rx_connect_def rec_fits_def cong: lazy)

lemma done_cap_round:
  "done_by (guard_round rx_cfg rx_texts rx_env 0 None) (load_trace rx_running @ (snap_trace rx_capped @ cap_trace) @ cap_failed_trace @ [(Pause (Fin 2), Finished)]) (0, Some rx_why)"
  unfolding guard_round_def
proof (rule follows_then [OF done_load], unfold rx_cap_values(1), rule follows_then [where x = "Inr (0, 1, [''Agent circuit remained closed at stage cap''])"], goal_cases)
  case 2
  have "done_by (attemptP (guard_settle rx_cfg rx_texts rx_env 1 [''Agent circuit remained closed at stage cap''])) []
      (Inl (inv_error ''Agent circuit remained closed at stage cap''))"
    by (simp add: follows_attempt guard_settle_def guard_that_def rx_cap_text [simplified])
  then have "done_by (bindP (attemptP (guard_settle rx_cfg rx_texts rx_env 1 [''Agent circuit remained closed at stage cap''])) (\<lambda>s. case s of
             Inl e \<Rightarrow> bindP (guard_failure rx_cfg rx_env None e) (\<lambda>reason. Ret (0, Some reason))
           | Inr _ \<Rightarrow> Ret (0, None))) ([] @ cap_failed_trace) (0, Some rx_why)"
    by (rule follows_then) (simp, rule follows_last [OF done_cap_failure], simp)
  moreover have "done_by (act (Pause (rc_quick_seconds rx_cfg))) [(Pause (Fin 2), Finished)] ()"
    by (simp add: done_act rec_fits_def rx_cfg_def)
  ultimately show ?case
    by (intro follows_then [where v = cap_failed_trace]) (simp, rule follows_last, auto)
qed (use done_cap_reading in \<open>simp add: follows_attempt\<close>)


end
