(* ===== verification/Spec2Isabelle.thy ===== *)
theory Spec2Isabelle
  imports Budget_Checks Fugu_Router_Props Orch_Checks Guard_Checks Canary_Checks Canary_Retain_Checks Pg_Checks Rec_Checks
begin

text \<open>
  A verification library for the Python services of the AttestMesh repository (under
  src/deploy/). The repository joins attested machines into a mesh; its Python part meters and
  routes language-model traffic, guards commits, runs deployment jobs, supervises a staged backfill, and answers operators in chat rooms.

  \<^bold>\<open>Conventions.\<close> A Python \<open>str\<close> is a list of characters of the Latin-1 range, a \<open>dict\<close> an
  association list with distinct keys in insertion order, JSON the datatype \<open>json\<close>. Floats and
  Decimals are exact rationals with NaN and the two infinities (\<open>pyfloat\<close>); rounding is not
  modelled. Instants are microseconds. An exception is a value of \<open>exc\<close> on the left of
  a sum, and a definition that fails after a write returns the written state beside it. What the
  code takes from outside (the clock, fresh names, the answer of a provider, \<open>str()\<close> of an arbitrary
  object, a file system error) is an argument.

  \<^bold>\<open>Prelude.\<close> \<open>Py_Prelude\<close> (results, lists, strings, dictionaries), \<open>Py_Data\<close> (numbers, JSON, texts
  of numbers), \<open>Py_Text\<close> (\<open>str()\<close>, lines, UTF-8 and Base64, shell quoting and its reading), \<open>Py_Regex\<close> (a backtracking matcher with captures for
  the patterns of the sources).

  \<^bold>\<open>Budget proxy\<close> (hindsight-budget-proxy/). \<open>Budget_Settings\<close>: \<open>Settings.from_env\<close> and the payload
  checks. \<open>Budget_Proxy\<close>: \<open>BudgetState\<close> (ledger, circuit, in-flight reservations, the waiting loop of
  \<open>reserve\<close> with fuel) and both handlers. \<open>Budget_Operator\<close>: reset_provider_auth.py and
  reconcile_ambiguous.py. \<open>Budget_System\<close>: all of them as a step relation in which request threads
  interleave, a crash may fall between any two file writes, and the provider charges; its invariant
  gives the ceilings of \<open>Budget_Props\<close>. \<open>Budget_Checks\<close>: configuration, payloads, handlers, tools.
  The waiting loop is total with fuel; \<open>reserve_terminates\<close> gives an amount of fuel that is enough.

  \<^bold>\<open>Fugu router\<close> (fugu-router/). \<open>Fugu_Credit\<close> and \<open>Fugu_Usage\<close>: redaction, number readers, names and
  usage of fugu_credit.py. \<open>Fugu_Ledger\<close> and \<open>Fugu_Ledger_Props\<close>: the tables (a locale of keyed
  tables with upsert, interpreted on the association lists of the model), seeding, and the ledger
  write with its invariant. \<open>Fugu_Names\<close> and \<open>Fugu_Fallback\<close>: the pure helpers of
  fugu_session_router.py, among them the reader of event streams. \<open>Fugu_Router\<close> and
  \<open>Fugu_Router_Props\<close>: candidates, sticky assignments, cooldowns and the attempt loop, which is
  structural over the list of attempts.

  \<^bold>\<open>Cluster orchestrator\<close> (cluster-orchestrator.py). \<open>Orch_Inputs\<close>: names, environment text, compose files and the
  shell script. \<open>Orch_Jobs\<close>: job files, runs, cleanup and recovery. \<open>Orch_Server\<close>: the handlers, and the system in which
  threads interleave between two saves and the process restarts. \<open>Orch_Props\<close>: its invariant types the job files.
  \<open>Orch_Checks\<close>: how runs end, what the shell reads from a generated script, round trips of the environment text,
  and the race between a stop and a run.

  \<^bold>\<open>Pre-commit guard\<close> (precommit_security.py). \<open>Guard_Scan\<close>: patterns, findings, redaction. \<open>Guard_Flow\<close>: the
  readers of git output, the review and the decision. \<open>Guard_Props\<close> and \<open>Guard_Checks\<close>: a commit passes only on
  the stated grounds, what the reader of patches sees and what it misses.

  \<^bold>\<open>Canary\<close> (hindsight-canary/). \<open>Canary_Ledger\<close>: the key guard, \<open>BudgetLedger\<close> and the rate limit of canary.py.
  \<open>Canary_Proxy\<close>: budget_proxy.py of the canary; a request yields the list of its effects, and a crash is a prefix
  of it. \<open>Canary_Props\<close> and \<open>Canary_Checks\<close>: the spend is bounded and the proxy fails closed. \<open>Canary_Retain\<close>: the
  resumable run of \<open>retain_canary\<close>, one round per answer list of the service. \<open>Canary_Retain_Props\<close>: the run refines a
  life cycle of documents, which bounds the submissions; a run may be killed after any effect. The loop of
  the run has no bound of its own (the service may never answer a poll with a final status): one list element is one round,
  and the theorems hold for every list.

  \<^bold>\<open>Matrix agents.\<close> \<open>Py_Program\<close>: programs as trees of operations and answers, with exceptions, weakest preconditions over
  their traces, and a locale for threads that interleave between two operations. \<open>Matrix_Format\<close>: formatting.py, the same file in both agents; the markup of
  a reply holds no element but its own. \<open>Agent_Base\<close>: what both agents share (environment, mentions, confirmation messages, redaction,
  retries). \<open>Pg_Agent\<close> and \<open>Pg_Bot\<close>: postgres-admin-agent, one program per function of __main__.py; its operations are the statements sent to the
  database, the requests to Prometheus, Patroni and the language model, the files and the clock it reads, the staged entries it shares between
  threads, and the messages it sends. A deadline is an operation after every awaited call: a call in a worker thread is finished
  although its answer is lost. \<open>Pg_Props\<close>: no write without a confirmed entry, however the threads of all messages interleave. \<open>Pg_Checks\<close>: concrete
  schedules, among them one that executes a staged statement twice.

  \<^bold>\<open>Staged backfill\<close> (hindsight-recovery/recovery.py), also as programs of \<open>Py_Program\<close>. \<open>Rec_Base\<close>: configuration, constants, the checks that are
  pure functions of what was read (\<open>quick_failures\<close>, the rows and lineage of an audit). \<open>Rec_Control\<close>: the operations on four databases, services, files and
  clocks, the phase file, snapshots and the full audit. \<open>Rec_Actions\<close>: the commands of the operator, the guard, the watchdog and the emergency tunnel. A
  transaction is one operation, which is answered or fails without effect; the worker of the application that the controller calls
  (\<open>_refresh_submitted\<close>, \<open>retry_document\<close>) is an operation as well. Guard and watchdog run for any given number of rounds; the loops
  with a deadline have the rounds that their pauses fill (45 of two seconds in 90 seconds, 80 of a tenth in 8). \<open>Rec_Props\<close>: all commands
  run in parallel over the phase file and the circuit, and whatever closes the circuit, acknowledges an operation or queues a document again has proved what
  the code promises before it. \<open>Rec_Guard\<close>: what a clean snapshot and a clean audit say, and how a round of the guard ends. \<open>Rec_Checks\<close>: a release,
  a settlement, a retry and two rounds of the guard on a batch of one document. Edits of the phase file by hand and the application's own writes to the
  circuit are left out of the shared state.

  \<^bold>\<open>Not modelled.\<close> Sockets, HTTP framing, argument parsing and log lines; the dashboard page; database
  connection retries (a statement succeeds or raises); node bootstrap scripts, which are straight-line
  calls of command-line tools; everything that is not Python.
\<close>

end
